(* ===== verification/Prelude.thy ===== *)
theory Prelude
  imports Main "HOL-Library.AList" "HOL-Library.List_Lexorder" "HOL-Library.Char_ord"
    "HOL-Library.Product_Lexorder"
begin

text \<open>
  Shared vocabulary of the development.

  \<^item> Python exceptions are values: \<open>Fail\<close> is one of the program's own error classes (all of
    them carry a stable code, a message and a retry flag), \<open>Crash\<close> is an exception of the
    interpreter the code does not catch. A computation that may raise has type \<open>'a res\<close>.
  \<^item> Python strings are the UTF-8 bytes of their code points, as HOL \<open>string\<close>s. Equality,
    concatenation, prefix tests and the order by code points agree on both views, the encoded
    length is \<open>length\<close> and the number of code points is \<open>py_len\<close>.
  \<^item> Python dictionaries are association lists in insertion order; \<open>aput\<close> overwrites in place
    or appends, as assignment to a dictionary item does.
  \<^item> \<open>machine\<close> is the contract of every stateful component: a transition function and an
    invariant that each transition keeps; runs of operations keep it too.
\<close>

section \<open>Results\<close>

datatype exn = Fail (exn_code: string) (exn_message: string) (exn_retryable: bool)
  | Crash (crash_kind: string)

type_synonym 'a res = "exn + 'a"

abbreviation fail :: "string \<Rightarrow> string \<Rightarrow> 'a res" where
  "fail c m \<equiv> Inl (Fail c m False)"

named_theorems res_simps \<open>equations that take results apart\<close>

definition bnd :: "'a res \<Rightarrow> ('a \<Rightarrow> 'b res) \<Rightarrow> 'b res" where
  "bnd m f = (case m of Inl e \<Rightarrow> Inl e | Inr x \<Rightarrow> f x)"

definition seq :: "unit res \<Rightarrow> 'b res \<Rightarrow> 'b res" where
  "seq m k = bnd m (\<lambda>_. k)"

lemma bnd_simps [simp]: "bnd (Inl e) f = Inl e" "bnd (Inr x) f = f x"
  by (simp_all add: bnd_def)

lemma seq_simps [simp]: "seq (Inl e) k = Inl e" "seq (Inr u) k = k"
  by (simp_all add: seq_def)

lemma bnd_Inr_iff [res_simps]: "bnd m f = Inr y \<longleftrightarrow> (\<exists>x. m = Inr x \<and> f x = Inr y)"
  by (cases m) auto

lemma bnd_Inl_iff [res_simps]:
  "bnd m f = Inl e \<longleftrightarrow> m = Inl e \<or> (\<exists>x. m = Inr x \<and> f x = Inl e)"
  by (cases m) auto

lemma seq_Inr_iff [res_simps]: "seq m k = Inr y \<longleftrightarrow> m = Inr () \<and> k = Inr y"
  by (cases m) auto

lemma seq_Inl_iff [res_simps]: "seq m k = Inl e \<longleftrightarrow> m = Inl e \<or> m = Inr () \<and> k = Inl e"
  by (cases m) auto

text \<open>Elimination rules for a successful run: what every step on the way returned.\<close>

lemma bnd_InrE: "bnd m f = Inr y \<Longrightarrow> (\<And>x. m = Inr x \<Longrightarrow> f x = Inr y \<Longrightarrow> P) \<Longrightarrow> P"
  by (cases m) auto

lemma seq_InrE: "seq m k = Inr y \<Longrightarrow> (m = Inr () \<Longrightarrow> k = Inr y \<Longrightarrow> P) \<Longrightarrow> P"
  by (cases m) auto

lemma guard_InrE: "(if b then Inl e else m) = Inr y \<Longrightarrow> (\<not> b \<Longrightarrow> m = Inr y \<Longrightarrow> P) \<Longrightarrow> P"
  by (cases b) auto

lemma some_InrE:
  "(case x of None \<Rightarrow> Inl e | Some v \<Rightarrow> f v) = Inr y \<Longrightarrow> (\<And>v. x = Some v \<Longrightarrow> f v = Inr y \<Longrightarrow> P) \<Longrightarrow> P"
  by (cases x) auto

lemmas res_elims = bnd_InrE seq_InrE guard_InrE some_InrE

lemma bnd_cong [fundef_cong]:
  assumes "m = m'" and "\<And>x. m' = Inr x \<Longrightarrow> f x = f' x"
  shows "bnd m f = bnd m' f'"
  using assms by (cases m') auto

lemma bnd_if [res_simps]: "bnd (if b then m else n) f = (if b then bnd m f else bnd n f)"
  by simp

fun is_ok :: "'a res \<Rightarrow> bool" where
  "is_ok (Inr _) = True"
| "is_ok (Inl _) = False"

lemma is_ok_iff: "is_ok r \<longleftrightarrow> (\<exists>x. r = Inr x)"
  by (cases r) auto

text \<open>A loop that checks every element and stops at the first exception.\<close>

fun each :: "('a \<Rightarrow> unit res) \<Rightarrow> 'a list \<Rightarrow> unit res" where
  "each f [] = Inr ()"
| "each f (x # xs) = seq (f x) (each f xs)"

lemma each_Inr_iff [res_simps]: "each f xs = Inr () \<longleftrightarrow> (\<forall>x\<in>set xs. f x = Inr ())"
  by (induction xs) (auto simp: res_simps)

text \<open>A loop that threads a state and stops at the first exception.\<close>

fun rfold :: "('s \<Rightarrow> 'a \<Rightarrow> 's res) \<Rightarrow> 's \<Rightarrow> 'a list \<Rightarrow> 's res" where
  "rfold f s [] = Inr s"
| "rfold f s (x # xs) = bnd (f s x) (\<lambda>s'. rfold f s' xs)"

lemma rfold_invariant:
  assumes "rfold f s xs = Inr t" and "P s"
    and "\<And>s x s'. x \<in> set xs \<Longrightarrow> P s \<Longrightarrow> f s x = Inr s' \<Longrightarrow> P s'"
  shows "P t"
  using assms
proof (induction xs arbitrary: s)
  case Nil
  then show ?case by simp
next
  case (Cons x xs)
  then obtain s' where s': "f s x = Inr s'" and t: "rfold f s' xs = Inr t"
    by (auto simp: res_simps)
  have "P s'" by (rule Cons.prems(3) [OF _ Cons.prems(2) s']) simp
  then show ?case by (rule Cons.IH [OF t]) (rule Cons.prems(3); simp)
qed

fun rmap :: "('a \<Rightarrow> 'b res) \<Rightarrow> 'a list \<Rightarrow> 'b list res" where
  "rmap f [] = Inr []"
| "rmap f (x # xs) = bnd (f x) (\<lambda>y. bnd (rmap f xs) (\<lambda>ys. Inr (y # ys)))"

lemma rmap_Inr_iff [res_simps]:
  "rmap f xs = Inr ys \<longleftrightarrow> list_all2 (\<lambda>x y. f x = Inr y) xs ys"
proof (induction xs arbitrary: ys)
  case Nil
  then show ?case by (cases ys) auto
next
  case (Cons x xs)
  then show ?case by (cases ys) (auto simp: res_simps)
qed

section \<open>Dictionaries\<close>

type_synonym 'v dict = "(string \<times> 'v) list"

abbreviation aget :: "('k \<times> 'v) list \<Rightarrow> 'k \<Rightarrow> 'v option" where
  "aget d k \<equiv> map_of d k"

abbreviation aput :: "'k \<Rightarrow> 'v \<Rightarrow> ('k \<times> 'v) list \<Rightarrow> ('k \<times> 'v) list" where
  "aput \<equiv> AList.update"

abbreviation keys :: "('k \<times> 'v) list \<Rightarrow> 'k list" where
  "keys d \<equiv> map fst d"

abbreviation vals :: "('k \<times> 'v) list \<Rightarrow> 'v list" where
  "vals d \<equiv> map snd d"

definition has :: "'k \<Rightarrow> ('k \<times> 'v) list \<Rightarrow> bool" where
  "has k d \<longleftrightarrow> map_of d k \<noteq> None"

definition amap :: "('v \<Rightarrow> 'w) \<Rightarrow> 'v dict \<Rightarrow> 'w dict" where
  "amap f d = map (\<lambda>(k, v). (k, f v)) d"

text \<open>Assignment through a reference to the value stored under a key.\<close>

definition amod :: "string \<Rightarrow> ('v \<Rightarrow> 'v) \<Rightarrow> 'v dict \<Rightarrow> 'v dict" where
  "amod k f d = map (\<lambda>(k', v). (k', if k' = k then f v else v)) d"

definition setdefault :: "string \<Rightarrow> 'v \<Rightarrow> 'v dict \<Rightarrow> 'v dict" where
  "setdefault k v d = (if has k d then d else aput k v d)"

definition dict_ok :: "('k \<times> 'v) list \<Rightarrow> bool" where
  "dict_ok d \<longleftrightarrow> distinct (keys d)"

named_theorems dict_simps \<open>lookups after updates\<close>

lemma aget_aput [dict_simps]: "aget (aput k v d) k' = (if k' = k then Some v else aget d k')"
  by (simp add: update_conv')

lemma aget_amap [dict_simps]: "aget (amap f d) k = map_option f (aget d k)"
  by (induction d) (auto simp: amap_def)

lemma aget_amod [dict_simps]:
  "aget (amod k f d) k' = (if k' = k then map_option f (aget d k) else aget d k')"
  by (induction d) (auto simp: amod_def)

lemma amod_absent: "k \<notin> set (keys d) \<Longrightarrow> amod k f d = d"
  by (induction d) (auto simp: amod_def)

lemma aput_amod: "dict_ok d \<Longrightarrow> aget d k = Some v \<Longrightarrow> aput k (f v) d = amod k f d"
proof (induction d)
  case (Cons p d)
  obtain j w where p: "p = (j, w)" by force
  show ?case
  proof (cases "j = k")
    case True
    then have "amod k f d = d"
      using Cons.prems p by (intro amod_absent) (simp add: dict_ok_def)
    then show ?thesis using Cons.prems True p by (simp add: amod_def)
  next
    case False
    then show ?thesis using Cons p by (simp add: dict_ok_def amod_def)
  qed
qed simp

lemma keys_amap [simp]: "keys (amap f d) = keys d"
  by (induction d) (auto simp: amap_def)

lemma keys_amod [simp]: "keys (amod k f d) = keys d"
  by (induction d) (auto simp: amod_def)

lemma aput_new: "k \<notin> set (keys d) \<Longrightarrow> aput k v d = d @ [(k, v)]"
  by (induction d) auto

lemma keys_aput: "keys (aput k v d) = (if k \<in> set (keys d) then keys d else keys d @ [k])"
  by (rule update_keys)

lemma length_amap [simp]: "length (amap f d) = length d"
  by (simp add: amap_def)

lemma length_amod [simp]: "length (amod k f d) = length d"
  by (simp add: amod_def)

lemma has_iff: "has k d \<longleftrightarrow> k \<in> set (keys d)"
  by (induction d) (auto simp: has_def)

lemma dict_ok_Nil [simp]: "dict_ok []"
  by (simp add: dict_ok_def)

lemma dict_ok_aput [simp, intro]: "dict_ok d \<Longrightarrow> dict_ok (aput k v d)"
  by (simp add: dict_ok_def distinct_update)

lemma dict_ok_amap [simp]: "dict_ok (amap f d) = dict_ok d"
  by (simp add: dict_ok_def)

lemma dict_ok_amod [simp]: "dict_ok (amod k f d) = dict_ok d"
  by (simp add: dict_ok_def)

lemma aget_vals: "aget d k = Some v \<Longrightarrow> v \<in> set (vals d)"
  by (force dest: map_of_SomeD)

lemma dict_ok_aget: "dict_ok d \<Longrightarrow> (k, v) \<in> set d \<Longrightarrow> aget d k = Some v"
  by (simp add: dict_ok_def)

lemma dict_ok_valsE:
  assumes "dict_ok d" and "v \<in> set (vals d)"
  obtains k where "aget d k = Some v"
  using assms by (auto dest: dict_ok_aget)

text \<open>A table: distinct keys, and a property of every entry; \<open>grows\<close> relates two versions of one.\<close>

definition dict_all :: "('k \<Rightarrow> 'v \<Rightarrow> bool) \<Rightarrow> ('k \<times> 'v) list \<Rightarrow> bool" where
  "dict_all P d \<longleftrightarrow> dict_ok d \<and> list_all (\<lambda>(k, v). P k v) d"

definition grows :: "('v \<Rightarrow> 'v \<Rightarrow> bool) \<Rightarrow> ('k \<times> 'v) list \<Rightarrow> ('k \<times> 'v) list \<Rightarrow> bool" where
  "grows R d d' \<longleftrightarrow> (\<forall>k v. aget d k = Some v \<longrightarrow> (\<exists>v'. aget d' k = Some v' \<and> R v v'))"

lemma dict_all_iff:
  "dict_all P d \<longleftrightarrow> dict_ok d \<and> (\<forall>k v. aget d k = Some v \<longrightarrow> P k v)"
  by (auto simp: dict_all_def list_all_iff dest: map_of_SomeD dict_ok_aget)

lemma dict_all_aget: "dict_all P d \<Longrightarrow> aget d k = Some v \<Longrightarrow> P k v"
  by (simp add: dict_all_iff)

lemma dict_all_ok: "dict_all P d \<Longrightarrow> dict_ok d"
  by (simp add: dict_all_def)

lemma dict_all_aput:
  assumes "dict_all P d" and "Q k v" and "\<And>k' w. aget d k' = Some w \<Longrightarrow> k' \<noteq> k \<Longrightarrow> P k' w \<Longrightarrow> Q k' w"
  shows "dict_all Q (aput k v d)"
  using assms by (auto simp: dict_all_iff dict_simps split: if_splits)

lemma dict_all_mono:
  assumes "dict_all P d" and "\<And>k v. aget d k = Some v \<Longrightarrow> P k v \<Longrightarrow> Q k v"
  shows "dict_all Q d"
  using assms by (auto simp: dict_all_iff)

lemma grows_refl: "(\<And>v. R v v) \<Longrightarrow> grows R d d"
  by (auto simp: grows_def)

lemma grows_trans:
  assumes "grows R a b" and "grows R b c" and "\<And>x y z. R x y \<Longrightarrow> R y z \<Longrightarrow> R x z"
  shows "grows R a c"
  using assms unfolding grows_def by meson

lemma grows_aput:
  assumes "\<And>v. R v v" and "\<And>w. aget d k = Some w \<Longrightarrow> R w v"
  shows "grows R d (aput k v d)"
  using assms by (auto simp: grows_def dict_simps)

lemma grows_amap: "(\<And>v. R v (f v)) \<Longrightarrow> grows R d (amap f d)"
  by (auto simp: grows_def dict_simps)

lemma grows_amod: "(\<And>v. R v v) \<Longrightarrow> (\<And>v. aget d k = Some v \<Longrightarrow> R v (f v)) \<Longrightarrow> grows R d (amod k f d)"
  by (auto simp: grows_def dict_simps)

section \<open>Strings\<close>

definition ctrl_char :: "char \<Rightarrow> bool" where
  "ctrl_char c \<longleftrightarrow> (of_char c :: nat) < 32"

definition continuation :: "char \<Rightarrow> bool" where
  "continuation c \<longleftrightarrow> 128 \<le> (of_char c :: nat) \<and> (of_char c :: nat) < 192"

definition py_len :: "string \<Rightarrow> nat" where
  "py_len s = length (filter (\<lambda>c. \<not> continuation c) s)"

definition ascii :: "string \<Rightarrow> bool" where
  "ascii s \<longleftrightarrow> (\<forall>c\<in>set s. (of_char c :: nat) < 128)"

lemma py_len_le: "py_len s \<le> length s"
  by (simp add: py_len_def)

lemma py_len_ascii: "ascii s \<Longrightarrow> py_len s = length s"
  by (induction s) (auto simp: py_len_def ascii_def continuation_def)

fun prefixb :: "string \<Rightarrow> string \<Rightarrow> bool" where
  "prefixb [] _ = True"
| "prefixb (_ # _) [] = False"
| "prefixb (x # xs) (y # ys) = (x = y \<and> prefixb xs ys)"

fun infixb :: "string \<Rightarrow> string \<Rightarrow> bool" where
  "infixb p [] = prefixb p []"
| "infixb p (c # s) = (prefixb p (c # s) \<or> infixb p s)"

definition lower_c :: "char \<Rightarrow> bool" where
  "lower_c c \<longleftrightarrow> CHR ''a'' \<le> c \<and> c \<le> CHR ''z''"

definition upper_c :: "char \<Rightarrow> bool" where
  "upper_c c \<longleftrightarrow> CHR ''A'' \<le> c \<and> c \<le> CHR ''Z''"

definition digit_c :: "char \<Rightarrow> bool" where
  "digit_c c \<longleftrightarrow> CHR ''0'' \<le> c \<and> c \<le> CHR ''9''"

definition hex_c :: "char \<Rightarrow> bool" where
  "hex_c c \<longleftrightarrow> digit_c c \<or> (CHR ''a'' \<le> c \<and> c \<le> CHR ''f'')"

definition alnum_c :: "char \<Rightarrow> bool" where
  "alnum_c c \<longleftrightarrow> lower_c c \<or> upper_c c \<or> digit_c c"

text \<open>Evaluation of the character classes on the bits of a character.\<close>

lemma of_char_Char:
  "(of_char (Char b0 b1 b2 b3 b4 b5 b6 b7) :: nat) =
    of_bool b0 + 2 * of_bool b1 + 4 * of_bool b2 + 8 * of_bool b3 + 16 * of_bool b4 + 32 * of_bool b5
    + 64 * of_bool b6 + 128 * of_bool b7"
  by (simp add: of_char_def)

lemma digit_c_code [code]:
  "digit_c (Char b0 b1 b2 b3 b4 b5 b6 b7) = (\<not> b7 \<and> \<not> b6 \<and> b5 \<and> b4 \<and> (b3 \<longrightarrow> \<not> b2 \<and> \<not> b1))"
  by (simp add: digit_c_def less_eq_char_def of_char_Char of_bool_def)

lemma lower_c_code [code]:
  "lower_c (Char b0 b1 b2 b3 b4 b5 b6 b7) =
    (\<not> b7 \<and> b6 \<and> b5 \<and> (b4 \<longrightarrow> \<not> b3 \<or> (\<not> b2 \<and> (\<not> b1 \<or> \<not> b0))) \<and> (b4 \<or> b3 \<or> b2 \<or> b1 \<or> b0))"
  by (simp add: lower_c_def less_eq_char_def of_char_Char of_bool_def)

lemma upper_c_code [code]:
  "upper_c (Char b0 b1 b2 b3 b4 b5 b6 b7) =
    (\<not> b7 \<and> b6 \<and> \<not> b5 \<and> (b4 \<longrightarrow> \<not> b3 \<or> (\<not> b2 \<and> (\<not> b1 \<or> \<not> b0))) \<and> (b4 \<or> b3 \<or> b2 \<or> b1 \<or> b0))"
  by (simp add: upper_c_def less_eq_char_def of_char_Char of_bool_def)

lemma ctrl_char_code [code]: "ctrl_char (Char b0 b1 b2 b3 b4 b5 b6 b7) = (\<not> b7 \<and> \<not> b6 \<and> \<not> b5)"
  by (simp add: ctrl_char_def of_char_Char of_bool_def)

lemma hex_c_code [code]:
  "hex_c (Char b0 b1 b2 b3 b4 b5 b6 b7) =
    ((\<not> b7 \<and> \<not> b6 \<and> b5 \<and> b4 \<and> (b3 \<longrightarrow> \<not> b2 \<and> \<not> b1)) 
     \<or> (\<not> b7 \<and> b6 \<and> b5 \<and> \<not> b4 \<and> \<not> b3 \<and> (b0 \<or> b1 \<or> b2) \<and> \<not> (b0 \<and> b1 \<and> b2)))"
  by (simp add: hex_c_def digit_c_def less_eq_char_def of_char_Char of_bool_def)

lemma continuation_code [code]: "continuation (Char b0 b1 b2 b3 b4 b5 b6 b7) = (b7 \<and> \<not> b6)"
  by (simp add: continuation_def of_char_Char of_bool_def)

text \<open>\<open>len(x)\<close> of a list or of an encoded string.\<close>

abbreviation len :: "'a list \<Rightarrow> int" where
  "len xs \<equiv> int (length xs)"

text \<open>Decimal notation of integers, as \<open>str\<close> and f-strings print them.\<close>

definition digit :: "nat \<Rightarrow> char" where
  "digit n = char_of (48 + n mod 10)"

fun dec_nat :: "nat \<Rightarrow> string" where
  "dec_nat n = (if n < 10 then [digit n] else dec_nat (n div 10) @ [digit (n mod 10)])"

declare dec_nat.simps [simp del]

definition dec :: "int \<Rightarrow> string" where
  "dec i = (if i < 0 then CHR ''-'' # dec_nat (nat (- i)) else dec_nat (nat i))"

definition digit_val :: "char \<Rightarrow> nat" where
  "digit_val c = of_char c - 48"

lemma of_char_digit [simp]: "(of_char (digit n) :: nat) = 48 + n mod 10"
proof -
  have "(48 + n mod 10) mod 256 = 48 + n mod 10"
    by (rule mod_less) simp
  then show ?thesis by (simp add: digit_def)
qed

lemma digit_val_digit [simp]: "digit_val (digit n) = n mod 10"
  by (simp add: digit_val_def)

lemma digit_c_digit [simp]: "digit_c (digit n)"
proof -
  have "n mod 10 < 10" by simp
  then show ?thesis by (simp add: digit_c_def less_eq_char_def)
qed

lemma digit_eq_iff: "digit m = digit n \<longleftrightarrow> m mod 10 = n mod 10"
  by (metis digit_val_digit digit_def mod_mod_trivial)

lemma dec_nat_digits: "c \<in> set (dec_nat n) \<Longrightarrow> digit_c c"
proof (induction n rule: dec_nat.induct)
  case (1 n)
  then show ?case
    by (cases "n < 10") (auto simp: dec_nat.simps [of n])
qed

fun undec :: "string \<Rightarrow> nat" where
  "undec s = foldl (\<lambda>a c. 10 * a + digit_val c) 0 s"

lemma undec_dec_nat: "undec (dec_nat n) = n"
proof (induction n rule: dec_nat.induct)
  case (1 n)
  then show ?case
    by (cases "n < 10") (auto simp: dec_nat.simps [of n])
qed

lemma dec_nat_inject: "dec_nat m = dec_nat n \<longleftrightarrow> m = n"
  by (metis undec_dec_nat)

lemma colon_not_digit [simp]: "\<not> digit_c CHR '':''"
  by (simp add: digit_c_def less_eq_char_def)

lemma dec_digits: "0 \<le> i \<Longrightarrow> c \<in> set (dec i) \<Longrightarrow> digit_c c"
  by (auto simp: dec_def intro: dec_nat_digits)

lemma dec_inject: "0 \<le> i \<Longrightarrow> 0 \<le> j \<Longrightarrow> dec i = dec j \<longleftrightarrow> i = j"
  by (auto simp: dec_def dec_nat_inject)

section \<open>The contract of a stateful component\<close>

text \<open>
  \<open>step\<close> is total: an operation that raises leaves the state as it was. \<open>inv\<close> is kept by every
  operation the component admits (\<open>admits\<close> restricts the environment's inputs, and may be
  trivial).
\<close>

locale machine =
  fixes step :: "'s \<Rightarrow> 'o \<Rightarrow> 's"
    and admits :: "'o \<Rightarrow> bool"
    and inv :: "'s \<Rightarrow> bool"
  assumes step_inv: "inv s \<Longrightarrow> admits x \<Longrightarrow> inv (step s x)"
begin

lemma run_inv: "inv s \<Longrightarrow> list_all admits xs \<Longrightarrow> inv (foldl step s xs)"
  by (induction xs arbitrary: s) (auto simp: step_inv)

end

text \<open>A machine with a preorder that no operation goes back in (revisions, sequences, logs).\<close>

locale progress_machine = machine +
  fixes below :: "'a \<Rightarrow> 'a \<Rightarrow> bool"
  assumes below_refl: "inv s \<Longrightarrow> below s s"
    and below_trans: "below s t \<Longrightarrow> below t u \<Longrightarrow> below s u"
    and step_below: "inv s \<Longrightarrow> admits x \<Longrightarrow> below s (step s x)"
begin

lemma run_below: "inv s \<Longrightarrow> list_all admits xs \<Longrightarrow> below s (foldl step s xs)"
proof (induction xs arbitrary: s)
  case Nil
  then show ?case by (simp add: below_refl)
next
  case (Cons x xs)
  then have "below s (step s x)" and "below (step s x) (foldl step (step s x) xs)"
    by (simp_all add: step_below step_inv)
  then show ?case by (auto intro: below_trans)
qed

end

end
