(* ===== verification/PyVal.thy ===== *)
theory PyVal
  imports Prelude
begin

text \<open>
  Dynamic values: what \<open>json.loads\<close> returns and \<open>json.dumps\<close> accepts. A float is kept as its
  literal, since no modelled operation computes with one. A dictionary is an association list
  with distinct keys. \<open>json_enc\<close> is the canonical encoding every component uses
  (\<open>ensure_ascii=False, sort_keys=True, separators=(",", ":")\<close>), as UTF-8 bytes.
\<close>

datatype pyval =
    PNone
  | PBool bool
  | PInt int
  | PFloat string
  | PStr string
  | PList "pyval list"
  | PDict "(string \<times> pyval) list"

section \<open>Reading members\<close>

text \<open>\<open>d.get(k)\<close>; for a key known to be present it is also \<open>d[k]\<close>.\<close>

definition dget :: "pyval dict \<Rightarrow> string \<Rightarrow> pyval" where
  "dget d k = (case aget d k of None \<Rightarrow> PNone | Some v \<Rightarrow> v)"

lemma dget_Cons: "dget ((k, v) # d) k' = (if k' = k then v else dget d k')"
  by (simp add: dget_def)

definition fields_are :: "string list \<Rightarrow> pyval dict \<Rightarrow> bool" where
  "fields_are fs d \<longleftrightarrow> set (keys d) = set fs"

definition is_pstr :: "string \<Rightarrow> pyval \<Rightarrow> bool" where
  "is_pstr s v \<longleftrightarrow> v = PStr s"

definition pstr_in :: "string list \<Rightarrow> pyval \<Rightarrow> bool" where
  "pstr_in ss v = (case v of PStr s \<Rightarrow> s \<in> set ss | _ \<Rightarrow> False)"

fun is_pbool :: "pyval \<Rightarrow> bool" where
  "is_pbool (PBool _) = True"
| "is_pbool _ = False"

fun is_plist :: "pyval \<Rightarrow> bool" where
  "is_plist (PList _) = True"
| "is_plist _ = False"

fun is_pdict :: "pyval \<Rightarrow> bool" where
  "is_pdict (PDict _) = True"
| "is_pdict _ = False"

text \<open>\<open>v in {...}\<close>, with a set of strings; an unhashable value raises.\<close>

definition member_of :: "string list \<Rightarrow> pyval \<Rightarrow> bool res" where
  "member_of ss v =
    (case v of PStr s \<Rightarrow> Inr (s \<in> set ss) | PList _ \<Rightarrow> Inl (Crash ''TypeError'')
     | PDict _ \<Rightarrow> Inl (Crash ''TypeError'') | _ \<Rightarrow> Inr False)"

text \<open>An integer that is not a boolean, within bounds.\<close>

fun pint_within :: "int \<Rightarrow> int \<Rightarrow> pyval \<Rightarrow> bool" where
  "pint_within lo hi (PInt i) = (lo \<le> i \<and> i \<le> hi)"
| "pint_within lo hi _ = False"

lemma pint_within_iff: "pint_within lo hi v \<longleftrightarrow> (\<exists>i. v = PInt i \<and> lo \<le> i \<and> i \<le> hi)"
  by (cases v) auto

lemma pstr_in_iff: "pstr_in ss v \<longleftrightarrow> (\<exists>s. v = PStr s \<and> s \<in> set ss)"
  by (cases v) (auto simp: pstr_in_def)

lemma pstr_in_PStr [simp]: "pstr_in ss (PStr s) \<longleftrightarrow> s \<in> set ss"
  by (simp add: pstr_in_def)

lemma is_pdict_iff: "is_pdict v \<longleftrightarrow> (\<exists>d. v = PDict d)"
  by (cases v) auto

lemma is_plist_iff: "is_plist v \<longleftrightarrow> (\<exists>xs. v = PList xs)"
  by (cases v) auto

lemma is_pbool_iff: "is_pbool v \<longleftrightarrow> (\<exists>b. v = PBool b)"
  by (cases v) auto

definition opt_str :: "string option \<Rightarrow> pyval" where
  "opt_str x = (case x of None \<Rightarrow> PNone | Some s \<Rightarrow> PStr s)"

lemma opt_str_inject [simp]: "opt_str x = opt_str y \<longleftrightarrow> x = y"
  by (auto simp: opt_str_def split: option.splits)

section \<open>Canonical JSON\<close>

definition hexdig :: "nat \<Rightarrow> char" where
  "hexdig n = ''0123456789abcdef'' ! n"

definition esc_char :: "char \<Rightarrow> string" where
  "esc_char c =
    (if c = CHR 0x22 then [CHR 0x5C, CHR 0x22]
     else if c = CHR 0x5C then [CHR 0x5C, CHR 0x5C]
     else if c = CHR 0x0A then [CHR 0x5C, CHR ''n'']
     else if c = CHR 0x0D then [CHR 0x5C, CHR ''r'']
     else if c = CHR 0x09 then [CHR 0x5C, CHR ''t'']
     else if c = CHR 0x0C then [CHR 0x5C, CHR ''f'']
     else if c = CHR 0x08 then [CHR 0x5C, CHR ''b'']
     else if ctrl_char c then
       [CHR 0x5C, CHR ''u'', CHR ''0'', CHR ''0'', hexdig (of_char c div 16), hexdig (of_char c mod 16)]
     else [c])"

definition json_str :: "string \<Rightarrow> string" where
  "json_str s = CHR 0x22 # concat (map esc_char s) @ [CHR 0x22]"

fun joinc :: "string list \<Rightarrow> string" where
  "joinc [] = []"
| "joinc [x] = x"
| "joinc (x # y # xs) = x @ CHR '','' # joinc (y # xs)"

fun json_enc :: "pyval \<Rightarrow> string" where
  "json_enc PNone = ''null''"
| "json_enc (PBool b) = (if b then ''true'' else ''false'')"
| "json_enc (PInt i) = dec i"
| "json_enc (PFloat s) = s"
| "json_enc (PStr s) = json_str s"
| "json_enc (PList xs) = CHR ''['' # joinc (map json_enc xs) @ '']''"
| "json_enc (PDict d) =
     CHR ''{'' # joinc (map (\<lambda>(k, e). json_str k @ CHR '':'' # e)
       (sort_key fst (map (\<lambda>(k, v). (k, json_enc v)) d))) @ ''}''"

end
