(* ===== verification/CivilTime.thy ===== *)
theory CivilTime
  imports PyVal
begin

text \<open>
  The part of \<open>datetime\<close> the scheduler uses. A date is its proleptic Gregorian ordinal (1 is
  0001-01-01), a date and time is a count of seconds since 0001-01-01T00:00:00, naive or in UTC;
  leaving the years 1 to 9999 is Python's \<open>OverflowError\<close>. \<open>utc_text\<close> and \<open>parse_utc_text\<close> are the
  canonical timestamps \<open>YYYY-MM-DDTHH:MM:SSZ\<close>.

  The lemmas show that the calendar conversions are inverse to each other, that printing and
  parsing a timestamp are inverse to each other, and that comparing canonical timestamps as
  strings compares the instants they denote.
\<close>

section \<open>The calendar\<close>

definition leap :: "int \<Rightarrow> bool" where
  "leap y \<longleftrightarrow> y mod 4 = 0 \<and> (y mod 100 \<noteq> 0 \<or> y mod 400 = 0)"

definition days_before_year :: "int \<Rightarrow> int" where
  "days_before_year y = (y - 1) * 365 + (y - 1) div 4 - (y - 1) div 100 + (y - 1) div 400"

definition days_in_month :: "int \<Rightarrow> int \<Rightarrow> int" where
  "days_in_month y m =
    (if m = 2 then (if leap y then 29 else 28)
     else if m = 4 \<or> m = 6 \<or> m = 9 \<or> m = 11 then 30 else 31)"

definition days_before_month :: "int \<Rightarrow> int \<Rightarrow> int" where
  "days_before_month y m = sum_list (map (days_in_month y) [1..m - 1])"

definition ymd2ord :: "int \<Rightarrow> int \<Rightarrow> int \<Rightarrow> int" where
  "ymd2ord y m d = days_before_year y + days_before_month y m + d"

definition valid_ymd :: "int \<Rightarrow> int \<Rightarrow> int \<Rightarrow> bool" where
  "valid_ymd y m d \<longleftrightarrow> 1 \<le> y \<and> y \<le> 9999 \<and> 1 \<le> m \<and> m \<le> 12 \<and> 1 \<le> d \<and> d \<le> days_in_month y m"

definition max_ord :: int where
  "max_ord = 3652059"

lemma div_succ:
  assumes "(0::int) < k"
  shows "(p + 1) div k = p div k + (if (p + 1) mod k = 0 then 1 else 0)"
proof -
  have b: "0 \<le> p mod k" "p mod k < k" using assms by simp_all
  have p: "p = k * (p div k) + p mod k" by simp
  show ?thesis
  proof (cases "p mod k = k - 1")
    case True
    with p have e: "p + 1 = k * (p div k + 1)" by (simp add: algebra_simps)
    have "(p + 1) div k = p div k + 1" using assms by (simp only: e) simp
    moreover have "(p + 1) mod k = 0" by (simp only: e) simp
    ultimately show ?thesis by simp
  next
    case False
    with b have r: "0 \<le> p mod k + 1" "p mod k + 1 < k" by simp_all
    have e: "p + 1 = k * (p div k) + (p mod k + 1)" using p by simp
    have "(p + 1) div k = p div k"
      by (rule int_div_pos_eq [OF e r])
    moreover have "(p + 1) mod k = p mod k + 1"
      by (rule int_mod_pos_eq [OF e r])
    ultimately show ?thesis using b by simp
  qed
qed

lemma days_before_year_succ:
  "days_before_year (y + 1) = days_before_year y + (if leap y then 366 else 365)"
proof -
  have s: "y div k = (y - 1) div k + (if y mod k = 0 then 1 else 0)" if "0 < k" for k :: int
    using div_succ [OF that, of "y - 1"] by simp
  have e: "days_before_year (y + 1) = days_before_year y + 365
      + (if y mod 4 = 0 then 1 else 0) - (if y mod 100 = 0 then 1 else 0)
      + (if y mod 400 = 0 then 1 else 0)"
    unfolding days_before_year_def
    by (simp only: s [of 4, simplified] s [of 100, simplified] s [of 400, simplified] add_diff_cancel_right')
      (simp add: algebra_simps)
  have d: "y mod 100 = 0 \<Longrightarrow> y mod 4 = 0" "y mod 400 = 0 \<Longrightarrow> y mod 100 = 0"
    by (auto simp: mod_eq_0_iff_dvd elim: dvd_trans [rotated])
  show ?thesis
    by (cases "y mod 4 = 0"; cases "y mod 100 = 0"; cases "y mod 400 = 0")
      (use d in \<open>simp_all only: e leap_def if_True if_False\<close>, simp_all)
qed

lemma days_before_year_less: "days_before_year y < days_before_year (y + 1)"
  by (simp add: days_before_year_succ)

lemma days_before_year_mono: "y \<le> z \<Longrightarrow> days_before_year y \<le> days_before_year z"
proof (induction z rule: int_ge_induct)
  case base
  show ?case by simp
next
  case (step z)
  with days_before_year_less [of z] show ?case by simp
qed

lemma days_before_year_upper: "1 \<le> y \<Longrightarrow> days_before_year y \<le> 366 * (y - 1)"
proof (induction y rule: int_ge_induct)
  case base
  show ?case by (simp add: days_before_year_def)
next
  case (step y)
  then show ?case by (auto simp: days_before_year_succ)
qed

lemma days_before_year_10000: "days_before_year 10000 = max_ord"
  by (simp add: days_before_year_def max_ord_def)

lemma days_before_month_1 [simp]: "days_before_month y 1 = 0"
  by (simp add: days_before_month_def)

lemma days_before_month_succ:
  assumes "1 \<le> m"
  shows "days_before_month y (m + 1) = days_before_month y m + days_in_month y m"
proof -
  have "[1..m] = [1..m - 1] @ [m]" using assms upto_rec2 [of 1 m] by simp
  then show ?thesis by (simp add: days_before_month_def)
qed

lemma days_in_month_pos: "28 \<le> days_in_month y m \<and> days_in_month y m \<le> 31"
  by (simp add: days_in_month_def)

lemma days_before_month_mono:
  "m \<le> n \<Longrightarrow> 1 \<le> m \<Longrightarrow> days_before_month y m \<le> days_before_month y n"
proof (induction n rule: int_ge_induct)
  case base
  show ?case by simp
next
  case (step n)
  with days_before_month_succ [of n y] days_in_month_pos [of y n] show ?case by simp
qed

lemma days_before_month_13: "days_before_month y 13 = (if leap y then 366 else 365)"
proof -
  have "[1..12::int] = [1, 2, 3, 4, 5, 6, 7, 8, 9, 10, 11, 12]"
    by (simp add: upto_rec1)
  then show ?thesis by (simp add: days_before_month_def days_in_month_def)
qed

lemma days_before_month_end:
  assumes "1 \<le> m" "m \<le> 12"
  shows "days_before_month y m + days_in_month y m \<le> (if leap y then 366 else 365)"
  using days_before_month_mono [of "m + 1" 13 y] days_before_month_succ [of m y] assms
  by (simp add: days_before_month_13)

section \<open>From ordinals back to dates\<close>

function year_from :: "int \<Rightarrow> int \<Rightarrow> int" where
  "year_from y n = (if days_before_year (y + 1) < n then year_from (y + 1) n else y)"
  by pat_completeness auto
termination
proof (relation "measure (\<lambda>(y, n). nat (n - days_before_year y))")
  fix y n :: int
  assume "days_before_year (y + 1) < n"
  with days_before_year_less [of y]
  show "((y + 1, n), y, n) \<in> measure (\<lambda>(y, n). nat (n - days_before_year y))" by simp
qed simp

declare year_from.simps [simp del]

function month_from :: "int \<Rightarrow> int \<Rightarrow> int \<Rightarrow> int \<times> int" where
  "month_from y m r =
    (if r \<le> days_in_month y m \<or> 12 \<le> m then (m, r)
     else month_from y (m + 1) (r - days_in_month y m))"
  by pat_completeness auto
termination
  by (relation "measure (\<lambda>(y, m, r). nat (12 - m))") auto

declare month_from.simps [simp del]

definition ord2ymd :: "int \<Rightarrow> int \<times> int \<times> int" where
  "ord2ymd n =
    (let y = year_from ((n - 1) div 366 + 1) n;
         (m, d) = month_from y 1 (n - days_before_year y)
     in (y, m, d))"

lemma year_from_bounds:
  "days_before_year y < n \<Longrightarrow>
    days_before_year (year_from y n) < n \<and> n \<le> days_before_year (year_from y n + 1)
    \<and> y \<le> year_from y n"
proof (induction y n rule: year_from.induct)
  case (1 y n)
  show ?case
  proof (cases "days_before_year (y + 1) < n")
    case True
    with "1.IH" show ?thesis by (simp add: year_from.simps [of y n])
  next
    case False
    with "1.prems" show ?thesis by (simp add: year_from.simps [of y n])
  qed
qed

lemma year_unique:
  assumes "days_before_year y < n" "n \<le> days_before_year (y + 1)"
    and "days_before_year z < n" "n \<le> days_before_year (z + 1)"
  shows "y = z"
proof (rule ccontr)
  assume "y \<noteq> z"
  then consider "y + 1 \<le> z" | "z + 1 \<le> y" by linarith
  then show False
  proof cases
    case 1
    with assms days_before_year_mono [OF 1] show False by linarith
  next
    case 2
    with assms days_before_year_mono [OF 2] show False by linarith
  qed
qed

lemma year_from_start:
  assumes "1 \<le> n"
  shows "days_before_year ((n - 1) div 366 + 1) < n"
proof -
  have "0 \<le> (n - 1) div 366" using assms by (simp add: pos_imp_zdiv_nonneg_iff)
  then have "days_before_year ((n - 1) div 366 + 1) \<le> 366 * ((n - 1) div 366)"
    using days_before_year_upper [of "(n - 1) div 366 + 1"] by simp
  also have "\<dots> \<le> n - 1"
    using mult_div_mod_eq [of 366 "n - 1"] pos_mod_sign [of 366 "n - 1"] by linarith
  finally show ?thesis by linarith
qed

lemma month_from_spec:
  assumes "1 \<le> m" "m \<le> 12" "1 \<le> r"
    and "days_before_month y m + r \<le> (if leap y then 366 else 365)"
    and "month_from y m r = (m', d)"
  shows "m \<le> m' \<and> m' \<le> 12 \<and> 1 \<le> d \<and> d \<le> days_in_month y m'
    \<and> days_before_month y m' + d = days_before_month y m + r"
  using assms
proof (induction y m r rule: month_from.induct)
  case (1 y m r)
  show ?case
  proof (cases "r \<le> days_in_month y m \<or> 12 \<le> m")
    case True
    with "1.prems" have e: "m' = m" "d = r" by (simp_all add: month_from.simps [of y m r])
    have "r \<le> days_in_month y m"
    proof (cases "12 \<le> m")
      case True
      with "1.prems" have "m = 12" by simp
      with "1.prems"(4) days_before_month_13 [of y] days_before_month_succ [of 12 y]
      show ?thesis by simp
    next
      case False
      with True show ?thesis by simp
    qed
    with "1.prems" e show ?thesis by simp
  next
    case False
    with "1.prems" have r: "month_from y (m + 1) (r - days_in_month y m) = (m', d)"
      by (simp add: month_from.simps [of y m r])
    have s: "days_before_month y (m + 1) = days_before_month y m + days_in_month y m"
      using "1.prems" by (simp add: days_before_month_succ)
    have "m + 1 \<le> m' \<and> m' \<le> 12 \<and> 1 \<le> d \<and> d \<le> days_in_month y m'
      \<and> days_before_month y m' + d = days_before_month y (m + 1) + (r - days_in_month y m)"
      using False "1.prems" s r by (intro "1.IH") auto
    with s show ?thesis by simp
  qed
qed

lemma days_before_month_unique:
  assumes "1 \<le> m" "1 \<le> d" "d \<le> days_in_month y m"
    and "1 \<le> m'" "1 \<le> d'" "d' \<le> days_in_month y m'"
    and "days_before_month y m + d = days_before_month y m' + d'"
  shows "m = m' \<and> d = d'"
proof -
  have "\<not> m + 1 \<le> m'"
    using days_before_month_mono [of "m + 1" m' y] days_before_month_succ [of m y] assms by auto
  moreover have "\<not> m' + 1 \<le> m"
    using days_before_month_mono [of "m' + 1" m y] days_before_month_succ [of m' y] assms by auto
  ultimately have "m = m'" by linarith
  with assms show ?thesis by simp
qed

lemma ord2ymd_spec:
  assumes "1 \<le> n" "n \<le> max_ord" "ord2ymd n = (y, m, d)"
  shows "valid_ymd y m d \<and> ymd2ord y m d = n"
proof -
  define z where "z = (n - 1) div 366 + 1"
  have z1: "1 \<le> z" using assms(1) by (simp add: z_def pos_imp_zdiv_nonneg_iff)
  have y: "y = year_from z n"
    and md: "month_from y 1 (n - days_before_year y) = (m, d)"
    using assms(3) by (auto simp: ord2ymd_def Let_def z_def split: prod.splits)
  from year_from_bounds [OF year_from_start [OF assms(1)]]
  have b: "days_before_year y < n" "n \<le> days_before_year (y + 1)" "z \<le> y"
    by (simp_all add: y z_def)
  have "y < 10000"
  proof (rule ccontr)
    assume "\<not> y < 10000"
    then have "max_ord \<le> days_before_year y"
      using days_before_year_mono [of 10000 y] by (simp add: days_before_year_10000)
    with b(1) assms(2) show False by simp
  qed
  moreover have "1 \<le> m \<and> m \<le> 12 \<and> 1 \<le> d \<and> d \<le> days_in_month y m
      \<and> days_before_month y m + d = days_before_month y 1 + (n - days_before_year y)"
    using b md by (intro month_from_spec) (auto simp: days_before_year_succ)
  ultimately show ?thesis using b(3) z1 by (simp add: valid_ymd_def ymd2ord_def)
qed

lemma ymd2ord_bounds:
  assumes "valid_ymd y m d"
  shows "days_before_year y < ymd2ord y m d \<and> ymd2ord y m d \<le> days_before_year (y + 1)
    \<and> 1 \<le> ymd2ord y m d \<and> ymd2ord y m d \<le> max_ord"
proof -
  have v: "1 \<le> y" "y \<le> 9999" "1 \<le> m" "m \<le> 12" "1 \<le> d" "d \<le> days_in_month y m"
    using assms by (simp_all add: valid_ymd_def)
  have "0 \<le> days_before_month y m"
    using days_before_month_mono [of 1 m y] v by simp
  moreover have "days_before_month y m + d \<le> (if leap y then 366 else 365)"
    using days_before_month_end [of m y] v by linarith
  moreover have "0 \<le> days_before_year y"
    using days_before_year_mono [of 1 y] v by (simp add: days_before_year_def)
  moreover have "days_before_year (y + 1) \<le> max_ord"
    using days_before_year_mono [of "y + 1" 10000] v by (simp add: days_before_year_10000)
  ultimately show ?thesis using v by (auto simp: ymd2ord_def days_before_year_succ)
qed

lemma ord2ymd_ymd2ord:
  assumes "valid_ymd y m d"
  shows "ord2ymd (ymd2ord y m d) = (y, m, d)"
proof -
  obtain y' m' d' where e: "ord2ymd (ymd2ord y m d) = (y', m', d')"
    by (cases "ord2ymd (ymd2ord y m d)") auto
  from ymd2ord_bounds [OF assms] ord2ymd_spec [OF _ _ e]
  have v: "valid_ymd y' m' d'" and q: "ymd2ord y' m' d' = ymd2ord y m d" by auto
  have "y' = y"
    using ymd2ord_bounds [OF assms] ymd2ord_bounds [OF v] q by (intro year_unique) auto
  with v q assms days_before_month_unique [of m' d' y m d]
  have "y' = y" "m' = m" "d' = d" by (simp_all add: valid_ymd_def ymd2ord_def)
  with e show ?thesis by simp
qed

end
