(* ===== verification/Timestamps.thy ===== *)
theory Timestamps
  imports CivilTime
begin

text \<open>
  Canonical timestamps \<open>YYYY-MM-DDTHH:MM:SSZ\<close> and ISO dates. \<open>utc_text\<close> prints an instant as
  \<open>datetime.isoformat(timespec="seconds")\<close> does in UTC, \<open>parse_utc_text\<close> reads exactly the strings
  of that shape that denote a calendar instant.
\<close>

section \<open>Fixed-width numbers\<close>

definition d2 :: "int \<Rightarrow> string" where
  "d2 n = [digit (nat n div 10), digit (nat n)]"

definition d4 :: "int \<Rightarrow> string" where
  "d4 n = d2 (n div 100) @ d2 (n mod 100)"

definition num2 :: "string \<Rightarrow> nat \<Rightarrow> int" where
  "num2 s i = int (10 * digit_val (s ! i) + digit_val (s ! Suc i))"

definition num4 :: "string \<Rightarrow> nat \<Rightarrow> int" where
  "num4 s i = 100 * num2 s i + num2 s (i + 2)"

lemma digit_less_iff: "digit m < digit n \<longleftrightarrow> m mod 10 < n mod 10"
  by (simp add: less_char_def)

lemma d2_value:
  assumes "0 \<le> n" "n < 100"
  shows "int (10 * (nat n div 10 mod 10) + nat n mod 10) = n"
proof -
  have "nat n div 10 < 10" using assms by linarith
  then show ?thesis using assms by simp
qed

lemma num2_d2:
  assumes "0 \<le> n" "n < 100"
  shows "num2 (d2 n @ r) 0 = n"
proof -
  have "num2 (d2 n @ r) 0 = int (10 * (nat n div 10 mod 10) + nat n mod 10)"
    unfolding num2_def d2_def append_Cons nth_Cons_0 nth_Cons_Suc digit_val_digit ..
  also note d2_value [OF assms]
  finally show ?thesis .
qed

lemma d2_less:
  assumes "0 \<le> m" "m < n" "n < 100"
  shows "d2 m @ r < d2 n @ r'"
proof -
  define a b where "a = nat m" and "b = nat n"
  have "a < b" "b < 100" using assms by (auto simp: a_def b_def)
  have "a = a div 10 * 10 + a mod 10" "b = b div 10 * 10 + b mod 10" "a div 10 \<le> b div 10"
    using \<open>a < b\<close> by (simp_all add: div_le_mono)
  with \<open>a < b\<close> have "a div 10 < b div 10 \<or> a div 10 = b div 10 \<and> a mod 10 < b mod 10"
    by linarith
  moreover have "a div 10 < 10" "b div 10 < 10" using \<open>a < b\<close> \<open>b < 100\<close> by auto
  ultimately show ?thesis
    by (auto simp: d2_def a_def [symmetric] b_def [symmetric] digit_less_iff digit_eq_iff)
qed

lemma d2_append_less:
  assumes "0 \<le> m" "m \<le> n" "n < 100" "m = n \<Longrightarrow> r < r'"
  shows "d2 m @ r < d2 n @ r'"
proof (cases "m = n")
  case True
  with assms(4) show ?thesis by (simp add: d2_def)
next
  case False
  with assms show ?thesis by (intro d2_less) auto
qed

lemma d4_append_less:
  assumes "0 \<le> m" "m \<le> n" "n < 10000" "m = n \<Longrightarrow> r < r'"
  shows "d4 m @ r < d4 n @ r'"
proof -
  have h: "0 \<le> m div 100" "m div 100 \<le> n div 100" "n div 100 < 100"
    using assms by (auto simp: pos_imp_zdiv_nonneg_iff zdiv_mono1)
  have "d2 (m mod 100) @ r < d2 (n mod 100) @ r'" if e: "m div 100 = n div 100"
  proof (rule d2_append_less)
    have "m = 100 * (m div 100) + m mod 100" "n = 100 * (n div 100) + n mod 100" by simp_all
    with e assms(2) show "m mod 100 \<le> n mod 100" by linarith
    show "r < r'" if "m mod 100 = n mod 100"
      using that e assms(4) by (metis mult_div_mod_eq)
  qed simp_all
  with h show ?thesis by (simp add: d4_def d2_append_less)
qed

section \<open>Printing\<close>

definition iso_date :: "int \<Rightarrow> string" where
  "iso_date n = (case ord2ymd n of (y, m, d) \<Rightarrow> d4 y @ ''-'' @ d2 m @ ''-'' @ d2 d)"

definition clock_text :: "int \<Rightarrow> string" where
  "clock_text r = d2 (r div 3600) @ '':'' @ d2 (r div 60 mod 60) @ '':'' @ d2 (r mod 60)"

definition utc_text :: "int \<Rightarrow> string" where
  "utc_text t = iso_date (t div 86400 + 1) @ ''T'' @ clock_text (t mod 86400) @ ''Z''"

definition max_instant :: int where
  "max_instant = max_ord * 86400"

definition representable :: "int \<Rightarrow> bool" where
  "representable t \<longleftrightarrow> 0 \<le> t \<and> t < max_instant"

section \<open>Parsing\<close>

definition date_shape :: "string \<Rightarrow> bool" where
  "date_shape s \<longleftrightarrow>
    list_all (\<lambda>i. digit_c (s ! i)) [0, 1, 2, 3, 5, 6, 8, 9] \<and> s ! 4 = CHR ''-'' \<and> s ! 7 = CHR ''-''"

definition utc_shape :: "string \<Rightarrow> bool" where
  "utc_shape s \<longleftrightarrow> length s = 20 \<and> date_shape s
    \<and> list_all (\<lambda>i. digit_c (s ! i)) [11, 12, 14, 15, 17, 18]
    \<and> s ! 10 = CHR ''T'' \<and> s ! 13 = CHR '':'' \<and> s ! 16 = CHR '':'' \<and> s ! 19 = CHR ''Z''"

definition parse_date_text :: "string \<Rightarrow> int option" where
  "parse_date_text s =
    (if length s = 10 \<and> date_shape s \<and> valid_ymd (num4 s 0) (num2 s 5) (num2 s 8)
     then Some (ymd2ord (num4 s 0) (num2 s 5) (num2 s 8)) else None)"

definition parse_utc_text :: "string \<Rightarrow> int option" where
  "parse_utc_text s =
    (if utc_shape s \<and> valid_ymd (num4 s 0) (num2 s 5) (num2 s 8)
        \<and> num2 s 11 \<le> 23 \<and> num2 s 14 \<le> 59 \<and> num2 s 17 \<le> 59
     then Some ((ymd2ord (num4 s 0) (num2 s 5) (num2 s 8) - 1) * 86400
        + num2 s 11 * 3600 + num2 s 14 * 60 + num2 s 17)
     else None)"

lemma iso_date_nth:
  assumes "1 \<le> n" "n \<le> max_ord" and e: "ord2ymd n = (y, m, d)"
  shows "length (iso_date n) = 10 \<and> date_shape (iso_date n @ r)
    \<and> num4 (iso_date n @ r) 0 = y \<and> num2 (iso_date n @ r) 5 = m \<and> num2 (iso_date n @ r) 8 = d"
proof -
  have v: "valid_ymd y m d" using ord2ymd_spec [OF assms] by simp
  have b: "1 \<le> y" "y \<le> 9999" "1 \<le> m" "m \<le> 12" "1 \<le> d" "d \<le> 31"
    using v days_in_month_pos [of y m] by (auto simp: valid_ymd_def)
  have q: "0 \<le> y div 100" "y div 100 < 100" "0 \<le> y mod 100" "y mod 100 < 100"
    using b by (auto simp: pos_imp_zdiv_nonneg_iff)
  have n: "iso_date n @ r = d2 (y div 100) @ d2 (y mod 100) @ ''-'' @ d2 m @ ''-'' @ d2 d @ r"
    by (simp add: iso_date_def e d4_def)
  have "num2 (iso_date n @ r) 0 = y div 100" "num2 (iso_date n @ r) 2 = y mod 100"
    and "num2 (iso_date n @ r) 5 = m" "num2 (iso_date n @ r) 8 = d"
  proof -
    have "num2 (iso_date n @ r) 0 = num2 (d2 (y div 100) @ r) 0"
      "num2 (iso_date n @ r) 2 = num2 (d2 (y mod 100) @ r) 0"
      "num2 (iso_date n @ r) 5 = num2 (d2 m @ r) 0" "num2 (iso_date n @ r) 8 = num2 (d2 d @ r) 0"
      by (simp_all only: n) (simp_all add: num2_def d2_def)
    moreover have "m < 100" "d < 100" "0 \<le> m" "0 \<le> d" using b by simp_all
    ultimately show "num2 (iso_date n @ r) 0 = y div 100" "num2 (iso_date n @ r) 2 = y mod 100"
      "num2 (iso_date n @ r) 5 = m" "num2 (iso_date n @ r) 8 = d"
      by (simp_all only: num2_d2 q)
  qed
  moreover have "date_shape (iso_date n @ r)"
    by (simp add: n date_shape_def d2_def)
  moreover have "length (iso_date n) = 10"
    by (simp add: iso_date_def e d4_def d2_def)
  ultimately show ?thesis by (simp add: num4_def del: add_2_eq_Suc')
qed

lemma clock_text_nth:
  assumes "0 \<le> r" "r < 86400"
  shows "length (clock_text r) = 8 \<and> list_all (\<lambda>i. digit_c (clock_text r ! i)) [0, 1, 3, 4, 6, 7]
    \<and> clock_text r ! 2 = CHR '':'' \<and> clock_text r ! 5 = CHR '':''
    \<and> num2 (clock_text r @ z) 0 = r div 3600 \<and> num2 (clock_text r @ z) 3 = r div 60 mod 60
    \<and> num2 (clock_text r @ z) 6 = r mod 60"
proof -
  define h mi where "h = r div 3600" and "mi = r div 60 mod 60"
  define se where "se = r mod 60"
  have b: "0 \<le> h" "h < 100" "0 \<le> mi" "mi < 100" "0 \<le> se" "se < 100"
    using assms by (auto simp: h_def mi_def se_def pos_imp_zdiv_nonneg_iff intro: less_trans [of _ 60])
  have c: "clock_text r = d2 h @ '':'' @ d2 mi @ '':'' @ d2 se"
    by (simp add: clock_text_def h_def mi_def se_def)
  have "num2 (clock_text r @ z) 0 = num2 (d2 h @ z) 0" "num2 (clock_text r @ z) 3 = num2 (d2 mi @ z) 0"
    "num2 (clock_text r @ z) 6 = num2 (d2 se @ z) 0"
    by (simp_all only: c) (simp_all add: num2_def d2_def)
  then have "num2 (clock_text r @ z) 0 = h" "num2 (clock_text r @ z) 3 = mi"
    "num2 (clock_text r @ z) 6 = se"
    by (simp_all only: num2_d2 b)
  moreover have "length (clock_text r) = 8"
      "list_all (\<lambda>i. digit_c (clock_text r ! i)) [0, 1, 3, 4, 6, 7]"
      "clock_text r ! 2 = CHR '':''" "clock_text r ! 5 = CHR '':''"
    by (simp_all add: c d2_def)
  ultimately show ?thesis by (simp only: h_def mi_def se_def)
qed

lemma two_levels: "a = b * 60 + c \<Longrightarrow> b = d * 60 + e \<Longrightarrow> d * 3600 + e * 60 + c = (a::int)"
  by simp

lemma div_3600: "r div 3600 = r div 60 div (60::int)"
  using zdiv_zmult2_eq [of 60 r 60] by simp

lemma seconds_split: "r div 3600 * 3600 + r div 60 mod 60 * 60 + r mod 60 = (r::int)"
  by (rule two_levels [of r "r div 60"]) (simp_all only: div_3600 div_mult_mod_eq)

lemma representable_parts:
  assumes "representable t"
  shows "1 \<le> t div 86400 + 1" "t div 86400 + 1 \<le> max_ord" "0 \<le> t mod 86400" "t mod 86400 < 86400"
    "0 \<le> t mod 86400 div 3600" "t mod 86400 div 3600 \<le> 23"
proof -
  have t: "0 \<le> t" "t < max_ord * 86400"
    using assms by (simp_all add: representable_def max_instant_def)
  then show "1 \<le> t div 86400 + 1" by (simp add: pos_imp_zdiv_nonneg_iff)
  have "t div 86400 < max_ord" using t(2) by (simp add: div_less_iff_less_mult)
  then show "t div 86400 + 1 \<le> max_ord" by simp
  show m: "0 \<le> t mod 86400" "t mod 86400 < 86400" by simp_all
  then show "0 \<le> t mod 86400 div 3600" by (simp add: pos_imp_zdiv_nonneg_iff)
  have "t mod 86400 div 3600 < 24" using m(2) by (simp add: div_less_iff_less_mult)
  then show "t mod 86400 div 3600 \<le> 23" by simp
qed

lemma num2_shift: "num2 (xs @ ys) (length xs + i) = num2 ys i"
  by (simp add: num2_def nth_append flip: add_Suc_right)

lemma parse_utc_text_utc_text:
  assumes "representable t"
  shows "parse_utc_text (utc_text t) = Some t"
proof -
  define n r where "n = t div 86400 + 1" and "r = t mod 86400"
  note p = representable_parts [OF assms, folded n_def r_def]
  obtain y m d where e: "ord2ymd n = (y, m, d)" by (cases "ord2ymd n") auto
  define u where "u = utc_text t"
  have u: "u = iso_date n @ ''T'' @ clock_text r @ ''Z''"
    by (simp add: u_def utc_text_def n_def r_def)
  note i = iso_date_nth [OF p(1,2) e]
  note c = clock_text_nth [OF p(3,4)]
  have l: "length u = 20" using i [of "[]"] c by (simp add: u)
  have s: "date_shape u" "num4 u 0 = y" "num2 u 5 = m" "num2 u 8 = d"
    using i [of "''T'' @ clock_text r @ ''Z''"] by (simp_all add: u)
  have x: "u = (iso_date n @ ''T'') @ (clock_text r @ ''Z'')" by (simp add: u)
  have l11: "length (iso_date n @ ''T'') = 11" using i [of "[]"] by simp
  have k: "num2 u (11 + j) = num2 (clock_text r @ ''Z'') j" for j
    using num2_shift [of "iso_date n @ ''T''" "clock_text r @ ''Z''" j] by (simp only: x l11)
  have t: "num2 u 11 = r div 3600" "num2 u 14 = r div 60 mod 60" "num2 u 17 = r mod 60"
    using k [of 0] k [of 3] k [of 6] c [of "''Z''"] by simp_all
  have at: "u ! (11 + j) = (clock_text r @ ''Z'') ! j" for j
    using nth_append_length_plus [of "iso_date n @ ''T''" "clock_text r @ ''Z''" j] by (simp only: x l11)
  have t10: "u ! 10 = CHR ''T''" using i [of "[]"] by (simp add: u nth_append)
  have shape: "utc_shape u"
    using l s(1) t10 at [of 0] at [of 1] at [of 2] at [of 3] at [of 4] at [of 5] at [of 6] at [of 7]
      at [of 8] c
    by (simp add: utc_shape_def nth_append)
  have v: "valid_ymd y m d" "ymd2ord y m d = n" using ord2ymd_spec [OF p(1,2) e] by simp_all
  have e: "(n - 1) * 86400 + r = t" by (simp add: n_def r_def)
  have "r div 3600 \<le> 23" using p(6) by (simp add: r_def)
  moreover have "r div 60 mod 60 \<le> 59" "r mod 60 \<le> 59"
    using pos_mod_bound [of 60 "r div 60"] pos_mod_bound [of 60 r] by simp_all
  ultimately have "parse_utc_text u
      = Some ((n - 1) * 86400 + r div 3600 * 3600 + r div 60 mod 60 * 60 + r mod 60)"
    by (simp only: parse_utc_text_def shape s t v if_True simp_thms)
  also have "\<dots> = Some t"
    using seconds_split [of r] e by (simp only: add.assoc)
  finally show ?thesis by (simp only: u_def)
qed

lemma parse_date_iso_date:
  assumes "1 \<le> n" "n \<le> max_ord"
  shows "parse_date_text (iso_date n) = Some n"
proof -
  obtain y m d where e: "ord2ymd n = (y, m, d)" by (cases "ord2ymd n") auto
  from iso_date_nth [OF assms e, of "[]"] ord2ymd_spec [OF assms e]
  show ?thesis by (simp add: parse_date_text_def)
qed

lemma num2_bounds: "digit_c (s ! i) \<Longrightarrow> digit_c (s ! Suc i) \<Longrightarrow> 0 \<le> num2 s i \<and> num2 s i < 100"
  by (auto simp: num2_def digit_c_def less_eq_char_def digit_val_def)

lemma parse_utc_text_representable: "parse_utc_text s = Some t \<Longrightarrow> representable t"
proof -
  assume "parse_utc_text s = Some t"
  then have v: "valid_ymd (num4 s 0) (num2 s 5) (num2 s 8)"
    and h: "num2 s 11 \<le> 23" "num2 s 14 \<le> 59" "num2 s 17 \<le> 59"
    and t: "t = (ymd2ord (num4 s 0) (num2 s 5) (num2 s 8) - 1) * 86400
        + num2 s 11 * 3600 + num2 s 14 * 60 + num2 s 17"
    by (auto simp: parse_utc_text_def split: if_splits)
  have "0 \<le> num2 s 11" "0 \<le> num2 s 14" "0 \<le> num2 s 17" by (simp_all add: num2_def)
  with h t ymd2ord_bounds [OF v] show "representable t"
    by (simp add: representable_def max_instant_def)
qed

section \<open>Order\<close>

lemma same_quotient:
  fixes a b k :: int
  assumes "a div k = b div k"
  shows "a \<le> b \<Longrightarrow> a mod k \<le> b mod k" "a < b \<Longrightarrow> a mod k < b mod k"
proof -
  have "a = b div k * k + a mod k" "b = b div k * k + b mod k"
    using div_mult_mod_eq [of a k] assms by simp_all
  then show "a \<le> b \<Longrightarrow> a mod k \<le> b mod k" "a < b \<Longrightarrow> a mod k < b mod k" by linarith+
qed

lemma ymd_less:
  assumes v: "valid_ymd y m d" and v': "valid_ymd y' m' d'"
    and less: "ymd2ord y m d < ymd2ord y' m' d'"
  shows "y < y' \<or> y = y' \<and> (m < m' \<or> m = m' \<and> d < d')"
proof -
  have "y \<le> y'"
  proof (rule ccontr)
    assume "\<not> y \<le> y'"
    then have "days_before_year (y' + 1) \<le> days_before_year y"
      by (intro days_before_year_mono) simp
    with ymd2ord_bounds [OF v] ymd2ord_bounds [OF v'] less show False by linarith
  qed
  moreover have "m \<le> m'" if "y = y'"
  proof (rule ccontr)
    assume "\<not> m \<le> m'"
    then have "days_before_month y (m' + 1) \<le> days_before_month y m"
      using v' by (intro days_before_month_mono) (auto simp: valid_ymd_def)
    with v v' less that days_before_month_succ [of m' y] show False
      by (simp add: valid_ymd_def ymd2ord_def)
  qed
  moreover have "d < d'" if "y = y'" "m = m'"
    using that less by (simp add: ymd2ord_def)
  ultimately show ?thesis by fastforce
qed

lemma iso_date_less:
  assumes n: "1 \<le> n" "n \<le> n'" "n' \<le> max_ord" and r: "n = n' \<Longrightarrow> r < r'"
  shows "iso_date n @ r < iso_date n' @ r'"
proof (cases "n = n'")
  case True
  obtain y m d where "ord2ymd n' = (y, m, d)" by (cases "ord2ymd n'") auto
  with True r show ?thesis by (simp add: iso_date_def d4_def d2_def)
next
  case False
  obtain y m d where e: "ord2ymd n = (y, m, d)" by (cases "ord2ymd n") auto
  obtain y' m' d' where e': "ord2ymd n' = (y', m', d')" by (cases "ord2ymd n'") auto
  have v: "valid_ymd y m d" "ymd2ord y m d = n" and v': "valid_ymd y' m' d'" "ymd2ord y' m' d' = n'"
    using ord2ymd_spec [OF _ _ e] ord2ymd_spec [OF _ _ e'] n by auto
  have l: "y < y' \<or> y = y' \<and> (m < m' \<or> m = m' \<and> d < d')"
    using ymd_less [OF v(1) v'(1)] v(2) v'(2) False n(2) by simp
  have b: "0 \<le> y" "y' < 10000" "0 \<le> m" "m' < 100" "0 \<le> d" "d' < 100"
    using v(1) v'(1) days_in_month_pos [of y' m'] by (auto simp: valid_ymd_def)
  have "d4 y @ (''-'' @ d2 m @ ''-'' @ d2 d @ r) < d4 y' @ (''-'' @ d2 m' @ ''-'' @ d2 d' @ r')"
    using l b by (intro d4_append_less) (auto intro!: d2_append_less)
  then show ?thesis by (simp add: iso_date_def e e')
qed

lemma clock_text_less:
  assumes "0 \<le> r" "r < r'" "r' < 86400"
  shows "clock_text r @ z < clock_text r' @ z'"
proof -
  have m: "0 \<le> r div 60 mod 60" "r' div 60 mod 60 < 60" "0 \<le> r mod 60" "r' mod 60 < 60"
    "r div 60 mod 60 < 60" "r mod 60 < 60" by simp_all
  have h: "0 \<le> r div 3600" "r div 3600 \<le> r' div 3600"
    using assms by (auto simp: pos_imp_zdiv_nonneg_iff zdiv_mono1)
  have h': "r' div 3600 < 100" using assms(3) by (simp add: div_less_iff_less_mult)
  have d: "r div 60 mod 60 \<le> r' div 60 mod 60" if "r div 3600 = r' div 3600"
  proof -
    have "r div 60 div 60 = r' div 60 div 60"
      using that by (simp only: div_3600)
    moreover have "r div 60 \<le> r' div 60" using assms by (simp add: zdiv_mono1)
    ultimately show ?thesis by (rule same_quotient)
  qed
  have l: "r mod 60 < r' mod 60" if "r div 3600 = r' div 3600" "r div 60 mod 60 = r' div 60 mod 60"
  proof (rule same_quotient(2) [OF _ assms(2)])
    show "r div 60 = r' div 60"
      using that unfolding div_3600 by (metis div_mult_mod_eq)
  qed
  have "d2 (r div 3600) @ ('':'' @ d2 (r div 60 mod 60) @ '':'' @ d2 (r mod 60) @ z)
      < d2 (r' div 3600) @ ('':'' @ d2 (r' div 60 mod 60) @ '':'' @ d2 (r' mod 60) @ z')"
  proof (rule d2_append_less [OF h h'])
    assume e: "r div 3600 = r' div 3600"
    have "d2 (r div 60 mod 60) @ ('':'' @ d2 (r mod 60) @ z)
        < d2 (r' div 60 mod 60) @ ('':'' @ d2 (r' mod 60) @ z')"
    proof (rule d2_append_less [OF m(1) d [OF e]])
      show "r' div 60 mod 60 < 100" using m(2) by linarith
      assume e': "r div 60 mod 60 = r' div 60 mod 60"
      have "r' mod 60 < 100" using m(4) by linarith
      then have "d2 (r mod 60) @ z < d2 (r' mod 60) @ z'"
        by (rule d2_less [OF m(3) l [OF e e']])
      then show "'':'' @ d2 (r mod 60) @ z < '':'' @ d2 (r' mod 60) @ z'" by simp
    qed
    then show "'':'' @ d2 (r div 60 mod 60) @ '':'' @ d2 (r mod 60) @ z
        < '':'' @ d2 (r' div 60 mod 60) @ '':'' @ d2 (r' mod 60) @ z'" by simp
  qed
  then show ?thesis by (simp add: clock_text_def)
qed

lemma utc_text_strict_mono:
  assumes "representable t" "representable u" "t < u"
  shows "utc_text t < utc_text u"
proof -
  note p = representable_parts [OF assms(1)] and q = representable_parts [OF assms(2)]
  have d: "t div 86400 \<le> u div 86400" using assms(3) by (simp add: zdiv_mono1)
  have m: "t mod 86400 < u mod 86400" if "t div 86400 = u div 86400"
    using that assms(3) by (rule same_quotient)
  show ?thesis
    unfolding utc_text_def
  proof (rule iso_date_less [OF p(1) _ q(2)])
    show "t div 86400 + 1 \<le> u div 86400 + 1" using d by simp
    assume "t div 86400 + 1 = u div 86400 + 1"
    then have "t mod 86400 < u mod 86400" using m by simp
    then have "clock_text (t mod 86400) @ ''Z'' < clock_text (u mod 86400) @ ''Z''"
      using p(3) q(4) by (intro clock_text_less)
    then show "''T'' @ clock_text (t mod 86400) @ ''Z'' < ''T'' @ clock_text (u mod 86400) @ ''Z''"
      by simp
  qed
qed

lemma utc_text_le_iff:
  assumes "representable t" "representable u"
  shows "utc_text t \<le> utc_text u \<longleftrightarrow> t \<le> u"
proof -
  consider "t < u" | "t = u" | "u < t" by linarith
  then show ?thesis
  proof cases
    case 1
    with utc_text_strict_mono [OF assms 1] show ?thesis by (simp add: less_imp_le)
  next
    case 2
    then show ?thesis by simp
  next
    case 3
    with utc_text_strict_mono [OF assms(2,1) 3] show ?thesis by auto
  qed
qed

section \<open>Only printed timestamps parse\<close>

lemma digit_digit_val: "digit_c c \<Longrightarrow> digit (digit_val c) = c"
proof -
  assume c: "digit_c c"
  then have "48 \<le> (of_char c :: nat)" "(of_char c :: nat) \<le> 57"
    by (auto simp: digit_c_def less_eq_char_def)
  then have "48 + digit_val c mod 10 = of_char c"
    by (simp add: digit_val_def)
  then show ?thesis by (simp add: digit_def)
qed

lemma digit_val_less: "digit_c c \<Longrightarrow> digit_val c < 10"
  by (auto simp: digit_c_def less_eq_char_def digit_val_def)

lemma digit_add_10: "digit (10 * a + b) = digit b"
  by (simp add: digit_def)

lemma d2_num2:
  assumes "digit_c (s ! i)" "digit_c (s ! Suc i)"
  shows "d2 (num2 s i) = [s ! i, s ! Suc i]"
proof -
  note v = digit_val_less [OF assms(2)] digit_digit_val [OF assms(1)] digit_digit_val [OF assms(2)]
  have "(10 * digit_val (s ! i) + digit_val (s ! Suc i)) div 10 = digit_val (s ! i)" using v(1) by simp
  then show ?thesis using v(2,3) unfolding d2_def num2_def nat_int by (simp add: digit_add_10)
qed

lemma d4_num4:
  assumes "digit_c (s ! i)" "digit_c (s ! Suc i)" "digit_c (s ! (i + 2))" "digit_c (s ! (i + 3))"
  shows "d4 (num4 s i) = [s ! i, s ! Suc i, s ! (i + 2), s ! (i + 3)]"
proof -
  have j: "Suc (i + 2) = i + 3" by simp
  have b: "0 \<le> num2 s (i + 2) \<and> num2 s (i + 2) < 100"
    by (rule num2_bounds) (use assms(3,4) in \<open>simp_all add: j [symmetric] del: add_Suc_right\<close>)
  have q: "num4 s i div 100 = num2 s i" "num4 s i mod 100 = num2 s (i + 2)"
    unfolding num4_def using b by (simp_all add: div_mult_self4 mod_mult_self4)
  have "d2 (num2 s (i + 2)) = [s ! (i + 2), s ! (i + 3)]"
    using d2_num2 [of s "i + 2"] assms(3,4) unfolding j by simp
  then show ?thesis
    unfolding d4_def q d2_num2 [OF assms(1,2)] by simp
qed

lemma clock_parts:
  fixes h m s :: int
  assumes "0 \<le> m" "m \<le> 59" "0 \<le> s" "s \<le> 59"
  shows "(h * 3600 + m * 60 + s) div 3600 = h"
    and "(h * 3600 + m * 60 + s) div 60 mod 60 = m"
    and "(h * 3600 + m * 60 + s) mod 60 = s"
proof -
  define a where "a = h * 60 + m"
  have e: "h * 3600 + m * 60 + s = a * 60 + s" by (simp add: a_def)
  have q: "(a * 60 + s) div 60 = a" and r: "(a * 60 + s) mod 60 = s"
    using assms by simp_all
  have q2: "a div 60 = h" and r2: "a mod 60 = m"
    unfolding a_def using assms by simp_all
  show "(h * 3600 + m * 60 + s) div 3600 = h" by (simp only: div_3600 e q q2)
  show "(h * 3600 + m * 60 + s) div 60 mod 60 = m" by (simp only: e q r2)
  show "(h * 3600 + m * 60 + s) mod 60 = s" by (simp only: e r)
qed

lemma utc_text_parse:
  assumes "parse_utc_text s = Some t"
  shows "utc_text t = s"
proof -
  have sh: "utc_shape s" and v: "valid_ymd (num4 s 0) (num2 s 5) (num2 s 8)"
    and h: "num2 s 11 \<le> 23" "num2 s 14 \<le> 59" "num2 s 17 \<le> 59"
    and t: "t = (ymd2ord (num4 s 0) (num2 s 5) (num2 s 8) - 1) * 86400
        + num2 s 11 * 3600 + num2 s 14 * 60 + num2 s 17"
    using assms by (auto simp: parse_utc_text_def split: if_splits)
  define r where "r = num2 s 11 * 3600 + num2 s 14 * 60 + num2 s 17"
  have z: "0 \<le> num2 s 11" "0 \<le> num2 s 14" "0 \<le> num2 s 17" by (simp_all add: num2_def)
  have r: "0 \<le> r" "r < 86400" using z h by (simp_all add: r_def)
  have t': "t = (ymd2ord (num4 s 0) (num2 s 5) (num2 s 8) - 1) * 86400 + r" by (simp add: t r_def)
  have day: "(k * 86400 + r) div 86400 = k" "(k * 86400 + r) mod 86400 = r" for k :: int
    using r by simp_all
  have "t div 86400 = ymd2ord (num4 s 0) (num2 s 5) (num2 s 8) - 1" "t mod 86400 = r"
    unfolding t' by (rule day)+
  then have "utc_text t = iso_date (ymd2ord (num4 s 0) (num2 s 5) (num2 s 8)) @ ''T'' @ clock_text r @ ''Z''"
    by (simp add: utc_text_def)
  also have "\<dots> = d4 (num4 s 0) @ ''-'' @ d2 (num2 s 5) @ ''-'' @ d2 (num2 s 8) @ ''T''
      @ d2 (num2 s 11) @ '':'' @ d2 (num2 s 14) @ '':'' @ d2 (num2 s 17) @ ''Z''"
    by (simp only: iso_date_def ord2ymd_ymd2ord [OF v] clock_text_def r_def
        clock_parts [OF z(2) h(2) z(3) h(3)] prod.case append.assoc)
  also have "\<dots> = map ((!) s) [0..<20]"
  proof -
    note d = sh [unfolded utc_shape_def date_shape_def, simplified]
    have "d4 (num4 s 0) = [s ! 0, s ! 1, s ! 2, s ! 3]" using d4_num4 [of s 0] d by (simp add: numeral_2_eq_2)
    moreover have "d2 (num2 s 5) = [s ! 5, s ! 6]" using d2_num2 [of s 5] d by simp
    moreover have "d2 (num2 s 8) = [s ! 8, s ! 9]" using d2_num2 [of s 8] d by simp
    moreover have "d2 (num2 s 11) = [s ! 11, s ! 12]" using d2_num2 [of s 11] d by simp
    moreover have "d2 (num2 s 14) = [s ! 14, s ! 15]" using d2_num2 [of s 14] d by simp
    moreover have "d2 (num2 s 17) = [s ! 17, s ! 18]" using d2_num2 [of s 17] d by simp
    moreover have "[0..<20] = [0, 1, 2, 3, 4, 5, 6, 7, 8, 9, 10, 11, 12, 13, 14, 15, 16, 17, 18, 19]"
      by code_simp
    ultimately show ?thesis using d by simp
  qed
  also have "\<dots> = s" using sh map_nth [of s] by (simp add: utc_shape_def)
  finally show ?thesis .
qed

end
