(* ===== verification/SchedData.thy ===== *)
theory SchedData
  imports Timestamps
begin

text \<open>
  Data of the alarm scheduler (\<open>vibapp_daemon/scheduler_backend.py\<close>): input validators, civil
  time resolution, the persisted ledger as records, its JSON form and the layout check.

  A time zone is what \<open>ZoneInfo\<close> answers: the offset at a naive local time for each fold, and the
  offset at an instant. The zone table and SHA-256 are members of \<open>env\<close>, together with the
  trusted tzdata label of the backend and \<open>str()\<close> of a dynamic value.
\<close>

section \<open>Environment and bounds\<close>

record zone =
  z_local :: "bool \<Rightarrow> int \<Rightarrow> int"
  z_utc :: "int \<Rightarrow> int"

record env =
  zone_of :: "string \<Rightarrow> zone option"
  sha256_hex :: "string \<Rightarrow> string"
  str_of :: "pyval \<Rightarrow> string"
  tzdata_label :: string

definition grace_seconds :: int where "grace_seconds = 900"
definition retry_offsets :: "int list" where "retry_offsets = [0, 2, 10]"
definition max_bytes :: int where "max_bytes = 8 * 1024 * 1024"
definition max_apps :: int where "max_apps = 64"
definition max_schedules :: int where "max_schedules = 64"
definition max_rows :: int where "max_rows = 4096"
definition max_payload :: int where "max_payload = 16 * 1024"
definition max_batch :: int where "max_batch = 128"

definition u64_max :: int where "u64_max = 2 ^ 64 - 1"

definition weekday_names :: "string list" where
  "weekday_names =
    [''monday'', ''tuesday'', ''wednesday'', ''thursday'', ''friday'', ''saturday'', ''sunday'']"

section \<open>Input validators\<close>

abbreviation bad_arg :: "string \<Rightarrow> 'a res" where
  "bad_arg m \<equiv> fail ''invalid-argument'' m"

definition object_of :: "pyval \<Rightarrow> string list \<Rightarrow> pyval dict res" where
  "object_of v fs =
    (case v of
       PDict d \<Rightarrow>
         if fields_are fs d then Inr d
         else bad_arg ''record fields do not match the frozen scheduler contract''
     | _ \<Rightarrow> bad_arg ''record fields do not match the frozen scheduler contract'')"

definition text_valid :: "string \<Rightarrow> int \<Rightarrow> bool \<Rightarrow> bool" where
  "text_valid s limit allow_empty \<longleftrightarrow>
    (allow_empty \<or> s \<noteq> []) \<and> len s \<le> limit \<and> list_all (\<lambda>c. \<not> ctrl_char c) s"

definition text_of :: "pyval \<Rightarrow> string \<Rightarrow> int \<Rightarrow> string res" where
  "text_of v name limit =
    (case v of
       PStr s \<Rightarrow>
         if text_valid s limit False then Inr s else bad_arg (''invalid or oversized '' @ name)
     | _ \<Rightarrow> bad_arg (''invalid or oversized '' @ name))"

definition integer_of :: "pyval \<Rightarrow> int \<Rightarrow> int \<Rightarrow> int res" where
  "integer_of v lo hi =
    (case v of
       PInt i \<Rightarrow> if lo \<le> i \<and> i \<le> hi then Inr i else bad_arg ''integer outside supported range''
     | _ \<Rightarrow> bad_arg ''integer outside supported range'')"

definition parse_utc :: "pyval \<Rightarrow> int res" where
  "parse_utc v =
    (case v of
       PStr s \<Rightarrow>
         if \<not> utc_shape s then bad_arg ''timestamp must be canonical YYYY-MM-DDTHH:MM:SSZ''
         else (case parse_utc_text s of
             None \<Rightarrow> bad_arg ''timestamp is not a calendar instant''
           | Some t \<Rightarrow> Inr t)
     | _ \<Rightarrow> bad_arg ''timestamp must be canonical YYYY-MM-DDTHH:MM:SSZ'')"

definition date_of :: "pyval \<Rightarrow> int res" where
  "date_of v =
    bnd (object_of v [''year'', ''month'', ''day'']) (\<lambda>d.
    bnd (integer_of (dget d ''year'') 1 9999) (\<lambda>y.
    bnd (integer_of (dget d ''month'') 1 12) (\<lambda>m.
    bnd (integer_of (dget d ''day'') 1 31) (\<lambda>dd.
    if dd \<le> days_in_month y m then Inr (ymd2ord y m dd) else bad_arg ''invalid civil date''))))"

definition time_of :: "pyval \<Rightarrow> int res" where
  "time_of v =
    bnd (object_of v [''hour'', ''minute'', ''second'']) (\<lambda>d.
    bnd (integer_of (dget d ''hour'') 0 23) (\<lambda>h.
    bnd (integer_of (dget d ''minute'') 0 59) (\<lambda>m.
    bnd (integer_of (dget d ''second'') 0 59) (\<lambda>s. Inr (h * 3600 + m * 60 + s)))))"

definition zone_named :: "env \<Rightarrow> pyval \<Rightarrow> zone res" where
  "zone_named ev v =
    bnd (text_of v ''IANA time zone'' 256) (\<lambda>name.
    case zone_of ev name of None \<Rightarrow> bad_arg ''unknown IANA time zone'' | Some z \<Rightarrow> Inr z)"

definition resolve_civil :: "int \<Rightarrow> int \<Rightarrow> zone \<Rightarrow> int res" where
  "resolve_civil date time z =
    (let local = (date - 1) * 86400 + time;
         choices = map (\<lambda>fold. local - z_local z fold local) [False, True];
         back = (\<lambda>v. v + z_utc z v)
     in if \<not> list_all (\<lambda>v. representable v \<and> representable (back v)) choices
        then bad_arg ''civil time exceeds representable UTC calendar''
        else (let valid = filter (\<lambda>v. back v = local) choices in
          if valid \<noteq> [] then Inr (min_list valid)
          else (let forward = filter (\<lambda>v. local < back v) choices in
            if forward = [] then bad_arg ''civil gap cannot be resolved''
            else Inr (min_list forward))))"

section \<open>Schedules and projections\<close>

datatype recurrence = Daily | Weekly

datatype schedule =
    OneShot (os_date: int) (os_time: int) (os_zone: string)
  | Recurring (rc_kind: recurrence) (rc_time: int) (rc_start: int) (rc_zone: string)
      (rc_weekdays: "string list")

definition gap_overlap_ok :: "pyval dict \<Rightarrow> bool" where
  "gap_overlap_ok d \<longleftrightarrow>
    is_pstr ''next-valid'' (dget d ''gap'') \<and> is_pstr ''earlier'' (dget d ''overlap'')"

definition weekdays_of :: "pyval \<Rightarrow> string list res" where
  "weekdays_of v =
    (case v of
       PList days \<Rightarrow>
         if 7 < length days \<or> \<not> list_all (pstr_in weekday_names) days \<or> \<not> distinct days
         then bad_arg ''weekdays must be unique enum names''
         else Inr (map (\<lambda>x. case x of PStr s \<Rightarrow> s | _ \<Rightarrow> []) days)
     | _ \<Rightarrow> bad_arg ''weekdays must be unique enum names'')"

definition recurrence_of :: "pyval \<Rightarrow> string list \<Rightarrow> recurrence res" where
  "recurrence_of v days =
    (if is_pstr ''daily'' v \<and> days = [] then Inr Daily
     else if is_pstr ''weekly'' v \<and> days \<noteq> [] then Inr Weekly
     else bad_arg ''unsupported recurrence or weekday set'')"

definition validate_schedule :: "env \<Rightarrow> pyval \<Rightarrow> schedule res" where
  "validate_schedule ev sch =
    bnd (object_of sch [''tag'', ''value'']) (\<lambda>o1.
    if is_pstr ''one-shot'' (dget o1 ''tag'') then
      bnd (object_of (dget o1 ''value'') [''when'', ''gap'', ''overlap'']) (\<lambda>value.
      bnd (object_of (dget value ''when'') [''date'', ''time'', ''time_zone'']) (\<lambda>wh.
      bnd (date_of (dget wh ''date'')) (\<lambda>date.
      bnd (time_of (dget wh ''time'')) (\<lambda>time.
      bnd (zone_named ev (dget wh ''time_zone'')) (\<lambda>_.
      bnd (text_of (dget wh ''time_zone'') ''IANA time zone'' 256) (\<lambda>name.
      if gap_overlap_ok value then Inr (OneShot date time name)
      else bad_arg ''Stage 0 requires next-valid gap and earlier overlap''))))))
    else if is_pstr ''recurring'' (dget o1 ''tag'') then
      bnd (object_of (dget o1 ''value'')
        [''kind'', ''time'', ''start_date'', ''time_zone'', ''weekdays'', ''gap'', ''overlap'']) (\<lambda>value.
      bnd (date_of (dget value ''start_date'')) (\<lambda>start.
      bnd (time_of (dget value ''time'')) (\<lambda>time.
      bnd (zone_named ev (dget value ''time_zone'')) (\<lambda>_.
      bnd (text_of (dget value ''time_zone'') ''IANA time zone'' 256) (\<lambda>name.
      bnd (weekdays_of (dget value ''weekdays'')) (\<lambda>days.
      bnd (recurrence_of (dget value ''kind'') days) (\<lambda>kind.
      if gap_overlap_ok value then Inr (Recurring kind time start name days)
      else bad_arg ''Stage 0 requires next-valid gap and earlier overlap'')))))))
    else bad_arg ''unsupported alarm schedule'')"

record projection =
  pj_title :: string
  pj_body :: string
  pj_sound :: bool

definition validate_projection :: "pyval \<Rightarrow> projection res" where
  "validate_projection v =
    bnd (object_of v [''title'', ''body'', ''standard_sound'']) (\<lambda>d.
    bnd (text_of (dget d ''title'') ''notification title'' 1024) (\<lambda>title.
    case (dget d ''body'', dget d ''standard_sound'') of
      (PStr body, PBool sound) \<Rightarrow>
        if len body \<le> 8192
        then Inr \<lparr>pj_title = title, pj_body = body, pj_sound = sound\<rparr>
        else bad_arg ''invalid notification projection''
    | _ \<Rightarrow> bad_arg ''invalid notification projection''))"

section \<open>The next civil occurrence\<close>

definition weekday_name :: "int \<Rightarrow> string" where
  "weekday_name date = weekday_names ! nat ((date + 6) mod 7)"

definition recurs_on :: "recurrence \<Rightarrow> string list \<Rightarrow> int \<Rightarrow> bool" where
  "recurs_on kind days date \<longleftrightarrow> kind = Daily \<or> weekday_name date \<in> set days"

abbreviation calendar_end :: "'a res" where
  "calendar_end \<equiv> fail ''resource-limit'' ''recurrence exceeds representable calendar''"

fun civil_scan ::
  "zone \<Rightarrow> recurrence \<Rightarrow> string list \<Rightarrow> int \<Rightarrow> int \<Rightarrow> nat \<Rightarrow> int \<Rightarrow> (string \<times> string) option res"
where
  "civil_scan z kind days time after 0 date = bad_arg ''no supported civil occurrence''"
| "civil_scan z kind days time after (Suc k) date =
    (let next = (if date + 1 \<le> max_ord then civil_scan z kind days time after k (date + 1)
                 else calendar_end)
     in if recurs_on kind days date
        then bnd (resolve_civil date time z) (\<lambda>resolved.
          if after < resolved then Inr (Some (utc_text resolved, iso_date date)) else next)
        else next)"

definition scan_start :: "zone \<Rightarrow> int \<Rightarrow> int \<Rightarrow> string option \<Rightarrow> int res" where
  "scan_start z start after after_date =
    (case after_date of
       Some text \<Rightarrow>
         (case parse_date_text text of
            Some d \<Rightarrow> if d + 1 \<le> max_ord then Inr (max start (d + 1)) else calendar_end
          | None \<Rightarrow> calendar_end)
     | None \<Rightarrow>
         if representable (after + z_utc z after)
         then Inr (max start ((after + z_utc z after) div 86400 + 1)) else calendar_end)"

definition next_civil ::
  "env \<Rightarrow> schedule \<Rightarrow> int \<Rightarrow> string option \<Rightarrow> (string \<times> string) option res"
where
  "next_civil ev sch after after_date =
    (case sch of
       OneShot date time name \<Rightarrow>
         bnd (zone_named ev (PStr name)) (\<lambda>z.
         bnd (resolve_civil date time z) (\<lambda>resolved.
         Inr (if after < resolved then Some (utc_text resolved, iso_date date) else None)))
     | Recurring kind time start name days \<Rightarrow>
         bnd (zone_named ev (PStr name)) (\<lambda>z.
         bnd (scan_start z start after after_date) (\<lambda>date.
         civil_scan z kind days time after 9 date)))"

section \<open>The ledger\<close>

datatype permission = Authorized | Denied | NotDetermined

datatype rollback = NoRollback | ObservationWindow | RollingBack

datatype purpose = PurposeAlarm | PurposeServiceTrigger

datatype missed_policy = SkipMissed | FireOnce

datatype classification = ClMissed | ClCatchUp | ClOnTime | ClPermissionDenied

datatype occ_state = OccScheduled | OccCancelled | OccMissed | OccPermissionDenied
  | OccDeliveryPending | OccGuestPending | OccNotificationFailed | OccNotificationAccepted
  | OccGuestAcked

datatype effect_state = EffPending | EffFailed | EffAccepted

datatype guest_state = GuestPending | GuestAcked | GuestDeadLettered

record alarm =
  al_id :: string
  al_schedule_id :: string
  al_schedule :: schedule
  al_notification :: "projection option"
  al_enabled :: bool
  al_revision :: int
  al_next :: "string option"
  al_permission :: permission
  al_purpose :: purpose
  al_payload :: "int list"
  al_missed :: missed_policy
  al_spec :: pyval

record occurrence =
  oc_id :: string
  oc_alarm :: string
  oc_revision :: int
  oc_due :: string
  oc_civil :: string
  oc_tzdata :: string
  oc_state :: occ_state
  oc_class :: "classification option"
  oc_notification :: "string option"
  oc_parent :: "string option"

record attempt =
  at_started :: string
  at_result :: string
  at_completed :: "string option"

record notify_claim =
  nc_owner :: string
  nc_token :: string
  nc_at :: string

record effect =
  ef_id :: string
  ef_adapter :: string
  ef_occ :: string
  ef_projection :: "projection option"
  ef_state :: effect_state
  ef_first :: string
  ef_tolerance :: int
  ef_count :: int
  ef_attempts :: "attempt list"
  ef_claim :: "notify_claim option"
  ef_failure :: "string option"

record guest_claim =
  gc_owner :: string
  gc_token :: string
  gc_generation :: string

record guest_event =
  ge_id :: string
  ge_occ :: string
  ge_schedule :: string
  ge_key :: string
  ge_for :: string
  ge_class :: classification
  ge_payload :: "int list"
  ge_state :: guest_state
  ge_attempts :: int
  ge_claim :: "guest_claim option"
  ge_generation :: "string option"
  ge_dispatched :: "string option"
  ge_ack :: "string option"
  ge_outcome :: "string option"

record command_receipt =
  cr_fingerprint :: string
  cr_response :: pyval

record snooze_action =
  sa_id :: string
  sa_parent :: string
  sa_occ :: string
  sa_duration :: int
  sa_received :: string
  sa_dedup :: bool
  sa_result :: pyval

record app_context =
  cx_generation :: "string option"
  cx_enabled :: bool
  cx_granted :: bool
  cx_permission :: permission
  cx_rollback :: rollback

record app_row =
  rw_context :: app_context
  rw_alarms :: "alarm dict"
  rw_occs :: "occurrence dict"
  rw_outbox :: "effect dict"
  rw_guests :: "guest_event dict"
  rw_commands :: "command_receipt dict"
  rw_actions :: "snooze_action dict"

type_synonym ledger = "app_row dict"

definition empty_ledger :: ledger where
  "empty_ledger = []"

end
