(* ===== verification/SchedJson.thy ===== *)
theory SchedJson
  imports SchedData "HOL-Library.Multiset"
begin

text \<open>
  The persisted form of the scheduler ledger: each record as the JSON object the code keeps, the
  layout check the code runs before every transaction, the byte budget of the canonical encoding
  and the table limits checked at commit.
\<close>

section \<open>Enumerations as the strings the code stores\<close>

fun permission_str :: "permission \<Rightarrow> string" where
  "permission_str Authorized = ''authorized''"
| "permission_str Denied = ''denied''"
| "permission_str NotDetermined = ''not-determined''"

fun rollback_str :: "rollback \<Rightarrow> string" where
  "rollback_str NoRollback = ''none''"
| "rollback_str ObservationWindow = ''observation-window''"
| "rollback_str RollingBack = ''rolling-back''"

fun purpose_str :: "purpose \<Rightarrow> string" where
  "purpose_str PurposeAlarm = ''alarm''"
| "purpose_str PurposeServiceTrigger = ''service-trigger''"

fun missed_str :: "missed_policy \<Rightarrow> string" where
  "missed_str SkipMissed = ''skip''"
| "missed_str FireOnce = ''fire-once''"

fun class_str :: "classification \<Rightarrow> string" where
  "class_str ClMissed = ''missed''"
| "class_str ClCatchUp = ''catch-up''"
| "class_str ClOnTime = ''on-time''"
| "class_str ClPermissionDenied = ''permission-denied''"

fun occ_state_str :: "occ_state \<Rightarrow> string" where
  "occ_state_str OccScheduled = ''scheduled''"
| "occ_state_str OccCancelled = ''cancelled''"
| "occ_state_str OccMissed = ''missed''"
| "occ_state_str OccPermissionDenied = ''permission-denied''"
| "occ_state_str OccDeliveryPending = ''delivery-pending''"
| "occ_state_str OccGuestPending = ''guest-pending''"
| "occ_state_str OccNotificationFailed = ''notification-failed''"
| "occ_state_str OccNotificationAccepted = ''notification-accepted''"
| "occ_state_str OccGuestAcked = ''guest-acked''"

fun effect_state_str :: "effect_state \<Rightarrow> string" where
  "effect_state_str EffPending = ''pending''"
| "effect_state_str EffFailed = ''failed''"
| "effect_state_str EffAccepted = ''accepted''"

fun guest_state_str :: "guest_state \<Rightarrow> string" where
  "guest_state_str GuestPending = ''pending''"
| "guest_state_str GuestAcked = ''acked''"
| "guest_state_str GuestDeadLettered = ''dead-lettered''"

fun recurrence_str :: "recurrence \<Rightarrow> string" where
  "recurrence_str Daily = ''daily''"
| "recurrence_str Weekly = ''weekly''"

section \<open>Records as JSON objects\<close>

definition date_json :: "int \<Rightarrow> pyval" where
  "date_json n = (case ord2ymd n of (y, m, d) \<Rightarrow>
    PDict [(''year'', PInt y), (''month'', PInt m), (''day'', PInt d)])"

definition time_json :: "int \<Rightarrow> pyval" where
  "time_json t = PDict [(''hour'', PInt (t div 3600)), (''minute'', PInt (t div 60 mod 60)),
    (''second'', PInt (t mod 60))]"

fun schedule_tag :: "schedule \<Rightarrow> string" where
  "schedule_tag (OneShot _ _ _) = ''one-shot''"
| "schedule_tag (Recurring _ _ _ _ _) = ''recurring''"

fun schedule_value :: "schedule \<Rightarrow> pyval" where
  "schedule_value (OneShot date time name) = PDict
    [(''when'', PDict [(''date'', date_json date), (''time'', time_json time), (''time_zone'', PStr name)]),
     (''gap'', PStr ''next-valid''), (''overlap'', PStr ''earlier'')]"
| "schedule_value (Recurring kind time start name days) = PDict
    [(''kind'', PStr (recurrence_str kind)), (''time'', time_json time),
     (''start_date'', date_json start), (''time_zone'', PStr name),
     (''weekdays'', PList (map PStr days)),
     (''gap'', PStr ''next-valid''), (''overlap'', PStr ''earlier'')]"

definition schedule_json :: "schedule \<Rightarrow> pyval" where
  "schedule_json s = PDict [(''tag'', PStr (schedule_tag s)), (''value'', schedule_value s)]"

definition projection_json :: "projection option \<Rightarrow> pyval" where
  "projection_json p = (case p of None \<Rightarrow> PNone | Some p \<Rightarrow> PDict
    [(''title'', PStr (pj_title p)), (''body'', PStr (pj_body p)),
     (''standard_sound'', PBool (pj_sound p))])"

definition alarm_json :: "alarm \<Rightarrow> pyval" where
  "alarm_json a = PDict
    [(''alarm_id'', PStr (al_id a)), (''schedule_id'', PStr (al_schedule_id a)),
     (''schedule'', schedule_json (al_schedule a)),
     (''notification'', projection_json (al_notification a)), (''enabled'', PBool (al_enabled a)),
     (''revision'', PInt (al_revision a)), (''next_occurrence_id'', opt_str (al_next a)),
     (''permission_health'', PStr (permission_str (al_permission a))),
     (''purpose'', PStr (purpose_str (al_purpose a))), (''payload'', PList (map PInt (al_payload a))),
     (''missed'', PStr (missed_str (al_missed a))), (''spec'', al_spec a)]"

definition occurrence_json :: "occurrence \<Rightarrow> pyval" where
  "occurrence_json o1 = PDict
    [(''occurrence'', PStr (oc_id o1)), (''alarm_id'', PStr (oc_alarm o1)),
     (''revision'', PInt (oc_revision o1)), (''due_at_utc'', PStr (oc_due o1)),
     (''civil_date'', PStr (oc_civil o1)), (''tzdata_label'', PStr (oc_tzdata o1)),
     (''state'', PStr (occ_state_str (oc_state o1))),
     (''classification'', opt_str (map_option class_str (oc_class o1))),
     (''notification_id'', opt_str (oc_notification o1)),
     (''parent_occurrence_id'', opt_str (oc_parent o1))]"

definition attempt_json :: "attempt \<Rightarrow> pyval" where
  "attempt_json a = PDict ([(''at_utc'', PStr (at_started a)), (''result'', PStr (at_result a))]
    @ (case at_completed a of None \<Rightarrow> [] | Some t \<Rightarrow> [(''completed_at_utc'', PStr t)]))"

definition notify_claim_json :: "notify_claim option \<Rightarrow> pyval" where
  "notify_claim_json c = (case c of None \<Rightarrow> PNone | Some c \<Rightarrow> PDict
    [(''owner'', PStr (nc_owner c)), (''token'', PStr (nc_token c)), (''at_utc'', PStr (nc_at c))])"

definition effect_json :: "effect \<Rightarrow> pyval" where
  "effect_json e = PDict
    ([(''notification_id'', PStr (ef_id e)), (''adapter_id'', PStr (ef_adapter e)),
      (''occurrence_id'', PStr (ef_occ e)), (''projection'', projection_json (ef_projection e)),
      (''state'', PStr (effect_state_str (ef_state e))),
      (''first_eligible_at_utc'', PStr (ef_first e)),
      (''first_attempt_tolerance'', PInt (ef_tolerance e)),
      (''adapter_attempt_count'', PInt (ef_count e)),
      (''attempts'', PList (map attempt_json (ef_attempts e))),
      (''claim'', notify_claim_json (ef_claim e))]
     @ (case ef_failure e of None \<Rightarrow> [] | Some r \<Rightarrow> [(''failure'', PStr r)]))"

definition guest_claim_json :: "guest_claim option \<Rightarrow> pyval" where
  "guest_claim_json c = (case c of None \<Rightarrow> PNone | Some c \<Rightarrow> PDict
    [(''owner'', PStr (gc_owner c)), (''token'', PStr (gc_token c)),
     (''generation'', PStr (gc_generation c))])"

definition guest_json :: "guest_event \<Rightarrow> pyval" where
  "guest_json g = PDict
    ([(''guest_event_id'', PStr (ge_id g)), (''occurrence_id'', PStr (ge_occ g)),
      (''schedule'', PStr (ge_schedule g)), (''key'', PStr (ge_key g)),
      (''scheduled_for_utc'', PStr (ge_for g)), (''classification'', PStr (class_str (ge_class g))),
      (''payload'', PList (map PInt (ge_payload g))), (''state'', PStr (guest_state_str (ge_state g))),
      (''attempts'', PInt (ge_attempts g)), (''claim'', guest_claim_json (ge_claim g)),
      (''routed_generation'', opt_str (ge_generation g)),
      (''dispatched_at_utc'', opt_str (ge_dispatched g)), (''ack_requested'', opt_str (ge_ack g))]
     @ (case ge_outcome g of None \<Rightarrow> [] | Some r \<Rightarrow> [(''guest_outcome'', PStr r)]))"

definition receipt_json :: "command_receipt \<Rightarrow> pyval" where
  "receipt_json c = PDict [(''fingerprint'', PStr (cr_fingerprint c)), (''response'', cr_response c)]"

definition action_json :: "snooze_action \<Rightarrow> pyval" where
  "action_json a = PDict
    [(''os_action_id'', PStr (sa_id a)), (''parent_occurrence_id'', PStr (sa_parent a)),
     (''snooze_occurrence_id'', PStr (sa_occ a)), (''duration_seconds'', PInt (sa_duration a)),
     (''action_received_at_utc'', PStr (sa_received a)), (''deduplicated'', PBool (sa_dedup a)),
     (''result'', sa_result a)]"

definition context_json :: "app_context \<Rightarrow> pyval" where
  "context_json c = PDict
    [(''active_generation'', opt_str (cx_generation c)), (''enabled'', PBool (cx_enabled c)),
     (''scheduler_granted'', PBool (cx_granted c)),
     (''notification_permission'', PStr (permission_str (cx_permission c))),
     (''rollback_state'', PStr (rollback_str (cx_rollback c)))]"

definition row_json :: "app_row \<Rightarrow> pyval" where
  "row_json r = PDict
    [(''alarms'', PDict (amap alarm_json (rw_alarms r))),
     (''occurrences'', PDict (amap occurrence_json (rw_occs r))),
     (''outbox'', PDict (amap effect_json (rw_outbox r))),
     (''guest_events'', PDict (amap guest_json (rw_guests r))),
     (''commands'', PDict (amap receipt_json (rw_commands r))),
     (''actions'', PDict (amap action_json (rw_actions r))),
     (''context'', context_json (rw_context r))]"

definition ledger_schema :: string where
  "ledger_schema = ''vibapp.scheduler-ledger.experimental-v1''"

definition ledger_json :: "ledger \<Rightarrow> pyval" where
  "ledger_json lg = PDict
    [(''schema_version'', PStr ledger_schema), (''apps'', PDict (amap row_json lg))]"

section \<open>Layout check, encoding and limits\<close>

definition encode_bounded :: "pyval \<Rightarrow> string res" where
  "encode_bounded v =
    (let text = json_enc v in
     if max_bytes < len text then fail ''resource-limit'' ''scheduler ledger byte budget exhausted''
     else Inr text)"

definition collections :: "string list" where
  "collections =
    [''alarms'', ''occurrences'', ''outbox'', ''guest_events'', ''commands'', ''actions'']"

definition required_members :: "(string \<times> string list) list" where
  "required_members =
    [(''alarms'', [''alarm_id'', ''schedule_id'', ''schedule'', ''notification'', ''enabled'',
        ''revision'', ''next_occurrence_id'', ''permission_health'', ''purpose'', ''payload'',
        ''missed'', ''spec'']),
     (''occurrences'', [''occurrence'', ''alarm_id'', ''revision'', ''due_at_utc'', ''civil_date'',
        ''tzdata_label'', ''state'', ''classification'', ''notification_id'',
        ''parent_occurrence_id'']),
     (''outbox'', [''notification_id'', ''adapter_id'', ''occurrence_id'', ''projection'', ''state'',
        ''first_eligible_at_utc'', ''first_attempt_tolerance'', ''adapter_attempt_count'',
        ''attempts'', ''claim'']),
     (''guest_events'', [''guest_event_id'', ''occurrence_id'', ''schedule'', ''key'',
        ''scheduled_for_utc'', ''classification'', ''payload'', ''state'', ''attempts'', ''claim'',
        ''routed_generation'', ''dispatched_at_utc'', ''ack_requested'']),
     (''commands'', [''fingerprint'', ''response'']),
     (''actions'', [''os_action_id'', ''parent_occurrence_id'', ''snooze_occurrence_id'',
        ''duration_seconds'', ''action_received_at_utc'', ''deduplicated'', ''result''])]"

fun dict_of :: "pyval \<Rightarrow> pyval dict" where
  "dict_of (PDict d) = d"
| "dict_of _ = []"

definition has_fields :: "string list \<Rightarrow> pyval \<Rightarrow> bool" where
  "has_fields fs v \<longleftrightarrow> is_pdict v \<and> list_all (\<lambda>f. has f (dict_of v)) fs"

abbreviation integrity :: "string \<Rightarrow> 'a res" where
  "integrity m \<equiv> fail ''integrity-failure'' m"

definition check_context :: "pyval \<Rightarrow> unit res" where
  "check_context c =
    (if \<not> is_pdict c \<or> \<not> fields_are [''active_generation'', ''enabled'', ''scheduler_granted'',
          ''notification_permission'', ''rollback_state''] (dict_of c)
     then integrity ''invalid persisted scheduler authority context''
     else let d = dict_of c in
       if \<not> is_pbool (dget d ''enabled'') \<or> \<not> is_pbool (dget d ''scheduler_granted'')
          \<or> \<not> pstr_in [''authorized'', ''denied'', ''not-determined''] (dget d ''notification_permission'')
          \<or> \<not> pstr_in [''none'', ''observation-window'', ''rolling-back''] (dget d ''rollback_state'')
       then integrity ''invalid persisted scheduler authority values''
       else Inr ())"

definition check_table :: "pyval dict \<Rightarrow> string \<times> string list \<Rightarrow> unit res" where
  "check_table row = (\<lambda>(name, fields).
    if list_all (has_fields fields) (vals (dict_of (dget row name))) then Inr ()
    else integrity (''incomplete persisted scheduler '' @ name @ '' record''))"

definition check_row :: "pyval \<Rightarrow> unit res" where
  "check_row row =
    (if \<not> is_pdict row \<or> \<not> fields_are (collections @ [''context'']) (dict_of row)
        \<or> \<not> list_all (\<lambda>name. is_pdict (dget (dict_of row) name)) collections
     then integrity ''invalid persisted app scheduler record''
     else seq (check_context (dget (dict_of row) ''context''))
       (each (check_table (dict_of row)) required_members))"

definition check_layout :: "pyval \<Rightarrow> unit res" where
  "check_layout lg =
    (if \<not> is_pdict lg \<or> \<not> fields_are [''schema_version'', ''apps''] (dict_of lg)
        \<or> \<not> is_pstr ledger_schema (dget (dict_of lg) ''schema_version'')
        \<or> \<not> is_pdict (dget (dict_of lg) ''apps'')
     then integrity ''unsupported scheduler ledger''
     else seq (each check_row (vals (dict_of (dget (dict_of lg) ''apps''))))
       (bnd (encode_bounded lg) (\<lambda>_. Inr ())))"

definition row_sizes :: "app_row \<Rightarrow> (string \<times> int \<times> int) list" where
  "row_sizes r =
    [(''alarms'', len (rw_alarms r), max_schedules), (''occurrences'', len (rw_occs r), max_rows),
     (''outbox'', len (rw_outbox r), max_rows), (''guest_events'', len (rw_guests r), max_rows),
     (''commands'', len (rw_commands r), max_rows), (''actions'', len (rw_actions r), max_rows)]"

definition check_limits :: "ledger \<Rightarrow> unit res" where
  "check_limits lg =
    (if max_apps < len lg then fail ''resource-limit'' ''scheduler app limit reached''
     else each (\<lambda>r. each (\<lambda>(name, n, bound).
         if bound < n
         then fail ''resource-limit''
           (''scheduler '' @ name @ '' limit reached; audit is not silently evicted'')
         else Inr ()) (row_sizes r)) (vals lg))"

text \<open>
  One transaction: the stored ledger must pass the layout check, the body runs on a copy, the
  result must respect the limits and the byte budget, and only then replaces the stored ledger.
  An exception anywhere leaves the stored ledger as it was.
\<close>

definition edit :: "ledger \<Rightarrow> (ledger \<Rightarrow> (ledger \<times> 'a) res) \<Rightarrow> (ledger \<times> 'a) res" where
  "edit lg body =
    seq (check_layout (ledger_json lg))
      (bnd (body lg) (\<lambda>(lg', x).
        seq (check_limits lg')
          (bnd (encode_bounded (ledger_json lg')) (\<lambda>_. Inr (lg', x)))))"

definition committed :: "ledger \<Rightarrow> (ledger \<times> 'a) res \<Rightarrow> ledger \<times> 'a res" where
  "committed lg r = (case r of Inl e \<Rightarrow> (lg, Inl e) | Inr (lg', x) \<Rightarrow> (lg', Inr x))"

definition within_limits :: "ledger \<Rightarrow> bool" where
  "within_limits lg \<longleftrightarrow> len lg \<le> max_apps
    \<and> (\<forall>r\<in>set (vals lg). \<forall>(name, n, bound)\<in>set (row_sizes r). n \<le> bound)
    \<and> len (json_enc (ledger_json lg)) \<le> max_bytes"

section \<open>A size bound that is cheap to compute\<close>

text \<open>
  Encoding a ledger only to measure it is slow when it is evaluated step by step; \<open>json_size\<close> bounds
  the length of the encoding. \<open>edit_code\<close> evaluates a transaction through the bound.
\<close>

fun json_size :: "pyval \<Rightarrow> int" where
  "json_size PNone = 4"
| "json_size (PBool b) = 5"
| "json_size (PInt i) = len (dec i)"
| "json_size (PFloat s) = len s"
| "json_size (PStr s) = 6 * len s + 2"
| "json_size (PList xs) = 2 + (\<Sum>x\<leftarrow>xs. json_size x + 1)"
| "json_size (PDict d) = 2 + (\<Sum>(k, v)\<leftarrow>d. 6 * len k + 4 + json_size v)"

lemma length_esc_char: "length (esc_char c) \<le> 6"
  by (simp add: esc_char_def)

lemma len_json_str: "len (json_str s) \<le> 6 * len s + 2"
proof -
  have "length (concat (map esc_char s)) \<le> 6 * length s"
  proof (induction s)
    case (Cons c s)
    then show ?case using length_esc_char [of c] by simp
  qed simp
  then show ?thesis by (simp add: json_str_def)
qed

lemma len_joinc: "len (joinc xs) \<le> (\<Sum>x\<leftarrow>xs. len x + 1)"
  by (induction xs rule: joinc.induct) auto

lemma sum_list_sort: "(\<Sum>x\<leftarrow>sort_key f xs. g x) = (\<Sum>x\<leftarrow>xs. (g x :: int))"
  by (metis mset_map mset_sort sum_mset_sum_list)

lemma len_json_enc: "len (json_enc v) \<le> json_size v"
proof (induction v rule: json_size.induct)
  case (6 xs)
  have "(\<Sum>x\<leftarrow>xs. len (json_enc x) + 1) \<le> (\<Sum>x\<leftarrow>xs. json_size x + 1)"
    by (rule sum_list_mono) (use 6 in simp)
  then show ?case using len_joinc [of "map json_enc xs"] by (simp add: comp_def)
next
  case (7 d)
  let ?e = "\<lambda>(k, e). json_str k @ CHR '':'' # e" and ?d = "map (\<lambda>(k, v). (k, json_enc v)) d"
  have "len (joinc (map ?e (sort_key fst ?d))) \<le> (\<Sum>p\<leftarrow>sort_key fst ?d. len (?e p) + 1)"
    using len_joinc [of "map ?e (sort_key fst ?d)"] by (simp add: comp_def)
  also have "\<dots> = (\<Sum>p\<leftarrow>?d. len (?e p) + 1)" by (rule sum_list_sort)
  also have "\<dots> = (\<Sum>p\<leftarrow>d. len (?e ((\<lambda>(k, v). (k, json_enc v)) p)) + 1)" by (simp add: comp_def)
  also have "\<dots> \<le> (\<Sum>(k, v)\<leftarrow>d. 6 * len k + 4 + json_size v)"
  proof (rule sum_list_mono)
    fix p
    assume p: "p \<in> set d"
    obtain k v where kv: "p = (k, v)" by force
    show "len (?e ((\<lambda>(k, v). (k, json_enc v)) p)) + 1 \<le> (case p of (k, v) \<Rightarrow> 6 * len k + 4 + json_size v)"
      using 7 [OF p kv [symmetric]] len_json_str [of k] by (simp add: kv)
  qed
  finally show ?case by simp
qed (simp_all add: len_json_str)

lemma encode_bounded_small: "json_size v \<le> max_bytes \<Longrightarrow> encode_bounded v = Inr (json_enc v)"
  using len_json_enc [of v] by (simp add: encode_bounded_def Let_def)

section \<open>Facts\<close>

lemma has_fields_literal: "has_fields fs (PDict d) \<longleftrightarrow> set fs \<subseteq> set (keys d)"
  by (auto simp: has_fields_def list_all_iff has_iff)

lemma vals_amap [simp]: "vals (amap f d) = map f (vals d)"
  by (induction d) (auto simp: amap_def)

lemma check_context_json [simp]: "check_context (context_json c) = Inr ()"
  by (cases "cx_permission c"; cases "cx_rollback c")
    (simp_all add: check_context_def context_json_def fields_are_def dget_def)

lemma record_fields:
  "has_fields [''alarm_id'', ''schedule_id'', ''schedule'', ''notification'', ''enabled'',
      ''revision'', ''next_occurrence_id'', ''permission_health'', ''purpose'', ''payload'',
      ''missed'', ''spec''] (alarm_json a)"
  "has_fields [''occurrence'', ''alarm_id'', ''revision'', ''due_at_utc'', ''civil_date'',
      ''tzdata_label'', ''state'', ''classification'', ''notification_id'',
      ''parent_occurrence_id''] (occurrence_json oc)"
  "has_fields [''notification_id'', ''adapter_id'', ''occurrence_id'', ''projection'', ''state'',
      ''first_eligible_at_utc'', ''first_attempt_tolerance'', ''adapter_attempt_count'',
      ''attempts'', ''claim''] (effect_json e)"
  "has_fields [''guest_event_id'', ''occurrence_id'', ''schedule'', ''key'',
      ''scheduled_for_utc'', ''classification'', ''payload'', ''state'', ''attempts'', ''claim'',
      ''routed_generation'', ''dispatched_at_utc'', ''ack_requested''] (guest_json g)"
  "has_fields [''fingerprint'', ''response''] (receipt_json r)"
  "has_fields [''os_action_id'', ''parent_occurrence_id'', ''snooze_occurrence_id'',
      ''duration_seconds'', ''action_received_at_utc'', ''deduplicated'', ''result''] (action_json s)"
  unfolding alarm_json_def occurrence_json_def effect_json_def guest_json_def receipt_json_def
    action_json_def has_fields_literal
  by simp_all

lemma check_table_amap:
  assumes "dget row name = PDict (amap f d)" and "\<And>v. has_fields fs (f v)"
  shows "check_table row (name, fs) = Inr ()"
  using assms by (simp add: check_table_def list_all_iff amap_def split_beta)

lemma check_row_json [simp]: "check_row (row_json r) = Inr ()"
proof -
  let ?d = "dict_of (row_json r)"
  have m: "dget ?d ''alarms'' = PDict (amap alarm_json (rw_alarms r))"
    "dget ?d ''occurrences'' = PDict (amap occurrence_json (rw_occs r))"
    "dget ?d ''outbox'' = PDict (amap effect_json (rw_outbox r))"
    "dget ?d ''guest_events'' = PDict (amap guest_json (rw_guests r))"
    "dget ?d ''commands'' = PDict (amap receipt_json (rw_commands r))"
    "dget ?d ''actions'' = PDict (amap action_json (rw_actions r))"
    by (simp_all add: row_json_def dget_Cons)
  have "each (check_table ?d) required_members = Inr ()"
    unfolding required_members_def
    by (simp add: m [THEN check_table_amap] record_fields)
  then show ?thesis
    by (simp add: check_row_def row_json_def fields_are_def collections_def dget_Cons insert_commute)
qed

lemma each_map_Inr: "(\<And>x. x \<in> set xs \<Longrightarrow> f x = Inr ()) \<Longrightarrow> each f xs = Inr ()"
  by (simp add: res_simps)

lemma check_layout_ledger_json:
  "check_layout (ledger_json lg) = bnd (encode_bounded (ledger_json lg)) (\<lambda>_. Inr ())"
proof -
  have "each check_row (vals (amap row_json lg)) = Inr ()"
    by (rule each_map_Inr) auto
  then show ?thesis
    by (simp add: check_layout_def ledger_json_def fields_are_def is_pstr_def dget_Cons)
qed

lemma encode_bounded_Inr_iff:
  "encode_bounded v = Inr t \<longleftrightarrow> t = json_enc v \<and> len (json_enc v) \<le> max_bytes"
  by (auto simp: encode_bounded_def Let_def)

lemma limit_entry_iff:
  "(case e of (name, n, bound) \<Rightarrow> if bound < n then fail c (m name) else Inr ()) = Inr ()
    \<longleftrightarrow> (case e of (name, n, bound) \<Rightarrow> n \<le> (bound::int))"
  by (cases e) auto

lemma check_limits_Inr_iff:
  "check_limits lg = Inr () \<longleftrightarrow> len lg \<le> max_apps
    \<and> (\<forall>r\<in>set (vals lg). \<forall>(name, n, bound)\<in>set (row_sizes r). n \<le> bound)"
  by (simp add: check_limits_def res_simps limit_entry_iff not_less)

lemma edit_Inr_iff:
  "edit lg body = Inr (lg', x) \<longleftrightarrow>
    len (json_enc (ledger_json lg)) \<le> max_bytes \<and> body lg = Inr (lg', x) \<and> within_limits lg'"
  by (auto simp: edit_def check_layout_ledger_json res_simps encode_bounded_Inr_iff
      check_limits_Inr_iff within_limits_def)

lemma committed_cases:
  obtains (unchanged) e where "r = Inl e" and "committed lg r = (lg, Inl e)"
  | (changed) lg' x where "r = Inr (lg', x)" and "committed lg r = (lg', Inr x)"
  by (cases r) (auto simp: committed_def)

definition edit_measured :: "ledger \<Rightarrow> (ledger \<Rightarrow> (ledger \<times> 'a) res) \<Rightarrow> (ledger \<times> 'a) res" where
  "edit_measured lg body = edit lg body"

lemma edit_measured_code [code]:
  "edit_measured lg body =
    seq (check_layout (ledger_json lg))
      (bnd (body lg) (\<lambda>(lg', x).
        seq (check_limits lg')
          (bnd (encode_bounded (ledger_json lg')) (\<lambda>_. Inr (lg', x)))))"
  by (simp add: edit_measured_def edit_def)

lemma edit_code [code]:
  "edit lg body =
    (if json_size (ledger_json lg) \<le> max_bytes
     then bnd (body lg) (\<lambda>(lg', x). seq (check_limits lg')
       (if json_size (ledger_json lg') \<le> max_bytes then Inr (lg', x) else edit_measured lg body))
     else edit_measured lg body)"
proof (cases "json_size (ledger_json lg) \<le> max_bytes")
  case True
  then have "check_layout (ledger_json lg) = Inr ()"
    by (simp add: check_layout_ledger_json encode_bounded_small)
  then show ?thesis
    using True by (cases "body lg"; cases "check_limits (fst (projr (body lg)))")
      (auto simp: edit_def edit_measured_def encode_bounded_small split: prod.splits)
qed (simp add: edit_measured_def)

end
