(* ===== verification/SchedOps.thy ===== *)
theory SchedOps
  imports SchedJson
begin

text \<open>
  Operations of the alarm scheduler, one definition per method of \<open>SchedulerBackend\<close>. Each works
  on the copied row or ledger of the running transaction and returns the changed copy; \<open>edit\<close>
  (theory SchedJson) commits it. Responses are the JSON objects the methods return.
\<close>

section \<open>Rows, authority and responses\<close>

definition find_app :: "ledger \<Rightarrow> string \<Rightarrow> app_row res" where
  "find_app lg app =
    bnd (text_of (PStr app) ''app ID'' 256) (\<lambda>_.
    case aget lg app of
      None \<Rightarrow> fail ''not-found'' ''scheduler app context absent''
    | Some row \<Rightarrow> Inr row)"

definition authority :: "app_row \<Rightarrow> string option \<Rightarrow> bool \<Rightarrow> bool \<Rightarrow> unit res" where
  "authority row generation mutation host_action =
    (let context = rw_context row in
     if \<not> cx_enabled context then fail ''app-disabled'' ''app-disabled''
     else if generation \<noteq> None \<and> generation \<noteq> cx_generation context
     then fail ''permission-denied'' ''inactive-generation''
     else if \<not> cx_granted context
     then fail ''permission-denied'' ''scheduler permission is not granted''
     else if mutation \<and> cx_rollback context \<noteq> NoRollback \<and> \<not> host_action
     then fail ''upgrade-in-progress'' ''upgrade-in-progress''
     else Inr ())"

definition find_alarm :: "app_row \<Rightarrow> pyval \<Rightarrow> alarm res" where
  "find_alarm row alarm_id =
    bnd (text_of alarm_id ''alarm ID'' 128) (\<lambda>k.
    case aget (rw_alarms row) k of
      None \<Rightarrow> fail ''not-found'' ''alarm does not exist''
    | Some a \<Rightarrow> Inr a)"

definition exn_json :: "exn \<Rightarrow> pyval" where
  "exn_json e = PDict [(''code'', PStr (exn_code e)), (''message'', PStr (exn_message e)),
    (''retryable'', PBool (exn_retryable e))]"

definition ok_response :: "pyval \<Rightarrow> pyval" where
  "ok_response v = PDict [(''ok'', PBool True), (''value'', v)]"

definition err_response :: "exn \<Rightarrow> pyval" where
  "err_response e = PDict [(''ok'', PBool False), (''error'', exn_json e)]"

definition alarm_result :: "alarm \<Rightarrow> string \<Rightarrow> string option \<Rightarrow> pyval" where
  "alarm_result a outcome snooze = PDict
    [(''alarm_id'', PStr (al_id a)), (''outcome'', PStr outcome), (''revision'', PInt (al_revision a)),
     (''enabled'', PBool (al_enabled a)), (''next_occurrence_id'', opt_str (al_next a)),
     (''snooze_occurrence_id'', opt_str snooze), (''deduplicated'', PBool False)]"

definition put_alarm :: "string \<Rightarrow> alarm \<Rightarrow> app_row \<Rightarrow> app_row" where
  "put_alarm k a row = row\<lparr>rw_alarms := aput k a (rw_alarms row)\<rparr>"

section \<open>Alarm revisions\<close>

text \<open>The scheduled occurrences of an alarm are cancelled; the alarm forgets its next one.\<close>

definition cancel_occ :: "string \<Rightarrow> occurrence \<Rightarrow> occurrence" where
  "cancel_occ alarm_id oc =
    (if oc_alarm oc = alarm_id \<and> oc_state oc = OccScheduled then oc\<lparr>oc_state := OccCancelled\<rparr> else oc)"

definition cancel_pending :: "app_row \<Rightarrow> alarm \<Rightarrow> app_row \<times> alarm" where
  "cancel_pending row a =
    (row\<lparr>rw_occs := amap (cancel_occ (al_id a)) (rw_occs row)\<rparr>, a\<lparr>al_next := None\<rparr>)"

definition disable_alarm :: "app_row \<Rightarrow> string \<Rightarrow> alarm \<Rightarrow> (app_row \<times> string) res" where
  "disable_alarm row k a =
    (if \<not> al_enabled a then Inr (row, ''unchanged'')
     else let (row', a') = cancel_pending row a in
       bnd (integer_of (PInt (al_revision a' + 1)) 1 u64_max) (\<lambda>n.
       Inr (put_alarm k (a'\<lparr>al_enabled := False, al_revision := n\<rparr>) row', ''disabled'')))"

definition occurrence_id :: "string \<Rightarrow> int \<Rightarrow> string \<Rightarrow> string" where
  "occurrence_id alarm_id revision due =
    ''occ:'' @ alarm_id @ '':r'' @ dec revision @ '':'' @ due"

definition materialize ::
  "env \<Rightarrow> app_row \<Rightarrow> string \<Rightarrow> alarm \<Rightarrow> string \<times> string \<Rightarrow> string option \<Rightarrow> string option
    \<Rightarrow> (app_row \<times> alarm \<times> string) res"
where
  "materialize ev row k a candidate given parent =
    (let (due, civil) = candidate;
         oid = (case given of Some i \<Rightarrow> i | None \<Rightarrow> occurrence_id (al_id a) (al_revision a) due)
     in if has oid (rw_occs row)
        then fail ''integrity-failure'' ''attempted to rematerialize an occurrence''
        else let
          oc = \<lparr>oc_id = oid, oc_alarm = al_id a, oc_revision = al_revision a, oc_due = due,
                oc_civil = civil, oc_tzdata = tzdata_label ev, oc_state = OccScheduled,
                oc_class = None, oc_notification = None, oc_parent = parent\<rparr>;
          a' = (if parent = None then a\<lparr>al_next := Some oid\<rparr> else a)
        in Inr (put_alarm k a' (row\<lparr>rw_occs := aput oid oc (rw_occs row)\<rparr>), a', oid))"

section \<open>Configure, enable, disable\<close>

definition revision_matches :: "pyval \<Rightarrow> int \<Rightarrow> unit res" where
  "revision_matches expected current =
    (if expected = PNone then Inr ()
     else bnd (integer_of expected 0 u64_max) (\<lambda>r.
       if r \<noteq> current then fail ''stale-revision'' ''alarm revision does not match'' else Inr ()))"

definition fresh_alarm ::
  "app_row \<Rightarrow> string \<Rightarrow> schedule \<Rightarrow> projection option \<Rightarrow> int \<Rightarrow> purpose \<Rightarrow> int list
    \<Rightarrow> missed_policy \<Rightarrow> pyval \<Rightarrow> alarm"
where
  "fresh_alarm row alarm_id sched notification n purpose payload missed spec =
    \<lparr>al_id = alarm_id, al_schedule_id = ''schedule:'' @ alarm_id, al_schedule = sched,
     al_notification = notification, al_enabled = True, al_revision = n, al_next = None,
     al_permission = cx_permission (rw_context row), al_purpose = purpose, al_payload = payload,
     al_missed = missed, al_spec = spec\<rparr>"

text \<open>The part of \<open>_configure\<close> after the request is validated; \<open>build\<close> builds the alarm at its revision.\<close>

definition install_alarm ::
  "env \<Rightarrow> app_row \<Rightarrow> string \<Rightarrow> (int \<Rightarrow> alarm) \<Rightarrow> string \<times> string \<Rightarrow> (app_row \<times> pyval) res"
where
  "install_alarm ev row alarm_id build candidate =
    (let previous = aget (rw_alarms row) alarm_id;
         row' = (case previous of None \<Rightarrow> row | Some p \<Rightarrow> fst (cancel_pending row p)) in
     bnd (integer_of (PInt (case previous of None \<Rightarrow> 1 | Some p \<Rightarrow> al_revision p + 1)) 1 u64_max) (\<lambda>n.
     bnd (materialize ev (put_alarm alarm_id (build n) row') alarm_id (build n) candidate None None)
       (\<lambda>(row'', a', oid).
     Inr (row'', alarm_result a' (if previous = None then ''created'' else ''updated'') None))))"

definition configure ::
  "env \<Rightarrow> app_row \<Rightarrow> pyval \<Rightarrow> int \<Rightarrow> purpose \<Rightarrow> int list \<Rightarrow> missed_policy \<Rightarrow> pyval
    \<Rightarrow> (app_row \<times> pyval) res"
where
  "configure ev row request now purpose payload missed spec =
    bnd (object_of request [''alarm_id'', ''expected_revision'', ''schedule'', ''notification'']) (\<lambda>d.
    bnd (text_of (dget d ''alarm_id'') ''alarm ID'' 128) (\<lambda>alarm_id.
    bnd (validate_schedule ev (dget d ''schedule'')) (\<lambda>sched.
    bnd (if purpose = PurposeAlarm
         then bnd (validate_projection (dget d ''notification'')) (\<lambda>p. Inr (Some p))
         else Inr None) (\<lambda>notification.
    let previous = aget (rw_alarms row) alarm_id in
    seq (revision_matches (dget d ''expected_revision'')
          (case previous of None \<Rightarrow> 0 | Some p \<Rightarrow> al_revision p))
    (if previous \<noteq> None \<and> al_purpose (the previous) \<noteq> purpose
     then fail ''conflict'' ''schedule purpose cannot be changed''
     else bnd (next_civil ev sched now None) (\<lambda>candidate.
       case candidate of
         None \<Rightarrow> bad_arg ''one-shot must resolve strictly after commit''
       | Some c \<Rightarrow> install_alarm ev row alarm_id
           (\<lambda>n. fresh_alarm row alarm_id sched notification n purpose payload missed spec) c))))))"

definition toggle :: "env \<Rightarrow> app_row \<Rightarrow> pyval \<Rightarrow> int \<Rightarrow> bool \<Rightarrow> (app_row \<times> pyval) res" where
  "toggle ev row request now enable =
    bnd (object_of request [''alarm_id'', ''expected_revision'']) (\<lambda>d.
    bnd (find_alarm row (dget d ''alarm_id'')) (\<lambda>a.
    bnd (text_of (dget d ''alarm_id'') ''alarm ID'' 128) (\<lambda>k.
    seq (revision_matches (dget d ''expected_revision'') (al_revision a))
    (if \<not> enable
     then bnd (disable_alarm row k a) (\<lambda>(row', outcome).
       case aget (rw_alarms row') k of
         None \<Rightarrow> Inl (Crash ''KeyError'')
       | Some a' \<Rightarrow> Inr (row', alarm_result a' outcome None))
     else if \<not> al_enabled a
     then bnd (next_civil ev (al_schedule a) now None) (\<lambda>candidate.
       case candidate of
         None \<Rightarrow> fail ''conflict'' ''expired-one-shot''
       | Some c \<Rightarrow>
           bnd (integer_of (PInt (al_revision a + 1)) 1 u64_max) (\<lambda>n.
           let a1 = a\<lparr>al_revision := n, al_enabled := True\<rparr> in
           bnd (materialize ev (put_alarm k a1 row) k a1 c None None) (\<lambda>(row', a', oid).
           Inr (row', alarm_result a' ''enabled'' None))))
     else Inr (row, alarm_result a ''unchanged'' None)))))"

section \<open>Snooze\<close>

definition snooze_id :: "string \<Rightarrow> int \<Rightarrow> string" where
  "snooze_id parent sequence = ''snooze:'' @ parent @ '':'' @ dec sequence"

definition set_member :: "string \<Rightarrow> pyval \<Rightarrow> pyval \<Rightarrow> pyval" where
  "set_member k v d = (case d of PDict ms \<Rightarrow> PDict (aput k v ms) | _ \<Rightarrow> d)"

definition action_key :: "string \<Rightarrow> string" where
  "action_key action_id = ''action:'' @ action_id"

text \<open>The part of \<open>_snooze\<close> for an action that has no record yet.\<close>

definition snooze_new ::
  "env \<Rightarrow> app_row \<Rightarrow> pyval dict \<Rightarrow> string \<Rightarrow> string \<Rightarrow> int \<Rightarrow> int \<Rightarrow> (app_row \<times> pyval) res"
where
  "snooze_new ev row d parent_id action_id received duration =
    (case aget (rw_occs row) parent_id of
       None \<Rightarrow> fail ''conflict'' ''snooze requires a delivered parent occurrence''
     | Some parent \<Rightarrow>
         if oc_state parent \<noteq> OccNotificationAccepted
         then fail ''conflict'' ''snooze requires a delivered parent occurrence''
         else bnd (find_alarm row (PStr (oc_alarm parent))) (\<lambda>a.
           if \<not> al_enabled a \<or> oc_revision parent \<noteq> al_revision a
           then fail ''conflict'' ''snooze parent is no longer current and enabled''
           else let sequence =
               1 + int (length (filter (\<lambda>x. sa_parent x = parent_id) (vals (rw_actions row))));
               due = received + duration in
           if \<not> representable due
           then bad_arg ''snooze exceeds representable UTC calendar''
           else bnd (materialize ev row (oc_alarm parent) a
               (utc_text due, iso_date (due div 86400 + 1))
               (Some (snooze_id parent_id sequence)) (Some parent_id)) (\<lambda>(row', a', oid).
             let result = alarm_result a' ''snoozed'' (Some oid);
                 action = \<lparr>sa_id = action_id, sa_parent = parent_id, sa_occ = oid,
                   sa_duration = duration,
                   sa_received = (case dget d ''action_received_at_utc'' of PStr s \<Rightarrow> s | _ \<Rightarrow> []),
                   sa_dedup = False, sa_result = result\<rparr> in
             Inr (row'\<lparr>rw_actions := aput (action_key action_id) action (rw_actions row')\<rparr>, result))))"

definition snooze :: "env \<Rightarrow> app_row \<Rightarrow> pyval \<Rightarrow> (app_row \<times> pyval) res" where
  "snooze ev row request =
    bnd (object_of request [''parent_occurrence_id'', ''os_action_id'', ''action_received_at_utc'',
           ''duration_seconds'']) (\<lambda>d.
    bnd (text_of (dget d ''parent_occurrence_id'') ''parent occurrence'' 2048) (\<lambda>parent_id.
    bnd (text_of (dget d ''os_action_id'') ''OS action ID'' 256) (\<lambda>action_id.
    bnd (parse_utc (dget d ''action_received_at_utc'')) (\<lambda>received.
    bnd (integer_of (dget d ''duration_seconds'') 60 3600) (\<lambda>duration.
    let key = action_key action_id in
    case aget (rw_actions row) key of
      Some prior \<Rightarrow>
        if sa_parent prior \<noteq> parent_id \<or> sa_duration prior \<noteq> duration
        then fail ''conflict'' ''idempotency-conflict''
        else Inr (row\<lparr>rw_actions := amod key (\<lambda>a. a\<lparr>sa_dedup := True\<rparr>) (rw_actions row)\<rparr>,
                  set_member ''deduplicated'' (PBool True) (sa_result prior))
    | None \<Rightarrow> snooze_new ev row d parent_id action_id received duration)))))"

section \<open>Durable command receipts\<close>

definition mark_dedup :: "pyval \<Rightarrow> pyval" where
  "mark_dedup response =
    (case response of
       PDict d \<Rightarrow>
         (case (dget d ''ok'', dget d ''value'') of
            (PBool True, PDict v) \<Rightarrow>
              if has ''deduplicated'' v
              then PDict (aput ''value'' (PDict (aput ''deduplicated'' (PBool True) v)) d)
              else response
          | _ \<Rightarrow> response)
     | _ \<Rightarrow> response)"

definition fingerprint_of :: "env \<Rightarrow> string \<Rightarrow> pyval dict \<Rightarrow> string res" where
  "fingerprint_of ev operation payload =
    bnd (encode_bounded (PDict [(''operation'', PStr operation),
      (''payload'', PDict (filter (\<lambda>(k, v).
         \<not> (operation = ''alarm-snooze'' \<and> k = ''action_received_at_utc'')) payload))]))
    (\<lambda>text. Inr (sha256_hex ev text))"

text \<open>The key under which a replayed snooze finds its action.\<close>

definition replay_action_key :: "env \<Rightarrow> pyval dict \<Rightarrow> string" where
  "replay_action_key ev payload = action_key
    (case dget payload ''os_action_id'' of PStr s \<Rightarrow> s | v \<Rightarrow> str_of ev v)"

definition command_key :: "string \<Rightarrow> string" where
  "command_key key = ''cmd:'' @ key"

definition put_receipt :: "string \<Rightarrow> string \<Rightarrow> pyval \<Rightarrow> app_row \<Rightarrow> app_row" where
  "put_receipt key fp response row =
    row\<lparr>rw_commands := aput (command_key key) \<lparr>cr_fingerprint = fp, cr_response = response\<rparr> (rw_commands row)\<rparr>"

definition call_body ::
  "env \<Rightarrow> string \<Rightarrow> pyval dict \<Rightarrow> string \<Rightarrow> string option
    \<Rightarrow> (app_row \<Rightarrow> (app_row \<times> pyval) res) \<Rightarrow> bool \<Rightarrow> string \<Rightarrow> app_row \<Rightarrow> (app_row \<times> pyval) res"
where
  "call_body ev operation payload key generation callback host_action fp row =
    (case authority row generation True host_action of
       Inl e \<Rightarrow>
         Inr (row\<lparr>rw_commands := setdefault (command_key key)
                \<lparr>cr_fingerprint = fp, cr_response = err_response e\<rparr> (rw_commands row)\<rparr>,
              err_response e)
     | Inr _ \<Rightarrow>
         (case aget (rw_commands row) (command_key key) of
            Some previous \<Rightarrow>
              if cr_fingerprint previous \<noteq> fp
              then Inr (row, err_response (Fail ''conflict'' ''idempotency-conflict'' False))
              else Inr
                (if operation = ''alarm-snooze'' \<and> has (replay_action_key ev payload) (rw_actions row)
                 then row\<lparr>rw_actions := amod (replay_action_key ev payload)
                        (\<lambda>a. a\<lparr>sa_dedup := True\<rparr>) (rw_actions row)\<rparr>
                 else row,
                 mark_dedup (cr_response previous))
          | None \<Rightarrow>
              (case callback row of
                 Inl (Crash k) \<Rightarrow> Inl (Crash k)
               | Inl (Fail c m r) \<Rightarrow>
                   Inr (put_receipt key fp (err_response (Fail c m r)) row, err_response (Fail c m r))
               | Inr (row', value) \<Rightarrow>
                   Inr (put_receipt key fp (ok_response value) row', ok_response value))))"

definition mutating_call ::
  "env \<Rightarrow> ledger \<Rightarrow> string \<Rightarrow> string \<Rightarrow> pyval \<Rightarrow> pyval \<Rightarrow> string option
    \<Rightarrow> (app_row \<Rightarrow> (app_row \<times> pyval) res) \<Rightarrow> bool \<Rightarrow> (ledger \<times> pyval) res"
where
  "mutating_call ev lg app operation payload key generation callback host_action =
    (case payload of
       PDict members \<Rightarrow>
         bnd (text_of key ''idempotency key'' 256) (\<lambda>k.
         bnd (fingerprint_of ev operation members) (\<lambda>fp.
         edit lg (\<lambda>l.
           bnd (find_app l app) (\<lambda>row.
           bnd (call_body ev operation members k generation callback host_action fp row)
             (\<lambda>(row', response). Inr (aput app row' l, response))))))
     | _ \<Rightarrow> bad_arg ''command payload must be a record'')"

text \<open>The public methods turn a scheduler error into a response; the ledger is then unchanged.\<close>

definition respond :: "ledger \<Rightarrow> (ledger \<times> pyval) res \<Rightarrow> (ledger \<times> pyval) res" where
  "respond lg r = (case r of
     Inl (Fail c m rt) \<Rightarrow> Inr (lg, err_response (Fail c m rt))
   | _ \<Rightarrow> r)"

end
