(* ===== verification/SchedCalls.thy ===== *)
theory SchedCalls
  imports SchedOps
begin

text \<open>
  The public surface of the scheduler: the alarm commands, the guest's scheduler interface, the
  host's lifecycle hook, the pump that turns due occurrences into effects, and the claim / finish
  protocol of notifications and guest deliveries.
\<close>

section \<open>Status projection\<close>

definition members_of :: "string list \<Rightarrow> pyval \<Rightarrow> pyval" where
  "members_of ks v = PDict (map (\<lambda>k. (k, dget (dict_of v) k)) ks)"

definition sort_desc :: "('a \<Rightarrow> 'k::linorder) \<Rightarrow> 'a list \<Rightarrow> 'a list" where
  "sort_desc f xs = rev (sort_key f (rev xs))"

definition tagged :: "string \<Rightarrow> pyval \<Rightarrow> pyval" where
  "tagged t v = PDict [(''tag'', PStr t), (''value'', v)]"

definition status_effects :: "app_row \<Rightarrow> string list \<Rightarrow> ((string \<times> string) \<times> pyval) list" where
  "status_effects row ids =
    map (\<lambda>e. ((ef_first e, ef_id e), tagged ''notification'' (PDict
        [(''notification_id'', PStr (ef_id e)), (''occurrence'', PStr (ef_occ e)),
         (''outcome'', PStr (effect_state_str (ef_state e))), (''attempts'', PInt (ef_count e))])))
      (filter (\<lambda>e. ef_occ e \<in> set ids) (vals (rw_outbox row)))
    @ map (\<lambda>g. ((case ge_dispatched g of Some (c # t) \<Rightarrow> c # t | _ \<Rightarrow> ge_for g, ge_id g),
        tagged ''guest-event'' (PDict
        [(''guest_event_id'', PStr (ge_id g)), (''occurrence'', PStr (ge_occ g)),
         (''outcome'', PStr (guest_state_str (ge_state g))), (''attempts'', PInt (ge_attempts g))])))
      (filter (\<lambda>g. ge_occ g \<in> set ids) (vals (rw_guests row)))
    @ map (\<lambda>a. ((sa_received a, sa_id a), tagged ''snooze-action'' (members_of
        [''os_action_id'', ''parent_occurrence_id'', ''snooze_occurrence_id'', ''deduplicated'']
        (action_json a))))
      (filter (\<lambda>a. sa_parent a \<in> set ids) (vals (rw_actions row)))"

definition status :: "ledger \<Rightarrow> string \<Rightarrow> pyval \<Rightarrow> pyval \<Rightarrow> pyval \<Rightarrow> pyval res" where
  "status lg app alarm_id occurrence_limit effect_limit =
    bnd (integer_of occurrence_limit 1 max_batch) (\<lambda>ol.
    bnd (integer_of effect_limit 1 max_batch) (\<lambda>el.
    bnd (find_app lg app) (\<lambda>row.
    bnd (find_alarm row alarm_id) (\<lambda>a.
    bnd (text_of alarm_id ''alarm ID'' 128) (\<lambda>k.
    if al_purpose a \<noteq> PurposeAlarm
    then bad_arg ''alarm-status does not project a service-trigger''
    else let
      occs = sort_desc (\<lambda>oc. (oc_due oc, oc_id oc)) (filter (\<lambda>oc. oc_alarm oc = k) (vals (rw_occs row)));
      effects = sort_desc fst (status_effects row (map oc_id occs));
      base = members_of [''alarm_id'', ''schedule'', ''notification'', ''enabled'', ''revision'',
        ''next_occurrence_id'', ''permission_health''] (alarm_json a)
    in Inr (PDict
      [(''app'', PStr app), (''active_generation'', opt_str (cx_generation (rw_context row))),
       (''rollback_state'', PStr (rollback_str (cx_rollback (rw_context row)))),
       (''alarm'', PDict (dict_of base @
         [(''occurrences'', PList (map (\<lambda>oc. members_of [''occurrence'', ''due_at_utc'', ''state'',
              ''classification'', ''notification_id''] (occurrence_json oc)) (take (nat ol) occs))),
          (''occurrences_truncated'', PBool (ol < int (length occs))),
          (''effects'', PList (map snd (take (nat el) effects))),
          (''effects_truncated'', PBool (el < int (length effects)))]))]))))))"

section \<open>Alarm commands\<close>

definition alarm_action :: "env \<Rightarrow> string \<Rightarrow> pyval \<Rightarrow> int \<Rightarrow> app_row \<Rightarrow> (app_row \<times> pyval) res" where
  "alarm_action ev tag value now row =
    (if tag = ''alarm-configure'' then configure ev row value now PurposeAlarm [] FireOnce PNone
     else if tag = ''alarm-snooze'' then snooze ev row value
     else toggle ev row value now (tag = ''alarm-enable''))"

definition alarm_commands :: "string list" where
  "alarm_commands =
    [''alarm-configure'', ''alarm-enable'', ''alarm-disable'', ''alarm-cancel'', ''alarm-snooze'']"

definition command ::
  "env \<Rightarrow> ledger \<Rightarrow> string \<Rightarrow> pyval \<Rightarrow> pyval \<Rightarrow> pyval \<Rightarrow> string option \<Rightarrow> bool \<Rightarrow> (ledger \<times> pyval) res"
where
  "command ev lg app cmd key now_utc generation host_action = respond lg
    (bnd (object_of cmd [''tag'', ''value'']) (\<lambda>c.
     bnd (parse_utc now_utc) (\<lambda>now.
     if is_pstr ''alarm-status'' (dget c ''tag'') then
       bnd (object_of (dget c ''value'') [''alarm_id'', ''occurrence_limit'', ''effect_limit'']) (\<lambda>v.
       bnd (status lg app (dget v ''alarm_id'') (dget v ''occurrence_limit'') (dget v ''effect_limit''))
         (\<lambda>r. Inr (lg, ok_response r)))
     else if is_pstr ''alarm-snooze'' (dget c ''tag'') \<and> (\<not> host_action \<or> generation \<noteq> None)
     then fail ''permission-denied'' ''snooze requires a host-verified notification action''
     else (case dget c ''tag'' of
         PStr tag \<Rightarrow>
           if tag \<notin> set alarm_commands then bad_arg ''unsupported alarm command''
           else mutating_call ev lg app tag (dget c ''value'') key generation
             (alarm_action ev tag (dget c ''value'') now) (tag = ''alarm-snooze'')
       | _ \<Rightarrow> bad_arg ''unsupported alarm command''))))"

section \<open>The guest's scheduler interface\<close>

definition schedule_record :: "alarm \<Rightarrow> pyval" where
  "schedule_record a = PDict
    [(''id'', PStr (al_schedule_id a)), (''key'', PStr (al_id a)),
     (''purpose'', PStr (purpose_str (al_purpose a))),
     (''spec'', if al_spec a = PNone \<or> al_spec a = PDict []
        then tagged (case al_schedule a of OneShot _ _ _ \<Rightarrow> ''at-local'' | _ \<Rightarrow> ''recurring-local'')
          (schedule_value (al_schedule a))
        else al_spec a),
     (''revision'', PInt (al_revision a)), (''enabled'', PBool (al_enabled a)),
     (''next_occurrence_id'', opt_str (al_next a)),
     (''notification'', projection_json (al_notification a))]"

definition purpose_of :: "pyval \<Rightarrow> purpose option" where
  "purpose_of v = (if is_pstr ''alarm'' v then Some PurposeAlarm
    else if is_pstr ''service-trigger'' v then Some PurposeServiceTrigger else None)"

definition missed_of :: "pyval \<Rightarrow> missed_policy option" where
  "missed_of v = (if is_pstr ''skip'' v then Some SkipMissed
    else if is_pstr ''fire-once'' v then Some FireOnce else None)"

definition payload_of :: "pyval \<Rightarrow> int list res" where
  "payload_of v =
    (case v of
       PList xs \<Rightarrow>
         if max_payload < len xs \<or> \<not> list_all (pint_within 0 255) xs
         then bad_arg ''payload must be a bounded list of bytes''
         else Inr (map (\<lambda>x. case x of PInt i \<Rightarrow> i | _ \<Rightarrow> 0) xs)
     | _ \<Rightarrow> bad_arg ''payload must be a bounded list of bytes'')"

definition instant_schedule :: "int \<Rightarrow> pyval" where
  "instant_schedule t = tagged ''one-shot'' (PDict
    [(''when'', PDict [(''date'', date_json (t div 86400 + 1)), (''time'', time_json (t mod 86400)),
       (''time_zone'', PStr ''UTC'')]),
     (''gap'', PStr ''next-valid''), (''overlap'', PStr ''earlier'')])"

definition spec_schedule :: "pyval dict \<Rightarrow> pyval res" where
  "spec_schedule spec =
    (if is_pstr ''at-instant'' (dget spec ''tag'') then
       bnd (parse_utc (dget spec ''value'')) (\<lambda>t. Inr (instant_schedule t))
     else if is_pstr ''at-local'' (dget spec ''tag'') then Inr (tagged ''one-shot'' (dget spec ''value''))
     else if is_pstr ''recurring-local'' (dget spec ''tag'')
     then Inr (tagged ''recurring'' (dget spec ''value''))
     else bad_arg ''unknown scheduler spec'')"

definition upsert_action ::
  "env \<Rightarrow> string \<Rightarrow> pyval \<Rightarrow> pyval \<Rightarrow> int \<Rightarrow> purpose \<Rightarrow> int list \<Rightarrow> missed_policy \<Rightarrow> pyval
    \<Rightarrow> app_row \<Rightarrow> (app_row \<times> pyval) res"
where
  "upsert_action ev key sched notification now purpose payload missed spec row =
    bnd (configure ev row (PDict
        [(''alarm_id'', PStr key),
         (''expected_revision'', case aget (rw_alarms row) key of
            None \<Rightarrow> PNone | Some prior \<Rightarrow> PInt (al_revision prior)),
         (''schedule'', sched), (''notification'', notification)]) now purpose payload missed spec)
      (\<lambda>(row', _). case aget (rw_alarms row') key of
         None \<Rightarrow> Inl (Crash ''KeyError'')
       | Some a \<Rightarrow> Inr (row', schedule_record a))"

record upsert_args =
  ua_key :: string
  ua_purpose :: purpose
  ua_missed :: missed_policy
  ua_payload :: "int list"
  ua_schedule :: pyval
  ua_now :: int

text \<open>The validation part of \<open>scheduler_upsert\<close>.\<close>

definition upsert_validate :: "pyval dict \<Rightarrow> pyval \<Rightarrow> upsert_args res" where
  "upsert_validate d now_utc =
    bnd (text_of (dget d ''key'') ''schedule key'' 128) (\<lambda>key.
    case (purpose_of (dget d ''purpose''), missed_of (dget d ''missed'')) of
      (Some purpose, Some missed) \<Rightarrow>
        if purpose = PurposeAlarm \<and> missed \<noteq> FireOnce
        then fail ''incompatible-contract'' ''Stage 0 alarms require fire-once catch-up semantics''
        else if purpose = PurposeServiceTrigger \<and> dget d ''notification'' \<noteq> PNone
        then bad_arg ''service-trigger cannot carry a notification''
        else
          bnd (payload_of (dget d ''payload'')) (\<lambda>payload.
          bnd (object_of (dget d ''spec'') [''tag'', ''value'']) (\<lambda>spec.
          bnd (spec_schedule spec) (\<lambda>sched.
          bnd (parse_utc now_utc) (\<lambda>now.
          Inr \<lparr>ua_key = key, ua_purpose = purpose, ua_missed = missed, ua_payload = payload,
            ua_schedule = sched, ua_now = now\<rparr>))))
    | _ \<Rightarrow> bad_arg ''invalid scheduler purpose or missed policy'')"

definition scheduler_upsert ::
  "env \<Rightarrow> ledger \<Rightarrow> string \<Rightarrow> pyval \<Rightarrow> string \<Rightarrow> pyval \<Rightarrow> (ledger \<times> pyval) res"
where
  "scheduler_upsert ev lg app request generation now_utc = respond lg
    (bnd (text_of (PStr generation) ''caller generation'' 256) (\<lambda>_.
     bnd (object_of request [''key'', ''purpose'', ''spec'', ''missed'', ''payload'', ''notification'',
        ''idempotency_key'']) (\<lambda>d.
     bnd (upsert_validate d now_utc) (\<lambda>u.
     mutating_call ev lg app ''scheduler.upsert''
       (PDict (filter (\<lambda>(k, v). k \<noteq> ''idempotency_key'') d)) (dget d ''idempotency_key'')
       (Some generation)
       (upsert_action ev (ua_key u) (ua_schedule u) (dget d ''notification'') (ua_now u)
         (ua_purpose u) (ua_payload u) (ua_missed u) (dget d ''spec'')) False))))"

definition toggle_action ::
  "env \<Rightarrow> string \<Rightarrow> int \<Rightarrow> bool \<Rightarrow> app_row \<Rightarrow> (app_row \<times> pyval) res"
where
  "toggle_action ev schedule_id now enable row =
    (case filter (\<lambda>(k, a). al_schedule_id a = schedule_id) (rw_alarms row) of
       [] \<Rightarrow> fail ''not-found'' ''schedule does not exist''
     | (k, a) # _ \<Rightarrow>
         bnd (toggle ev row (PDict [(''alarm_id'', PStr (al_id a)),
             (''expected_revision'', PInt (al_revision a))]) now enable) (\<lambda>(row', _).
         case aget (rw_alarms row') k of
           None \<Rightarrow> Inl (Crash ''KeyError'')
         | Some a' \<Rightarrow> Inr (row', if enable then schedule_record a' else PNone)))"

definition scheduler_toggle ::
  "env \<Rightarrow> ledger \<Rightarrow> string \<Rightarrow> string \<Rightarrow> pyval \<Rightarrow> string \<Rightarrow> pyval \<Rightarrow> bool \<Rightarrow> (ledger \<times> pyval) res"
where
  "scheduler_toggle ev lg app schedule_id key generation now_utc enable = respond lg
    (bnd (text_of (PStr generation) ''caller generation'' 256) (\<lambda>_.
     bnd (text_of (PStr schedule_id) ''schedule ID'' 256) (\<lambda>_.
     bnd (parse_utc now_utc) (\<lambda>now.
     mutating_call ev lg app (if enable then ''scheduler.enable'' else ''scheduler.disable'')
       (PDict [(''id'', PStr schedule_id)]) key (Some generation)
       (toggle_action ev schedule_id now enable) False))))"

definition scheduler_list_schedules :: "ledger \<Rightarrow> string \<Rightarrow> string \<Rightarrow> pyval res" where
  "scheduler_list_schedules lg app generation =
    bnd (text_of (PStr generation) ''caller generation'' 256) (\<lambda>_.
    bnd (find_app lg app) (\<lambda>row.
    seq (authority row (Some generation) False False)
      (Inr (ok_response (PList (map (\<lambda>(k, a). schedule_record a) (sort_key fst (rw_alarms row))))))))"

definition guest_key :: "string \<Rightarrow> string" where
  "guest_key occurrence = ''guest:'' @ occurrence"

definition ack_outcomes :: "string list" where
  "ack_outcomes = [''observed'', ''applied'', ''failed'']"

definition acknowledge_action ::
  "string \<Rightarrow> string \<Rightarrow> string \<Rightarrow> string \<Rightarrow> app_row \<Rightarrow> (app_row \<times> pyval) res"
where
  "acknowledge_action oid outcome generation token row =
    (case aget (rw_guests row) (guest_key oid) of
       None \<Rightarrow> fail ''conflict'' ''acknowledgment requires the current guest delivery claim''
     | Some g \<Rightarrow>
         (case ge_claim g of
            Some c \<Rightarrow>
              if gc_token c \<noteq> token \<or> gc_generation c \<noteq> generation
              then fail ''conflict'' ''acknowledgment requires the current guest delivery claim''
              else Inr (row\<lparr>rw_guests := aput (guest_key oid) (g\<lparr>ge_ack := Some outcome\<rparr>)
                     (rw_guests row)\<rparr>, PNone)
          | None \<Rightarrow> fail ''conflict'' ''acknowledgment requires the current guest delivery claim''))"

definition scheduler_acknowledge ::
  "env \<Rightarrow> ledger \<Rightarrow> string \<Rightarrow> string \<Rightarrow> string \<Rightarrow> pyval \<Rightarrow> string \<Rightarrow> string \<Rightarrow> (ledger \<times> pyval) res"
where
  "scheduler_acknowledge ev lg app oid outcome key generation token = respond lg
    (bnd (text_of (PStr generation) ''caller generation'' 256) (\<lambda>_.
     if outcome \<notin> set ack_outcomes then bad_arg ''invalid occurrence outcome''
     else mutating_call ev lg app ''scheduler.acknowledge-occurrence''
       (PDict [(''occurrence'', PStr oid), (''outcome'', PStr outcome)]) key (Some generation)
       (acknowledge_action oid outcome generation token) False))"

section \<open>Host lifecycle hook\<close>

definition fresh_row :: "app_context \<Rightarrow> app_row" where
  "fresh_row c = \<lparr>rw_context = c, rw_alarms = [], rw_occs = [], rw_outbox = [], rw_guests = [],
    rw_commands = [], rw_actions = []\<rparr>"

definition context_alarm :: "app_context \<Rightarrow> app_row \<Rightarrow> string \<Rightarrow> app_row res" where
  "context_alarm c row k =
    (case aget (rw_alarms row) k of
       None \<Rightarrow> Inl (Crash ''KeyError'')
     | Some a \<Rightarrow>
         let a' = a\<lparr>al_permission := cx_permission c\<rparr>; row' = put_alarm k a' row in
         if \<not> cx_enabled c \<and> al_enabled a'
         then bnd (disable_alarm row' k a') (\<lambda>(row'', _). Inr row'') else Inr row')"

definition host_context :: "ledger \<Rightarrow> string \<Rightarrow> app_context \<Rightarrow> (ledger \<times> unit) res" where
  "host_context lg app c =
    bnd (text_of (PStr app) ''app ID'' 256) (\<lambda>_.
    seq (case cx_generation c of
        None \<Rightarrow> Inr ()
      | Some g \<Rightarrow> bnd (text_of (PStr g) ''generation'' 256) (\<lambda>_. Inr ()))
    (edit lg (\<lambda>l.
      let row = (case aget l app of None \<Rightarrow> fresh_row c | Some r \<Rightarrow> r\<lparr>rw_context := c\<rparr>) in
      bnd (rfold (context_alarm c) row (keys (rw_alarms row))) (\<lambda>row'.
      Inr (aput app row' l, ())))))"

section \<open>Advancing due occurrences\<close>

definition due_candidates :: "ledger \<Rightarrow> string \<Rightarrow> (string \<times> string \<times> string) list" where
  "due_candidates lg now_text =
    concat (map (\<lambda>(app, row). map (\<lambda>(oid, oc). (oc_due oc, app, oid))
      (filter (\<lambda>(oid, oc). oc_state oc = OccScheduled \<and> oc_due oc \<le> now_text) (rw_occs row))) lg)"

definition notify_id :: "string \<Rightarrow> string" where
  "notify_id oid = ''notify:'' @ oid"

definition text_list :: "string list \<Rightarrow> pyval" where
  "text_list xs = PList (map PStr xs)"

definition adapter_name :: "env \<Rightarrow> string \<Rightarrow> string \<Rightarrow> string res" where
  "adapter_name ev app nid =
    bnd (encode_bounded (text_list [app, nid])) (\<lambda>t. Inr (''vibapp:'' @ sha256_hex ev t))"

definition classify :: "alarm \<Rightarrow> app_context \<Rightarrow> int \<Rightarrow> bool \<Rightarrow> classification" where
  "classify a context lateness recovery =
    (let missed = grace_seconds < lateness
           \<or> (al_purpose a = PurposeServiceTrigger \<and> al_missed a = SkipMissed \<and> recovery)
     in if \<not> missed \<and> al_purpose a = PurposeAlarm \<and> cx_permission context \<noteq> Authorized
        then ClPermissionDenied
        else if missed then ClMissed
        else if recovery then ClCatchUp else ClOnTime)"

definition fired_state :: "classification \<Rightarrow> purpose \<Rightarrow> occ_state" where
  "fired_state cl purpose =
    (case cl of
       ClMissed \<Rightarrow> OccMissed
     | ClPermissionDenied \<Rightarrow> OccPermissionDenied
     | _ \<Rightarrow> if purpose = PurposeAlarm then OccDeliveryPending else OccGuestPending)"

definition new_effect :: "string \<Rightarrow> string \<Rightarrow> string \<Rightarrow> alarm \<Rightarrow> string \<Rightarrow> bool \<Rightarrow> effect" where
  "new_effect nid adapter oid a now_text recovery =
    \<lparr>ef_id = nid, ef_adapter = adapter, ef_occ = oid, ef_projection = al_notification a,
     ef_state = EffPending, ef_first = now_text, ef_tolerance = (if recovery then 5 else 2),
     ef_count = 0, ef_attempts = [], ef_claim = None, ef_failure = None\<rparr>"

definition new_guest :: "string \<Rightarrow> string \<Rightarrow> alarm \<Rightarrow> string \<Rightarrow> classification \<Rightarrow> guest_event" where
  "new_guest gid oid a due cl =
    \<lparr>ge_id = gid, ge_occ = oid, ge_schedule = al_schedule_id a, ge_key = al_id a, ge_for = due,
     ge_class = cl, ge_payload = al_payload a, ge_state = GuestPending, ge_attempts = 0,
     ge_claim = None, ge_generation = None, ge_dispatched = None, ge_ack = None,
     ge_outcome = None\<rparr>"

definition cancel_stale :: "app_row \<Rightarrow> string \<Rightarrow> occurrence \<Rightarrow> alarm \<Rightarrow> app_row" where
  "cancel_stale row oid oc a =
    (let row' = row\<lparr>rw_occs := aput oid (oc\<lparr>oc_state := OccCancelled\<rparr>) (rw_occs row)\<rparr> in
     if al_next a = Some oid then put_alarm (oc_alarm oc) (a\<lparr>al_next := None\<rparr>) row' else row')"

text \<open>The occurrence, its notification and its guest event are recorded.\<close>

definition fired_occ :: "string \<Rightarrow> occurrence \<Rightarrow> classification \<Rightarrow> purpose \<Rightarrow> occurrence" where
  "fired_occ oid oc cl purpose = oc\<lparr>oc_class := Some cl, oc_state := fired_state cl purpose,
     oc_notification := (if fired_state cl purpose = OccDeliveryPending then Some (notify_id oid)
       else oc_notification oc)\<rparr>"

definition fired_outbox ::
  "env \<Rightarrow> string \<Rightarrow> string \<Rightarrow> bool \<Rightarrow> app_row \<Rightarrow> string \<Rightarrow> alarm \<Rightarrow> classification \<Rightarrow> effect dict res"
where
  "fired_outbox ev app now_text recovery row oid a cl =
    (if fired_state cl (al_purpose a) = OccDeliveryPending
     then bnd (adapter_name ev app (notify_id oid)) (\<lambda>adapter.
       Inr (aput (notify_id oid) (new_effect (notify_id oid) adapter oid a now_text recovery)
         (rw_outbox row)))
     else Inr (rw_outbox row))"

definition record_fired ::
  "env \<Rightarrow> string \<Rightarrow> string \<Rightarrow> bool \<Rightarrow> app_row \<Rightarrow> string \<Rightarrow> occurrence \<Rightarrow> alarm \<Rightarrow> classification \<Rightarrow> app_row res"
where
  "record_fired ev app now_text recovery row oid oc a cl =
    bnd (fired_outbox ev app now_text recovery row oid a cl) (\<lambda>outbox.
    Inr (row\<lparr>rw_occs := aput oid (fired_occ oid oc cl (al_purpose a)) (rw_occs row),
      rw_outbox := outbox,
      rw_guests := aput (guest_key oid) (new_guest (guest_key oid) oid a (oc_due oc) cl)
        (rw_guests row)\<rparr>))"

text \<open>An alarm whose own occurrence has fired; a recurring one gets its next occurrence.\<close>

definition rearm :: "env \<Rightarrow> app_row \<Rightarrow> occurrence \<Rightarrow> alarm \<Rightarrow> int \<Rightarrow> app_row res" where
  "rearm ev row oc a due =
    (let a1 = a\<lparr>al_next := None\<rparr>; row' = put_alarm (oc_alarm oc) a1 row in
     case al_schedule a of
       OneShot _ _ _ \<Rightarrow> Inr row'
     | Recurring _ _ _ _ _ \<Rightarrow>
         bnd (next_civil ev (al_schedule a) due (Some (oc_civil oc))) (\<lambda>candidate.
         case candidate of
           None \<Rightarrow> Inl (Crash ''TypeError'')
         | Some c \<Rightarrow> bnd (materialize ev row' (oc_alarm oc) a1 c None None) (\<lambda>(row'', _). Inr row'')))"

definition fire ::
  "env \<Rightarrow> string \<Rightarrow> string \<Rightarrow> int \<Rightarrow> bool \<Rightarrow> app_row \<Rightarrow> string \<Rightarrow> occurrence \<Rightarrow> alarm \<Rightarrow> app_row res"
where
  "fire ev app now_text now recovery row oid oc a =
    bnd (parse_utc (PStr (oc_due oc))) (\<lambda>due.
    bnd (record_fired ev app now_text recovery row oid oc a
        (classify a (rw_context row) (now - due) recovery)) (\<lambda>row'.
    if oc_parent oc \<noteq> None then Inr row' else rearm ev row' oc a due))"

definition advance_one ::
  "env \<Rightarrow> string \<Rightarrow> int \<Rightarrow> bool \<Rightarrow> ledger \<Rightarrow> string \<Rightarrow> string \<Rightarrow> ledger res"
where
  "advance_one ev now_text now recovery lg app oid =
    (case aget lg app of
       None \<Rightarrow> Inl (Crash ''KeyError'')
     | Some row \<Rightarrow>
         (case aget (rw_occs row) oid of
            None \<Rightarrow> Inl (Crash ''KeyError'')
          | Some oc \<Rightarrow>
              (case aget (rw_alarms row) (oc_alarm oc) of
                 None \<Rightarrow> Inl (Crash ''KeyError'')
               | Some a \<Rightarrow>
                   if \<not> cx_enabled (rw_context row) \<or> \<not> cx_granted (rw_context row)
                      \<or> \<not> al_enabled a \<or> al_revision a \<noteq> oc_revision oc
                   then Inr (aput app (cancel_stale row oid oc a) lg)
                   else bnd (fire ev app now_text now recovery row oid oc a)
                     (\<lambda>row'. Inr (aput app row' lg)))))"

fun advance_loop ::
  "env \<Rightarrow> string \<Rightarrow> int \<Rightarrow> bool \<Rightarrow> nat \<Rightarrow> ledger \<Rightarrow> (ledger \<times> string list) res"
where
  "advance_loop ev now_text now recovery 0 lg = Inr (lg, [])"
| "advance_loop ev now_text now recovery (Suc n) lg =
    (case due_candidates lg now_text of
       [] \<Rightarrow> Inr (lg, [])
     | c # cs \<Rightarrow>
         (case min_list (c # cs) of (_, app, oid) \<Rightarrow>
           bnd (advance_one ev now_text now recovery lg app oid) (\<lambda>lg'.
           bnd (advance_loop ev now_text now recovery n lg') (\<lambda>(lg'', done).
           Inr (lg'', oid # done)))))"

definition advance_due ::
  "env \<Rightarrow> ledger \<Rightarrow> string \<Rightarrow> bool \<Rightarrow> int \<Rightarrow> (ledger \<times> (string list \<times> bool)) res"
where
  "advance_due ev lg now_text recovery limit =
    bnd (parse_utc (PStr now_text)) (\<lambda>now.
    bnd (integer_of (PInt limit) 1 max_batch) (\<lambda>n.
    edit lg (\<lambda>l.
      bnd (advance_loop ev now_text now recovery (nat n) l) (\<lambda>(l', done).
      Inr (l', (done, due_candidates l' now_text \<noteq> []))))))"

end
