(* ===== verification/SchedEffects.thy ===== *)
theory SchedEffects
  imports SchedCalls
begin

text \<open>
  The claim / finish protocol of the scheduler's effects: a daemon incarnation claims one pending
  notification or guest delivery, performs it outside the ledger and reports the result under the
  claim's token. \<open>recover_owner\<close> drops the claims of an incarnation that is known to be gone.
\<close>

section \<open>Notifications\<close>

definition plus_seconds :: "int \<Rightarrow> int \<Rightarrow> int res" where
  "plus_seconds t d = (if representable (t + d) then Inr (t + d) else Inl (Crash ''OverflowError''))"

definition failed_notification :: "app_row \<Rightarrow> string \<Rightarrow> effect \<Rightarrow> string \<Rightarrow> app_row res" where
  "failed_notification row k e reason =
    (if has (ef_occ e) (rw_occs row)
     then Inr (row\<lparr>rw_outbox := aput k (e\<lparr>ef_state := EffFailed, ef_claim := None,
              ef_failure := Some reason\<rparr>) (rw_outbox row),
            rw_occs := amod (ef_occ e) (\<lambda>oc. oc\<lparr>oc_state := OccNotificationFailed\<rparr>) (rw_occs row)\<rparr>)
     else Inl (Crash ''KeyError''))"

record notify_delivery =
  nd_notification :: string
  nd_adapter :: string
  nd_projection :: "projection option"
  nd_token :: string

definition notify_token :: "env \<Rightarrow> string \<Rightarrow> string \<Rightarrow> string \<Rightarrow> int \<Rightarrow> string res" where
  "notify_token ev app nid owner n =
    bnd (encode_bounded (PList [PStr app, PStr nid, PStr owner, PInt n]))
      (\<lambda>t. Inr (sha256_hex ev t))"

definition claim_effect ::
  "env \<Rightarrow> string \<Rightarrow> string \<Rightarrow> string \<Rightarrow> string \<Rightarrow> effect \<Rightarrow> app_row
    \<Rightarrow> (app_row \<times> notify_delivery option) res"
where
  "claim_effect ev app owner now_text k e row =
    bnd (notify_token ev app (ef_id e) owner (ef_count e + 1)) (\<lambda>token.
    let e' = e\<lparr>ef_claim := Some \<lparr>nc_owner = owner, nc_token = token, nc_at = now_text\<rparr>,
          ef_count := ef_count e + 1,
          ef_attempts := ef_attempts e @ [\<lparr>at_started = now_text, at_result = ''unknown'',
            at_completed = None\<rparr>]\<rparr>
    in Inr (row\<lparr>rw_outbox := aput k e' (rw_outbox row)\<rparr>,
         Some \<lparr>nd_notification = ef_id e, nd_adapter = ef_adapter e,
           nd_projection = ef_projection e, nd_token = token\<rparr>))"

text \<open>What one iteration of the loop decides about an effect.\<close>

datatype verdict = Skip | GiveUp string | Attempt

definition deadline_of :: "int \<Rightarrow> int \<Rightarrow> effect \<Rightarrow> int res" where
  "deadline_of due first e =
    bnd (plus_seconds due grace_seconds) (\<lambda>d.
    if ef_count e = 0
    then bnd (plus_seconds first (ef_tolerance e)) (\<lambda>t. Inr (max d t)) else Inr d)"

definition judge :: "int \<Rightarrow> app_row \<Rightarrow> effect \<Rightarrow> verdict res" where
  "judge now row e =
    (if ef_state e \<noteq> EffPending \<or> ef_claim e \<noteq> None then Inr Skip
     else case aget (rw_occs row) (ef_occ e) of
       None \<Rightarrow> Inl (Crash ''KeyError'')
     | Some oc \<Rightarrow>
         bnd (parse_utc (PStr (oc_due oc))) (\<lambda>due.
         if now < due then Inr Skip
         else if cx_permission (rw_context row) \<noteq> Authorized then Inr (GiveUp ''permission-denied'')
         else
           bnd (parse_utc (PStr (ef_first e))) (\<lambda>first.
           bnd (deadline_of due first e) (\<lambda>deadline.
           if 3 \<le> ef_count e \<or> deadline < now then Inr (GiveUp ''retry-deadline-exhausted'')
           else bnd (plus_seconds first (retry_offsets ! nat (ef_count e))) (\<lambda>eligible.
             Inr (if now < eligible then Skip else Attempt))))))"

fun claim_scan ::
  "env \<Rightarrow> string \<Rightarrow> string \<Rightarrow> string \<Rightarrow> int \<Rightarrow> (string \<times> effect) list \<Rightarrow> app_row
    \<Rightarrow> (app_row \<times> notify_delivery option) res"
where
  "claim_scan ev app owner now_text now [] row = Inr (row, None)"
| "claim_scan ev app owner now_text now ((k, e) # rest) row =
    bnd (judge now row e) (\<lambda>v.
    case v of
      Skip \<Rightarrow> claim_scan ev app owner now_text now rest row
    | GiveUp reason \<Rightarrow>
        bnd (failed_notification row k e reason) (\<lambda>row'.
        claim_scan ev app owner now_text now rest row')
    | Attempt \<Rightarrow> claim_effect ev app owner now_text k e row)"

definition effects_in_order :: "app_row \<Rightarrow> (string \<times> effect) list" where
  "effects_in_order row = sort_key (\<lambda>(k, e). (ef_first e, ef_id e)) (rw_outbox row)"

definition claim_notification ::
  "env \<Rightarrow> ledger \<Rightarrow> string \<Rightarrow> string \<Rightarrow> string \<Rightarrow> (ledger \<times> notify_delivery option) res"
where
  "claim_notification ev lg app owner now_text =
    bnd (text_of (PStr owner) ''daemon incarnation'' 256) (\<lambda>_.
    bnd (parse_utc (PStr now_text)) (\<lambda>now.
    edit lg (\<lambda>l.
      bnd (find_app l app) (\<lambda>row.
      bnd (claim_scan ev app owner now_text now (effects_in_order row) row) (\<lambda>(row', d).
      Inr (aput app row' l, d))))))"

definition adapter_results :: "string list" where
  "adapter_results = [''accepted'', ''transient-failure'', ''unknown'', ''unavailable'']"

definition complete_last :: "string \<Rightarrow> string \<Rightarrow> attempt list \<Rightarrow> attempt list res" where
  "complete_last result now_text as =
    (if as = [] then Inl (Crash ''IndexError'')
     else Inr (butlast as @ [(last as)\<lparr>at_result := result, at_completed := Some now_text\<rparr>]))"

definition finish_effect ::
  "string \<Rightarrow> string \<Rightarrow> int \<Rightarrow> string \<Rightarrow> effect \<Rightarrow> app_row \<Rightarrow> app_row res"
where
  "finish_effect result now_text now k e row =
    bnd (complete_last result now_text (ef_attempts e)) (\<lambda>as.
    let e' = e\<lparr>ef_attempts := as, ef_claim := None\<rparr>;
        row' = row\<lparr>rw_outbox := aput k e' (rw_outbox row)\<rparr> in
    if result = ''accepted''
    then (if has (ef_occ e) (rw_occs row)
      then Inr (row'\<lparr>rw_outbox := aput k (e'\<lparr>ef_state := EffAccepted\<rparr>) (rw_outbox row'),
             rw_occs := amod (ef_occ e) (\<lambda>oc. oc\<lparr>oc_state := OccNotificationAccepted\<rparr>) (rw_occs row)\<rparr>)
      else Inl (Crash ''KeyError''))
    else bnd (if 3 \<le> ef_count e then Inr True
        else case aget (rw_occs row) (ef_occ e) of
          None \<Rightarrow> Inl (Crash ''KeyError'')
        | Some oc \<Rightarrow> bnd (parse_utc (PStr (oc_due oc))) (\<lambda>due.
            bnd (plus_seconds due grace_seconds) (\<lambda>cutoff. Inr (cutoff < now)))) (\<lambda>exhausted.
      if exhausted
      then failed_notification row' k e'
        (if result = ''unavailable'' then ''capability-unavailable'' else ''retry-exhausted'')
      else Inr row'))"

definition finish_notification ::
  "ledger \<Rightarrow> string \<Rightarrow> string \<Rightarrow> string \<Rightarrow> string \<Rightarrow> string \<Rightarrow> (ledger \<times> unit) res"
where
  "finish_notification lg app nid token result now_text =
    bnd (parse_utc (PStr now_text)) (\<lambda>now.
    if result \<notin> set adapter_results then bad_arg ''unsupported notification adapter result''
    else edit lg (\<lambda>l.
      bnd (find_app l app) (\<lambda>row.
      case aget (rw_outbox row) nid of
        None \<Rightarrow> fail ''conflict'' ''stale notification claim''
      | Some e \<Rightarrow>
          (case ef_claim e of
             None \<Rightarrow> fail ''conflict'' ''stale notification claim''
           | Some c \<Rightarrow>
               if nc_token c \<noteq> token then fail ''conflict'' ''stale notification claim''
               else bnd (finish_effect result now_text now nid e row) (\<lambda>row'.
                 Inr (aput app row' l, ()))))))"

section \<open>Guest deliveries\<close>

record guest_delivery =
  gd_event :: string
  gd_generation :: string
  gd_token :: string
  gd_schedule :: string
  gd_key :: string
  gd_for :: string
  gd_dispatched :: string
  gd_class :: classification
  gd_payload :: "int list"
  gd_occurrence :: string
  gd_attempt :: int

definition claim_event ::
  "env \<Rightarrow> string \<Rightarrow> string \<Rightarrow> string \<Rightarrow> string \<Rightarrow> string \<Rightarrow> guest_event \<Rightarrow> app_row
    \<Rightarrow> (app_row \<times> guest_delivery option) res"
where
  "claim_event ev app owner now_text generation k g row =
    bnd (notify_token ev app (ge_id g) owner (ge_attempts g + 1)) (\<lambda>token.
    let g' = g\<lparr>ge_attempts := ge_attempts g + 1,
          ge_claim := Some \<lparr>gc_owner = owner, gc_token = token, gc_generation = generation\<rparr>,
          ge_generation := Some generation, ge_dispatched := Some now_text, ge_ack := None\<rparr>
    in Inr (row\<lparr>rw_guests := aput k g' (rw_guests row)\<rparr>,
         Some \<lparr>gd_event = ge_id g, gd_generation = generation, gd_token = token,
           gd_schedule = ge_schedule g, gd_key = ge_key g, gd_for = ge_for g,
           gd_dispatched = now_text, gd_class = ge_class g, gd_payload = ge_payload g,
           gd_occurrence = ge_occ g, gd_attempt = ge_attempts g + 1\<rparr>))"

fun guest_scan ::
  "env \<Rightarrow> string \<Rightarrow> string \<Rightarrow> string \<Rightarrow> string \<Rightarrow> (string \<times> guest_event) list \<Rightarrow> app_row
    \<Rightarrow> (app_row \<times> guest_delivery option) res"
where
  "guest_scan ev app owner now_text generation [] row = Inr (row, None)"
| "guest_scan ev app owner now_text generation ((k, g) # rest) row =
    (if ge_state g \<noteq> GuestPending \<or> ge_claim g \<noteq> None \<or> now_text < ge_for g
     then guest_scan ev app owner now_text generation rest row
     else if 3 \<le> ge_attempts g
     then guest_scan ev app owner now_text generation rest
       (row\<lparr>rw_guests := aput k (g\<lparr>ge_state := GuestDeadLettered\<rparr>) (rw_guests row)\<rparr>)
     else claim_event ev app owner now_text generation k g row)"

definition guests_in_order :: "app_row \<Rightarrow> (string \<times> guest_event) list" where
  "guests_in_order row = sort_key (\<lambda>(k, g). (ge_for g, ge_id g)) (rw_guests row)"

definition serving_generation :: "app_context \<Rightarrow> string option" where
  "serving_generation c =
    (if cx_enabled c \<and> cx_granted c \<and> cx_generation c \<noteq> Some [] \<and> cx_rollback c = NoRollback
     then cx_generation c else None)"

definition claim_guest ::
  "env \<Rightarrow> ledger \<Rightarrow> string \<Rightarrow> string \<Rightarrow> string \<Rightarrow> (ledger \<times> guest_delivery option) res"
where
  "claim_guest ev lg app owner now_text =
    bnd (text_of (PStr owner) ''daemon incarnation'' 256) (\<lambda>_.
    bnd (parse_utc (PStr now_text)) (\<lambda>_.
    edit lg (\<lambda>l.
      bnd (find_app l app) (\<lambda>row.
      case serving_generation (rw_context row) of
        None \<Rightarrow> Inr (l, None)
      | Some generation \<Rightarrow>
          bnd (guest_scan ev app owner now_text generation (guests_in_order row) row)
            (\<lambda>(row', d). Inr (aput app row' l, d))))))"

definition guest_results :: "string list" where
  "guest_results = [''success'', ''trap'', ''timeout'']"

definition finish_event ::
  "string \<Rightarrow> string \<Rightarrow> guest_event \<Rightarrow> guest_claim \<Rightarrow> app_row \<Rightarrow> app_row res"
where
  "finish_event result k g c row =
    (let store = (\<lambda>g' r. r\<lparr>rw_guests := aput k (g'\<lparr>ge_claim := None, ge_ack := None\<rparr>) (rw_guests row)\<rparr>)
     in if result = ''success'' then
       seq (authority row (Some (gc_generation c)) True False)
         (if ge_ack g \<notin> set (map Some ack_outcomes)
          then fail ''conflict'' ''successful guest commit requires an occurrence acknowledgment''
          else case aget (rw_occs row) (ge_occ g) of
            None \<Rightarrow> Inl (Crash ''KeyError'')
          | Some oc \<Rightarrow>
              let g' = g\<lparr>ge_state := GuestAcked, ge_outcome := ge_ack g\<rparr>;
                  row' = (if oc_state oc = OccGuestPending
                    then row\<lparr>rw_occs := aput (ge_occ g) (oc\<lparr>oc_state := OccGuestAcked\<rparr>) (rw_occs row)\<rparr>
                    else row)
              in Inr (store g' row'))
     else Inr (store (g\<lparr>ge_state := (if 3 \<le> ge_attempts g then GuestDeadLettered
         else GuestPending)\<rparr>) row))"

definition finish_guest ::
  "ledger \<Rightarrow> string \<Rightarrow> string \<Rightarrow> string \<Rightarrow> string \<Rightarrow> (ledger \<times> unit) res"
where
  "finish_guest lg app gid token result =
    (if result \<notin> set guest_results then bad_arg ''unsupported guest result''
     else edit lg (\<lambda>l.
       bnd (find_app l app) (\<lambda>row.
       case aget (rw_guests row) gid of
         None \<Rightarrow> fail ''conflict'' ''stale guest claim''
       | Some g \<Rightarrow>
           (case ge_claim g of
              None \<Rightarrow> fail ''conflict'' ''stale guest claim''
            | Some c \<Rightarrow>
                if gc_token c \<noteq> token then fail ''conflict'' ''stale guest claim''
                else bnd (finish_event result gid g c row) (\<lambda>row'. Inr (aput app row' l, ()))))))"

section \<open>Recovery of a lost daemon incarnation\<close>

definition recover_effect :: "string \<Rightarrow> app_row \<Rightarrow> string \<Rightarrow> app_row res" where
  "recover_effect owner row k =
    (case aget (rw_outbox row) k of
       None \<Rightarrow> Inl (Crash ''KeyError'')
     | Some e \<Rightarrow>
         (case ef_claim e of
            None \<Rightarrow> Inr row
          | Some c \<Rightarrow>
              if nc_owner c \<noteq> owner then Inr row
              else let e' = e\<lparr>ef_claim := None\<rparr>;
                  row' = row\<lparr>rw_outbox := aput k e' (rw_outbox row)\<rparr> in
                if 3 \<le> ef_count e then failed_notification row' k e' ''last-attempt-owner-lost''
                else Inr row'))"

definition recover_event :: "string \<Rightarrow> guest_event \<Rightarrow> guest_event" where
  "recover_event owner g =
    (case ge_claim g of
       None \<Rightarrow> g
     | Some c \<Rightarrow>
         if gc_owner c \<noteq> owner then g
         else g\<lparr>ge_claim := None, ge_ack := None,
           ge_state := (if 3 \<le> ge_attempts g then GuestDeadLettered else ge_state g)\<rparr>)"

definition recover_row :: "string \<Rightarrow> app_row \<Rightarrow> app_row res" where
  "recover_row owner row =
    bnd (rfold (recover_effect owner) row (keys (rw_outbox row))) (\<lambda>row'.
    Inr (row'\<lparr>rw_guests := amap (recover_event owner) (rw_guests row')\<rparr>))"

definition recover_owner :: "ledger \<Rightarrow> string \<Rightarrow> (ledger \<times> unit) res" where
  "recover_owner lg owner =
    bnd (text_of (PStr owner) ''daemon incarnation'' 256) (\<lambda>_.
    edit lg (\<lambda>l.
      bnd (rfold (\<lambda>l app. case aget l app of
             None \<Rightarrow> Inl (Crash ''KeyError'')
           | Some row \<Rightarrow> bnd (recover_row owner row) (\<lambda>row'. Inr (aput app row' l))) l (keys l))
        (\<lambda>l'. Inr (l', ()))))"

end
