(* ===== verification/SchedInvariant.thy ===== *)
theory SchedInvariant
  imports SchedEffects
begin

text \<open>
  What the scheduler's ledger keeps. \<open>row_ok\<close> ties the six tables of an app together: every
  scheduled occurrence belongs to an enabled alarm at its current revision, an alarm has at most
  one scheduled occurrence of its own (the one its \<open>next_occurrence_id\<close> names), an effect or a
  guest event exists only for an occurrence that has fired, its state agrees with the
  occurrence's, and it has made at most three attempts. \<open>row_grows\<close> is the audit order: nothing
  is removed, receipts are immutable, revisions and attempts only grow, final states are final.
\<close>

section \<open>Well-formed rows\<close>

definition next_ok :: "app_row \<Rightarrow> string \<Rightarrow> string \<Rightarrow> bool" where
  "next_ok row k oid = (case aget (rw_occs row) oid of None \<Rightarrow> False | Some oc \<Rightarrow>
     oc_state oc = OccScheduled \<and> oc_alarm oc = k \<and> oc_parent oc = None)"

definition alarm_ok :: "app_row \<Rightarrow> string \<Rightarrow> alarm \<Rightarrow> bool" where
  "alarm_ok row k a \<longleftrightarrow> al_id a = k \<and> 1 \<le> al_revision a \<and> al_revision a \<le> u64_max
     \<and> (case al_next a of None \<Rightarrow> True | Some oid \<Rightarrow> next_ok row k oid)"

definition occ_ok :: "app_row \<Rightarrow> string \<Rightarrow> occurrence \<Rightarrow> bool" where
  "occ_ok row k oc \<longleftrightarrow> oc_id oc = k
     \<and> (case aget (rw_alarms row) (oc_alarm oc) of None \<Rightarrow> False | Some a \<Rightarrow>
          oc_revision oc \<le> al_revision a
          \<and> (oc_state oc = OccScheduled \<longrightarrow> al_enabled a \<and> oc_revision oc = al_revision a
               \<and> (oc_parent oc = None \<longrightarrow> al_next a = Some k)))"

fun effect_occ_state :: "effect_state \<Rightarrow> occ_state" where
  "effect_occ_state EffPending = OccDeliveryPending"
| "effect_occ_state EffFailed = OccNotificationFailed"
| "effect_occ_state EffAccepted = OccNotificationAccepted"

definition max_attempts :: int where "max_attempts = 3"

definition effect_ok :: "app_row \<Rightarrow> string \<Rightarrow> effect \<Rightarrow> bool" where
  "effect_ok row k e \<longleftrightarrow> ef_id e = k \<and> k = notify_id (ef_occ e)
     \<and> 0 \<le> ef_count e \<and> ef_count e \<le> max_attempts \<and> int (length (ef_attempts e)) = ef_count e
     \<and> (ef_claim e \<noteq> None \<longrightarrow> ef_state e = EffPending \<and> 1 \<le> ef_count e)
     \<and> (case aget (rw_occs row) (ef_occ e) of None \<Rightarrow> False
        | Some oc \<Rightarrow> oc_state oc = effect_occ_state (ef_state e))"

definition guest_ok :: "app_row \<Rightarrow> string \<Rightarrow> guest_event \<Rightarrow> bool" where
  "guest_ok row k g \<longleftrightarrow> ge_id g = k \<and> k = guest_key (ge_occ g)
     \<and> 0 \<le> ge_attempts g \<and> ge_attempts g \<le> max_attempts
     \<and> (ge_claim g \<noteq> None \<longrightarrow> ge_state g = GuestPending \<and> 1 \<le> ge_attempts g)
     \<and> (case aget (rw_occs row) (ge_occ g) of None \<Rightarrow> False
        | Some oc \<Rightarrow> oc_state oc \<noteq> OccScheduled)"

definition row_ok :: "app_row \<Rightarrow> bool" where
  "row_ok row \<longleftrightarrow> dict_all (alarm_ok row) (rw_alarms row) \<and> dict_all (occ_ok row) (rw_occs row)
     \<and> dict_all (effect_ok row) (rw_outbox row) \<and> dict_all (guest_ok row) (rw_guests row)
     \<and> dict_ok (rw_commands row) \<and> dict_ok (rw_actions row)"

definition ledger_ok :: "ledger \<Rightarrow> bool" where
  "ledger_ok lg \<longleftrightarrow> dict_all (\<lambda>app row. row_ok row) lg"

section \<open>The audit order\<close>

fun occ_may :: "occ_state \<Rightarrow> occ_state \<Rightarrow> bool" where
  "occ_may OccScheduled s = True"
| "occ_may OccDeliveryPending s =
     (s \<in> {OccDeliveryPending, OccNotificationAccepted, OccNotificationFailed})"
| "occ_may OccGuestPending s = (s \<in> {OccGuestPending, OccGuestAcked})"
| "occ_may s s' = (s' = s)"

definition alarm_grows :: "alarm \<Rightarrow> alarm \<Rightarrow> bool" where
  "alarm_grows a a' \<longleftrightarrow> al_revision a \<le> al_revision a' \<and> al_purpose a' = al_purpose a"

definition occ_grows :: "occurrence \<Rightarrow> occurrence \<Rightarrow> bool" where
  "occ_grows oc oc' \<longleftrightarrow> oc_alarm oc' = oc_alarm oc \<and> oc_revision oc' = oc_revision oc
     \<and> oc_due oc' = oc_due oc \<and> oc_civil oc' = oc_civil oc \<and> oc_tzdata oc' = oc_tzdata oc
     \<and> oc_parent oc' = oc_parent oc \<and> occ_may (oc_state oc) (oc_state oc')"

definition effect_grows :: "effect \<Rightarrow> effect \<Rightarrow> bool" where
  "effect_grows e e' \<longleftrightarrow> ef_adapter e' = ef_adapter e \<and> ef_occ e' = ef_occ e
     \<and> ef_projection e' = ef_projection e \<and> ef_first e' = ef_first e
     \<and> ef_count e \<le> ef_count e' \<and> (ef_state e = EffPending \<or> ef_state e' = ef_state e)
     \<and> take (length (ef_attempts e)) (map at_started (ef_attempts e')) = map at_started (ef_attempts e)"

definition guest_grows :: "guest_event \<Rightarrow> guest_event \<Rightarrow> bool" where
  "guest_grows g g' \<longleftrightarrow> ge_occ g' = ge_occ g \<and> ge_payload g' = ge_payload g \<and> ge_for g' = ge_for g
     \<and> ge_class g' = ge_class g \<and> ge_attempts g \<le> ge_attempts g'
     \<and> (ge_state g = GuestPending \<or> ge_state g' = ge_state g)"

definition action_grows :: "snooze_action \<Rightarrow> snooze_action \<Rightarrow> bool" where
  "action_grows s s' \<longleftrightarrow> sa_parent s' = sa_parent s \<and> sa_occ s' = sa_occ s
     \<and> sa_duration s' = sa_duration s \<and> sa_result s' = sa_result s \<and> (sa_dedup s \<longrightarrow> sa_dedup s')"

definition row_grows :: "app_row \<Rightarrow> app_row \<Rightarrow> bool" where
  "row_grows row row' \<longleftrightarrow> grows alarm_grows (rw_alarms row) (rw_alarms row')
     \<and> grows occ_grows (rw_occs row) (rw_occs row')
     \<and> grows effect_grows (rw_outbox row) (rw_outbox row')
     \<and> grows guest_grows (rw_guests row) (rw_guests row')
     \<and> grows (=) (rw_commands row) (rw_commands row')
     \<and> grows action_grows (rw_actions row) (rw_actions row')"

definition ledger_grows :: "ledger \<Rightarrow> ledger \<Rightarrow> bool" where
  "ledger_grows = grows row_grows"

section \<open>The audit order is a preorder\<close>

lemma occ_may_refl [simp]: "occ_may s s"
  by (cases s) auto

lemma occ_may_trans: "occ_may a b \<Longrightarrow> occ_may b c \<Longrightarrow> occ_may a c"
  by (cases a; cases b; cases c) auto

lemma grows_refls [simp]:
  "alarm_grows a a" "occ_grows oc oc" "effect_grows e e" "guest_grows g g" "action_grows s s"
  by (auto simp: alarm_grows_def occ_grows_def effect_grows_def guest_grows_def action_grows_def)

lemma alarm_grows_trans: "alarm_grows a b \<Longrightarrow> alarm_grows b c \<Longrightarrow> alarm_grows a c"
  by (auto simp: alarm_grows_def)

lemma occ_grows_trans: "occ_grows a b \<Longrightarrow> occ_grows b c \<Longrightarrow> occ_grows a c"
  by (auto simp: occ_grows_def intro: occ_may_trans)

lemma take_trans:
  assumes "take n ys = xs" and "take m zs = ys" and "n = length xs"
  shows "take n zs = xs"
proof -
  have "take n (take m zs) = xs" using assms by simp
  moreover have "n \<le> m"
    using assms by (metis length_take min.boundedE min.orderI nat_le_linear take_all_iff take_take)
  ultimately show ?thesis by (simp add: min_def)
qed

lemma effect_grows_trans:
  assumes "effect_grows a b" and "effect_grows b c"
  shows "effect_grows a c"
proof -
  have "take (length (ef_attempts a)) (map at_started (ef_attempts c)) = map at_started (ef_attempts a)"
    by (rule take_trans [of _ "map at_started (ef_attempts b)" _ "length (ef_attempts b)"])
      (use assms in \<open>auto simp: effect_grows_def\<close>)
  then show ?thesis using assms by (auto simp: effect_grows_def)
qed

lemma guest_grows_trans: "guest_grows a b \<Longrightarrow> guest_grows b c \<Longrightarrow> guest_grows a c"
  by (auto simp: guest_grows_def)

lemma action_grows_trans: "action_grows a b \<Longrightarrow> action_grows b c \<Longrightarrow> action_grows a c"
  by (auto simp: action_grows_def)

lemma row_grows_refl [simp]: "row_grows row row"
  by (simp add: row_grows_def grows_refl)

lemma row_grows_trans:
  assumes "row_grows a b" and "row_grows b c"
  shows "row_grows a c"
  using assms unfolding row_grows_def
  by (blast intro: grows_trans alarm_grows_trans occ_grows_trans effect_grows_trans
      guest_grows_trans action_grows_trans trans)

lemma ledger_grows_refl [simp]: "ledger_grows lg lg"
  by (simp add: ledger_grows_def grows_refl)

lemma ledger_grows_trans: "ledger_grows a b \<Longrightarrow> ledger_grows b c \<Longrightarrow> ledger_grows a c"
  unfolding ledger_grows_def by (erule (1) grows_trans) (rule row_grows_trans)

text \<open>\<open>evolves\<close> is what every operation on a row guarantees.\<close>

definition evolves :: "app_row \<Rightarrow> app_row \<Rightarrow> bool" where
  "evolves row row' \<longleftrightarrow> row_ok row' \<and> row_grows row row'"

lemma evolves_refl: "row_ok row \<Longrightarrow> evolves row row"
  by (simp add: evolves_def)

lemma evolves_trans: "evolves a b \<Longrightarrow> evolves b c \<Longrightarrow> evolves a c"
  by (auto simp: evolves_def intro: row_grows_trans)

lemma evolves_ok: "evolves a b \<Longrightarrow> row_ok b"
  by (simp add: evolves_def)

section \<open>Tables of a well-formed row\<close>

lemma row_okI:
  assumes "\<And>k a. aget (rw_alarms row) k = Some a \<Longrightarrow> alarm_ok row k a"
    and "\<And>k oc. aget (rw_occs row) k = Some oc \<Longrightarrow> occ_ok row k oc"
    and "\<And>k e. aget (rw_outbox row) k = Some e \<Longrightarrow> effect_ok row k e"
    and "\<And>k g. aget (rw_guests row) k = Some g \<Longrightarrow> guest_ok row k g"
    and "dict_ok (rw_alarms row)" and "dict_ok (rw_occs row)" and "dict_ok (rw_outbox row)"
    and "dict_ok (rw_guests row)" and "dict_ok (rw_commands row)" and "dict_ok (rw_actions row)"
  shows "row_ok row"
  using assms by (simp add: row_ok_def dict_all_iff)

lemma row_ok_dicts:
  assumes "row_ok row"
  shows "dict_ok (rw_alarms row)" "dict_ok (rw_occs row)" "dict_ok (rw_outbox row)"
    "dict_ok (rw_guests row)" "dict_ok (rw_commands row)" "dict_ok (rw_actions row)"
  using assms by (auto simp: row_ok_def dict_all_def)

lemma row_ok_alarm: "row_ok row \<Longrightarrow> aget (rw_alarms row) k = Some a \<Longrightarrow> alarm_ok row k a"
  and row_ok_occ: "row_ok row \<Longrightarrow> aget (rw_occs row) k = Some oc \<Longrightarrow> occ_ok row k oc"
  and row_ok_effect: "row_ok row \<Longrightarrow> aget (rw_outbox row) k = Some e \<Longrightarrow> effect_ok row k e"
  and row_ok_guest: "row_ok row \<Longrightarrow> aget (rw_guests row) k = Some g \<Longrightarrow> guest_ok row k g"
  by (auto simp: row_ok_def dict_all_iff)

lemma occ_okE:
  assumes "occ_ok row k oc"
  obtains a where "aget (rw_alarms row) (oc_alarm oc) = Some a" and "oc_id oc = k"
    and "oc_revision oc \<le> al_revision a"
    and "oc_state oc = OccScheduled \<Longrightarrow> al_enabled a \<and> oc_revision oc = al_revision a
          \<and> (oc_parent oc = None \<longrightarrow> al_next a = Some k)"
  using assms by (auto simp: occ_ok_def split: option.splits)

lemma effect_okE:
  assumes "effect_ok row k e"
  obtains oc where "aget (rw_occs row) (ef_occ e) = Some oc"
    and "oc_state oc = effect_occ_state (ef_state e)"
  using assms by (auto simp: effect_ok_def split: option.splits)

lemma guest_okE:
  assumes "guest_ok row k g"
  obtains oc where "aget (rw_occs row) (ge_occ g) = Some oc" and "oc_state oc \<noteq> OccScheduled"
  using assms by (auto simp: guest_ok_def split: option.splits)

lemmas row_parts = row_ok_alarm row_ok_occ row_ok_effect row_ok_guest

lemma disabled_has_no_next:
  assumes ok: "row_ok row" and a: "aget (rw_alarms row) k = Some a" and off: "\<not> al_enabled a"
  shows "al_next a = None"
proof (rule ccontr)
  assume "al_next a \<noteq> None"
  then obtain oid oc where oc: "aget (rw_occs row) oid = Some oc" "oc_state oc = OccScheduled"
      "oc_alarm oc = k"
    using row_ok_alarm [OF ok a] by (auto simp: alarm_ok_def next_ok_def split: option.splits)
  then show False
    using row_ok_occ [OF ok oc(1)] a off by (auto simp: occ_ok_def)
qed

text \<open>The predicates of one table read only the tables it refers to.\<close>

lemma table_frames:
  "rw_occs row' = rw_occs row \<Longrightarrow> alarm_ok row' = alarm_ok row"
  "rw_alarms row' = rw_alarms row \<Longrightarrow> occ_ok row' = occ_ok row"
  "rw_occs row' = rw_occs row \<Longrightarrow> effect_ok row' = effect_ok row"
  "rw_occs row' = rw_occs row \<Longrightarrow> guest_ok row' = guest_ok row"
  by (intro ext; simp add: alarm_ok_def occ_ok_def effect_ok_def guest_ok_def next_ok_def
      cong: option.case_cong)+

lemma frames [simp]:
  "alarm_ok (row\<lparr>rw_context := x_context\<rparr>) = alarm_ok row"
  "alarm_ok (row\<lparr>rw_alarms := x_alarms\<rparr>) = alarm_ok row"
  "alarm_ok (row\<lparr>rw_outbox := x_outbox\<rparr>) = alarm_ok row"
  "alarm_ok (row\<lparr>rw_guests := x_guests\<rparr>) = alarm_ok row"
  "alarm_ok (row\<lparr>rw_commands := x_commands\<rparr>) = alarm_ok row"
  "alarm_ok (row\<lparr>rw_actions := x_actions\<rparr>) = alarm_ok row"
  "occ_ok (row\<lparr>rw_context := x_context\<rparr>) = occ_ok row"
  "occ_ok (row\<lparr>rw_occs := x_occs\<rparr>) = occ_ok row"
  "occ_ok (row\<lparr>rw_outbox := x_outbox\<rparr>) = occ_ok row"
  "occ_ok (row\<lparr>rw_guests := x_guests\<rparr>) = occ_ok row"
  "occ_ok (row\<lparr>rw_commands := x_commands\<rparr>) = occ_ok row"
  "occ_ok (row\<lparr>rw_actions := x_actions\<rparr>) = occ_ok row"
  "effect_ok (row\<lparr>rw_context := x_context\<rparr>) = effect_ok row"
  "effect_ok (row\<lparr>rw_alarms := x_alarms\<rparr>) = effect_ok row"
  "effect_ok (row\<lparr>rw_outbox := x_outbox\<rparr>) = effect_ok row"
  "effect_ok (row\<lparr>rw_guests := x_guests\<rparr>) = effect_ok row"
  "effect_ok (row\<lparr>rw_commands := x_commands\<rparr>) = effect_ok row"
  "effect_ok (row\<lparr>rw_actions := x_actions\<rparr>) = effect_ok row"
  "guest_ok (row\<lparr>rw_context := x_context\<rparr>) = guest_ok row"
  "guest_ok (row\<lparr>rw_alarms := x_alarms\<rparr>) = guest_ok row"
  "guest_ok (row\<lparr>rw_outbox := x_outbox\<rparr>) = guest_ok row"
  "guest_ok (row\<lparr>rw_guests := x_guests\<rparr>) = guest_ok row"
  "guest_ok (row\<lparr>rw_commands := x_commands\<rparr>) = guest_ok row"
  "guest_ok (row\<lparr>rw_actions := x_actions\<rparr>) = guest_ok row"
  by (rule table_frames; simp)+

lemma row_ok_context [simp]: "row_ok (row\<lparr>rw_context := c\<rparr>) = row_ok row"
  by (simp add: row_ok_def)

lemma row_ok_commands: "row_ok row \<Longrightarrow> dict_ok cs \<Longrightarrow> row_ok (row\<lparr>rw_commands := cs\<rparr>)"
  by (simp add: row_ok_def)

lemma row_ok_actions: "row_ok row \<Longrightarrow> dict_ok cs \<Longrightarrow> row_ok (row\<lparr>rw_actions := cs\<rparr>)"
  by (simp add: row_ok_def)

end
