(* ===== verification/SchedPreserve.thy ===== *)
theory SchedPreserve
  imports SchedInvariant
begin

text \<open>
  Every row operation of the scheduler keeps \<open>row_ok\<close> and moves forward in the audit order. The
  first section treats the primitive table updates, the rest one operation each.
\<close>

section \<open>Primitive updates\<close>

lemma grows_self [simp]: "grows alarm_grows da da" "grows occ_grows dc dc" "grows effect_grows de de"
  "grows guest_grows dg dg" "grows (=) dr dr" "grows action_grows dn dn"
  by (simp_all add: grows_refl)

lemma evolves_context: "row_ok row \<Longrightarrow> evolves row (row\<lparr>rw_context := c\<rparr>)"
  by (simp add: evolves_def row_grows_def)

lemma evolves_actions:
  assumes "row_ok row" and "dict_ok d" and "grows action_grows (rw_actions row) d"
  shows "evolves row (row\<lparr>rw_actions := d\<rparr>)"
  using assms by (simp add: evolves_def row_grows_def row_ok_actions)

lemma evolves_commands:
  assumes "row_ok row" and "dict_ok d" and "grows (=) (rw_commands row) d"
  shows "evolves row (row\<lparr>rw_commands := d\<rparr>)"
  using assms by (simp add: evolves_def row_grows_def row_ok_commands)

text \<open>An alarm and its scheduled occurrences change together.\<close>

definition alarm_occ_ok :: "string \<Rightarrow> alarm \<Rightarrow> string \<Rightarrow> occurrence \<Rightarrow> bool" where
  "alarm_occ_ok k a j oc \<longleftrightarrow> oc_alarm oc = k \<and> oc_id oc = j \<and> oc_revision oc \<le> al_revision a
     \<and> (oc_state oc = OccScheduled \<longrightarrow> al_enabled a \<and> oc_revision oc = al_revision a
          \<and> (oc_parent oc = None \<longrightarrow> al_next a = Some j))"

lemma occ_ok_alarm_occ_ok:
  "aget (rw_alarms row) (oc_alarm oc) = Some a
    \<Longrightarrow> occ_ok row j oc \<longleftrightarrow> alarm_occ_ok (oc_alarm oc) a j oc"
  by (auto simp: occ_ok_def alarm_occ_ok_def)

lemma evolves_alarm_occs:
  assumes ok: "row_ok row" and d: "dict_ok occs"
    and id: "al_id a' = k" and lo: "1 \<le> al_revision a'" and hi: "al_revision a' \<le> u64_max"
    and nx: "case al_next a' of None \<Rightarrow> True | Some oid \<Rightarrow> (\<exists>oc. aget occs oid = Some oc
        \<and> oc_state oc = OccScheduled \<and> oc_alarm oc = k \<and> oc_parent oc = None)"
    and prev: "\<And>a. aget (rw_alarms row) k = Some a \<Longrightarrow> alarm_grows a a'"
    and fwd: "\<And>j oc. aget (rw_occs row) j = Some oc \<Longrightarrow> \<exists>oc'. aget occs j = Some oc' \<and> occ_grows oc oc'
        \<and> (oc_state oc \<noteq> OccScheduled \<longrightarrow> oc' = oc) \<and> (oc_alarm oc \<noteq> k \<longrightarrow> oc' = oc)"
    and bwd: "\<And>j oc'. aget occs j = Some oc'
        \<Longrightarrow> oc_alarm oc' \<noteq> k \<and> aget (rw_occs row) j = Some oc' \<or> alarm_occ_ok k a' j oc'"
  shows "evolves row (row\<lparr>rw_alarms := aput k a' (rw_alarms row), rw_occs := occs\<rparr>)"
    (is "evolves row ?row")
proof -
  have settled: "\<exists>oc'. aget occs j = Some oc' \<and> oc_state oc' = oc_state oc"
    if "aget (rw_occs row) j = Some oc" "oc_state oc \<noteq> OccScheduled" for j oc
    using fwd [OF that(1)] that(2) by auto
  have ok': "row_ok ?row"
  proof (rule row_okI)
    fix j b
    assume j: "aget (rw_alarms ?row) j = Some b"
    show "alarm_ok ?row j b"
    proof (cases "j = k")
      case True
      then show ?thesis
        using j id lo hi nx by (auto simp: alarm_ok_def next_ok_def dict_simps split: option.splits)
    next
      case False
      then have b: "alarm_ok row j b" using ok j by (auto simp: dict_simps intro: row_ok_alarm)
      moreover have "next_ok ?row j oid" if "next_ok row j oid" for oid
        using that False fwd by (auto simp: next_ok_def split: option.splits dest!: fwd)
      ultimately show ?thesis by (auto simp: alarm_ok_def split: option.splits)
    qed
  next
    fix j oc
    assume j: "aget (rw_occs ?row) j = Some oc"
    then consider "oc_alarm oc \<noteq> k" "aget (rw_occs row) j = Some oc" | "alarm_occ_ok k a' j oc"
      using bwd [of j oc] by auto
    then show "occ_ok ?row j oc"
    proof cases
      case 1
      then show ?thesis using row_ok_occ [OF ok 1(2)] by (simp add: occ_ok_def dict_simps)
    next
      case 2
      then show ?thesis by (simp add: occ_ok_def alarm_occ_ok_def dict_simps)
    qed
  next
    fix j e
    assume "aget (rw_outbox ?row) j = Some e"
    then have e: "effect_ok row j e" using ok by (simp add: row_ok_effect)
    then obtain oc where oc: "aget (rw_occs row) (ef_occ e) = Some oc"
        "oc_state oc = effect_occ_state (ef_state e)"
      by (rule effect_okE)
    then obtain oc' where "aget occs (ef_occ e) = Some oc'" "oc_state oc' = effect_occ_state (ef_state e)"
      using settled [OF oc(1)] by (cases "ef_state e") auto
    then show "effect_ok ?row j e" using e by (simp add: effect_ok_def)
  next
    fix j g
    assume "aget (rw_guests ?row) j = Some g"
    then have g: "guest_ok row j g" using ok by (simp add: row_ok_guest)
    then obtain oc where oc: "aget (rw_occs row) (ge_occ g) = Some oc" "oc_state oc \<noteq> OccScheduled"
      by (rule guest_okE)
    then obtain oc' where "aget occs (ge_occ g) = Some oc'" "oc_state oc' \<noteq> OccScheduled"
      using settled [OF oc] by auto
    then show "guest_ok ?row j g" using g by (simp add: guest_ok_def)
  qed (use ok d in \<open>simp_all add: row_ok_dicts\<close>)
  have "grows occ_grows (rw_occs row) occs"
    using fwd by (fastforce simp: grows_def)
  moreover have "grows alarm_grows (rw_alarms row) (aput k a' (rw_alarms row))"
    by (rule grows_aput) (simp_all add: prev)
  ultimately show ?thesis using ok' by (simp add: evolves_def row_grows_def)
qed

lemma evolves_put_alarm:
  assumes ok: "row_ok row" and id: "al_id a' = k" and lo: "1 \<le> al_revision a'"
    and hi: "al_revision a' \<le> u64_max"
    and nx: "case al_next a' of None \<Rightarrow> True | Some oid \<Rightarrow> next_ok row k oid"
    and prev: "\<And>a. aget (rw_alarms row) k = Some a \<Longrightarrow> alarm_grows a a'"
    and occs: "\<And>j oc. aget (rw_occs row) j = Some oc \<Longrightarrow> oc_alarm oc = k \<Longrightarrow> alarm_occ_ok k a' j oc"
  shows "evolves row (put_alarm k a' row)"
proof -
  have "evolves row (row\<lparr>rw_alarms := aput k a' (rw_alarms row), rw_occs := rw_occs row\<rparr>)"
    by (rule evolves_alarm_occs)
      (use assms in \<open>auto simp: row_ok_dicts next_ok_def split: option.splits\<close>)
  then show ?thesis by (simp add: put_alarm_def)
qed

lemma evolves_put_effect:
  assumes ok: "row_ok row" and e: "effect_ok row k e"
    and prev: "\<And>b. aget (rw_outbox row) k = Some b \<Longrightarrow> effect_grows b e"
  shows "evolves row (row\<lparr>rw_outbox := aput k e (rw_outbox row)\<rparr>)"
proof -
  have "dict_all (effect_ok row) (aput k e (rw_outbox row))"
    using ok e by (auto simp: row_ok_def intro: dict_all_aput)
  moreover have "grows effect_grows (rw_outbox row) (aput k e (rw_outbox row))"
    by (rule grows_aput) (simp_all add: prev)
  ultimately show ?thesis using ok by (simp add: evolves_def row_grows_def row_ok_def)
qed

lemma evolves_put_guest:
  assumes ok: "row_ok row" and g: "guest_ok row k g"
    and prev: "\<And>b. aget (rw_guests row) k = Some b \<Longrightarrow> guest_grows b g"
  shows "evolves row (row\<lparr>rw_guests := aput k g (rw_guests row)\<rparr>)"
proof -
  have "dict_all (guest_ok row) (aput k g (rw_guests row))"
    using ok g by (auto simp: row_ok_def intro: dict_all_aput)
  moreover have "grows guest_grows (rw_guests row) (aput k g (rw_guests row))"
    by (rule grows_aput) (simp_all add: prev)
  ultimately show ?thesis using ok by (simp add: evolves_def row_grows_def row_ok_def)
qed

section \<open>Alarms\<close>

lemma row_update_order:
  "row\<lparr>rw_occs := x, rw_alarms := y\<rparr> = row\<lparr>rw_alarms := y, rw_occs := x\<rparr>"
  "row\<lparr>rw_outbox := u, rw_alarms := y\<rparr> = row\<lparr>rw_alarms := y, rw_outbox := u\<rparr>"
  "row\<lparr>rw_guests := v, rw_alarms := y\<rparr> = row\<lparr>rw_alarms := y, rw_guests := v\<rparr>"
  by simp_all

lemma alarm_grows_same [simp]:
  "al_revision a' = al_revision a \<Longrightarrow> al_purpose a' = al_purpose a \<Longrightarrow> alarm_grows a a'"
  by (simp add: alarm_grows_def)

lemma cancel_occ_cases:
  "cancel_occ k oc = oc \<and> (oc_alarm oc \<noteq> k \<or> oc_state oc \<noteq> OccScheduled)
    \<or> cancel_occ k oc = oc\<lparr>oc_state := OccCancelled\<rparr> \<and> oc_alarm oc = k \<and> oc_state oc = OccScheduled"
  by (simp add: cancel_occ_def)

lemma cancel_occ_grows: "occ_grows oc (cancel_occ k oc)"
  using cancel_occ_cases [of k oc] by (auto simp: occ_grows_def)

lemma evolves_retire:
  assumes ok: "row_ok row" and a: "aget (rw_alarms row) k = Some a"
    and id: "al_id a' = k" and nx: "al_next a' = None" and g: "alarm_grows a a'"
    and hi: "al_revision a' \<le> u64_max"
  shows "evolves row (put_alarm k a' (fst (cancel_pending row a)))"
proof -
  have ka: "al_id a = k" and lo: "1 \<le> al_revision a"
    using row_ok_alarm [OF ok a] by (simp_all add: alarm_ok_def)
  have rev: "al_revision a \<le> al_revision a'" using g by (simp add: alarm_grows_def)
  have "evolves row (row\<lparr>rw_alarms := aput k a' (rw_alarms row),
      rw_occs := amap (cancel_occ k) (rw_occs row)\<rparr>)"
  proof (rule evolves_alarm_occs [OF ok])
    fix j oc
    assume "aget (rw_occs row) j = Some oc"
    then show "\<exists>oc'. aget (amap (cancel_occ k) (rw_occs row)) j = Some oc' \<and> occ_grows oc oc'
        \<and> (oc_state oc \<noteq> OccScheduled \<longrightarrow> oc' = oc) \<and> (oc_alarm oc \<noteq> k \<longrightarrow> oc' = oc)"
      by (simp add: dict_simps cancel_occ_grows) (simp add: cancel_occ_def)
  next
    fix j oc'
    assume "aget (amap (cancel_occ k) (rw_occs row)) j = Some oc'"
    then obtain oc where oc: "aget (rw_occs row) j = Some oc" "oc' = cancel_occ k oc"
      by (auto simp: dict_simps)
    have "occ_ok row j oc" by (rule row_ok_occ [OF ok oc(1)])
    then have "oc_alarm oc = k \<Longrightarrow> oc_id oc = j \<and> oc_revision oc \<le> al_revision a"
      using a by (auto simp: occ_ok_def)
    then show "oc_alarm oc' \<noteq> k \<and> aget (rw_occs row) j = Some oc' \<or> alarm_occ_ok k a' j oc'"
      using oc rev cancel_occ_cases [of k oc] by (auto simp: alarm_occ_ok_def)
  qed (use lo rev hi id nx a g ok in \<open>auto simp: row_ok_dicts\<close>)
  then show ?thesis by (simp add: cancel_pending_def put_alarm_def ka row_update_order)
qed

lemma integer_of_Inr_iff: "integer_of (PInt i) lo hi = Inr j \<longleftrightarrow> j = i \<and> lo \<le> i \<and> i \<le> hi"
  by (auto simp: integer_of_def)

lemma disable_alarm_evolves:
  assumes ok: "row_ok row" and a: "aget (rw_alarms row) k = Some a"
    and d: "disable_alarm row k a = Inr (row', out)"
  shows "evolves row row'"
proof (cases "al_enabled a")
  case False
  then show ?thesis using d ok by (simp add: disable_alarm_def evolves_refl)
next
  case True
  have id: "al_id a = k" using row_ok_alarm [OF ok a] by (simp add: alarm_ok_def)
  show ?thesis
    using d True evolves_retire [OF ok a, of "a\<lparr>al_next := None, al_enabled := False,
        al_revision := al_revision a + 1\<rparr>"]
    by (auto simp: disable_alarm_def cancel_pending_def id res_simps integer_of_Inr_iff
        alarm_grows_def)
qed

lemma materialize_Inr:
  assumes "materialize ev row k a (due, civil) given parent = Inr (row', a', oid)"
  shows "oid = (case given of Some i \<Rightarrow> i | None \<Rightarrow> occurrence_id (al_id a) (al_revision a) due)"
    and "aget (rw_occs row) oid = None"
    and "a' = (if parent = None then a\<lparr>al_next := Some oid\<rparr> else a)"
    and "row' = row\<lparr>rw_alarms := aput k a' (rw_alarms row), rw_occs := aput oid
      \<lparr>oc_id = oid, oc_alarm = al_id a, oc_revision = al_revision a, oc_due = due, oc_civil = civil,
       oc_tzdata = tzdata_label ev, oc_state = OccScheduled, oc_class = None,
       oc_notification = None, oc_parent = parent\<rparr> (rw_occs row)\<rparr>"
  using assms by (auto simp: materialize_def Let_def has_def put_alarm_def split: if_splits)

lemma materialize_evolves:
  assumes ok: "row_ok row" and a: "aget (rw_alarms row) k = Some a" and on: "al_enabled a"
    and nx: "parent = None \<Longrightarrow> al_next a = None"
    and m: "materialize ev row k a candidate given parent = Inr (row', a', oid)"
  shows "evolves row row'"
proof -
  obtain due civil where c: "candidate = (due, civil)" by force
  note m' = materialize_Inr [OF m [unfolded c]]
  let ?oc = "\<lparr>oc_id = oid, oc_alarm = al_id a, oc_revision = al_revision a, oc_due = due,
       oc_civil = civil, oc_tzdata = tzdata_label ev, oc_state = OccScheduled, oc_class = None,
       oc_notification = None, oc_parent = parent\<rparr>"
  have aok: "alarm_ok row k a" by (rule row_ok_alarm [OF ok a])
  then have id: "al_id a = k" by (simp add: alarm_ok_def)
  have "evolves row (row\<lparr>rw_alarms := aput k a' (rw_alarms row),
      rw_occs := aput oid ?oc (rw_occs row)\<rparr>)"
  proof (rule evolves_alarm_occs [OF ok])
    show "case al_next a' of None \<Rightarrow> True | Some x \<Rightarrow> (\<exists>oc. aget (aput oid ?oc (rw_occs row)) x = Some oc
        \<and> oc_state oc = OccScheduled \<and> oc_alarm oc = k \<and> oc_parent oc = None)"
      using aok m'(2,3) id
      by (auto simp: alarm_ok_def next_ok_def dict_simps split: option.splits)
  next
    fix j oc'
    assume j: "aget (aput oid ?oc (rw_occs row)) j = Some oc'"
    show "oc_alarm oc' \<noteq> k \<and> aget (rw_occs row) j = Some oc' \<or> alarm_occ_ok k a' j oc'"
    proof (cases "j = oid")
      case True
      then show ?thesis using j on id m'(3) by (auto simp: dict_simps alarm_occ_ok_def)
    next
      case False
      then have j': "aget (rw_occs row) j = Some oc'" using j by (simp add: dict_simps)
      show ?thesis
        using row_ok_occ [OF ok j'] j' a nx on m'(3)
        by (cases "oc_alarm oc' = k") (auto simp: occ_ok_def alarm_occ_ok_def)
    qed
  qed (use aok m'(2,3) a ok in \<open>auto simp: row_ok_dicts alarm_ok_def dict_simps\<close>)
  then show ?thesis using m'(4) by simp
qed

lemma install_alarm_evolves:
  assumes ok: "row_ok row"
    and build: "\<And>n. build n = fresh_alarm row k sched notification n purpose payload missed spec"
    and purpose: "\<And>p. aget (rw_alarms row) k = Some p \<Longrightarrow> al_purpose p = purpose"
    and i: "install_alarm ev row k build candidate = Inr (row', v)"
  shows "evolves row row'"
proof -
  obtain n a' oid where
      rev: "n = (case aget (rw_alarms row) k of None \<Rightarrow> 1 | Some p \<Rightarrow> al_revision p + 1)"
        "1 \<le> n" "n \<le> u64_max"
    and m: "materialize ev (put_alarm k (build n) (case aget (rw_alarms row) k of None \<Rightarrow> row
        | Some p \<Rightarrow> fst (cancel_pending row p))) k (build n) candidate None None = Inr (row', a', oid)"
    using i by (auto simp: install_alarm_def Let_def bnd_Inr_iff integer_of_Inr_iff)
  let ?row = "put_alarm k (build n) (case aget (rw_alarms row) k of None \<Rightarrow> row
        | Some p \<Rightarrow> fst (cancel_pending row p))"
  have a: "al_id (build n) = k" "al_revision (build n) = n" "al_next (build n) = None"
      "al_enabled (build n)" "al_purpose (build n) = purpose"
    by (simp_all add: build fresh_alarm_def)
  have step1: "evolves row ?row"
  proof (cases "aget (rw_alarms row) k")
    case None
    have "evolves row (put_alarm k (build n) row)"
    proof (rule evolves_put_alarm [OF ok])
      fix j oc
      assume "aget (rw_occs row) j = Some oc" "oc_alarm oc = k"
      then show "alarm_occ_ok k (build n) j oc"
        using row_ok_occ [OF ok, of j oc] None by (simp add: occ_ok_def)
    qed (use None rev a in simp_all)
    then show ?thesis by (simp add: None)
  next
    case (Some p)
    have "evolves row (put_alarm k (build n) (fst (cancel_pending row p)))"
      by (rule evolves_retire [OF ok Some]) (use rev Some purpose a in \<open>simp_all add: alarm_grows_def\<close>)
    then show ?thesis by (simp add: Some)
  qed
  have "evolves ?row row'"
    by (rule materialize_evolves [OF evolves_ok [OF step1] _ a(4) a(3) m])
      (simp add: put_alarm_def dict_simps)
  with step1 show ?thesis by (rule evolves_trans)
qed

lemma configure_Inr:
  assumes "configure ev row request now purpose payload missed spec = Inr (row', v)"
  obtains k sched notification candidate where
    "install_alarm ev row k (\<lambda>n. fresh_alarm row k sched notification n purpose payload missed spec)
      candidate = Inr (row', v)"
    and "\<And>p. aget (rw_alarms row) k = Some p \<Longrightarrow> al_purpose p = purpose"
    and "next_civil ev sched now None = Inr (Some candidate)"
  using assms unfolding configure_def Let_def
  by (elim res_elims) (rule that, assumption, simp_all)

lemma configure_evolves:
  assumes ok: "row_ok row"
    and c: "configure ev row request now purpose payload missed spec = Inr (row', v)"
  shows "evolves row row'"
  using c by (rule configure_Inr) (rule install_alarm_evolves [OF ok refl])

lemma enable_evolves:
  assumes ok: "row_ok row" and a: "aget (rw_alarms row) k = Some a" and off: "\<not> al_enabled a"
    and hi: "al_revision a + 1 \<le> u64_max"
    and m: "materialize ev (put_alarm k (a\<lparr>al_revision := al_revision a + 1, al_enabled := True\<rparr>) row) k
      (a\<lparr>al_revision := al_revision a + 1, al_enabled := True\<rparr>) candidate None None = Inr (row', a', oid)"
  shows "evolves row row'"
proof -
  let ?a = "a\<lparr>al_revision := al_revision a + 1, al_enabled := True\<rparr>"
  have nx: "al_next a = None" by (rule disabled_has_no_next [OF ok a off])
  have aok: "alarm_ok row k a" by (rule row_ok_alarm [OF ok a])
  have step1: "evolves row (put_alarm k ?a row)"
  proof (rule evolves_put_alarm [OF ok])
    fix j oc
    assume "aget (rw_occs row) j = Some oc" "oc_alarm oc = k"
    then show "alarm_occ_ok k ?a j oc"
      using row_ok_occ [OF ok, of j oc] a off by (auto simp: occ_ok_def alarm_occ_ok_def)
  qed (use aok nx a hi in \<open>auto simp: alarm_ok_def alarm_grows_def\<close>)
  have "evolves (put_alarm k ?a row) row'"
    by (rule materialize_evolves [OF evolves_ok [OF step1] _ _ _ m])
      (simp_all add: put_alarm_def dict_simps nx)
  with step1 show ?thesis by (rule evolves_trans)
qed

lemma find_alarm_Inr: "find_alarm row v = Inr a \<Longrightarrow> text_of v ''alarm ID'' 128 = Inr k
    \<Longrightarrow> aget (rw_alarms row) k = Some a"
  by (auto simp: find_alarm_def split: option.splits)

lemma toggle_evolves:
  assumes ok: "row_ok row" and t: "toggle ev row request now enable = Inr (row', v)"
  shows "evolves row row'"
proof -
  obtain d a k where
      a: "aget (rw_alarms row) k = Some a"
    and t: "(if \<not> enable
     then bnd (disable_alarm row k a) (\<lambda>(row', outcome).
       case aget (rw_alarms row') k of
         None \<Rightarrow> Inl (Crash ''KeyError'')
       | Some a' \<Rightarrow> Inr (row', alarm_result a' outcome None))
     else if \<not> al_enabled a
     then bnd (next_civil ev (al_schedule a) now None) (\<lambda>candidate.
       case candidate of
         None \<Rightarrow> fail ''conflict'' ''expired-one-shot''
       | Some c \<Rightarrow>
           bnd (integer_of (PInt (al_revision a + 1)) 1 u64_max) (\<lambda>n.
           let a1 = a\<lparr>al_revision := n, al_enabled := True\<rparr> in
           bnd (materialize ev (put_alarm k a1 row) k a1 c None None) (\<lambda>(row', a', oid).
           Inr (row', alarm_result a' ''enabled'' None))))
     else Inr (row, alarm_result a ''unchanged'' None)) = Inr (row', v)"
    using t unfolding toggle_def
    by (elim bnd_InrE seq_InrE) (rule that, erule (1) find_alarm_Inr)
  show ?thesis
  proof (cases enable)
    case False
    then obtain out where "disable_alarm row k a = Inr (row', out)"
      using t by (auto simp: bnd_Inr_iff split: option.splits)
    then show ?thesis by (rule disable_alarm_evolves [OF ok a])
  next
    case True
    show ?thesis
    proof (cases "al_enabled a")
      case on: True
      then show ?thesis using t True ok by (simp add: evolves_refl)
    next
      case off: False
      obtain c a' oid where "al_revision a + 1 \<le> u64_max"
          and "materialize ev (put_alarm k (a\<lparr>al_revision := al_revision a + 1, al_enabled := True\<rparr>) row)
            k (a\<lparr>al_revision := al_revision a + 1, al_enabled := True\<rparr>) c None None = Inr (row', a', oid)"
        using t True off
        by (auto simp: bnd_Inr_iff Let_def integer_of_Inr_iff split: option.splits)
      then show ?thesis by (rule enable_evolves [OF ok a off])
    qed
  qed
qed

end
