(* ===== verification/SchedSteps.thy ===== *)
theory SchedSteps
  imports SchedPreserve
begin

text \<open>
  Preservation for the remaining row operations of the scheduler: snooze and command receipts, the
  lifecycle hook, the firing of a due occurrence and the claim / finish protocol.
\<close>

section \<open>Snooze\<close>

lemma action_grows_dedup [simp]: "action_grows s (s\<lparr>sa_dedup := True\<rparr>)"
  by (simp add: action_grows_def)

lemma evolves_mark_action:
  "row_ok row \<Longrightarrow> evolves row (row\<lparr>rw_actions := amod k (\<lambda>a. a\<lparr>sa_dedup := True\<rparr>) (rw_actions row)\<rparr>)"
  by (rule evolves_actions) (simp_all add: row_ok_dicts grows_amod)

lemma evolves_new_action:
  assumes "row_ok row" and "aget (rw_actions row) k = None"
  shows "evolves row (row\<lparr>rw_actions := aput k s (rw_actions row)\<rparr>)"
proof (rule evolves_actions)
  show "grows action_grows (rw_actions row) (aput k s (rw_actions row))"
    by (rule grows_aput) (use assms(2) in simp_all)
qed (use assms in \<open>simp_all add: row_ok_dicts\<close>)

lemma text_of_Inr_iff: "text_of v name n = Inr s \<longleftrightarrow> v = PStr s \<and> text_valid s n False"
  by (cases v) (auto simp: text_of_def)

lemma materialize_actions:
  "materialize ev row k a c given parent = Inr (row', a', oid) \<Longrightarrow> rw_actions row' = rw_actions row"
  by (cases c) (auto dest: materialize_Inr(4))

lemma snooze_new_Inr:
  assumes "snooze_new ev row d parent_id action_id received duration = Inr (row', v)"
  obtains k a c g row1 a' oid action where
    "aget (rw_alarms row) k = Some a" and "al_enabled a"
    and "materialize ev row k a c (Some g) (Some parent_id) = Inr (row1, a', oid)"
    and "row' = row1\<lparr>rw_actions := aput (action_key action_id) action (rw_actions row1)\<rparr>"
  using assms unfolding snooze_new_def Let_def find_alarm_def
  by (elim res_elims)
    (clarsimp simp: text_of_Inr_iff bnd_Inr_iff simp del: filter_map split: if_splits; rule that; assumption)

lemma snooze_Inr:
  assumes "snooze ev row request = Inr (row', v)"
  obtains (replayed) k where
    "row' = row\<lparr>rw_actions := amod k (\<lambda>a. a\<lparr>sa_dedup := True\<rparr>) (rw_actions row)\<rparr>"
  | (created) d parent_id action_id received duration where
    "aget (rw_actions row) (action_key action_id) = None"
    and "snooze_new ev row d parent_id action_id received duration = Inr (row', v)"
proof -
  obtain d parent_id action_id received duration where body:
    "(case aget (rw_actions row) (action_key action_id) of
      Some prior \<Rightarrow>
        if sa_parent prior \<noteq> parent_id \<or> sa_duration prior \<noteq> duration
        then fail ''conflict'' ''idempotency-conflict''
        else Inr (row\<lparr>rw_actions := amod (action_key action_id) (\<lambda>a. a\<lparr>sa_dedup := True\<rparr>) (rw_actions row)\<rparr>,
                  set_member ''deduplicated'' (PBool True) (sa_result prior))
    | None \<Rightarrow> snooze_new ev row d parent_id action_id received duration) = Inr (row', v)"
    using assms unfolding snooze_def Let_def by (elim bnd_InrE) blast
  show thesis
  proof (cases "aget (rw_actions row) (action_key action_id)")
    case None
    then show ?thesis using body by (intro created) auto
  next
    case (Some prior)
    then show ?thesis using body by (intro replayed) (auto split: if_splits)
  qed
qed

lemma snooze_evolves:
  assumes ok: "row_ok row" and s: "snooze ev row request = Inr (row', v)"
  shows "evolves row row'"
  using s
proof (cases rule: snooze_Inr)
  case (replayed k)
  then show ?thesis using ok by (simp add: evolves_mark_action)
next
  case (created d parent_id action_id received duration)
  obtain k a c g row1 a' oid action where
      m: "aget (rw_alarms row) k = Some a" "al_enabled a"
        "materialize ev row k a c (Some g) (Some parent_id) = Inr (row1, a', oid)"
    and row': "row' = row1\<lparr>rw_actions := aput (action_key action_id) action (rw_actions row1)\<rparr>"
    by (rule snooze_new_Inr [OF created(2)])
  have 1: "evolves row row1"
    by (rule materialize_evolves [OF ok m(1,2) _ m(3)]) simp
  have "evolves row1 row'"
    unfolding row' by (rule evolves_new_action)
      (use 1 created(1) m(3) in \<open>simp_all add: evolves_ok materialize_actions\<close>)
  with 1 show ?thesis by (rule evolves_trans)
qed

section \<open>Command receipts\<close>

text \<open>The alarm operations touch neither the receipts nor the authority context.\<close>

definition same_rest :: "app_row \<Rightarrow> app_row \<Rightarrow> bool" where
  "same_rest row row' \<longleftrightarrow> rw_commands row' = rw_commands row \<and> rw_context row' = rw_context row"

text \<open>A callback of \<open>_mutating_call\<close>: it evolves the row and leaves the receipts alone.\<close>

definition good_callback :: "(app_row \<Rightarrow> (app_row \<times> pyval) res) \<Rightarrow> bool" where
  "good_callback f \<longleftrightarrow> (\<forall>row row' v. row_ok row \<longrightarrow> f row = Inr (row', v)
     \<longrightarrow> evolves row row' \<and> same_rest row row')"

lemma evolves_receipt:
  assumes "row_ok row" and "aget (rw_commands row) (command_key key) = None"
  shows "evolves row (put_receipt key fp response row)"
  unfolding put_receipt_def
  by (rule evolves_commands) (use assms in \<open>simp_all add: row_ok_dicts grows_def dict_simps\<close>)

lemma call_body_evolves:
  assumes ok: "row_ok row" and f: "good_callback f"
    and c: "call_body ev operation payload key generation f host_action fp row = Inr (row', v)"
  shows "evolves row row'"
proof (cases "authority row generation True host_action")
  case (Inl e)
  have "row' = row\<lparr>rw_commands := setdefault (command_key key)
      \<lparr>cr_fingerprint = fp, cr_response = err_response e\<rparr> (rw_commands row)\<rparr>"
    using c Inl by (auto simp: call_body_def)
  moreover have "grows (=) d (setdefault k r d)" for k r and d :: "command_receipt dict"
    by (simp add: setdefault_def grows_def dict_simps has_def)
  ultimately show ?thesis
    using ok by (simp add: evolves_commands row_ok_dicts setdefault_def)
next
  case (Inr u)
  note auth = this
  show ?thesis
  proof (cases "aget (rw_commands row) (command_key key)")
    case (Some previous)
    then show ?thesis
      using c auth ok by (auto simp: call_body_def evolves_refl evolves_mark_action split: if_splits)
  next
    case None
    show ?thesis
    proof (cases "f row")
      case (Inl e)
      then show ?thesis
        using c auth None ok by (cases e) (auto simp: call_body_def evolves_receipt)
    next
      case (Inr p)
      obtain row1 w where p: "p = (row1, w)" by force
      have 1: "evolves row row1" "rw_commands row1 = rw_commands row"
        using f ok Inr p unfolding good_callback_def same_rest_def by blast+
      have "row' = put_receipt key fp (ok_response w) row1"
        using c auth None Inr p by (auto simp: call_body_def)
      moreover have "evolves row1 (put_receipt key fp (ok_response w) row1)"
        by (rule evolves_receipt) (use 1 None in \<open>simp_all add: evolves_ok\<close>)
      ultimately show ?thesis using 1 evolves_trans by blast
    qed
  qed
qed

lemma same_rest_refl [simp]: "same_rest row row"
  by (simp add: same_rest_def)

lemma same_rest_trans: "same_rest a b \<Longrightarrow> same_rest b c \<Longrightarrow> same_rest a c"
  by (simp add: same_rest_def)

lemma same_rest_put_alarm [simp]: "same_rest row (put_alarm k a row') = same_rest row row'"
  "same_rest (put_alarm k a row) row' = same_rest row row'"
  by (simp_all add: same_rest_def put_alarm_def)

lemma same_rest_cancel [simp]: "same_rest row (fst (cancel_pending row a))"
  "same_rest (fst (cancel_pending row a)) row' = same_rest row row'"
  by (simp_all add: same_rest_def cancel_pending_def)

lemma materialize_same_rest:
  "materialize ev row k a c given parent = Inr (row', a', oid) \<Longrightarrow> same_rest row row'"
  by (cases c) (auto dest: materialize_Inr(4) simp: same_rest_def)

lemma disable_alarm_same_rest: "disable_alarm row k a = Inr (row', out) \<Longrightarrow> same_rest row row'"
  by (auto simp: disable_alarm_def cancel_pending_def put_alarm_def same_rest_def res_simps
      split: if_splits)

lemma configure_same_rest:
  assumes "configure ev row request now purpose payload missed spec = Inr (row', v)"
  shows "same_rest row row'"
  using assms
proof (rule configure_Inr)
  fix k sched notification candidate
  assume "install_alarm ev row k (\<lambda>n. fresh_alarm row k sched notification n purpose payload missed
      spec) candidate = Inr (row', v)"
  then show ?thesis
    unfolding install_alarm_def Let_def
    by (auto elim!: bnd_InrE dest!: materialize_same_rest split: option.splits)
qed

lemma toggle_same_rest:
  assumes "toggle ev row request now enable = Inr (row', v)"
  shows "same_rest row row'"
  using assms unfolding toggle_def Let_def
  by (auto elim!: bnd_InrE seq_InrE dest!: materialize_same_rest disable_alarm_same_rest
      split: if_splits option.splits)

lemma snooze_new_same_rest:
  assumes "snooze_new ev row d parent_id action_id received duration = Inr (row', v)"
  shows "same_rest row row'"
  using assms
proof (rule snooze_new_Inr)
  fix k a c g row1 a' oid action
  assume "materialize ev row k a c (Some g) (Some parent_id) = Inr (row1, a', oid)"
    and "row' = row1\<lparr>rw_actions := aput (action_key action_id) action (rw_actions row1)\<rparr>"
  then show ?thesis by (auto dest!: materialize_same_rest simp: same_rest_def)
qed

lemma same_rest_actions [simp]: "same_rest row (row'\<lparr>rw_actions := x\<rparr>) = same_rest row row'"
  by (simp add: same_rest_def)

lemma snooze_same_rest:
  assumes "snooze ev row request = Inr (row', v)"
  shows "same_rest row row'"
  using assms by (cases rule: snooze_Inr) (simp_all add: snooze_new_same_rest)

lemma good_callbackI:
  assumes "\<And>row row' v. row_ok row \<Longrightarrow> f row = Inr (row', v) \<Longrightarrow> evolves row row' \<and> same_rest row row'"
  shows "good_callback f"
  unfolding good_callback_def using assms by blast

lemma good_alarm_action: "good_callback (alarm_action ev tag value now)"
proof (rule good_callbackI)
  fix row row' v
  assume ok: "row_ok row" and a: "alarm_action ev tag value now row = Inr (row', v)"
  have "alarm_action ev tag value now row = configure ev row value now PurposeAlarm [] FireOnce PNone
    \<or> alarm_action ev tag value now row = snooze ev row value
    \<or> alarm_action ev tag value now row = toggle ev row value now (tag = ''alarm-enable'')"
    unfolding alarm_action_def by presburger
  then consider "configure ev row value now PurposeAlarm [] FireOnce PNone = Inr (row', v)"
    | "snooze ev row value = Inr (row', v)"
    | "toggle ev row value now (tag = ''alarm-enable'') = Inr (row', v)"
    unfolding a by metis
  then show "evolves row row' \<and> same_rest row row'"
  proof cases
    case 1
    show ?thesis by (rule conjI [OF configure_evolves [OF ok 1] configure_same_rest [OF 1]])
  next
    case 2
    show ?thesis by (rule conjI [OF snooze_evolves [OF ok 2] snooze_same_rest [OF 2]])
  next
    case 3
    show ?thesis by (rule conjI [OF toggle_evolves [OF ok 3] toggle_same_rest [OF 3]])
  qed
qed

lemma good_upsert_action:
  "good_callback (upsert_action ev key sched notification now purpose payload missed spec)"
  by (rule good_callbackI)
    (auto simp: upsert_action_def elim!: bnd_InrE intro: configure_evolves configure_same_rest
      split: option.splits)

lemma good_toggle_action: "good_callback (toggle_action ev schedule_id now enable)"
  by (rule good_callbackI)
    (auto simp: toggle_action_def elim!: bnd_InrE intro: toggle_evolves toggle_same_rest
      split: list.splits option.splits)

lemma acknowledge_evolves:
  assumes ok: "row_ok row" and a: "acknowledge_action oid outcome generation token row = Inr (row', v)"
  shows "evolves row row' \<and> same_rest row row'"
proof -
  obtain g where g: "aget (rw_guests row) (guest_key oid) = Some g"
      "row' = row\<lparr>rw_guests := aput (guest_key oid) (g\<lparr>ge_ack := Some outcome\<rparr>) (rw_guests row)\<rparr>"
    using a by (auto simp: acknowledge_action_def split: option.splits if_splits)
  have "guest_ok row (guest_key oid) (g\<lparr>ge_ack := Some outcome\<rparr>)"
    using row_ok_guest [OF ok g(1)] by (simp add: guest_ok_def)
  then have "evolves row row'"
    unfolding g(2) by (rule evolves_put_guest [OF ok]) (simp add: g(1) guest_grows_def)
  then show ?thesis by (simp add: g(2) same_rest_def)
qed

lemma good_acknowledge_action: "good_callback (acknowledge_action oid outcome generation token)"
  by (rule good_callbackI) (rule acknowledge_evolves)

lemmas good_callbacks = good_alarm_action good_upsert_action good_toggle_action good_acknowledge_action

section \<open>The lifecycle hook\<close>

lemma row_ok_fresh: "row_ok (fresh_row c)"
  by (simp add: row_ok_def fresh_row_def dict_all_def)

lemma context_alarm_evolves:
  assumes ok: "row_ok row" and c: "context_alarm c row k = Inr row'"
  shows "evolves row row'"
proof (cases "aget (rw_alarms row) k")
  case None
  then show ?thesis using c by (simp add: context_alarm_def)
next
  case (Some a)
  let ?a = "a\<lparr>al_permission := cx_permission c\<rparr>"
  have 1: "evolves row (put_alarm k ?a row)"
  proof (rule evolves_put_alarm [OF ok])
    fix j oc
    assume "aget (rw_occs row) j = Some oc" "oc_alarm oc = k"
    then show "alarm_occ_ok k ?a j oc"
      using row_ok_occ [OF ok, of j oc] Some by (auto simp: occ_ok_def alarm_occ_ok_def)
  qed (use row_ok_alarm [OF ok Some] Some in \<open>auto simp: alarm_ok_def\<close>)
  show ?thesis
  proof (cases "\<not> cx_enabled c \<and> al_enabled a")
    case False
    then show ?thesis using c Some 1 by (auto simp: context_alarm_def Let_def)
  next
    case True
    then obtain out where "disable_alarm (put_alarm k ?a row) k ?a = Inr (row', out)"
      using c Some by (auto simp: context_alarm_def Let_def bnd_Inr_iff)
    then have "evolves (put_alarm k ?a row) row'"
      by (rule disable_alarm_evolves [OF evolves_ok [OF 1], rotated]) (simp add: put_alarm_def dict_simps)
    with 1 show ?thesis by (rule evolves_trans)
  qed
qed

lemma rfold_evolves:
  assumes "rfold f row ks = Inr row'" and "row_ok row"
    and "\<And>r k r'. row_ok r \<Longrightarrow> f r k = Inr r' \<Longrightarrow> evolves r r'"
  shows "evolves row row'"
proof (rule rfold_invariant [OF assms(1), where P = "evolves row"])
  show "evolves row row" by (rule evolves_refl [OF assms(2)])
next
  fix r k r'
  assume r: "evolves row r" and f: "f r k = Inr r'"
  have "evolves r r'" by (rule assms(3) [OF evolves_ok [OF r] f])
  with r show "evolves row r'" by (rule evolves_trans)
qed

end
