(* ===== verification/SchedFire.thy ===== *)
theory SchedFire
  imports SchedSteps
begin

text \<open>
  Preservation for the pump (a due occurrence fires, or is cancelled when it is stale) and for the
  claim / finish protocol of notifications and guest deliveries.
\<close>

section \<open>A scheduled occurrence leaves the schedule\<close>

definition settled :: "string \<Rightarrow> alarm \<Rightarrow> alarm" where
  "settled oid a = (if al_next a = Some oid then a\<lparr>al_next := None\<rparr> else a)"

lemma settled_same [simp]: "al_id (settled oid a) = al_id a"
  "al_revision (settled oid a) = al_revision a" "al_purpose (settled oid a) = al_purpose a"
  "al_enabled (settled oid a) = al_enabled a"
  by (simp_all add: settled_def)

lemma scheduled_primary:
  assumes ok: "row_ok row" and oc: "aget (rw_occs row) oid = Some oc" "oc_state oc = OccScheduled"
    and a: "aget (rw_alarms row) (oc_alarm oc) = Some a"
  shows "oc_parent oc = None \<longleftrightarrow> al_next a = Some oid"
  using row_ok_occ [OF ok oc(1)] row_ok_alarm [OF ok a] oc a
  by (auto simp: occ_ok_def alarm_ok_def next_ok_def)

lemma evolves_settle:
  assumes ok: "row_ok row" and oc: "aget (rw_occs row) oid = Some oc" "oc_state oc = OccScheduled"
    and a: "aget (rw_alarms row) (oc_alarm oc) = Some a"
    and g: "occ_grows oc oc'" "oc_id oc' = oc_id oc" "oc_state oc' \<noteq> OccScheduled"
  shows "evolves row (row\<lparr>rw_alarms := aput (oc_alarm oc) (settled oid a) (rw_alarms row),
    rw_occs := aput oid oc' (rw_occs row)\<rparr>)"
proof -
  let ?k = "oc_alarm oc"
  have aok: "alarm_ok row ?k a" by (rule row_ok_alarm [OF ok a])
  have ook: "occ_ok row oid oc" by (rule row_ok_occ [OF ok oc(1)])
  show ?thesis
  proof (rule evolves_alarm_occs [OF ok])
    show "case al_next (settled oid a) of None \<Rightarrow> True
      | Some x \<Rightarrow> (\<exists>o1. aget (aput oid oc' (rw_occs row)) x = Some o1 \<and> oc_state o1 = OccScheduled
          \<and> oc_alarm o1 = ?k \<and> oc_parent o1 = None)"
      using aok by (auto simp: settled_def alarm_ok_def next_ok_def dict_simps split: option.splits)
  next
    fix j o1
    assume j: "aget (aput oid oc' (rw_occs row)) j = Some o1"
    show "oc_alarm o1 \<noteq> ?k \<and> aget (rw_occs row) j = Some o1 \<or> alarm_occ_ok ?k (settled oid a) j o1"
    proof (cases "j = oid")
      case True
      then show ?thesis
        using j g ook a by (auto simp: dict_simps alarm_occ_ok_def occ_ok_def occ_grows_def)
    next
      case False
      then have j': "aget (rw_occs row) j = Some o1" using j by (simp add: dict_simps)
      show ?thesis
        using row_ok_occ [OF ok j'] j' a False
        by (cases "oc_alarm o1 = ?k") (auto simp: occ_ok_def alarm_occ_ok_def settled_def)
    qed
  next
    fix j o1
    assume "aget (rw_occs row) j = Some o1"
    then show "\<exists>o2. aget (aput oid oc' (rw_occs row)) j = Some o2 \<and> occ_grows o1 o2
        \<and> (oc_state o1 \<noteq> OccScheduled \<longrightarrow> o2 = o1) \<and> (oc_alarm o1 \<noteq> ?k \<longrightarrow> o2 = o1)"
      using oc g by (auto simp: dict_simps)
  qed (use aok a ok in \<open>auto simp: row_ok_dicts alarm_ok_def\<close>)
qed

lemma no_effect_yet:
  assumes ok: "row_ok row" and oc: "aget (rw_occs row) oid = Some oc" "oc_state oc = OccScheduled"
  shows "aget (rw_outbox row) (notify_id oid) = None"
proof (rule ccontr)
  assume "aget (rw_outbox row) (notify_id oid) \<noteq> None"
  then obtain e where e: "aget (rw_outbox row) (notify_id oid) = Some e" by auto
  have "effect_ok row (notify_id oid) e" by (rule row_ok_effect [OF ok e])
  then show False
    using oc by (cases "ef_state e") (auto simp: effect_ok_def notify_id_def split: option.splits)
qed

lemma no_guest_yet:
  assumes ok: "row_ok row" and oc: "aget (rw_occs row) oid = Some oc" "oc_state oc = OccScheduled"
  shows "aget (rw_guests row) (guest_key oid) = None"
proof (rule ccontr)
  assume "aget (rw_guests row) (guest_key oid) \<noteq> None"
  then obtain g where g: "aget (rw_guests row) (guest_key oid) = Some g" by auto
  have "guest_ok row (guest_key oid) g" by (rule row_ok_guest [OF ok g])
  then show False
    using oc by (auto simp: guest_ok_def guest_key_def split: option.splits)
qed

section \<open>Firing\<close>

lemma cancel_stale_evolves:
  assumes ok: "row_ok row" and oc: "aget (rw_occs row) oid = Some oc" "oc_state oc = OccScheduled"
    and a: "aget (rw_alarms row) (oc_alarm oc) = Some a"
  shows "evolves row (cancel_stale row oid oc a)"
proof -
  have "evolves row (row\<lparr>rw_alarms := aput (oc_alarm oc) (settled oid a) (rw_alarms row),
      rw_occs := aput oid (oc\<lparr>oc_state := OccCancelled\<rparr>) (rw_occs row)\<rparr>)"
    by (rule evolves_settle [OF ok oc a]) (use oc in \<open>simp_all add: occ_grows_def\<close>)
  then show ?thesis
    using a by (simp add: cancel_stale_def settled_def put_alarm_def update_triv row_update_order
        split: if_splits)
qed

lemma fired_state_not_scheduled: "fired_state cl p \<noteq> OccScheduled"
  by (cases cl; cases p) (auto simp: fired_state_def)

text \<open>Recording and settling the alarm together keep the row in order.\<close>

lemma record_fired_evolves:
  assumes ok: "row_ok row" and oc: "aget (rw_occs row) oid = Some oc" "oc_state oc = OccScheduled"
    and a: "aget (rw_alarms row) (oc_alarm oc) = Some a"
    and r: "record_fired ev app now_text recovery row oid oc a cl = Inr row1"
  shows "evolves row (put_alarm (oc_alarm oc) (settled oid a) row1)"
proof -
  let ?oc = "fired_occ oid oc cl (al_purpose a)"
  let ?A = "row\<lparr>rw_alarms := aput (oc_alarm oc) (settled oid a) (rw_alarms row),
    rw_occs := aput oid ?oc (rw_occs row)\<rparr>"
  let ?g = "new_guest (guest_key oid) oid a (oc_due oc) cl"
  obtain ob where ob: "fired_outbox ev app now_text recovery row oid a cl = Inr ob"
    and row1: "row1 = row\<lparr>rw_occs := aput oid ?oc (rw_occs row), rw_outbox := ob,
      rw_guests := aput (guest_key oid) ?g (rw_guests row)\<rparr>"
    using r by (auto simp: record_fired_def bnd_Inr_iff)
  have A: "evolves row ?A"
    by (rule evolves_settle [OF ok oc a])
      (simp_all add: fired_occ_def occ_grows_def fired_state_not_scheduled oc)
  have B: "evolves ?A (?A\<lparr>rw_outbox := ob\<rparr>)"
  proof (cases "fired_state cl (al_purpose a) = OccDeliveryPending")
    case False
    then have "ob = rw_outbox row" using ob by (simp add: fired_outbox_def)
    then show ?thesis using A by (simp add: evolves_refl evolves_ok)
  next
    case True
    then obtain adapter where "ob = aput (notify_id oid)
        (new_effect (notify_id oid) adapter oid a now_text recovery) (rw_outbox row)"
      using ob by (auto simp: fired_outbox_def bnd_Inr_iff)
    moreover have "evolves ?A (?A\<lparr>rw_outbox := aput (notify_id oid)
        (new_effect (notify_id oid) adapter oid a now_text recovery) (rw_outbox ?A)\<rparr>)"
      by (rule evolves_put_effect [OF evolves_ok [OF A]])
        (simp_all add: effect_ok_def new_effect_def dict_simps fired_occ_def True
          no_effect_yet [OF ok oc] max_attempts_def)
    ultimately show ?thesis by simp
  qed
  have "evolves (?A\<lparr>rw_outbox := ob\<rparr>) (?A\<lparr>rw_outbox := ob,
      rw_guests := aput (guest_key oid) ?g (rw_guests (?A\<lparr>rw_outbox := ob\<rparr>))\<rparr>)"
    by (rule evolves_put_guest [OF evolves_ok [OF B]])
      (simp_all add: guest_ok_def new_guest_def dict_simps fired_occ_def fired_state_not_scheduled
        no_guest_yet [OF ok oc] max_attempts_def)
  then have "evolves row (?A\<lparr>rw_outbox := ob, rw_guests := aput (guest_key oid) ?g (rw_guests row)\<rparr>)"
    using A B by (auto intro: evolves_trans)
  then show ?thesis by (simp add: row1 put_alarm_def row_update_order)
qed

lemma record_fired_alarms:
  "record_fired ev app now_text recovery row oid oc a cl = Inr row1 \<Longrightarrow> rw_alarms row1 = rw_alarms row"
  by (auto simp: record_fired_def bnd_Inr_iff)

lemma rearm_evolves:
  assumes ok: "row_ok (put_alarm (oc_alarm oc) (a\<lparr>al_next := None\<rparr>) row)"
    and on: "al_enabled a" and r: "rearm ev row oc a due = Inr row'"
  shows "evolves (put_alarm (oc_alarm oc) (a\<lparr>al_next := None\<rparr>) row) row'"
proof (cases "al_schedule a")
  case (OneShot d t z)
  then show ?thesis using r ok by (simp add: rearm_def Let_def evolves_refl)
next
  case (Recurring kind t s z days)
  then obtain c a' oid' where "materialize ev (put_alarm (oc_alarm oc) (a\<lparr>al_next := None\<rparr>) row)
      (oc_alarm oc) (a\<lparr>al_next := None\<rparr>) c None None = Inr (row', a', oid')"
    using r by (auto simp: rearm_def Let_def bnd_Inr_iff split: option.splits)
  then show ?thesis
    by (rule materialize_evolves [OF ok, rotated 3]) (simp_all add: put_alarm_def dict_simps on)
qed

lemma fire_evolves:
  assumes ok: "row_ok row" and oc: "aget (rw_occs row) oid = Some oc" "oc_state oc = OccScheduled"
    and a: "aget (rw_alarms row) (oc_alarm oc) = Some a"
    and f: "fire ev app now_text now recovery row oid oc a = Inr row'"
  shows "evolves row row'"
proof -
  obtain due cl row1 where r: "record_fired ev app now_text recovery row oid oc a cl = Inr row1"
    and e: "(if oc_parent oc \<noteq> None then Inr row1 else rearm ev row1 oc a due) = Inr row'"
    using f unfolding fire_def by (elim bnd_InrE)
  have 1: "evolves row (put_alarm (oc_alarm oc) (settled oid a) row1)"
    by (rule record_fired_evolves [OF ok oc a r])
  have on: "al_enabled a"
    using row_ok_occ [OF ok oc(1)] a oc by (simp add: occ_ok_def)
  show ?thesis
  proof (cases "oc_parent oc = None")
    case True
    then have s: "settled oid a = a\<lparr>al_next := None\<rparr>"
      using scheduled_primary [OF ok oc a] by (simp add: settled_def)
    have "evolves (put_alarm (oc_alarm oc) (settled oid a) row1) row'"
      unfolding s by (rule rearm_evolves [OF _ on]) (use 1 e True s in \<open>simp_all add: evolves_ok\<close>)
    with 1 show ?thesis by (rule evolves_trans)
  next
    case False
    then have "settled oid a = a"
      using scheduled_primary [OF ok oc a] by (simp add: settled_def)
    then have "put_alarm (oc_alarm oc) (settled oid a) row1 = row1"
      using record_fired_alarms [OF r] a by (simp add: put_alarm_def update_triv)
    then show ?thesis using 1 e False by simp
  qed
qed

section \<open>Effects\<close>

text \<open>A fired occurrence moves to another fired state; only what refers to it has to be rechecked.\<close>

lemma evolves_move_occ:
  assumes ok: "row_ok row" and oc: "aget (rw_occs row) j = Some oc" "oc_state oc \<noteq> OccScheduled"
    and s: "occ_may (oc_state oc) s" "s \<noteq> OccScheduled"
    and ob: "dict_all (effect_ok (row\<lparr>rw_occs := amod j (\<lambda>oc. oc\<lparr>oc_state := s\<rparr>) (rw_occs row)\<rparr>)) outbox"
    and grow: "grows effect_grows (rw_outbox row) outbox"
  shows "evolves row (row\<lparr>rw_outbox := outbox,
    rw_occs := amod j (\<lambda>oc. oc\<lparr>oc_state := s\<rparr>) (rw_occs row)\<rparr>)"
proof -
  let ?occs = "amod j (\<lambda>oc. oc\<lparr>oc_state := s\<rparr>) (rw_occs row)"
  let ?row = "row\<lparr>rw_occs := ?occs\<rparr>"
  have "next_ok ?row k oid" if "next_ok row k oid" for k oid
    using that oc by (auto simp: next_ok_def dict_simps split: option.splits)
  then have "dict_all (alarm_ok ?row) (rw_alarms row)"
    using ok by (auto simp: row_ok_def alarm_ok_def elim!: dict_all_mono split: option.splits)
  moreover have "dict_all (occ_ok row) ?occs"
  proof -
    have "occ_ok row k oc'" if k: "aget ?occs k = Some oc'" for k oc'
    proof (cases "k = j")
      case True
      then have "oc' = oc\<lparr>oc_state := s\<rparr>" using k oc by (simp add: dict_simps)
      then show ?thesis using row_ok_occ [OF ok oc(1)] True s by (simp add: occ_ok_def split: option.splits)
    next
      case False
      then show ?thesis using k by (intro row_ok_occ [OF ok]) (simp add: dict_simps)
    qed
    then show ?thesis using ok by (simp add: dict_all_iff row_ok_dicts)
  qed
  moreover have "dict_all (guest_ok ?row) (rw_guests row)"
    using ok s by (auto simp: row_ok_def guest_ok_def dict_simps elim!: dict_all_mono
        split: option.splits)
  moreover have "grows occ_grows (rw_occs row) ?occs"
    by (rule grows_amod) (use oc s in \<open>auto simp: occ_grows_def\<close>)
  moreover have swap: "row\<lparr>rw_outbox := outbox, rw_occs := ?occs\<rparr> = ?row\<lparr>rw_outbox := outbox\<rparr>"
    by simp
  ultimately show ?thesis
    using ok ob grow unfolding swap by (simp add: evolves_def row_ok_def row_grows_def)
qed

lemma evolves_effect_occ:
  assumes ok: "row_ok row" and e: "aget (rw_outbox row) k = Some e" "ef_state e = EffPending"
    and g: "effect_grows e e'" "ef_id e' = ef_id e" "ef_state e' \<noteq> EffPending" "ef_claim e' = None"
      "ef_count e' = ef_count e" "length (ef_attempts e') = length (ef_attempts e)"
  shows "evolves row (row\<lparr>rw_outbox := aput k e' (rw_outbox row),
    rw_occs := amod (ef_occ e) (\<lambda>oc. oc\<lparr>oc_state := effect_occ_state (ef_state e')\<rparr>) (rw_occs row)\<rparr>)"
proof -
  have eok: "effect_ok row k e" by (rule row_ok_effect [OF ok e(1)])
  then obtain oc where oc: "aget (rw_occs row) (ef_occ e) = Some oc" "oc_state oc = OccDeliveryPending"
    using e(2) by (auto elim: effect_okE)
  let ?s = "effect_occ_state (ef_state e')"
  let ?row = "row\<lparr>rw_occs := amod (ef_occ e) (\<lambda>oc. oc\<lparr>oc_state := ?s\<rparr>) (rw_occs row)\<rparr>"
  show ?thesis
  proof (rule evolves_move_occ [OF ok oc(1)])
    show "dict_all (effect_ok ?row) (aput k e' (rw_outbox row))"
    proof (rule dict_all_aput)
      show "dict_all (effect_ok row) (rw_outbox row)" using ok by (simp add: row_ok_def)
      show "effect_ok ?row k e'"
        using eok g oc by (auto simp: effect_ok_def effect_grows_def dict_simps)
    next
      fix j b
      assume j: "j \<noteq> k" and b: "effect_ok row j b"
      then have "ef_occ b \<noteq> ef_occ e" using eok by (auto simp: effect_ok_def)
      then show "effect_ok ?row j b" using b by (simp add: effect_ok_def dict_simps)
    qed
    show "grows effect_grows (rw_outbox row) (aput k e' (rw_outbox row))"
      by (rule grows_aput) (use e g in auto)
  qed (use oc g(3) in \<open>cases "ef_state e'"; auto\<close>)+
qed

lemma failed_notification_evolves:
  assumes ok: "row_ok row" and e: "aget (rw_outbox row) k = Some e" "ef_state e = EffPending"
    and f: "failed_notification row k e reason = Inr row'"
  shows "evolves row row'"
proof -
  have "row' = row\<lparr>rw_outbox := aput k (e\<lparr>ef_state := EffFailed, ef_claim := None,
        ef_failure := Some reason\<rparr>) (rw_outbox row),
      rw_occs := amod (ef_occ e) (\<lambda>oc. oc\<lparr>oc_state := OccNotificationFailed\<rparr>) (rw_occs row)\<rparr>"
    using f by (simp add: failed_notification_def split: if_splits)
  moreover have "evolves row (row\<lparr>rw_outbox := aput k (e\<lparr>ef_state := EffFailed, ef_claim := None,
        ef_failure := Some reason\<rparr>) (rw_outbox row),
      rw_occs := amod (ef_occ e) (\<lambda>oc. oc\<lparr>oc_state := effect_occ_state (ef_state
        (e\<lparr>ef_state := EffFailed, ef_claim := None, ef_failure := Some reason\<rparr>))\<rparr>) (rw_occs row)\<rparr>)"
    by (rule evolves_effect_occ [OF ok e]) (simp_all add: effect_grows_def e)
  ultimately show ?thesis by simp
qed

lemma judge_pending: "judge now row e = Inr v \<Longrightarrow> v \<noteq> Skip \<Longrightarrow> ef_state e = EffPending \<and> ef_claim e = None"
  by (auto simp: judge_def split: if_splits)

lemma judge_count:
  "judge now row e = Inr Attempt \<Longrightarrow> ef_count e < 3"
  by (auto simp: judge_def bnd_Inr_iff not_le split: if_splits option.splits)

lemma claim_effect_evolves:
  assumes ok: "row_ok row" and e: "aget (rw_outbox row) k = Some e"
    and p: "ef_state e = EffPending" "ef_count e < 3"
    and c: "claim_effect ev app owner now_text k e row = Inr (row', d)"
  shows "evolves row row'"
proof -
  obtain token where "row' = row\<lparr>rw_outbox := aput k (e\<lparr>ef_claim := Some \<lparr>nc_owner = owner,
      nc_token = token, nc_at = now_text\<rparr>, ef_count := ef_count e + 1,
      ef_attempts := ef_attempts e @ [\<lparr>at_started = now_text, at_result = ''unknown'',
        at_completed = None\<rparr>]\<rparr>) (rw_outbox row)\<rparr>"
    using c by (auto simp: claim_effect_def bnd_Inr_iff Let_def)
  then show ?thesis
    using row_ok_effect [OF ok e] e p
    by (auto intro!: evolves_put_effect [OF ok] simp: effect_ok_def effect_grows_def max_attempts_def
        split: option.splits)
qed

lemma failed_notification_outbox:
  "failed_notification row k e reason = Inr row' \<Longrightarrow> j \<noteq> k \<Longrightarrow> aget (rw_outbox row') j = aget (rw_outbox row) j"
  by (auto simp: failed_notification_def dict_simps split: if_splits)

lemma claim_scan_evolves:
  assumes "row_ok row" and "distinct (map fst es)"
    and "\<And>k e. (k, e) \<in> set es \<Longrightarrow> aget (rw_outbox row) k = Some e"
    and "claim_scan ev app owner now_text now es row = Inr (row', d)"
  shows "evolves row row'"
  using assms
proof (induction es arbitrary: row)
  case Nil
  then show ?case by (simp add: evolves_refl)
next
  case (Cons p es)
  obtain k e where p: "p = (k, e)" by force
  have e: "aget (rw_outbox row) k = Some e" using Cons.prems(3) p by auto
  obtain v where v: "judge now row e = Inr v"
    and rest: "(case v of Skip \<Rightarrow> claim_scan ev app owner now_text now es row
      | GiveUp reason \<Rightarrow> bnd (failed_notification row k e reason) (\<lambda>row'.
          claim_scan ev app owner now_text now es row')
      | Attempt \<Rightarrow> claim_effect ev app owner now_text k e row) = Inr (row', d)"
    using Cons.prems(4) unfolding p by (auto simp: bnd_Inr_iff)
  show ?case
  proof (cases v)
    case Skip
    show ?thesis by (rule Cons.IH) (use Cons.prems Skip rest in auto)
  next
    case (GiveUp reason)
    then obtain row1 where f: "failed_notification row k e reason = Inr row1"
      and r: "claim_scan ev app owner now_text now es row1 = Inr (row', d)"
      using rest by (auto simp: bnd_Inr_iff)
    have 1: "evolves row row1"
      by (rule failed_notification_evolves [OF Cons.prems(1) e _ f])
        (use judge_pending [OF v] GiveUp in simp)
    have "evolves row1 row'"
    proof (rule Cons.IH [OF evolves_ok [OF 1] _ _ r])
      show "distinct (map fst es)" using Cons.prems(2) by simp
      fix j b
      assume jb: "(j, b) \<in> set es"
      then have "j \<noteq> k" using Cons.prems(2) p by force
      then show "aget (rw_outbox row1) j = Some b"
        using failed_notification_outbox [OF f] Cons.prems(3) jb by simp
    qed
    with 1 show ?thesis by (rule evolves_trans)
  next
    case Attempt
    show ?thesis
      by (rule claim_effect_evolves [OF Cons.prems(1) e])
        (use judge_pending [OF v] judge_count v Attempt rest in auto)
  qed
qed

lemma sorted_table:
  assumes "dict_ok d"
  shows "distinct (map fst (sort_key f d))" and "(k, v) \<in> set (sort_key f d) \<Longrightarrow> aget d k = Some v"
  using assms by (auto simp: dict_ok_def distinct_map)

lemma claim_notification_evolves:
  assumes ok: "row_ok row"
    and c: "claim_scan ev app owner now_text now (effects_in_order row) row = Inr (row', d)"
  shows "evolves row row'"
proof (rule claim_scan_evolves [OF ok _ _ c])
  note ob = row_ok_dicts(3) [OF ok]
  show "distinct (map fst (effects_in_order row))"
    unfolding effects_in_order_def by (rule sorted_table(1) [OF ob])
  show "aget (rw_outbox row) k = Some e" if "(k, e) \<in> set (effects_in_order row)" for k e
    using that unfolding effects_in_order_def by (rule sorted_table(2) [OF ob])
qed

lemma finish_effect_evolves:
  assumes ok: "row_ok row" and e: "aget (rw_outbox row) k = Some e" "ef_claim e = Some c"
    and f: "finish_effect result now_text now k e row = Inr row'"
  shows "evolves row row'"
proof -
  have eok: "effect_ok row k e" by (rule row_ok_effect [OF ok e(1)])
  then have p: "ef_state e = EffPending" using e by (simp add: effect_ok_def)
  obtain as where as: "complete_last result now_text (ef_attempts e) = Inr as"
    using f unfolding finish_effect_def by (elim bnd_InrE)
  have len: "length as = length (ef_attempts e)" "map at_started as = map at_started (ef_attempts e)"
  proof -
    have ne: "ef_attempts e \<noteq> []" and
      eq: "as = butlast (ef_attempts e) @ [(last (ef_attempts e))\<lparr>at_result := result, at_completed := Some now_text\<rparr>]"
      using as by (auto simp: complete_last_def split: if_splits)
    have "ef_attempts e = butlast (ef_attempts e) @ [last (ef_attempts e)]" using ne by simp
    then have "map at_started (ef_attempts e) = map at_started (butlast (ef_attempts e)) @ [at_started (last (ef_attempts e))]"
      by (metis list.simps(8,9) map_append)
    then show "map at_started as = map at_started (ef_attempts e)" by (simp add: eq)
    then show "length as = length (ef_attempts e)" by (metis length_map)
  qed
  let ?e = "e\<lparr>ef_attempts := as, ef_claim := None\<rparr>"
  let ?row = "row\<lparr>rw_outbox := aput k ?e (rw_outbox row)\<rparr>"
  have step: "evolves row ?row"
  proof (rule evolves_put_effect [OF ok])
    show "effect_ok row k ?e" using eok len by (simp add: effect_ok_def split: option.splits)
    show "effect_grows b ?e" if "aget (rw_outbox row) k = Some b" for b
      using that e len by (simp add: effect_grows_def)
  qed
  show ?thesis
  proof (cases "result = ''accepted''")
    case True
    have "row' = row\<lparr>rw_outbox := aput k (?e\<lparr>ef_state := EffAccepted\<rparr>) (rw_outbox row),
        rw_occs := amod (ef_occ e) (\<lambda>oc. oc\<lparr>oc_state := effect_occ_state (ef_state
          (?e\<lparr>ef_state := EffAccepted\<rparr>))\<rparr>) (rw_occs row)\<rparr>"
      using f as True unfolding finish_effect_def by (simp add: Let_def update_Some_unfold split: if_splits)
    moreover have "evolves row (row\<lparr>rw_outbox := aput k (?e\<lparr>ef_state := EffAccepted\<rparr>) (rw_outbox row),
        rw_occs := amod (ef_occ e) (\<lambda>oc. oc\<lparr>oc_state := effect_occ_state (ef_state
          (?e\<lparr>ef_state := EffAccepted\<rparr>))\<rparr>) (rw_occs row)\<rparr>)"
      by (rule evolves_effect_occ [OF ok e(1) p])
        (simp_all add: effect_grows_def p len)
    ultimately show ?thesis by simp
  next
    case False
    then consider "row' = ?row" | reason where "failed_notification ?row k ?e reason = Inr row'"
      using f as unfolding finish_effect_def by (auto simp: Let_def bnd_Inr_iff split: if_splits)
    then show ?thesis
    proof cases
      case 1
      then show ?thesis using step by simp
    next
      case 2
      have "evolves ?row row'"
        by (rule failed_notification_evolves [OF evolves_ok [OF step] _ _ 2]) (simp_all add: dict_simps p)
      with step show ?thesis by (rule evolves_trans)
    qed
  qed
qed

section \<open>Guest deliveries\<close>

lemma claim_event_evolves:
  assumes ok: "row_ok row" and g: "aget (rw_guests row) k = Some g"
    and p: "ge_state g = GuestPending" "ge_attempts g < 3"
    and c: "claim_event ev app owner now_text generation k g row = Inr (row', d)"
  shows "evolves row row'"
proof -
  obtain token where "row' = row\<lparr>rw_guests := aput k (g\<lparr>ge_attempts := ge_attempts g + 1,
      ge_claim := Some \<lparr>gc_owner = owner, gc_token = token, gc_generation = generation\<rparr>,
      ge_generation := Some generation, ge_dispatched := Some now_text, ge_ack := None\<rparr>) (rw_guests row)\<rparr>"
    using c by (auto simp: claim_event_def bnd_Inr_iff Let_def)
  then show ?thesis
    using row_ok_guest [OF ok g] g p
    by (auto intro!: evolves_put_guest [OF ok] simp: guest_ok_def guest_grows_def max_attempts_def
        split: option.splits)
qed

lemma dead_letter_evolves:
  assumes ok: "row_ok row" and g: "aget (rw_guests row) k = Some g"
    and p: "ge_state g = GuestPending" "ge_claim g = None"
  shows "evolves row (row\<lparr>rw_guests := aput k (g\<lparr>ge_state := GuestDeadLettered\<rparr>) (rw_guests row)\<rparr>)"
  by (rule evolves_put_guest [OF ok])
    (use row_ok_guest [OF ok g] g p in \<open>auto simp: guest_ok_def guest_grows_def split: option.splits\<close>)

lemma guest_scan_evolves:
  assumes "row_ok row" and "distinct (map fst gs)"
    and "\<And>k g. (k, g) \<in> set gs \<Longrightarrow> aget (rw_guests row) k = Some g"
    and "guest_scan ev app owner now_text generation gs row = Inr (row', d)"
  shows "evolves row row'"
  using assms
proof (induction gs arbitrary: row)
  case Nil
  then show ?case by (simp add: evolves_refl)
next
  case (Cons p gs)
  obtain k g where p: "p = (k, g)" by force
  have g: "aget (rw_guests row) k = Some g" using Cons.prems(3) p by auto
  show ?case
  proof (cases "ge_state g \<noteq> GuestPending \<or> ge_claim g \<noteq> None \<or> now_text < ge_for g")
    case True
    then show ?thesis using Cons.prems p by (intro Cons.IH) auto
  next
    case pending: False
    show ?thesis
    proof (cases "3 \<le> ge_attempts g")
      case True
      let ?row = "row\<lparr>rw_guests := aput k (g\<lparr>ge_state := GuestDeadLettered\<rparr>) (rw_guests row)\<rparr>"
      have 1: "evolves row ?row"
        by (rule dead_letter_evolves [OF Cons.prems(1) g]) (use pending in auto)
      have "evolves ?row row'"
      proof (rule Cons.IH [OF evolves_ok [OF 1]])
        show "distinct (map fst gs)" using Cons.prems(2) by simp
        show "guest_scan ev app owner now_text generation gs ?row = Inr (row', d)"
          using Cons.prems(4) p pending True by auto
        fix j b
        assume jb: "(j, b) \<in> set gs"
        then have "j \<noteq> k" using Cons.prems(2) p by force
        then show "aget (rw_guests ?row) j = Some b"
          using Cons.prems(3) jb by (simp add: dict_simps)
      qed
      with 1 show ?thesis by (rule evolves_trans)
    next
      case False
      show ?thesis
        by (rule claim_event_evolves [OF Cons.prems(1) g])
          (use pending False Cons.prems(4) p in auto)
    qed
  qed
qed

lemma claim_guest_evolves:
  assumes ok: "row_ok row"
    and c: "guest_scan ev app owner now_text generation (guests_in_order row) row = Inr (row', d)"
  shows "evolves row row'"
proof (rule guest_scan_evolves [OF ok _ _ c])
  note gu = row_ok_dicts(4) [OF ok]
  show "distinct (map fst (guests_in_order row))"
    unfolding guests_in_order_def by (rule sorted_table(1) [OF gu])
  show "aget (rw_guests row) k = Some g" if "(k, g) \<in> set (guests_in_order row)" for k g
    using that unfolding guests_in_order_def by (rule sorted_table(2) [OF gu])
qed

lemma finish_event_evolves:
  assumes ok: "row_ok row" and g: "aget (rw_guests row) k = Some g" "ge_claim g = Some c"
    and f: "finish_event result k g c row = Inr row'"
  shows "evolves row row'"
proof -
  have gok: "guest_ok row k g" by (rule row_ok_guest [OF ok g(1)])
  then have p: "ge_state g = GuestPending" using g by (simp add: guest_ok_def)
  let ?put = "\<lambda>g' r. r\<lparr>rw_guests := aput k (g'\<lparr>ge_claim := None, ge_ack := None\<rparr>) (rw_guests row)\<rparr>"
  have put: "evolves r (?put g' r)"
    if r: "row_ok r" "rw_guests r = rw_guests row" and g': "ge_id g' = ge_id g" "ge_occ g' = ge_occ g"
      "ge_attempts g' = ge_attempts g" "ge_payload g' = ge_payload g" "ge_for g' = ge_for g"
      "ge_class g' = ge_class g" for r g'
  proof -
    have "evolves r (r\<lparr>rw_guests := aput k (g'\<lparr>ge_claim := None, ge_ack := None\<rparr>) (rw_guests r)\<rparr>)"
      by (rule evolves_put_guest [OF r(1)])
        (use row_ok_guest [OF r(1)] r(2) g g' p in \<open>auto simp: guest_ok_def guest_grows_def split: option.splits\<close>)
    then show ?thesis by (simp add: r(2))
  qed
  show ?thesis
  proof (cases "result = ''success''")
    case False
    have "row' = ?put (g\<lparr>ge_state := (if 3 \<le> ge_attempts g then GuestDeadLettered else GuestPending)\<rparr>) row"
      using f False by (simp add: finish_event_def Let_def)
    then show ?thesis by (simp only:) (rule put [OF ok refl]; simp)
  next
    case True
    obtain oc where oc: "aget (rw_occs row) (ge_occ g) = Some oc"
      and row': "row' = ?put (g\<lparr>ge_state := GuestAcked, ge_outcome := ge_ack g\<rparr>)
        (if oc_state oc = OccGuestPending
         then row\<lparr>rw_occs := aput (ge_occ g) (oc\<lparr>oc_state := OccGuestAcked\<rparr>) (rw_occs row)\<rparr> else row)"
      using f True unfolding finish_event_def Let_def
      by (auto elim!: res_elims split: if_splits)
    show ?thesis
    proof (cases "oc_state oc = OccGuestPending")
      case False
      then have "row' = ?put (g\<lparr>ge_state := GuestAcked, ge_outcome := ge_ack g\<rparr>) row" using row' by simp
      then show ?thesis by (simp only:) (rule put [OF ok refl]; simp)
    next
      case pending: True
      let ?move = "amod (ge_occ g) (\<lambda>oc. oc\<lparr>oc_state := OccGuestAcked\<rparr>) (rw_occs row)"
      have same: "aput (ge_occ g) (oc\<lparr>oc_state := OccGuestAcked\<rparr>) (rw_occs row) = ?move"
        by (rule aput_amod [OF row_ok_dicts(2) [OF ok] oc])
      have "evolves row (row\<lparr>rw_outbox := rw_outbox row, rw_occs := ?move\<rparr>)"
      proof (rule evolves_move_occ [OF ok oc])
        show "dict_all (effect_ok (row\<lparr>rw_occs := ?move\<rparr>)) (rw_outbox row)"
        proof (rule dict_all_mono)
          show "dict_all (effect_ok row) (rw_outbox row)" using ok by (simp add: row_ok_def)
          fix j e
          assume e: "effect_ok row j e"
          then have "ef_occ e \<noteq> ge_occ g"
            using oc pending by (cases "ef_state e") (auto simp: effect_ok_def)
          then show "effect_ok (row\<lparr>rw_occs := ?move\<rparr>) j e"
            using e by (simp add: effect_ok_def dict_simps)
        qed
      qed (simp_all add: pending)
      then have 1: "evolves row (row\<lparr>rw_occs := ?move\<rparr>)" by simp
      have eq: "row' = ?put (g\<lparr>ge_state := GuestAcked, ge_outcome := ge_ack g\<rparr>) (row\<lparr>rw_occs := ?move\<rparr>)"
        using row' by (simp only: same pending simp_thms if_True)
      have "evolves (row\<lparr>rw_occs := ?move\<rparr>) row'"
        unfolding eq by (rule put [OF evolves_ok [OF 1]]; simp)
      with 1 show ?thesis by (rule evolves_trans)
    qed
  qed
qed

section \<open>Recovery\<close>

lemma recover_effect_evolves:
  assumes ok: "row_ok row" and r: "recover_effect owner row k = Inr row'"
  shows "evolves row row'"
proof -
  obtain e where e: "aget (rw_outbox row) k = Some e"
    using r by (auto simp: recover_effect_def split: option.splits)
  show ?thesis
  proof (cases "ef_claim e")
    case None
    then show ?thesis using r e ok by (simp add: recover_effect_def evolves_refl)
  next
    case (Some c)
    have eok: "effect_ok row k e" by (rule row_ok_effect [OF ok e])
    then have p: "ef_state e = EffPending" using Some by (simp add: effect_ok_def)
    let ?e = "e\<lparr>ef_claim := None\<rparr>"
    let ?row = "row\<lparr>rw_outbox := aput k ?e (rw_outbox row)\<rparr>"
    have step: "evolves row ?row"
    proof (rule evolves_put_effect [OF ok])
      show "effect_ok row k ?e" using eok by (simp add: effect_ok_def split: option.splits)
      show "effect_grows b ?e" if "aget (rw_outbox row) k = Some b" for b
        using that e by (simp add: effect_grows_def)
    qed
    have r': "(if nc_owner c \<noteq> owner then Inr row
      else if 3 \<le> ef_count e then failed_notification ?row k ?e ''last-attempt-owner-lost''
      else Inr ?row) = Inr row'"
      using r unfolding recover_effect_def e Some Let_def option.case .
    show ?thesis
    proof (cases "nc_owner c \<noteq> owner")
      case True
      then show ?thesis using r' ok by (simp add: evolves_refl)
    next
      case mine: False
      show ?thesis
      proof (cases "3 \<le> ef_count e")
        case False
        then show ?thesis using r' mine step by simp
      next
        case True
        then have f: "failed_notification ?row k ?e ''last-attempt-owner-lost'' = Inr row'"
          using r' mine by (simp only: if_True simp_thms if_False)
        have "evolves ?row row'"
          by (rule failed_notification_evolves [OF evolves_ok [OF step] _ _ f]) (simp_all add: dict_simps p)
        with step show ?thesis by (rule evolves_trans)
      qed
    qed
  qed
qed

lemma recover_event_ok: "guest_ok row k g \<Longrightarrow> guest_ok row k (recover_event owner g)"
  by (auto simp: guest_ok_def recover_event_def split: option.splits)

lemma recover_event_grows: "guest_ok row k g \<Longrightarrow> guest_grows g (recover_event owner g)"
  by (auto simp: guest_ok_def guest_grows_def recover_event_def split: option.splits)

lemma recover_row_evolves:
  assumes ok: "row_ok row" and r: "recover_row owner row = Inr row'"
  shows "evolves row row'"
proof -
  obtain row1 where f: "rfold (recover_effect owner) row (keys (rw_outbox row)) = Inr row1"
    and row': "row' = row1\<lparr>rw_guests := amap (recover_event owner) (rw_guests row1)\<rparr>"
    using r by (auto simp: recover_row_def bnd_Inr_iff)
  have 1: "evolves row row1"
    by (rule rfold_evolves [OF f ok]) (rule recover_effect_evolves)
  then have ok1: "row_ok row1" by (rule evolves_ok)
  have "dict_all (guest_ok row1) (amap (recover_event owner) (rw_guests row1))"
    using ok1 by (auto simp: row_ok_def dict_all_iff dict_simps intro: recover_event_ok)
  moreover have "grows guest_grows (rw_guests row1) (amap (recover_event owner) (rw_guests row1))"
    using row_ok_guest [OF ok1] by (auto simp: grows_def dict_simps intro: recover_event_grows)
  ultimately have "evolves row1 row'"
    using ok1 by (simp add: row' evolves_def row_ok_def row_grows_def)
  with 1 show ?thesis by (rule evolves_trans)
qed

end
