(* ===== verification/SchedMachine.thy ===== *)
theory SchedMachine
  imports SchedFire
begin

text \<open>
  The scheduler backend as a state machine over its ledger: one constructor per method that
  changes state. A failed call leaves the ledger as it was. The machine keeps \<open>ledger_ok\<close> and
  never goes back in the audit order; both contracts of the prelude are interpreted here.
\<close>

datatype sched_op =
    HostContext string app_context
  | Command string pyval pyval pyval "string option" bool
  | Upsert string pyval string pyval
  | Toggle string string pyval string pyval bool
  | Acknowledge string string string pyval string string
  | AdvanceDue string bool int
  | ClaimNotification string string string
  | FinishNotification string string string string string
  | ClaimGuest string string string
  | FinishGuest string string string string
  | RecoverOwner string

fun sched_exec :: "env \<Rightarrow> ledger \<Rightarrow> sched_op \<Rightarrow> ledger res" where
  "sched_exec ev lg (HostContext app c) = bnd (host_context lg app c) (\<lambda>(l, _). Inr l)"
| "sched_exec ev lg (Command app cmd key now generation host) =
     bnd (command ev lg app cmd key now generation host) (\<lambda>(l, _). Inr l)"
| "sched_exec ev lg (Upsert app request generation now) =
     bnd (scheduler_upsert ev lg app request generation now) (\<lambda>(l, _). Inr l)"
| "sched_exec ev lg (Toggle app sid key generation now enable) =
     bnd (scheduler_toggle ev lg app sid key generation now enable) (\<lambda>(l, _). Inr l)"
| "sched_exec ev lg (Acknowledge app oid outcome key generation token) =
     bnd (scheduler_acknowledge ev lg app oid outcome key generation token) (\<lambda>(l, _). Inr l)"
| "sched_exec ev lg (AdvanceDue now recovery limit) =
     bnd (advance_due ev lg now recovery limit) (\<lambda>(l, _). Inr l)"
| "sched_exec ev lg (ClaimNotification app owner now) =
     bnd (claim_notification ev lg app owner now) (\<lambda>(l, _). Inr l)"
| "sched_exec ev lg (FinishNotification app nid token result now) =
     bnd (finish_notification lg app nid token result now) (\<lambda>(l, _). Inr l)"
| "sched_exec ev lg (ClaimGuest app owner now) =
     bnd (claim_guest ev lg app owner now) (\<lambda>(l, _). Inr l)"
| "sched_exec ev lg (FinishGuest app gid token result) =
     bnd (finish_guest lg app gid token result) (\<lambda>(l, _). Inr l)"
| "sched_exec ev lg (RecoverOwner owner) = bnd (recover_owner lg owner) (\<lambda>(l, _). Inr l)"

definition sched_step :: "env \<Rightarrow> ledger \<Rightarrow> sched_op \<Rightarrow> ledger" where
  "sched_step ev lg x = (case sched_exec ev lg x of Inl e \<Rightarrow> lg | Inr lg' \<Rightarrow> lg')"

section \<open>Ledgers evolve\<close>

definition ledger_evolves :: "ledger \<Rightarrow> ledger \<Rightarrow> bool" where
  "ledger_evolves lg lg' \<longleftrightarrow> ledger_ok lg' \<and> ledger_grows lg lg'"

lemma ledger_evolves_refl: "ledger_ok lg \<Longrightarrow> ledger_evolves lg lg"
  by (simp add: ledger_evolves_def)

lemma ledger_evolves_trans: "ledger_evolves a b \<Longrightarrow> ledger_evolves b c \<Longrightarrow> ledger_evolves a c"
  by (auto simp: ledger_evolves_def intro: ledger_grows_trans)

lemma ledger_ok_row: "ledger_ok lg \<Longrightarrow> aget lg app = Some row \<Longrightarrow> row_ok row"
  by (auto simp: ledger_ok_def dict_all_iff)

lemma ledger_put_row:
  assumes "ledger_ok lg" and "row_ok row'" and "\<And>row. aget lg app = Some row \<Longrightarrow> row_grows row row'"
  shows "ledger_evolves lg (aput app row' lg)"
  using assms
  by (auto simp: ledger_evolves_def ledger_ok_def ledger_grows_def intro: dict_all_aput grows_aput)

lemma ledger_update_row:
  assumes "ledger_ok lg" and "aget lg app = Some row" and "evolves row row'"
  shows "ledger_evolves lg (aput app row' lg)"
  by (rule ledger_put_row) (use assms in \<open>auto simp: evolves_def\<close>)

lemma find_app_Inr: "find_app lg app = Inr row \<Longrightarrow> aget lg app = Some row"
  by (auto simp: find_app_def bnd_Inr_iff split: option.splits)

lemma edit_row_evolves:
  assumes ok: "ledger_ok lg"
    and e: "edit lg (\<lambda>l. bnd (find_app l app) (\<lambda>row. bnd (f row) (\<lambda>(row', x).
      Inr (aput app row' l, g x)))) = Inr (lg', y)"
    and f: "\<And>row row' x. row_ok row \<Longrightarrow> f row = Inr (row', x) \<Longrightarrow> evolves row row'"
  shows "ledger_evolves lg lg'"
proof -
  obtain row row' x where row: "find_app lg app = Inr row" and r: "f row = Inr (row', x)"
    and lg': "lg' = aput app row' lg"
    using e by (auto simp: edit_Inr_iff bnd_Inr_iff)
  have a: "aget lg app = Some row" by (rule find_app_Inr [OF row])
  have "evolves row row'" by (rule f [OF ledger_ok_row [OF ok a] r])
  then show ?thesis unfolding lg' by (rule ledger_update_row [OF ok a])
qed

section \<open>Each method\<close>

lemma respond_evolves:
  assumes "ledger_ok lg" and "respond lg r = Inr (lg', v)"
    and "\<And>l w. r = Inr (l, w) \<Longrightarrow> ledger_evolves lg l"
  shows "ledger_evolves lg lg'"
  using assms by (auto simp: respond_def ledger_evolves_refl split: sum.splits exn.splits)

lemma mutating_call_evolves:
  assumes ok: "ledger_ok lg" and f: "good_callback f"
    and m: "mutating_call ev lg app operation payload key generation f host_action = Inr (lg', v)"
  shows "ledger_evolves lg lg'"
proof -
  obtain members k fp where
    "edit lg (\<lambda>l. bnd (find_app l app) (\<lambda>row.
      bnd (call_body ev operation members k generation f host_action fp row)
        (\<lambda>(row', response). Inr (aput app row' l, response)))) = Inr (lg', v)"
    using m unfolding mutating_call_def by (auto split: pyval.splits elim!: bnd_InrE)
  then show ?thesis
    by (rule edit_row_evolves [OF ok, where g = "\<lambda>x. x"]) (rule call_body_evolves [OF _ f])
qed

lemma host_context_evolves:
  assumes ok: "ledger_ok lg" and h: "host_context lg app c = Inr (lg', u)"
  shows "ledger_evolves lg lg'"
proof -
  let ?row = "case aget lg app of None \<Rightarrow> fresh_row c | Some r \<Rightarrow> r\<lparr>rw_context := c\<rparr>"
  obtain row' where f: "rfold (context_alarm c) ?row (keys (rw_alarms ?row)) = Inr row'"
    and lg': "lg' = aput app row' lg"
    using h unfolding host_context_def Let_def by (auto simp: edit_Inr_iff elim!: bnd_InrE seq_InrE)
  have start: "row_ok ?row"
    using ok by (auto simp: row_ok_fresh dest: ledger_ok_row split: option.splits)
  have step: "evolves ?row row'"
    by (rule rfold_evolves [OF f start]) (rule context_alarm_evolves)
  show ?thesis
    unfolding lg'
  proof (rule ledger_put_row [OF ok evolves_ok [OF step]])
    fix row
    assume row: "aget lg app = Some row"
    then have "evolves row ?row"
      using ledger_ok_row [OF ok row] by (simp add: evolves_context)
    then have "evolves row row'" using step by (rule evolves_trans)
    then show "row_grows row row'" by (simp add: evolves_def)
  qed
qed

lemma command_evolves:
  assumes ok: "ledger_ok lg" and c: "command ev lg app cmd key now generation host = Inr (lg', v)"
  shows "ledger_evolves lg lg'"
  using c unfolding command_def
proof (rule respond_evolves [OF ok])
  fix l w
  assume "bnd (object_of cmd [''tag'', ''value'']) (\<lambda>c.
     bnd (parse_utc now) (\<lambda>now.
     if is_pstr ''alarm-status'' (dget c ''tag'') then
       bnd (object_of (dget c ''value'') [''alarm_id'', ''occurrence_limit'', ''effect_limit'']) (\<lambda>v.
       bnd (status lg app (dget v ''alarm_id'') (dget v ''occurrence_limit'') (dget v ''effect_limit''))
         (\<lambda>r. Inr (lg, ok_response r)))
     else if is_pstr ''alarm-snooze'' (dget c ''tag'') \<and> (\<not> host \<or> generation \<noteq> None)
     then fail ''permission-denied'' ''snooze requires a host-verified notification action''
     else (case dget c ''tag'' of
         PStr tag \<Rightarrow>
           if tag \<notin> set alarm_commands then bad_arg ''unsupported alarm command''
           else mutating_call ev lg app tag (dget c ''value'') key generation
             (alarm_action ev tag (dget c ''value'') now) (tag = ''alarm-snooze'')
       | _ \<Rightarrow> bad_arg ''unsupported alarm command''))) = Inr (l, w)"
  then consider "l = lg" | tag v now' where "mutating_call ev lg app tag v key generation
      (alarm_action ev tag v now') (tag = ''alarm-snooze'') = Inr (l, w)"
    by (elim bnd_InrE) (auto simp: bnd_Inr_iff split: if_splits pyval.splits)
  then show "ledger_evolves lg l"
    by cases (auto simp: ledger_evolves_refl ok intro: mutating_call_evolves [OF ok good_alarm_action])
qed

lemma upsert_evolves:
  assumes ok: "ledger_ok lg" and c: "scheduler_upsert ev lg app request generation now = Inr (lg', v)"
  shows "ledger_evolves lg lg'"
  using c unfolding scheduler_upsert_def
  by (rule respond_evolves [OF ok])
    (auto elim!: bnd_InrE intro: mutating_call_evolves [OF ok good_upsert_action]
      split: if_splits option.splits)

lemma scheduler_toggle_evolves:
  assumes ok: "ledger_ok lg"
    and c: "scheduler_toggle ev lg app sid key generation now enable = Inr (lg', v)"
  shows "ledger_evolves lg lg'"
  using c unfolding scheduler_toggle_def
  by (rule respond_evolves [OF ok])
    (auto elim!: bnd_InrE intro: mutating_call_evolves [OF ok good_toggle_action])

lemma scheduler_acknowledge_evolves:
  assumes ok: "ledger_ok lg"
    and c: "scheduler_acknowledge ev lg app oid outcome key generation token = Inr (lg', v)"
  shows "ledger_evolves lg lg'"
  using c unfolding scheduler_acknowledge_def
  by (rule respond_evolves [OF ok])
    (auto elim!: bnd_InrE intro: mutating_call_evolves [OF ok good_acknowledge_action] split: if_splits)

lemma due_candidate:
  assumes "c \<in> set (due_candidates lg now_text)"
  obtains due app oid row oc where "c = (due, app, oid)" and "(app, row) \<in> set lg"
    and "(oid, oc) \<in> set (rw_occs row)" and "oc_state oc = OccScheduled" and "oc_due oc = due"
    and "due \<le> now_text"
  using assms by (auto simp: due_candidates_def)

lemma advance_one_evolves:
  assumes ok: "ledger_ok lg" and c: "(due, app, oid) \<in> set (due_candidates lg now_text)"
    and a: "advance_one ev now_text now recovery lg app oid = Inr lg'"
  shows "ledger_evolves lg lg'"
proof -
  obtain row oc where row: "(app, row) \<in> set lg" and oc: "(oid, oc) \<in> set (rw_occs row)"
      "oc_state oc = OccScheduled"
    using c by (auto elim: due_candidate)
  have row': "aget lg app = Some row" using ok row by (simp add: ledger_ok_def dict_all_def dict_ok_aget)
  have rok: "row_ok row" by (rule ledger_ok_row [OF ok row'])
  have oc': "aget (rw_occs row) oid = Some oc" using rok oc by (simp add: row_ok_dicts dict_ok_aget)
  obtain al where al: "aget (rw_alarms row) (oc_alarm oc) = Some al"
    using row_ok_occ [OF rok oc'] by (auto elim: occ_okE)
  obtain row2 where "lg' = aput app row2 lg" and "evolves row row2"
    using a row' oc' al cancel_stale_evolves [OF rok oc' oc(2) al] fire_evolves [OF rok oc' oc(2) al]
    by (auto simp: advance_one_def bnd_Inr_iff split: if_splits)
  then show ?thesis using ledger_update_row [OF ok row'] by simp
qed

lemma advance_loop_evolves:
  assumes "ledger_ok lg" and "advance_loop ev now_text now recovery n lg = Inr (lg', ds)"
  shows "ledger_evolves lg lg'"
  using assms
proof (induction n arbitrary: lg ds)
  case 0
  then show ?case by (simp add: ledger_evolves_refl)
next
  case (Suc n)
  show ?case
  proof (cases "due_candidates lg now_text")
    case Nil
    then show ?thesis using Suc.prems by (simp add: ledger_evolves_refl)
  next
    case (Cons c cs)
    obtain due app oid where m: "min_list (c # cs) = (due, app, oid)" by (cases "min_list (c # cs)")
    obtain lg1 ds1 where a: "advance_one ev now_text now recovery lg app oid = Inr lg1"
      and r: "advance_loop ev now_text now recovery n lg1 = Inr (lg', ds1)"
      using Suc.prems(2) Cons m by (auto simp: bnd_Inr_iff)
    have "min_list (c # cs) \<in> set (c # cs)"
      using Min_in [of "set (c # cs)"] by (simp add: min_list_Min del: min_list.simps)
    then have 1: "ledger_evolves lg lg1"
      using m Cons by (intro advance_one_evolves [OF Suc.prems(1) _ a]) simp
    have "ledger_evolves lg1 lg'"
      by (rule Suc.IH [OF _ r]) (use 1 in \<open>simp add: ledger_evolves_def\<close>)
    with 1 show ?thesis by (rule ledger_evolves_trans)
  qed
qed

lemma advance_due_evolves:
  assumes ok: "ledger_ok lg" and a: "advance_due ev lg now_text recovery limit = Inr (lg', r)"
  shows "ledger_evolves lg lg'"
  using a unfolding advance_due_def
  by (auto elim!: bnd_InrE simp: edit_Inr_iff bnd_Inr_iff intro: advance_loop_evolves [OF ok])

lemma claim_notification_step:
  assumes ok: "ledger_ok lg" and c: "claim_notification ev lg app owner now_text = Inr (lg', d)"
  shows "ledger_evolves lg lg'"
  using c unfolding claim_notification_def
  by (elim bnd_InrE)
    (rule edit_row_evolves [OF ok, where g = "\<lambda>x. x"], assumption, erule (1) claim_notification_evolves)

lemma finish_notification_step:
  assumes ok: "ledger_ok lg" and f: "finish_notification lg app nid token result now_text = Inr (lg', u)"
  shows "ledger_evolves lg lg'"
proof -
  note row_step = ledger_update_row [OF ok find_app_Inr
    finish_effect_evolves [OF ledger_ok_row [OF ok find_app_Inr]]]
  show ?thesis
    using f unfolding finish_notification_def
    by (elim res_elims) (auto simp: edit_Inr_iff intro: row_step elim!: res_elims)
qed

lemma claim_guest_step:
  assumes ok: "ledger_ok lg" and c: "claim_guest ev lg app owner now_text = Inr (lg', d)"
  shows "ledger_evolves lg lg'"
proof -
  obtain row where row: "find_app lg app = Inr row"
    and r: "(case serving_generation (rw_context row) of None \<Rightarrow> Inr (lg, None)
      | Some generation \<Rightarrow> bnd (guest_scan ev app owner now_text generation (guests_in_order row) row)
          (\<lambda>(row', d). Inr (aput app row' lg, d))) = Inr (lg', d)"
    using c unfolding claim_guest_def edit_Inr_iff by (elim bnd_InrE conjE) (auto elim!: bnd_InrE simp: edit_Inr_iff)
  have a: "aget lg app = Some row" by (rule find_app_Inr [OF row])
  show ?thesis
  proof (cases "serving_generation (rw_context row)")
    case None
    then show ?thesis using r ok by (simp add: ledger_evolves_refl)
  next
    case (Some generation)
    then obtain row' where "guest_scan ev app owner now_text generation (guests_in_order row) row = Inr (row', d)"
      and lg': "lg' = aput app row' lg"
      using r by (auto simp: bnd_Inr_iff)
    then have "evolves row row'" by (intro claim_guest_evolves [OF ledger_ok_row [OF ok a]])
    then show ?thesis unfolding lg' by (rule ledger_update_row [OF ok a])
  qed
qed

lemma finish_guest_step:
  assumes ok: "ledger_ok lg" and f: "finish_guest lg app gid token result = Inr (lg', u)"
  shows "ledger_evolves lg lg'"
proof -
  note row_step = ledger_update_row [OF ok find_app_Inr
    finish_event_evolves [OF ledger_ok_row [OF ok find_app_Inr]]]
  show ?thesis
    using f unfolding finish_guest_def
    by (elim res_elims) (auto simp: edit_Inr_iff intro: row_step elim!: res_elims)
qed

lemma recover_owner_step:
  assumes ok: "ledger_ok lg" and r: "recover_owner lg owner = Inr (lg', u)"
  shows "ledger_evolves lg lg'"
proof -
  have f: "rfold (\<lambda>l app. case aget l app of None \<Rightarrow> Inl (Crash ''KeyError'')
      | Some row \<Rightarrow> bnd (recover_row owner row) (\<lambda>row'. Inr (aput app row' l))) lg (keys lg) = Inr lg'"
    using r unfolding recover_owner_def by (auto elim!: bnd_InrE simp: edit_Inr_iff)
  show ?thesis
  proof (rule rfold_invariant [OF f, where P = "ledger_evolves lg"])
    show "ledger_evolves lg lg" by (rule ledger_evolves_refl [OF ok])
    fix l app l'
    assume l: "ledger_evolves lg l"
      and s: "(case aget l app of None \<Rightarrow> Inl (Crash ''KeyError'')
        | Some row \<Rightarrow> bnd (recover_row owner row) (\<lambda>row'. Inr (aput app row' l))) = Inr l'"
    from s obtain row row' where a: "aget l app = Some row" and rr: "recover_row owner row = Inr row'"
      and l': "l' = aput app row' l"
      by (auto simp: bnd_Inr_iff split: option.splits)
    have lok: "ledger_ok l" using l by (simp add: ledger_evolves_def)
    have "ledger_evolves l l'"
      unfolding l' by (rule ledger_update_row [OF lok a recover_row_evolves [OF ledger_ok_row [OF lok a] rr]])
    with l show "ledger_evolves lg l'" by (rule ledger_evolves_trans)
  qed
qed

section \<open>The machine\<close>

lemma sched_exec_evolves:
  assumes ok: "ledger_ok lg" and x: "sched_exec ev lg x = Inr lg'"
  shows "ledger_evolves lg lg'"
  using x
  by (cases x)
    (auto elim!: bnd_InrE intro: host_context_evolves [OF ok] command_evolves [OF ok]
      upsert_evolves [OF ok] scheduler_toggle_evolves [OF ok] scheduler_acknowledge_evolves [OF ok]
      advance_due_evolves [OF ok] claim_notification_step [OF ok] finish_notification_step [OF ok]
      claim_guest_step [OF ok] finish_guest_step [OF ok] recover_owner_step [OF ok])

lemma sched_step_evolves: "ledger_ok lg \<Longrightarrow> ledger_evolves lg (sched_step ev lg x)"
  by (auto simp: sched_step_def ledger_evolves_refl sched_exec_evolves split: sum.splits)

interpretation sched: progress_machine "sched_step ev" "\<lambda>_. True" ledger_ok ledger_grows for ev
proof
  show "ledger_ok (sched_step ev lg x)" if "ledger_ok lg" for lg x
    using sched_step_evolves [OF that] by (simp add: ledger_evolves_def)
  show "ledger_grows lg (sched_step ev lg x)" if "ledger_ok lg" for lg x
    using sched_step_evolves [OF that] by (simp add: ledger_evolves_def)
qed (auto intro: ledger_grows_trans)

end
