(* ===== verification/SchedCivil.thy ===== *)
theory SchedCivil
  imports SchedSteps
begin

text \<open>
  Facts about the scheduler's time: what the timestamp validator accepts, how a civil time
  resolves in a zone, where the scan for the next civil occurrence stops, and that a validated
  schedule survives its JSON form.
\<close>

section \<open>Timestamps and zones\<close>

lemma parse_utc_iff: "parse_utc v = Inr t \<longleftrightarrow> representable t \<and> v = PStr (utc_text t)"
proof
  assume "parse_utc v = Inr t"
  then obtain s where v: "v = PStr s" and s: "parse_utc_text s = Some t"
    by (auto simp: parse_utc_def split: pyval.splits if_splits option.splits)
  then show "representable t \<and> v = PStr (utc_text t)"
    using parse_utc_text_representable [OF s] utc_text_parse [OF s] by simp
next
  assume t: "representable t \<and> v = PStr (utc_text t)"
  then have "parse_utc_text (utc_text t) = Some t" by (simp add: parse_utc_text_utc_text)
  moreover from this have "utc_shape (utc_text t)" by (auto simp: parse_utc_text_def split: if_splits)
  ultimately show "parse_utc v = Inr t" using t by (simp add: parse_utc_def)
qed

lemma in_set_nonempty: "x \<in> set xs \<Longrightarrow> xs \<noteq> []"
  by auto

lemma min_list_in: "xs \<noteq> [] \<Longrightarrow> min_list xs \<in> set (xs :: 'a::linorder list)"
  using Min_in [of "set xs"]   by (simp add: min_list_Min)

lemma min_list_least: "x \<in> set xs \<Longrightarrow> min_list xs \<le> (x :: 'a::linorder)"
proof -
  assume x: "x \<in> set xs"
  then have "xs \<noteq> []" by auto
  then show ?thesis using x by (simp add: min_list_Min)
qed

abbreviation local_of :: "zone \<Rightarrow> int \<Rightarrow> int" where
  "local_of z v \<equiv> v + z_utc z v"

abbreviation civil_local :: "int \<Rightarrow> int \<Rightarrow> int" where
  "civil_local date time \<equiv> (date - 1) * 86400 + time"

lemma resolve_civil_Inr:
  assumes "resolve_civil date time z = Inr v"
  shows "representable v" and "civil_local date time \<le> local_of z v"
    and "\<And>fold u. u = civil_local date time - z_local z fold (civil_local date time)
      \<Longrightarrow> local_of z u = civil_local date time \<Longrightarrow> local_of z v = civil_local date time \<and> v \<le> u"
proof -
  define l where "l = civil_local date time"
  let ?choices = "map (\<lambda>fold. l - z_local z fold l) [False, True]"
  let ?valid = "filter (\<lambda>v. local_of z v = l) ?choices"
  let ?forward = "filter (\<lambda>v. l < local_of z v) ?choices"
  have rep: "list_all (\<lambda>v. representable v \<and> representable (local_of z v)) ?choices"
    and v: "v = (if ?valid \<noteq> [] then min_list ?valid else min_list ?forward)"
    and ne: "?valid = [] \<Longrightarrow> ?forward \<noteq> []"
    using assms unfolding resolve_civil_def Let_def l_def [symmetric]
    by (auto split: if_splits simp del: list.map filter.simps min_list.simps)
  have in_valid: "?valid \<noteq> [] \<Longrightarrow> v \<in> set ?valid"
    using v min_list_in [of ?valid] by (simp del: list.map filter.simps min_list.simps)
  have in_forward: "?valid = [] \<Longrightarrow> v \<in> set ?forward"
    using v ne min_list_in [of ?forward] by (simp del: list.map filter.simps min_list.simps)
  consider "v \<in> set ?valid" | "v \<in> set ?forward" using in_valid in_forward by blast
  then have both: "v \<in> set ?choices \<and> l \<le> local_of z v"
    by cases (simp_all only: set_filter mem_Collect_eq, auto)
  then show "representable v" using rep by (simp only: list_all_iff)
  have "l \<le> local_of z v" using both ..
  then show "civil_local date time \<le> local_of z v" by (simp add: l_def)
  fix fold u
  assume "u = civil_local date time - z_local z fold (civil_local date time)" "local_of z u = civil_local date time"
  then have u': "u = l - z_local z fold l" "local_of z u = l" by (simp_all only: l_def)
  have "u \<in> set ?choices" unfolding u'(1) by (cases fold) simp_all
  with u'(2) have u: "u \<in> set ?valid" unfolding set_filter by blast
  have ne: "?valid \<noteq> []" by (rule in_set_nonempty [OF u])
  have "v = min_list ?valid" using v ne by (simp only: if_True simp_thms)
  then have "v \<le> u" by (simp only: min_list_least [OF u])
  moreover have "local_of z v = l" using in_valid [OF ne] unfolding set_filter by blast
  ultimately show "local_of z v = civil_local date time \<and> v \<le> u" by (simp only: l_def simp_thms)
qed

lemma resolve_civil_choice:
  assumes "resolve_civil date time z = Inr v"
  shows "v = civil_local date time - z_local z False (civil_local date time)
    \<or> v = civil_local date time - z_local z True (civil_local date time)"
proof -
  define l where "l = civil_local date time"
  let ?choices = "map (\<lambda>fold. l - z_local z fold l) [False, True]"
  have "v \<in> set (filter (\<lambda>v. local_of z v = l) ?choices)
    \<or> v \<in> set (filter (\<lambda>v. l < local_of z v) ?choices)"
    using assms unfolding resolve_civil_def Let_def l_def [symmetric]
    by (auto simp del: list.map filter.simps min_list.simps set_filter dest: min_list_in split: if_splits)
  then have "v \<in> set ?choices" by (metis filter_is_subset subsetD)
  then show ?thesis by (auto simp: l_def)
qed

lemma civil_scan_spec:
  assumes "civil_scan z kind days time after k date = Inr r"
  obtains d t where "r = Some (utc_text t, iso_date d)" and "date \<le> d" and "recurs_on kind days d"
    and "resolve_civil d time z = Inr t" and "after < t"
    and "\<And>d'. date \<le> d' \<Longrightarrow> d' < d \<Longrightarrow> recurs_on kind days d' \<Longrightarrow> \<exists>t'. resolve_civil d' time z = Inr t' \<and> t' \<le> after"
  using assms
proof (induction k arbitrary: date thesis)
  case 0
  then show ?case by simp
next
  case (Suc k)
  show ?case
  proof (cases "recurs_on kind days date \<and> (\<exists>t. resolve_civil date time z = Inr t \<and> after < t)")
    case True
    then obtain t where "resolve_civil date time z = Inr t" "after < t" by blast
    then show ?thesis using Suc.prems True by (intro Suc.prems(1) [of t date]) (auto simp: Let_def)
  next
    case False
    have next': "civil_scan z kind days time after k (date + 1) = Inr r"
      using Suc.prems(2) False by (auto simp: Let_def bnd_Inr_iff split: if_splits)
    have here: "recurs_on kind days date \<Longrightarrow> \<exists>t'. resolve_civil date time z = Inr t' \<and> t' \<le> after"
      using Suc.prems(2) False by (auto simp: Let_def bnd_Inr_iff)
    show ?thesis
    proof (rule Suc.IH [OF _ next'])
      fix d t
      assume d: "r = Some (utc_text t, iso_date d)" "date + 1 \<le> d" "recurs_on kind days d"
        "resolve_civil d time z = Inr t" "after < t"
        and before: "\<And>d'. date + 1 \<le> d' \<Longrightarrow> d' < d \<Longrightarrow> recurs_on kind days d'
          \<Longrightarrow> \<exists>t'. resolve_civil d' time z = Inr t' \<and> t' \<le> after"
      show ?thesis
      proof (rule Suc.prems(1) [OF d(1) _ d(3,4,5)])
        show "date \<le> d" using d(2) by simp
        fix d'
        assume "date \<le> d'" "d' < d" "recurs_on kind days d'"
        then show "\<exists>t'. resolve_civil d' time z = Inr t' \<and> t' \<le> after"
          using here before [of d'] by (cases "d' = date") auto
      qed
    qed
  qed
qed


section \<open>Schedules and their JSON form\<close>

lemma object_of_Inr_iff: "object_of v fs = Inr d \<longleftrightarrow> v = PDict d \<and> fields_are fs d"
  by (cases v) (auto simp: object_of_def)

lemma integer_of_iff: "integer_of v lo hi = Inr i \<longleftrightarrow> v = PInt i \<and> lo \<le> i \<and> i \<le> hi"
  by (cases v) (auto simp: integer_of_def)

lemma date_of_bounds:
  assumes "date_of v = Inr n" shows "1 \<le> n \<and> n \<le> max_ord"
proof -
  obtain y m d where "1 \<le> y" "y \<le> 9999" "1 \<le> m" "m \<le> 12" "1 \<le> d" "d \<le> days_in_month y m" "n = ymd2ord y m d"
    using assms unfolding date_of_def
    by (elim bnd_InrE) (auto simp: integer_of_iff split: if_splits)
  then show ?thesis using ymd2ord_bounds [of y m d] by (simp add: valid_ymd_def)
qed

lemma date_of_json:
  assumes "1 \<le> n" "n \<le> max_ord" shows "date_of (date_json n) = Inr n"
proof -
  obtain y m d where e: "ord2ymd n = (y, m, d)" by (cases "ord2ymd n") auto
  have v: "valid_ymd y m d" "ymd2ord y m d = n" using ord2ymd_spec [OF assms e] by auto
  have "d \<le> 31" using v(1) days_in_month_pos [of y m] by (simp add: valid_ymd_def)
  then show ?thesis
    using v by (simp add: date_of_def date_json_def e object_of_def fields_are_def dget_Cons
        integer_of_def valid_ymd_def)
qed

lemma time_of_bounds: "time_of v = Inr t \<Longrightarrow> 0 \<le> t \<and> t < 86400"
  unfolding time_of_def by (elim bnd_InrE) (auto simp: integer_of_iff)

lemma time_of_json:
  assumes "0 \<le> t" "t < 86400" shows "time_of (time_json t) = Inr t"
proof -
  have h: "0 \<le> t div 3600" "t div 3600 \<le> 23"
    using assms by (simp_all add: pos_imp_zdiv_nonneg_iff)
  have m: "0 \<le> t div 60 mod 60" "t div 60 mod 60 \<le> 59" "0 \<le> t mod 60" "t mod 60 \<le> 59"
    using pos_mod_bound [of 60 "t div 60"] pos_mod_bound [of 60 t] by simp_all
  have "integer_of (PInt (t div 3600)) 0 23 = Inr (t div 3600)"
    "integer_of (PInt (t div 60 mod 60)) 0 59 = Inr (t div 60 mod 60)"
    "integer_of (PInt (t mod 60)) 0 59 = Inr (t mod 60)"
    using h m by (simp_all only: integer_of_iff simp_thms)
  then show ?thesis
    by (simp add: time_of_def time_json_def object_of_def fields_are_def dget_Cons seconds_split)
qed

definition schedule_ok :: "env \<Rightarrow> schedule \<Rightarrow> bool" where
  "schedule_ok ev s = (case s of
     OneShot d t n \<Rightarrow> 1 \<le> d \<and> d \<le> max_ord \<and> 0 \<le> t \<and> t < 86400 \<and> text_valid n 256 False
       \<and> zone_of ev n \<noteq> None
   | Recurring k t d n ds \<Rightarrow> 1 \<le> d \<and> d \<le> max_ord \<and> 0 \<le> t \<and> t < 86400 \<and> text_valid n 256 False
       \<and> zone_of ev n \<noteq> None \<and> length ds \<le> 7 \<and> set ds \<subseteq> set weekday_names \<and> distinct ds
       \<and> (k = Daily \<longleftrightarrow> ds = []))"

lemma zone_named_iff: "zone_named ev v = Inr z \<longleftrightarrow> (\<exists>n. v = PStr n \<and> text_valid n 256 False \<and> zone_of ev n = Some z)"
  by (auto simp: zone_named_def bnd_Inr_iff text_of_Inr_iff split: option.splits)

lemma weekdays_of_Inr:
  assumes "weekdays_of v = Inr ds"
  shows "length ds \<le> 7 \<and> set ds \<subseteq> set weekday_names \<and> distinct ds"
proof -
  obtain days where v: "v = PList days" and d: "length days \<le> 7" "list_all (pstr_in weekday_names) days"
      "distinct days" "ds = map (\<lambda>x. case x of PStr s \<Rightarrow> s | _ \<Rightarrow> []) days"
    using assms by (cases v) (auto simp: weekdays_of_def split: if_splits)
  have "inj_on (\<lambda>x. case x of PStr s \<Rightarrow> s | _ \<Rightarrow> []) (set days)"
    using d(2) by (auto simp: inj_on_def list_all_iff pstr_in_iff split: pyval.splits)
  then show ?thesis
    using d by (auto simp: distinct_map list_all_iff pstr_in_iff)
qed

lemma weekdays_of_json:
  assumes "length ds \<le> 7" "set ds \<subseteq> set weekday_names" "distinct ds"
  shows "weekdays_of (PList (map PStr ds)) = Inr ds"
  using assms by (auto simp: weekdays_of_def list_all_iff pstr_in_iff distinct_map inj_on_def comp_def)

lemma weekdays_of_none: "weekdays_of (PList []) = Inr []"
  by (simp add: weekdays_of_def)

lemma validate_schedule_ok:
  assumes "validate_schedule ev v = Inr s"
  shows "schedule_ok ev s"
  using assms unfolding validate_schedule_def
  by (elim bnd_InrE)
    (auto simp: schedule_ok_def text_of_Inr_iff zone_named_iff recurrence_of_def split: if_splits
      elim!: bnd_InrE dest!: date_of_bounds time_of_bounds weekdays_of_Inr)

lemma validate_schedule_json:
  assumes "schedule_ok ev s"
  shows "validate_schedule ev (schedule_json s) = Inr s"
proof (cases s)
  case (OneShot d t n)
  then show ?thesis using assms
    by (auto simp: validate_schedule_def schedule_json_def object_of_def fields_are_def dget_Cons
        is_pstr_def schedule_ok_def date_of_json time_of_json zone_named_def text_of_def gap_overlap_ok_def)
next
  case (Recurring k t d n ds)
  then show ?thesis using assms
    by (cases k) (auto simp: validate_schedule_def schedule_json_def object_of_def fields_are_def dget_Cons
        is_pstr_def schedule_ok_def date_of_json time_of_json zone_named_def text_of_def gap_overlap_ok_def
        weekdays_of_json weekdays_of_none recurrence_of_def insert_commute)
qed


section \<open>The next occurrence\<close>

lemma next_civil_recurring:
  assumes "next_civil ev (Recurring kind time start name days) after after_date = Inr r"
  obtains z first d t where "zone_of ev name = Some z" and "scan_start z start after after_date = Inr first"
    and "r = Some (utc_text t, iso_date d)" and "first \<le> d" and "recurs_on kind days d"
    and "resolve_civil d time z = Inr t" and "after < t"
    and "\<And>d'. first \<le> d' \<Longrightarrow> d' < d \<Longrightarrow> recurs_on kind days d'
      \<Longrightarrow> \<exists>t'. resolve_civil d' time z = Inr t' \<and> t' \<le> after"
proof -
  obtain z first where z: "zone_of ev name = Some z" and f: "scan_start z start after after_date = Inr first"
    and c: "civil_scan z kind days time after 9 first = Inr r"
    using assms by (auto simp: next_civil_def bnd_Inr_iff zone_named_iff)
  from c show thesis by (rule civil_scan_spec) (rule that [OF z f]; assumption)
qed

lemma next_civil_future:
  assumes "next_civil ev s after after_date = Inr (Some (due, civil))"
  obtains t where "due = utc_text t" and "representable t" and "after < t"
proof (cases s)
  case (OneShot d time name)
  then show ?thesis
    using assms by (auto simp: next_civil_def bnd_Inr_iff dest: resolve_civil_Inr(1) split: if_splits intro: that)
next
  case (Recurring kind time start name days)
  from assms [unfolded Recurring] show ?thesis
    by (rule next_civil_recurring) (use that in \<open>auto dest: resolve_civil_Inr(1)\<close>)
qed

lemma next_civil_recurring_Some:
  "next_civil ev (Recurring kind time start name days) after after_date \<noteq> Inr None"
proof
  assume "next_civil ev (Recurring kind time start name days) after after_date = Inr None"
  then show False by (rule next_civil_recurring) simp
qed

end
