(* ===== verification/SchedTheorems.thy ===== *)
theory SchedTheorems
  imports SchedMachine SchedCivil
begin

text \<open>
  The properties of the scheduler backend, over the machine of theory SchedMachine and the
  individual methods, with the concrete environment their witnesses run in.
\<close>

section \<open>A concrete environment\<close>

definition utc_zone :: zone where
  "utc_zone = \<lparr>z_local = (\<lambda>_ _. 0), z_utc = (\<lambda>_. 0)\<rparr>"

definition demo_env :: env where
  "demo_env = \<lparr>zone_of = (\<lambda>n. if n = ''UTC'' then Some utc_zone else None),
     sha256_hex = (\<lambda>s. ''h''), str_of = json_enc, tzdata_label = ''2024a''\<rparr>"

definition demo_context :: app_context where
  "demo_context = \<lparr>cx_generation = Some ''g'', cx_enabled = True, cx_granted = True,
     cx_permission = Authorized, cx_rollback = NoRollback\<rparr>"

definition demo_ledger :: ledger where
  "demo_ledger = [(''a'', fresh_row demo_context)]"

lemma demo_ledger_ok: "ledger_ok demo_ledger"
  by (simp add: ledger_ok_def demo_ledger_def dict_all_def dict_ok_def row_ok_fresh)

definition demo_schedule :: pyval where
  "demo_schedule = PDict [(''tag'', PStr ''one-shot''), (''value'', PDict
    [(''when'', PDict [(''date'', PDict [(''year'', PInt 2030), (''month'', PInt 1), (''day'', PInt 2)]),
       (''time'', PDict [(''hour'', PInt 3), (''minute'', PInt 4), (''second'', PInt 5)]),
       (''time_zone'', PStr ''UTC'')]),
     (''gap'', PStr ''next-valid''), (''overlap'', PStr ''earlier'')])]"

definition demo_request :: pyval where
  "demo_request = PDict
    [(''key'', PStr ''k''), (''purpose'', PStr ''service-trigger''),
     (''spec'', PDict [(''tag'', PStr ''at-instant''), (''value'', PStr ''2030-01-02T03:04:05Z'')]),
     (''missed'', PStr ''skip''), (''payload'', PList []), (''notification'', PNone),
     (''idempotency_key'', PStr ''i'')]"

section \<open>The ledger as a whole\<close>

lemma empty_ledger_ok: "ledger_ok empty_ledger"
  by (simp add: ledger_ok_def empty_ledger_def dict_all_def)

text \<open>
  C1. Whatever calls the host makes in whatever order, from the empty ledger, successful or
  not, the ledger stays well formed: a scheduled occurrence always belongs to an enabled alarm at
  its current revision, an alarm has at most one scheduled occurrence of its own and it is the one
  its record names, effects and guest events exist only for occurrences that have fired and agree
  with their state, and no effect or guest event has made more than three attempts.
\<close>

theorem scheduler_always_well_formed:
  "ledger_ok (foldl (sched_step ev) empty_ledger ops)"
  by (rule sched.run_inv [OF empty_ledger_ok]) (simp add: list_all_iff)

text \<open>
  C2. The ledger is an audit log: continuing a run never removes an app, an alarm, an occurrence,
  an effect, a guest event or a command receipt, never changes a receipt, never lowers an alarm's
  revision or an attempt count, never brings a fired or cancelled occurrence back to the schedule
  and never changes a final effect or delivery state.
\<close>

theorem scheduler_history_only_grows:
  "ledger_grows (foldl (sched_step ev) empty_ledger ops) (foldl (sched_step ev) empty_ledger (ops @ later))"
proof -
  have "ledger_ok (foldl (sched_step ev) empty_ledger ops)"
    by (rule sched.run_inv [OF empty_ledger_ok]) (simp add: list_all_iff)
  then show ?thesis
    unfolding foldl_append by (rule sched.run_below) (simp add: list_all_iff)
qed

lemma edit_limits: "edit lg body = Inr (lg', x) \<Longrightarrow> within_limits lg'"
  by (simp add: edit_Inr_iff)

lemma respond_limits:
  assumes "respond lg r = Inr (lg', v)" and "\<And>l w. r = Inr (l, w) \<Longrightarrow> l = lg \<or> within_limits l"
  shows "lg' = lg \<or> within_limits lg'"
  using assms by (auto simp: respond_def split: sum.splits exn.splits)

lemma mutating_call_limits:
  "mutating_call ev lg app operation payload key generation f host_action = Inr (lg', v) \<Longrightarrow> within_limits lg'"
  unfolding mutating_call_def by (auto split: pyval.splits elim!: bnd_InrE dest: edit_limits)

lemma command_limits:
  assumes "command ev lg app cmd key now generation host = Inr (lg', v)"
  shows "lg' = lg \<or> within_limits lg'"
  using assms unfolding command_def
proof (rule respond_limits)
  fix l w
  assume "bnd (object_of cmd [''tag'', ''value'']) (\<lambda>c.
     bnd (parse_utc now) (\<lambda>now.
     if is_pstr ''alarm-status'' (dget c ''tag'') then
       bnd (object_of (dget c ''value'') [''alarm_id'', ''occurrence_limit'', ''effect_limit'']) (\<lambda>v.
       bnd (status lg app (dget v ''alarm_id'') (dget v ''occurrence_limit'') (dget v ''effect_limit''))
         (\<lambda>r. Inr (lg, ok_response r)))
     else if is_pstr ''alarm-snooze'' (dget c ''tag'') \<and> (\<not> host \<or> generation \<noteq> None)
     then fail ''permission-denied'' ''snooze requires a host-verified notification action''
     else (case dget c ''tag'' of
         PStr tag \<Rightarrow>
           if tag \<notin> set alarm_commands then bad_arg ''unsupported alarm command''
           else mutating_call ev lg app tag (dget c ''value'') key generation
             (alarm_action ev tag (dget c ''value'') now) (tag = ''alarm-snooze'')
       | _ \<Rightarrow> bad_arg ''unsupported alarm command''))) = Inr (l, w)"
  then show "l = lg \<or> within_limits l"
    by (elim bnd_InrE) (auto simp: bnd_Inr_iff dest: mutating_call_limits split: if_splits pyval.splits)
qed

lemma upsert_limits:
  "scheduler_upsert ev lg app request generation now = Inr (lg', v) \<Longrightarrow> lg' = lg \<or> within_limits lg'"
  unfolding scheduler_upsert_def
  by (erule respond_limits) (auto elim!: bnd_InrE dest: mutating_call_limits split: if_splits option.splits)

lemma scheduler_toggle_limits:
  "scheduler_toggle ev lg app sid key generation now enable = Inr (lg', v) \<Longrightarrow> lg' = lg \<or> within_limits lg'"
  unfolding scheduler_toggle_def
  by (erule respond_limits) (auto elim!: bnd_InrE dest: mutating_call_limits)

lemma scheduler_acknowledge_limits:
  "scheduler_acknowledge ev lg app oid outcome key generation token = Inr (lg', v)
    \<Longrightarrow> lg' = lg \<or> within_limits lg'"
  unfolding scheduler_acknowledge_def
  by (erule respond_limits) (auto elim!: bnd_InrE dest: mutating_call_limits split: if_splits)

lemma host_limits:
  "host_context lg app c = Inr (lg', u) \<Longrightarrow> within_limits lg'"
  "advance_due ev lg now recovery limit = Inr (lg', r) \<Longrightarrow> within_limits lg'"
  "claim_notification ev lg app owner now = Inr (lg', d) \<Longrightarrow> within_limits lg'"
  "finish_notification lg app nid token result now = Inr (lg', u) \<Longrightarrow> within_limits lg'"
  "claim_guest ev lg app owner now = Inr (lg', g) \<Longrightarrow> within_limits lg'"
  "finish_guest lg app gid token result = Inr (lg', u) \<Longrightarrow> within_limits lg'"
  "recover_owner lg owner = Inr (lg', u) \<Longrightarrow> within_limits lg'"
  unfolding host_context_def advance_due_def claim_notification_def finish_notification_def
    claim_guest_def finish_guest_def recover_owner_def
  by (auto elim!: res_elims dest: edit_limits)

lemma sched_exec_limits: "sched_exec ev lg x = Inr lg' \<Longrightarrow> lg' = lg \<or> within_limits lg'"
  by (cases x)
    (auto elim!: bnd_InrE dest: command_limits upsert_limits scheduler_toggle_limits
      scheduler_acknowledge_limits host_limits)

interpretation sched_size: machine "sched_step ev" "\<lambda>_. True" within_limits for ev
proof
  show "within_limits (sched_step ev lg x)" if "within_limits lg" for lg x
    using that sched_exec_limits [of ev lg x] by (auto simp: sched_step_def split: sum.splits)
qed

text \<open>
  C9. The persisted ledger never exceeds its budgets, whatever is called: at most 64 apps, 64 alarms
  and 4096 records of each other kind per app, and 8 MiB of canonical JSON. (A call that would
  exceed one is refused as a whole; nothing is evicted, see C2.)
\<close>

theorem scheduler_respects_limits:
  "within_limits (foldl (sched_step ev) empty_ledger ops)"
proof (rule sched_size.run_inv)
  have "length (json_enc (ledger_json empty_ledger)) = 70" by code_simp
  then show "within_limits empty_ledger"
    by (simp add: within_limits_def empty_ledger_def max_apps_def max_bytes_def)
qed (simp add: list_all_iff)

section \<open>Commands are idempotent\<close>

lemma ok_not_err [simp]: "ok_response v \<noteq> err_response e" "err_response e \<noteq> ok_response v"
  by (simp_all add: ok_response_def err_response_def)

lemma mark_dedup_err [simp]: "mark_dedup (err_response e) = err_response e"
  by (simp add: mark_dedup_def err_response_def dget_def)

lemma has_aput: "has k (aput j v d) = (k = j \<or> has k d)"
  by (auto simp: has_def dict_simps)

lemma dget_aput: "dget (aput k v d) j = (if j = k then v else dget d j)"
  by (simp add: dget_def dict_simps)

lemma mark_dedup_cases:
  obtains (mark) d v where "r = PDict d" and "dget d ''ok'' = PBool True" and "dget d ''value'' = PDict v"
      and "has ''deduplicated'' v"
      and "mark_dedup r = PDict (aput ''value'' (PDict (aput ''deduplicated'' (PBool True) v)) d)"
  | (keep) "mark_dedup r = r"
proof -
  let ?marked = "\<exists>d v. r = PDict d \<and> dget d ''ok'' = PBool True \<and> dget d ''value'' = PDict v
    \<and> has ''deduplicated'' v"
  show thesis
  proof (cases ?marked)
    case True
    then show ?thesis by (elim exE conjE) (rule mark, auto simp: mark_dedup_def)
  next
    case False
    then have "mark_dedup r = r"
      by (simp add: mark_dedup_def split: pyval.split bool.split) blast
    then show ?thesis by (rule keep)
  qed
qed

lemma mark_dedup_twice [simp]: "mark_dedup (mark_dedup r) = mark_dedup r"
proof (cases r rule: mark_dedup_cases)
  case (mark d v)
  then show ?thesis by (simp add: mark_dedup_def dget_aput has_aput)
next
  case keep
  then show ?thesis by simp
qed

lemma call_body_replay:
  assumes f: "\<And>r' w. f row = Inr (r', w) \<Longrightarrow> same_rest row r'" and op: "operation \<noteq> ''alarm-snooze''"
    and c: "call_body ev operation payload key generation f host fp row = Inr (row', r)"
  shows "call_body ev operation payload key generation f' host fp row' = Inr (row', mark_dedup r)"
proof (cases "authority row generation True host")
  case (Inl e)
  then have row': "row' = row\<lparr>rw_commands := setdefault (command_key key)
      \<lparr>cr_fingerprint = fp, cr_response = err_response e\<rparr> (rw_commands row)\<rparr>" and r: "r = err_response e"
    using c by (auto simp: call_body_def)
  have "authority row' generation True host = Inl e" using Inl by (simp add: row' authority_def Let_def)
  moreover have "setdefault k x (setdefault k x d) = setdefault k x d" for k x and d :: "command_receipt dict"
    by (simp add: setdefault_def has_aput)
  ultimately show ?thesis by (simp add: call_body_def row' r)
next
  case auth: (Inr u)
  show ?thesis
  proof (cases "aget (rw_commands row) (command_key key)")
    case (Some previous)
    then have "row' = row" and "r = (if cr_fingerprint previous \<noteq> fp
        then err_response (Fail ''conflict'' ''idempotency-conflict'' False) else mark_dedup (cr_response previous))"
      using c auth op by (auto simp: call_body_def split: if_splits)
    then show ?thesis using Some auth op by (simp add: call_body_def)
  next
    case None
    have "\<exists>row1. row' = put_receipt key fp r row1 \<and> same_rest row row1"
    proof (cases "f row")
      case (Inl e)
      then show ?thesis using c auth None by (cases e) (auto simp: call_body_def)
    next
      case (Inr p)
      then show ?thesis using c auth None f by (cases p) (auto simp: call_body_def)
    qed
    then obtain row1 where row': "row' = put_receipt key fp r row1" and s: "same_rest row row1" by blast
    have "authority row' generation True host = Inr u"
      using auth s by (simp add: row' put_receipt_def authority_def Let_def same_rest_def)
    moreover have "aget (rw_commands row') (command_key key) = Some \<lparr>cr_fingerprint = fp, cr_response = r\<rparr>"
      by (simp add: row' put_receipt_def dict_simps)
    ultimately show ?thesis using op by (simp add: call_body_def)
  qed
qed

lemma mutating_call_replay:
  assumes ok: "ledger_ok lg" and f: "good_callback f" and op: "operation \<noteq> ''alarm-snooze''"
    and m: "mutating_call ev lg app operation payload key generation f host = Inr (lg', r)"
  shows "mutating_call ev lg' app operation payload key generation f' host = Inr (lg', mark_dedup r)"
proof -
  obtain members k fp where p: "payload = PDict members" and k: "text_of key ''idempotency key'' 256 = Inr k"
    and fp: "fingerprint_of ev operation members = Inr fp"
    and e: "edit lg (\<lambda>l. bnd (find_app l app) (\<lambda>row.
      bnd (call_body ev operation members k generation f host fp row)
        (\<lambda>(row', response). Inr (aput app row' l, response)))) = Inr (lg', r)"
    using m unfolding mutating_call_def by (auto split: pyval.splits elim!: bnd_InrE)
  obtain row row' where row: "find_app lg app = Inr row"
    and c: "call_body ev operation members k generation f host fp row = Inr (row', r)"
    and lg': "lg' = aput app row' lg"
    using e by (auto simp: edit_Inr_iff bnd_Inr_iff)
  have rok: "row_ok row" by (rule ledger_ok_row [OF ok find_app_Inr [OF row]])
  have "call_body ev operation members k generation f' host fp row' = Inr (row', mark_dedup r)"
  proof (rule call_body_replay [OF _ op c])
    fix r' w
    assume "f row = Inr (r', w)"
    then show "same_rest row r'" using f rok unfolding good_callback_def by blast
  qed
  moreover have "find_app lg' app = Inr row'"
    using row by (auto simp: find_app_def lg' dict_simps bnd_Inr_iff split: option.splits)
  moreover have "aput app row' lg' = lg'" by (simp add: lg')
  moreover have "within_limits lg'" by (rule edit_limits [OF e])
  moreover from this have "len (json_enc (ledger_json lg')) \<le> max_bytes" by (simp add: within_limits_def)
  ultimately show ?thesis
    by (simp add: mutating_call_def p k fp edit_Inr_iff)
qed

lemma respond_ok: "respond lg r = Inr (lg', ok_response v) \<Longrightarrow> r = Inr (lg', ok_response v)"
  by (auto simp: respond_def split: sum.splits exn.splits)

lemma respond_Inr [simp]: "respond lg (Inr x) = Inr x"
  by (simp add: respond_def)

lemma upsert_validate_later:
  assumes "upsert_validate d now = Inr u" and "parse_utc later = Inr t"
  shows "\<exists>u'. upsert_validate d later = Inr u'"
  using assms unfolding upsert_validate_def
  by (elim bnd_InrE) (auto elim!: bnd_InrE split: option.splits if_splits)

lemma ok_response_shape:
  "is_pdict r \<Longrightarrow> keys (dict_of r) = [''ok'', ''value''] \<Longrightarrow> dget (dict_of r) ''ok'' = PBool True
    \<Longrightarrow> \<exists>v. r = ok_response v"
  by (cases r) (auto simp: ok_response_def dget_Cons map_eq_Cons_conv)

text \<open>
  C4. A successful upsert is idempotent: the same request under the same idempotency key, sent
  again at any later time, changes nothing and returns the stored response (flagged as
  deduplicated where the response has that member), even though the alarm it would install is not
  the same at the later time.
\<close>

theorem upsert_is_idempotent:
  assumes "ledger_ok lg"
    and "scheduler_upsert ev lg app request generation now = Inr (lg', ok_response v)"
    and "parse_utc later = Inr t"
  shows "scheduler_upsert ev lg' app request generation later = Inr (lg', mark_dedup (ok_response v))"
proof -
  have op: "''scheduler.upsert'' \<noteq> ''alarm-snooze''" by simp
  have replay: "\<forall>g. mutating_call ev lg' app ''scheduler.upsert'' payload key gen g host
      = Inr (lg', mark_dedup (ok_response v))"
    if "mutating_call ev lg app ''scheduler.upsert'' payload key gen
      (upsert_action ev k sched notification t purpose pl missed spec) host = Inr (lg', ok_response v)"
    for payload key gen k sched notification t purpose pl missed spec host
    by (rule allI) (rule mutating_call_replay [OF assms(1) good_upsert_action op that])
  show ?thesis
    using respond_ok [OF assms(2) [unfolded scheduler_upsert_def]] assms(3)
    unfolding scheduler_upsert_def
    by (elim bnd_InrE)
      (auto elim!: bnd_InrE dest!: replay dest: upsert_validate_later [OF _ assms(3)])
qed

theorem upsert_is_idempotent_witness:
  "\<exists>lg' v. scheduler_upsert demo_env lg' ''a'' demo_request ''g'' (PStr ''2031-01-01T00:00:00Z'')
    = Inr (lg', mark_dedup (ok_response v))"
proof -
  have "(case scheduler_upsert demo_env demo_ledger ''a'' demo_request ''g'' (PStr ''2030-01-01T00:00:00Z'') of
      Inr (_, r) \<Rightarrow> is_pdict r \<and> keys (dict_of r) = [''ok'', ''value''] \<and> dget (dict_of r) ''ok'' = PBool True
    | Inl _ \<Rightarrow> False)"
    by code_simp
  then obtain lg' v where 1: "scheduler_upsert demo_env demo_ledger ''a'' demo_request ''g''
      (PStr ''2030-01-01T00:00:00Z'') = Inr (lg', ok_response v)"
    by (auto dest!: ok_response_shape split: sum.splits)
  have "is_ok (parse_utc (PStr ''2031-01-01T00:00:00Z''))" by code_simp
  then obtain t where "parse_utc (PStr ''2031-01-01T00:00:00Z'') = Inr t" by (auto simp: is_ok_iff)
  from upsert_is_idempotent [OF demo_ledger_ok 1 this] show ?thesis by blast
qed

section \<open>Time\<close>

text \<open>
  C10. Comparing canonical timestamps as strings is comparing the instants: the ledger may order and
  filter by the strings it stores (due occurrences, claims, status), as the code does.
\<close>

theorem timestamp_order_is_time_order:
  assumes "representable t" and "representable u"
  shows "utc_text t \<le> utc_text u \<longleftrightarrow> t \<le> u"
  by (rule utc_text_le_iff [OF assms])

theorem timestamp_order_is_time_order_witness:
  "utc_text 86399 \<le> utc_text 86400 \<longleftrightarrow> (86399::int) \<le> 86400"
  by (rule timestamp_order_is_time_order) (simp_all add: representable_def max_instant_def max_ord_def)

text \<open>
  A schedule the validator accepted is accepted again from the form the ledger stores, with the
  same meaning: the second validation of the stored JSON yields the same date, time, zone,
  recurrence and weekdays.
\<close>

lemma stored_schedule_validates_again:
  assumes "validate_schedule ev v = Inr s"
  shows "validate_schedule ev (schedule_json s) = Inr s"
  by (rule validate_schedule_json [OF validate_schedule_ok [OF assms]])

text \<open>
  What \<open>zoneinfo\<close> documents (PEP 495): with \<open>fold=0\<close> a local time that exists stands for its earliest
  instant; a local time in a gap is read with the offset before the gap for \<open>fold=0\<close> and with the
  later, larger offset for \<open>fold=1\<close>, and the two instants lie on the two sides of the transition.
\<close>

definition pep495 :: "zone \<Rightarrow> bool" where
  "pep495 z \<longleftrightarrow>
    (\<forall>u. let l = local_of z u; e = l - z_local z False l in local_of z e = l \<and> e \<le> u)
    \<and> (\<forall>l. (\<forall>u. local_of z u \<noteq> l) \<longrightarrow> z_local z False l < z_local z True l
        \<and> z_utc z (l - z_local z False l) = z_local z True l
        \<and> z_utc z (l - z_local z True l) = z_local z False l)"

text \<open>A zone whose clocks go forward by one hour at instant \<open>T\<close>.\<close>

definition spring_zone :: "int \<Rightarrow> zone" where
  "spring_zone T = \<lparr>z_local = (\<lambda>fold l. if l < T \<or> (\<not> fold \<and> l < T + 3600) then 0 else 3600),
     z_utc = (\<lambda>v. if v < T then 0 else 3600)\<rparr>"

lemma spring_zone_gap:
  assumes "\<forall>u. local_of (spring_zone T) u \<noteq> l" shows "T \<le> l \<and> l < T + 3600"
  using assms [THEN spec, of l] assms [THEN spec, of "l - 3600"]
  by (auto simp: spring_zone_def split: if_splits)

lemma pep495_spring_zone: "pep495 (spring_zone T)"
  unfolding pep495_def
proof (intro conjI allI impI)
  fix u
  show "let l = local_of (spring_zone T) u; e = l - z_local (spring_zone T) False l
    in local_of (spring_zone T) e = l \<and> e \<le> u"
    by (simp add: spring_zone_def Let_def)
next
  fix l
  assume "\<forall>u. local_of (spring_zone T) u \<noteq> l"
  then have "T \<le> l \<and> l < T + 3600" by (rule spring_zone_gap)
  then show "z_local (spring_zone T) False l < z_local (spring_zone T) True l"
    and "z_utc (spring_zone T) (l - z_local (spring_zone T) False l) = z_local (spring_zone T) True l"
    and "z_utc (spring_zone T) (l - z_local (spring_zone T) True l) = z_local (spring_zone T) False l"
    by (simp_all add: spring_zone_def)
qed

text \<open>
  C5. Civil time resolves as the contract says, in any zone that behaves as documented. A local
  time that exists resolves to the earliest instant that shows it (the earlier side of an
  overlap). A local time in a gap resolves to an instant whose local time is the requested one
  shifted forward by exactly the length of the gap.
\<close>

theorem resolve_civil_policy:
  assumes "pep495 z" and "resolve_civil date time z = Inr v"
  shows "(\<exists>u. local_of z u = civil_local date time)
      \<and> local_of z v = civil_local date time \<and> (\<forall>u. local_of z u \<noteq> civil_local date time \<or> v \<le> u)
    \<or> (\<forall>u. local_of z u \<noteq> civil_local date time)
      \<and> local_of z v = civil_local date time
          + (z_local z True (civil_local date time) - z_local z False (civil_local date time))"
proof -
  define l where "l = civil_local date time"
  note r = resolve_civil_Inr [OF assms(2), folded l_def]
  show ?thesis
  proof (cases "\<exists>u. local_of z u = l")
    case True
    have e: "local_of z (l - z_local z False l) = l \<and> l - z_local z False l \<le> u" if "local_of z u = l" for u
      using assms(1) that unfolding pep495_def Let_def by blast
    then have "local_of z v = l \<and> v \<le> l - z_local z False l" using True r(3) by blast
    then show ?thesis using True e unfolding l_def [symmetric] by (metis order_trans)
  next
    case False
    then have gap: "z_local z False l < z_local z True l" "z_utc z (l - z_local z False l) = z_local z True l"
      "z_utc z (l - z_local z True l) = z_local z False l"
      using assms(1) unfolding pep495_def by blast+
    have "v = l - z_local z False l \<or> v = l - z_local z True l"
      by (rule resolve_civil_choice [OF assms(2), folded l_def])
    moreover have "l \<le> local_of z v" by (rule r(2))
    ultimately have "local_of z v = l + (z_local z True l - z_local z False l)"
      using gap by auto
    then show ?thesis using False unfolding l_def [symmetric] by blast
  qed
qed

theorem resolve_civil_policy_witness:
  "\<exists>v. resolve_civil 1 7200 (spring_zone 5000) = Inr v \<and> local_of (spring_zone 5000) v = 7200 + 3600"
proof -
  have r: "resolve_civil 1 7200 (spring_zone 5000) = Inr 7200" by code_simp
  have n: "\<forall>u. local_of (spring_zone 5000) u \<noteq> 7200" by (simp add: spring_zone_def)
  have "local_of (spring_zone 5000) 7200 = 7200 + 3600"
    using resolve_civil_policy [OF pep495_spring_zone r] n by (auto simp: spring_zone_def)
  then show ?thesis using r by blast
qed



section \<open>Occurrences\<close>

lemma split_at_colon:
  assumes "xs @ CHR '':'' # ys = xs' @ CHR '':'' # ys'" and "CHR '':'' \<notin> set ys" and "CHR '':'' \<notin> set ys'"
  shows "xs = xs' \<and> ys = ys'"
proof -
  have t: "takeWhile (\<lambda>c. c \<noteq> CHR '':'') (rev (as @ CHR '':'' # bs)) = rev bs"
    if "CHR '':'' \<notin> set bs" for as bs
  proof -
    have "\<forall>x\<in>set (rev bs). x \<noteq> CHR '':''" using that by auto
    then show ?thesis by (simp add: takeWhile_append2 takeWhile_tail)
  qed
  have "rev ys = rev ys'" using t [OF assms(2), of xs] t [OF assms(3), of xs'] assms(1) by simp
  then show ?thesis using assms(1) by simp
qed

lemma occurrence_id_inject:
  assumes "length d = length d'" and "0 \<le> r" and "0 \<le> r'"
  shows "occurrence_id a r d = occurrence_id a' r' d' \<longleftrightarrow> a = a' \<and> r = r' \<and> d = d'"
proof
  assume "occurrence_id a r d = occurrence_id a' r' d'"
  then have 1: "(a @ '':r'' @ dec r @ '':'') @ d = (a' @ '':r'' @ dec r' @ '':'') @ d'"
    by (simp add: occurrence_id_def)
  then have d: "d = d'" and 2: "a @ '':r'' @ dec r @ '':'' = a' @ '':r'' @ dec r' @ '':''"
    using assms(1) append_eq_append_conv by blast+
  from 2 have 3: "a @ CHR '':'' # (CHR ''r'' # dec r) = a' @ CHR '':'' # (CHR ''r'' # dec r')" by simp
  have n: "CHR '':'' \<notin> set (CHR ''r'' # dec i)" if "0 \<le> i" for i
    using that colon_not_digit dec_digits by fastforce
  have "a = a' \<and> CHR ''r'' # dec r = CHR ''r'' # dec r'"
    by (rule split_at_colon [OF 3 n [OF assms(2)] n [OF assms(3)]])
  then show "a = a' \<and> r = r' \<and> d = d'" using d assms by (simp add: dec_inject)
qed simp

lemma length_utc_text: "representable t \<Longrightarrow> length (utc_text t) = 20"
  using parse_utc_text_utc_text [of t] by (auto simp: parse_utc_text_def utc_shape_def split: if_splits)

text \<open>
  Occurrence identifiers do not collide: two occurrences of alarms with non-negative revisions
  and canonical due times have the same identifier only if alarm, revision and due time agree,
  whatever characters (colons included) the alarm identifiers contain.
\<close>

lemma occurrence_ids_are_unique:
  assumes "representable t" and "representable t'" and "0 \<le> r" and "0 \<le> r'"
  shows "occurrence_id a r (utc_text t) = occurrence_id a' r' (utc_text t') \<longleftrightarrow> a = a' \<and> r = r' \<and> t = t'"
proof -
  have "utc_text t = utc_text t' \<longleftrightarrow> t = t'"
    using assms parse_utc_text_utc_text by (metis option.inject)
  then show ?thesis
    using occurrence_id_inject [OF _ assms(3,4), of "utc_text t" "utc_text t'"] assms by (simp add: length_utc_text)
qed

lemma materialize_keeps:
  assumes "materialize ev row k a c given parent = Inr (row', a', i)" and "aget (rw_occs row) j = Some oc"
  shows "aget (rw_occs row') j = Some oc"
proof -
  obtain due civil where c: "c = (due, civil)" by force
  note m = materialize_Inr [OF assms(1) [unfolded c]]
  have "j \<noteq> i" using m(2) assms(2) by auto
  then show ?thesis using assms(2) by (simp add: m(4) dict_simps)
qed

lemma rearm_keeps:
  assumes "rearm ev row oc a due = Inr row'" and "aget (rw_occs row) j = Some o1"
  shows "aget (rw_occs row') j = Some o1"
  using assms
  by (auto simp: rearm_def Let_def put_alarm_def bnd_Inr_iff split: schedule.splits option.splits
      elim!: materialize_keeps)

lemma advance_one_settles:
  assumes ok: "ledger_ok lg" and c: "(due, app, oid) \<in> set (due_candidates lg now_text)"
    and a: "advance_one ev now_text now recovery lg app oid = Inr lg'"
  shows "\<exists>row oc. aget lg' app = Some row \<and> aget (rw_occs row) oid = Some oc \<and> oc_state oc \<noteq> OccScheduled"
proof -
  obtain row oc where row: "(app, row) \<in> set lg" and oc: "(oid, oc) \<in> set (rw_occs row)"
      "oc_state oc = OccScheduled"
    using c by (auto elim: due_candidate)
  have row': "aget lg app = Some row" using ok row by (simp add: ledger_ok_def dict_all_def dict_ok_aget)
  have rok: "row_ok row" by (rule ledger_ok_row [OF ok row'])
  have oc': "aget (rw_occs row) oid = Some oc" using rok oc by (simp add: row_ok_dicts dict_ok_aget)
  obtain al where al: "aget (rw_alarms row) (oc_alarm oc) = Some al"
    using row_ok_occ [OF rok oc'] by (auto elim: occ_okE)
  consider "lg' = aput app (cancel_stale row oid oc al) lg"
    | row2 where "lg' = aput app row2 lg" "fire ev app now_text now recovery row oid oc al = Inr row2"
    using a row' oc' al by (auto simp: advance_one_def bnd_Inr_iff split: if_splits)
  then show ?thesis
  proof cases
    case 1
    then show ?thesis by (simp add: dict_simps cancel_stale_def put_alarm_def Let_def)
  next
    case 2
    obtain due1 cl row1 where r: "record_fired ev app now_text recovery row oid oc al cl = Inr row1"
      and e: "(if oc_parent oc \<noteq> None then Inr row1 else rearm ev row1 oc al due1) = Inr row2"
      using 2(2) unfolding fire_def by (elim bnd_InrE)
    have 1: "aget (rw_occs row1) oid = Some (fired_occ oid oc cl (al_purpose al))"
      using r by (auto simp: record_fired_def bnd_Inr_iff dict_simps)
    have "aget (rw_occs row2) oid = aget (rw_occs row1) oid"
      using e 1 rearm_keeps [OF _ 1] by (auto split: if_splits)
    then show ?thesis using 1 2(1) by (simp add: dict_simps fired_occ_def fired_state_not_scheduled)
  qed
qed

lemma settled_stays:
  assumes "ledger_grows lg lg'"
    and "\<exists>row oc. aget lg app = Some row \<and> aget (rw_occs row) oid = Some oc \<and> oc_state oc \<noteq> OccScheduled"
  shows "\<exists>row oc. aget lg' app = Some row \<and> aget (rw_occs row) oid = Some oc \<and> oc_state oc \<noteq> OccScheduled"
proof -
  obtain row oc where r: "aget lg app = Some row" "aget (rw_occs row) oid = Some oc" "oc_state oc \<noteq> OccScheduled"
    using assms(2) by blast
  obtain row' where r': "aget lg' app = Some row'" "row_grows row row'"
    using assms(1) r(1) by (auto simp: ledger_grows_def grows_def)
  obtain oc' where oc': "aget (rw_occs row') oid = Some oc'" "occ_grows oc oc'"
    using r'(2) r(2) unfolding row_grows_def grows_def by blast
  have "oc_state oc' \<noteq> OccScheduled" using oc'(2) r(3) by (cases "oc_state oc") (auto simp: occ_grows_def)
  then show ?thesis using r' oc' by blast
qed

lemma advance_loop_result:
  assumes "ledger_ok lg" and "advance_loop ev now_text now recovery n lg = Inr (lg', ds)"
  shows "length ds \<le> n" and "due_candidates lg' now_text \<noteq> [] \<Longrightarrow> length ds = n"
    and "oid \<in> set ds \<Longrightarrow> \<exists>app row oc. aget lg' app = Some row \<and> aget (rw_occs row) oid = Some oc
      \<and> oc_state oc \<noteq> OccScheduled"
proof -
  have "length ds \<le> n \<and> (due_candidates lg' now_text \<noteq> [] \<longrightarrow> length ds = n)
      \<and> (\<forall>oid\<in>set ds. \<exists>app row oc. aget lg' app = Some row \<and> aget (rw_occs row) oid = Some oc
          \<and> oc_state oc \<noteq> OccScheduled)"
    using assms
  proof (induction n arbitrary: lg ds)
    case 0
    then show ?case by simp
  next
    case (Suc n)
    show ?case
    proof (cases "due_candidates lg now_text")
      case Nil
      then show ?thesis using Suc.prems by simp
    next
      case (Cons c cs)
      obtain due app oid where m: "min_list (c # cs) = (due, app, oid)" by (cases "min_list (c # cs)")
      obtain lg1 ds1 where a: "advance_one ev now_text now recovery lg app oid = Inr lg1"
        and r: "advance_loop ev now_text now recovery n lg1 = Inr (lg', ds1)" and ds: "ds = oid # ds1"
        using Suc.prems(2) Cons m by (auto simp: bnd_Inr_iff)
      have c: "(due, app, oid) \<in> set (due_candidates lg now_text)"
        using m Cons min_list_in [of "c # cs"] by simp
      have ok1: "ledger_ok lg1"
        using advance_one_evolves [OF Suc.prems(1) c a] by (simp add: ledger_evolves_def)
      have g: "ledger_grows lg1 lg'"
        using advance_loop_evolves [OF ok1 r] by (simp add: ledger_evolves_def)
      have "\<exists>row oc. aget lg' app = Some row \<and> aget (rw_occs row) oid = Some oc \<and> oc_state oc \<noteq> OccScheduled"
        by (rule settled_stays [OF g advance_one_settles [OF Suc.prems(1) c a]])
      then show ?thesis using Suc.IH [OF ok1 r] ds by auto
    qed
  qed
  then show "length ds \<le> n" and "due_candidates lg' now_text \<noteq> [] \<Longrightarrow> length ds = n"
    and "oid \<in> set ds \<Longrightarrow> \<exists>app row oc. aget lg' app = Some row \<and> aget (rw_occs row) oid = Some oc
      \<and> oc_state oc \<noteq> OccScheduled" by auto
qed

definition due_ledger :: ledger where
  "due_ledger = [(''a'', (fresh_row demo_context)\<lparr>
     rw_alarms := [(''k'', (fresh_alarm (fresh_row demo_context) ''k'' (OneShot 741000 0 ''UTC'') None 1
        PurposeServiceTrigger [] SkipMissed PNone)\<lparr>al_next := Some ''o''\<rparr>)],
     rw_occs := [(''o'', \<lparr>oc_id = ''o'', oc_alarm = ''k'', oc_revision = 1,
        oc_due = ''2029-10-11T00:00:00Z'', oc_civil = ''2029-10-11'', oc_tzdata = ''2024a'',
        oc_state = OccScheduled, oc_class = None, oc_notification = None, oc_parent = None\<rparr>)]\<rparr>)]"

lemma due_ledger_ok: "ledger_ok due_ledger"
  by (simp add: ledger_ok_def due_ledger_def dict_all_def dict_ok_def row_ok_def fresh_row_def
      fresh_alarm_def alarm_ok_def occ_ok_def next_ok_def u64_max_def)

text \<open>
  C3. One pump call makes bounded, monotone progress: it handles at most \<open>limit\<close> occurrences, every
  occurrence it reports has left the schedule for good, it reports exactly \<open>limit\<close> of them when it
  says that more are due, and when it does not say so nothing is due any more at that instant.
\<close>

theorem advance_due_drains:
  assumes "ledger_ok lg" and "advance_due ev lg now_text recovery limit = Inr (lg', (ds, left))"
  shows "len ds \<le> limit \<and> (if left then len ds = limit else due_candidates lg' now_text = [])
    \<and> list_all (\<lambda>oid. \<exists>app row oc. aget lg' app = Some row \<and> aget (rw_occs row) oid = Some oc
        \<and> oc_state oc \<noteq> OccScheduled) ds"
proof -
  obtain now where l: "1 \<le> limit"
    and a: "advance_loop ev now_text now recovery (nat limit) lg = Inr (lg', ds)"
    and m: "left = (due_candidates lg' now_text \<noteq> [])"
    using assms(2) unfolding advance_due_def
    by (auto elim!: bnd_InrE simp: edit_Inr_iff integer_of_iff)
  note r = advance_loop_result [OF assms(1) a]
  show ?thesis using r l m by (auto simp: list_all_iff)
qed

theorem advance_due_drains_witness:
  "\<exists>lg'. advance_due demo_env due_ledger ''2029-10-11T00:00:01Z'' False 8 = Inr (lg', ([''o''], False))
    \<and> due_candidates lg' ''2029-10-11T00:00:01Z'' = []"
proof -
  have "case advance_due demo_env due_ledger ''2029-10-11T00:00:01Z'' False 8 of
      Inr (_, (ds, left)) \<Rightarrow> ds = [''o''] \<and> \<not> left | _ \<Rightarrow> False" by code_simp
  then obtain lg' where a: "advance_due demo_env due_ledger ''2029-10-11T00:00:01Z'' False 8 = Inr (lg', ([''o''], False))"
    by (auto split: sum.splits)
  from advance_due_drains [OF due_ledger_ok a] a show ?thesis by auto
qed

section \<open>Claims, authority and recovery\<close>

lemma failed_notification_context: "failed_notification row k e reason = Inr row' \<Longrightarrow> rw_context row' = rw_context row"
  by (auto simp: failed_notification_def split: if_splits)

lemma claim_scan_Some:
  assumes "claim_scan ev app owner now_text now es row = Inr (row', Some d)"
  obtains k e row1 where "(k, e) \<in> set es" and "judge now row1 e = Inr Attempt"
    and "claim_effect ev app owner now_text k e row1 = Inr (row', Some d)"
    and "rw_context row1 = rw_context row"
  using assms
proof (induction es arbitrary: row thesis)
  case Nil
  then show ?case by simp
next
  case (Cons p es)
  obtain k e where p: "p = (k, e)" by force
  obtain v where v: "judge now row e = Inr v"
    and rest: "(case v of Skip \<Rightarrow> claim_scan ev app owner now_text now es row
      | GiveUp reason \<Rightarrow> bnd (failed_notification row k e reason) (\<lambda>row'.
          claim_scan ev app owner now_text now es row')
      | Attempt \<Rightarrow> claim_effect ev app owner now_text k e row) = Inr (row', Some d)"
    using Cons.prems(2) unfolding p by (auto simp: bnd_Inr_iff)
  show ?case
  proof (cases v)
    case Skip
    then have "claim_scan ev app owner now_text now es row = Inr (row', Some d)" using rest by simp
    then show ?thesis
    proof (rule Cons.IH [rotated])
      fix j b r1
      assume "(j, b) \<in> set es" "judge now r1 b = Inr Attempt"
        "claim_effect ev app owner now_text j b r1 = Inr (row', Some d)" "rw_context r1 = rw_context row"
      then show thesis by (intro Cons.prems(1) [of j b r1]) auto
    qed
  next
    case (GiveUp reason)
    then obtain row1 where f: "failed_notification row k e reason = Inr row1"
      and r: "claim_scan ev app owner now_text now es row1 = Inr (row', Some d)"
      using rest by (auto simp: bnd_Inr_iff)
    from r show ?thesis
    proof (rule Cons.IH [rotated])
      fix j b r1
      assume "(j, b) \<in> set es" "judge now r1 b = Inr Attempt"
        "claim_effect ev app owner now_text j b r1 = Inr (row', Some d)" "rw_context r1 = rw_context row1"
      then show thesis
        by (intro Cons.prems(1) [of j b r1]) (auto simp: failed_notification_context [OF f])
    qed
  next
    case Attempt
    then show ?thesis using rest v p by (intro Cons.prems(1) [of k e row]) auto
  qed
qed

lemma judge_Attempt:
  assumes "judge now row e = Inr Attempt"
  shows "ef_state e = EffPending" and "ef_claim e = None" and "ef_count e < 3"
    and "cx_permission (rw_context row) = Authorized"
  using assms by (auto simp: judge_def bnd_Inr_iff split: if_splits option.splits)

text \<open>
  C7. A notification is handed to the adapter only if the app may notify, and only after the claim
  is recorded: the effect was pending and unclaimed with fewer than three attempts, and in the
  committed ledger it carries exactly the returned token, the owner and one more attempt.
\<close>

theorem claimed_notification_is_recorded:
  assumes "ledger_ok lg" and "claim_notification ev lg app owner now_text = Inr (lg', Some d)"
  shows "\<exists>row e row' e'. aget lg app = Some row \<and> cx_permission (rw_context row) = Authorized
    \<and> aget (rw_outbox row) (nd_notification d) = Some e \<and> ef_state e = EffPending \<and> ef_claim e = None
    \<and> ef_count e < max_attempts \<and> aget lg' app = Some row'
    \<and> aget (rw_outbox row') (nd_notification d) = Some e' \<and> ef_state e' = EffPending
    \<and> ef_claim e' = Some \<lparr>nc_owner = owner, nc_token = nd_token d, nc_at = now_text\<rparr>
    \<and> ef_count e' = ef_count e + 1 \<and> len (ef_attempts e') = ef_count e'"
proof -
  obtain now row row' where row: "find_app lg app = Inr row"
    and s: "claim_scan ev app owner now_text now (effects_in_order row) row = Inr (row', Some d)"
    and lg': "lg' = aput app row' lg"
    using assms(2) unfolding claim_notification_def
    by (elim bnd_InrE) (auto simp: edit_Inr_iff bnd_Inr_iff)
  have a: "aget lg app = Some row" by (rule find_app_Inr [OF row])
  have rok: "row_ok row" by (rule ledger_ok_row [OF assms(1) a])
  obtain k e row1 where k: "(k, e) \<in> set (effects_in_order row)" and j: "judge now row1 e = Inr Attempt"
    and c: "claim_effect ev app owner now_text k e row1 = Inr (row', Some d)"
    and x: "rw_context row1 = rw_context row"
    by (rule claim_scan_Some [OF s])
  have e: "aget (rw_outbox row) k = Some e"
    using k unfolding effects_in_order_def by (rule sorted_table(2) [OF row_ok_dicts(3) [OF rok]])
  have eok: "effect_ok row k e" by (rule row_ok_effect [OF rok e])
  show ?thesis
    using c judge_Attempt [OF j] e eok a x
    by (auto simp: claim_effect_def bnd_Inr_iff Let_def lg' dict_simps effect_ok_def max_attempts_def)
qed

definition pending_ledger :: ledger where
  "pending_ledger = [(''a'', (fresh_row demo_context)\<lparr>
     rw_alarms := [(''k'', fresh_alarm (fresh_row demo_context) ''k'' (OneShot 741000 0 ''UTC'')
        (Some \<lparr>pj_title = ''t'', pj_body = [], pj_sound = True\<rparr>) 1 PurposeAlarm [] FireOnce PNone)],
     rw_occs := [(''o'', \<lparr>oc_id = ''o'', oc_alarm = ''k'', oc_revision = 1,
        oc_due = ''2029-10-11T00:00:00Z'', oc_civil = ''2029-10-11'', oc_tzdata = ''2024a'',
        oc_state = OccDeliveryPending, oc_class = Some ClOnTime, oc_notification = Some ''notify:o'',
        oc_parent = None\<rparr>)],
     rw_outbox := [(''notify:o'', \<lparr>ef_id = ''notify:o'', ef_adapter = ''x'', ef_occ = ''o'',
        ef_projection = None, ef_state = EffPending, ef_first = ''2029-10-11T00:00:01Z'',
        ef_tolerance = 2, ef_count = 0, ef_attempts = [], ef_claim = None, ef_failure = None\<rparr>)]\<rparr>)]"

lemma pending_ledger_ok: "ledger_ok pending_ledger"
  by (simp add: ledger_ok_def pending_ledger_def dict_all_def dict_ok_def row_ok_def fresh_row_def
      fresh_alarm_def alarm_ok_def occ_ok_def next_ok_def u64_max_def effect_ok_def notify_id_def max_attempts_def)

theorem claimed_notification_is_recorded_witness:
  "\<exists>lg' d. claim_notification demo_env pending_ledger ''a'' ''w'' ''2029-10-11T00:00:01Z'' = Inr (lg', Some d)
    \<and> (\<exists>row'. aget lg' ''a'' = Some row' \<and> has (nd_notification d) (rw_outbox row'))"
proof -
  have "case claim_notification demo_env pending_ledger ''a'' ''w'' ''2029-10-11T00:00:01Z'' of
      Inr (_, Some d) \<Rightarrow> True | _ \<Rightarrow> False" by code_simp
  then obtain lg' d where
    c: "claim_notification demo_env pending_ledger ''a'' ''w'' ''2029-10-11T00:00:01Z'' = Inr (lg', Some d)"
    by (auto split: sum.splits option.splits)
  from claimed_notification_is_recorded [OF pending_ledger_ok c] c show ?thesis
    by (auto simp: has_def)
qed

lemma finish_effect_unclaims:
  assumes "finish_effect result now_text now k e row = Inr row'" and "aget (rw_outbox row) k = Some e"
  shows "\<exists>e'. aget (rw_outbox row') k = Some e' \<and> ef_claim e' = None"
proof -
  have fail: "\<exists>e'. aget (rw_outbox r') k = Some e' \<and> ef_claim e' = None"
    if "failed_notification r k b reason = Inr r'" for r r' b reason
    using that by (auto simp: failed_notification_def dict_simps split: if_splits)
  show ?thesis
    using assms unfolding finish_effect_def Let_def
    by (elim bnd_InrE) (auto simp: dict_simps bnd_Inr_iff dest: fail split: if_splits)
qed

text \<open>
  C8. A notification claim is finished at most once: after a result has been accepted under a
  token, reporting any result under that token again is refused as stale.
\<close>

theorem claim_finishes_once:
  assumes "finish_notification lg app nid token result now_text = Inr (lg', ())"
    and "result' \<in> set adapter_results" and "parse_utc (PStr later) = Inr t"
  shows "finish_notification lg' app nid token result' later = fail ''conflict'' ''stale notification claim''"
proof -
  obtain now row e c row' where row: "find_app lg app = Inr row" and e: "aget (rw_outbox row) nid = Some e"
    and f: "finish_effect result now_text now nid e row = Inr row'" and lg': "lg' = aput app row' lg"
    and lim: "within_limits lg'"
    using assms(1) unfolding finish_notification_def
    by (elim res_elims) (simp add: edit_Inr_iff, elim res_elims conjE, auto elim!: res_elims)
  obtain e' where e': "aget (rw_outbox row') nid = Some e'" "ef_claim e' = None"
    using finish_effect_unclaims [OF f e] by blast
  have "find_app lg' app = Inr row'"
    using row by (auto simp: find_app_def lg' dict_simps bnd_Inr_iff split: option.splits)
  moreover have "edit lg' body = Inl x" if "body lg' = Inl x" for body :: "ledger \<Rightarrow> (ledger \<times> unit) res" and x
    using that lim
    by (simp add: edit_def check_layout_ledger_json encode_bounded_def Let_def within_limits_def)
  ultimately show ?thesis
    using assms(2,3) e' by (simp add: finish_notification_def)
qed

definition claimed_ledger :: ledger where
  "claimed_ledger = map (\<lambda>(app, row). (app, row\<lparr>rw_outbox := map (\<lambda>(k, e). (k, e\<lparr>ef_count := 1,
     ef_attempts := [\<lparr>at_started = ''2029-10-11T00:00:01Z'', at_result = ''unknown'', at_completed = None\<rparr>],
     ef_claim := Some \<lparr>nc_owner = ''w'', nc_token = ''h'', nc_at = ''2029-10-11T00:00:01Z''\<rparr>\<rparr>))
       (rw_outbox row)\<rparr>)) pending_ledger"

theorem claim_finishes_once_witness:
  "\<exists>lg'. finish_notification lg' ''a'' ''notify:o'' ''h'' ''accepted'' ''2029-10-11T00:00:09Z''
    = fail ''conflict'' ''stale notification claim''"
proof -
  have "is_ok (finish_notification claimed_ledger ''a'' ''notify:o'' ''h'' ''unknown'' ''2029-10-11T00:00:05Z'')"
    by code_simp
  then obtain lg' where
    f: "finish_notification claimed_ledger ''a'' ''notify:o'' ''h'' ''unknown'' ''2029-10-11T00:00:05Z'' = Inr (lg', ())"
    by (auto simp: is_ok_iff)
  have "is_ok (parse_utc (PStr ''2029-10-11T00:00:09Z''))" by code_simp
  then obtain t where t: "parse_utc (PStr ''2029-10-11T00:00:09Z'') = Inr t" by (auto simp: is_ok_iff)
  have "''accepted'' \<in> set adapter_results" by (simp add: adapter_results_def)
  from claim_finishes_once [OF f this t] show ?thesis by blast
qed

lemma respond_split:
  "respond lg r0 = Inr (lg', r) \<Longrightarrow> r0 = Inr (lg', r) \<or> lg' = lg \<and> (\<exists>err. r = err_response err)"
  by (auto simp: respond_def split: sum.splits exn.splits)

text \<open>
  A guest without authority changes nothing but its own receipt: when the app is disabled, the
  permission is not granted, the caller's generation is not the active one or an upgrade is in
  progress, an upsert answers with that error and leaves alarms, occurrences, effects, guest events
  and snooze actions as they were.
\<close>

lemma unauthorized_upsert_changes_no_alarm:
  assumes "aget lg app = Some row" and "authority row (Some generation) True False = Inl e"
    and "scheduler_upsert ev lg app request generation now = Inr (lg', r)"
  shows "\<exists>row' err. aget lg' app = Some row' \<and> r = err_response err
    \<and> row' = row\<lparr>rw_commands := rw_commands row'\<rparr>"
proof -
  have m: "\<exists>row'. aget l app = Some row' \<and> w = err_response e \<and> row' = row\<lparr>rw_commands := rw_commands row'\<rparr>"
    if "mutating_call ev lg app operation payload key (Some generation) f False = Inr (l, w)"
    for operation payload key f l w
    using that assms(1,2) unfolding mutating_call_def
    by (auto split: pyval.splits elim!: bnd_InrE dest!: find_app_Inr simp: edit_Inr_iff call_body_def dict_simps)
  have self: "row = row\<lparr>rw_commands := rw_commands row\<rparr>" by simp
  show ?thesis
    using respond_split [OF assms(3) [unfolded scheduler_upsert_def]]
  proof
    assume "lg' = lg \<and> (\<exists>err. r = err_response err)"
    then show ?thesis using self assms(1) by (elim conjE exE) (intro exI conjI, simp_all only:)
  next
    assume "bnd (text_of (PStr generation) ''caller generation'' 256) (\<lambda>_.
      bnd (object_of request [''key'', ''purpose'', ''spec'', ''missed'', ''payload'', ''notification'',
        ''idempotency_key'']) (\<lambda>d.
      bnd (upsert_validate d now) (\<lambda>u.
      mutating_call ev lg app ''scheduler.upsert''
        (PDict (filter (\<lambda>(k, v). k \<noteq> ''idempotency_key'') d)) (dget d ''idempotency_key'')
        (Some generation)
        (upsert_action ev (ua_key u) (ua_schedule u) (dget d ''notification'') (ua_now u)
          (ua_purpose u) (ua_payload u) (ua_missed u) (dget d ''spec'')) False))) = Inr (lg', r)"
    then have "\<exists>row'. aget lg' app = Some row' \<and> r = err_response e \<and> row' = row\<lparr>rw_commands := rw_commands row'\<rparr>"
      by (elim bnd_InrE) (rule m)
    then show ?thesis by (elim exE conjE) (intro exI conjI)
  qed
qed

end
