(* ===== verification/PyText.thy ===== *)
theory PyText
  imports PyVal
begin

text \<open>
  Text checks several components share, on the UTF-8 bytes of a Python string: code points that
  \<open>str.strip\<close> removes, strict UTF-8, surrogates (a Python string may hold a lone surrogate, which
  \<open>json.loads\<close> makes from an escape and \<open>encode\<close> then refuses; its bytes here are those of the
  generalised encoding), and the character classes of the identifier patterns.
\<close>

section \<open>White space\<close>

definition byte_of :: "char \<Rightarrow> nat" where
  "byte_of c = of_char c"

definition bytes_str :: "nat list \<Rightarrow> string" where
  "bytes_str ns = map char_of ns"

text \<open>The encodings of the code points for which \<open>str.isspace\<close> holds.\<close>

definition space_codes :: "string list" where
  "space_codes =
    [[CHR 0x09], [CHR 0x0A], [CHR 0x0B], [CHR 0x0C], [CHR 0x0D], [CHR 0x1C], [CHR 0x1D],
     [CHR 0x1E], [CHR 0x1F], [CHR 0x20], [CHR 0xC2, CHR 0x85], [CHR 0xC2, CHR 0xA0],
     [CHR 0xE1, CHR 0x9A, CHR 0x80], [CHR 0xE2, CHR 0x80, CHR 0x80],
     [CHR 0xE2, CHR 0x80, CHR 0x81], [CHR 0xE2, CHR 0x80, CHR 0x82],
     [CHR 0xE2, CHR 0x80, CHR 0x83], [CHR 0xE2, CHR 0x80, CHR 0x84],
     [CHR 0xE2, CHR 0x80, CHR 0x85], [CHR 0xE2, CHR 0x80, CHR 0x86],
     [CHR 0xE2, CHR 0x80, CHR 0x87], [CHR 0xE2, CHR 0x80, CHR 0x88],
     [CHR 0xE2, CHR 0x80, CHR 0x89], [CHR 0xE2, CHR 0x80, CHR 0x8A],
     [CHR 0xE2, CHR 0x80, CHR 0xA8], [CHR 0xE2, CHR 0x80, CHR 0xA9],
     [CHR 0xE2, CHR 0x80, CHR 0xAF], [CHR 0xE2, CHR 0x81, CHR 0x9F],
     [CHR 0xE3, CHR 0x80, CHR 0x80]]"

definition starts_with :: "string \<Rightarrow> string \<Rightarrow> bool" where
  "starts_with s p = prefixb p s"

definition ends_with :: "string \<Rightarrow> string \<Rightarrow> bool" where
  "ends_with s p = prefixb (rev p) (rev s)"

text \<open>\<open>s.strip() == s\<close>.\<close>

definition is_stripped :: "string \<Rightarrow> bool" where
  "is_stripped s \<longleftrightarrow> list_all (\<lambda>w. \<not> starts_with s w \<and> \<not> ends_with s w) space_codes"

lemma prefixb_iff: "prefixb p s \<longleftrightarrow> (\<exists>t. s = p @ t)"
  by (induction p s rule: prefixb.induct) auto

lemma starts_with_iff: "starts_with s p \<longleftrightarrow> (\<exists>t. s = p @ t)"
  by (simp add: starts_with_def prefixb_iff)

lemma ends_with_iff: "ends_with s p \<longleftrightarrow> (\<exists>t. s = t @ p)"
  unfolding ends_with_def prefixb_iff by (metis rev_append rev_rev_ident)

text \<open>The length of the white space character a string starts or ends with.\<close>

definition leading_space :: "string \<Rightarrow> nat" where
  "leading_space s = (case find (starts_with s) space_codes of Some w \<Rightarrow> length w | None \<Rightarrow> 0)"

definition trailing_space :: "string \<Rightarrow> nat" where
  "trailing_space s = (case find (ends_with s) space_codes of Some w \<Rightarrow> length w | None \<Rightarrow> 0)"

lemma leading_space_le: "leading_space s \<le> length s"
  by (auto simp: leading_space_def starts_with_iff find_Some_iff split: option.splits)

lemma trailing_space_le: "trailing_space s \<le> length s"
  by (auto simp: trailing_space_def ends_with_iff find_Some_iff split: option.splits)

function py_lstrip :: "string \<Rightarrow> string" where
  "py_lstrip s = (if leading_space s = 0 then s else py_lstrip (drop (leading_space s) s))"
  by pat_completeness auto

termination
proof (relation "measure length")
  show "(drop (leading_space s) s, s) \<in> measure length" if "leading_space s \<noteq> 0" for s
    using that leading_space_le [of s] by simp
qed simp

function py_rstrip :: "string \<Rightarrow> string" where
  "py_rstrip s =
    (if trailing_space s = 0 then s else py_rstrip (take (length s - trailing_space s) s))"
  by pat_completeness auto

termination
proof (relation "measure length")
  show "(take (length s - trailing_space s) s, s) \<in> measure length" if "trailing_space s \<noteq> 0" for s
    using that trailing_space_le [of s] by simp
qed simp

declare py_lstrip.simps [simp del] py_rstrip.simps [simp del]

definition py_strip :: "string \<Rightarrow> string" where
  "py_strip s = py_rstrip (py_lstrip s)"

text \<open>\<open>any(c.isspace() for c in s)\<close>; an encoding occurs in UTF-8 text only where its character does.\<close>

definition has_space :: "string \<Rightarrow> bool" where
  "has_space s \<longleftrightarrow> list_ex (\<lambda>w. infixb w s) space_codes"

lemma py_lstrip_suffix: "\<exists>u. s = u @ py_lstrip s"
proof (induction s rule: py_lstrip.induct)
  case (1 s)
  show ?case
  proof (cases "leading_space s = 0")
    case False
    then obtain u where "drop (leading_space s) s = u @ py_lstrip s"
      using 1 by (metis py_lstrip.simps)
    then have "s = (take (leading_space s) s @ u) @ py_lstrip s"
      by (metis append.assoc append_take_drop_id)
    then show ?thesis ..
  qed (simp add: py_lstrip.simps)
qed

lemma py_rstrip_prefix: "\<exists>u. s = py_rstrip s @ u"
proof (induction s rule: py_rstrip.induct)
  case (1 s)
  show ?case
  proof (cases "trailing_space s = 0")
    case False
    then obtain u where "take (length s - trailing_space s) s = py_rstrip s @ u"
      using 1 by (metis py_rstrip.simps)
    then have "s = py_rstrip s @ u @ drop (length s - trailing_space s) s"
      by (metis append.assoc append_take_drop_id)
    then show ?thesis ..
  qed (simp add: py_rstrip.simps)
qed

text \<open>What \<open>strip\<close> returns is a part of the string, and stripped.\<close>

lemma py_strip_part: "\<exists>u v. s = u @ py_strip s @ v"
  unfolding py_strip_def by (metis append.assoc py_lstrip_suffix py_rstrip_prefix)

lemma leading_space_zero: "leading_space s = 0 \<longleftrightarrow> list_all (\<lambda>w. \<not> starts_with s w) space_codes"
  by (auto simp: leading_space_def find_None_iff find_Some_iff list_all_iff space_codes_def split: option.splits)

lemma trailing_space_zero: "trailing_space s = 0 \<longleftrightarrow> list_all (\<lambda>w. \<not> ends_with s w) space_codes"
  by (auto simp: trailing_space_def find_None_iff find_Some_iff list_all_iff space_codes_def split: option.splits)

lemma leading_lstrip: "leading_space (py_lstrip s) = 0"
  by (induction s rule: py_lstrip.induct) (metis py_lstrip.simps)

lemma trailing_rstrip: "trailing_space (py_rstrip s) = 0"
  by (induction s rule: py_rstrip.induct) (metis py_rstrip.simps)

lemma py_strip_stripped: "is_stripped (py_strip s)"
proof -
  let ?t = "py_lstrip s"
  obtain u where u: "?t = py_rstrip ?t @ u" using py_rstrip_prefix by blast
  have "\<not> starts_with (py_rstrip ?t) w" if "w \<in> set space_codes" for w
    using that u leading_lstrip [of s]
    by (metis append.assoc leading_space_zero list_all_iff starts_with_iff)
  then show ?thesis using trailing_rstrip [of ?t]
    by (auto simp: is_stripped_def py_strip_def trailing_space_zero list_all_iff)
qed

section \<open>UTF-8\<close>

definition cont_byte :: "char \<Rightarrow> bool" where
  "cont_byte c \<longleftrightarrow> 0x80 \<le> byte_of c \<and> byte_of c \<le> 0xBF"

text \<open>
  What \<open>bytes.decode("utf-8", errors="strict")\<close> accepts: no overlong form, no surrogate, nothing
  beyond U+10FFFF.
\<close>

fun utf8_ok :: "string \<Rightarrow> bool" where
  "utf8_ok [] = True"
| "utf8_ok (a # s) =
    (if byte_of a < 0x80 then utf8_ok s
     else (case s of
         [] \<Rightarrow> False
       | b # s2 \<Rightarrow>
           if 0xC2 \<le> byte_of a \<and> byte_of a \<le> 0xDF then cont_byte b \<and> utf8_ok s2
           else (case s2 of
               [] \<Rightarrow> False
             | c # s3 \<Rightarrow>
                 if 0xE0 \<le> byte_of a \<and> byte_of a \<le> 0xEF then
                   cont_byte b \<and> cont_byte c \<and> (byte_of a = 0xE0 \<longrightarrow> 0xA0 \<le> byte_of b)
                   \<and> (byte_of a = 0xED \<longrightarrow> byte_of b \<le> 0x9F) \<and> utf8_ok s3
                 else (case s3 of
                     [] \<Rightarrow> False
                   | d # s4 \<Rightarrow>
                       0xF0 \<le> byte_of a \<and> byte_of a \<le> 0xF4 \<and> cont_byte b \<and> cont_byte c
                       \<and> cont_byte d \<and> (byte_of a = 0xF0 \<longrightarrow> 0x90 \<le> byte_of b)
                       \<and> (byte_of a = 0xF4 \<longrightarrow> byte_of b \<le> 0x8F) \<and> utf8_ok s4))))"

text \<open>The generalised encoding of a code point; \<open>has_surrogate\<close> finds the code points D800 to DFFF.\<close>

definition utf8_enc :: "nat \<Rightarrow> string" where
  "utf8_enc n =
    (if n < 0x80 then bytes_str [n]
     else if n < 0x800 then bytes_str [0xC0 + n div 64, 0x80 + n mod 64]
     else if n < 0x10000 then
       bytes_str [0xE0 + n div 4096, 0x80 + n div 64 mod 64, 0x80 + n mod 64]
     else bytes_str [0xF0 + n div 262144, 0x80 + n div 4096 mod 64, 0x80 + n div 64 mod 64,
       0x80 + n mod 64])"

fun has_surrogate :: "string \<Rightarrow> bool" where
  "has_surrogate (a # b # s) =
    (if a = CHR 0xED then 0xA0 \<le> byte_of b \<or> has_surrogate (b # s) else has_surrogate (b # s))"
| "has_surrogate _ = False"

lemma byte_of_lead: "byte_of a = 0xED \<longleftrightarrow> a = CHR 0xED"
proof
  assume "byte_of a = 0xED"
  then have "(of_char a :: nat) = of_char (CHR 0xED)" by (simp add: byte_of_def)
  then show "a = CHR 0xED" by (simp only: of_char_eq_iff)
qed (simp add: byte_of_def)

lemma cont_not_lead [simp]: "cont_byte b \<Longrightarrow> b \<noteq> CHR 0xED"
  by (auto simp: cont_byte_def byte_of_def)

lemma has_surrogate_Cons:
  "a \<noteq> CHR 0xED \<Longrightarrow> has_surrogate (a # s) = has_surrogate s"
  by (cases s) auto

lemma has_surrogate_skip: "cont_byte b \<Longrightarrow> has_surrogate (b # s) = has_surrogate s"
  by (simp add: has_surrogate_Cons)

lemma utf8_ok_no_surrogate: "utf8_ok s \<Longrightarrow> \<not> has_surrogate s"
proof (induction s rule: utf8_ok.induct)
  case (2 a s)
  show ?case
  proof (cases "byte_of a < 0x80")
    case True
    then have "a \<noteq> CHR 0xED" by (auto simp: byte_of_def)
    then show ?thesis using 2 True by (simp add: has_surrogate_Cons)
  next
    case one: False
    with 2(5) obtain b s2 where s: "s = b # s2" by (auto split: list.splits)
    show ?thesis
    proof (cases "0xC2 \<le> byte_of a \<and> byte_of a \<le> 0xDF")
      case True
      then have "cont_byte b" and "utf8_ok s2" using 2(5) one s by auto
      then have "\<not> has_surrogate s2" using 2(2) [OF one s] True by blast
      moreover have "a \<noteq> CHR 0xED" using True by (auto simp: byte_of_def)
      ultimately show ?thesis using \<open>cont_byte b\<close> s by (simp add: has_surrogate_Cons)
    next
      case two: False
      with 2(5) one s obtain c s3 where s2: "s2 = c # s3" by (auto split: list.splits)
      show ?thesis
      proof (cases "0xE0 \<le> byte_of a \<and> byte_of a \<le> 0xEF")
        case True
        then have h: "cont_byte b" "cont_byte c" "byte_of a = 0xED \<longrightarrow> byte_of b \<le> 0x9F" "utf8_ok s3"
          using 2(5) one two s s2 by (simp_all split: if_splits)
        then have "\<not> has_surrogate s3" using 2(3) [OF one s two s2] True by blast
        then show ?thesis using h s s2 byte_of_lead [of a] by (auto simp: has_surrogate_skip)
      next
        case three: False
        then obtain d s4 where s3: "s3 = d # s4"
          using 2(5) one two s s2 by (cases s3) auto
        then have h: "0xF0 \<le> byte_of a" "cont_byte b" "cont_byte c" "cont_byte d" "utf8_ok s4"
          using 2(5) one two three s s2 by (simp_all split: if_splits)
        then have "\<not> has_surrogate s4" using 2(4) [OF one s two s2 three s3] by blast
        moreover have "a \<noteq> CHR 0xED" using three by (auto simp: byte_of_def)
        ultimately show ?thesis using h s s2 s3 by (simp add: has_surrogate_skip)
      qed
    qed
  qed
qed simp

lemma no_lead_no_surrogate: "list_all (\<lambda>c. c \<noteq> CHR 0xED) s \<Longrightarrow> \<not> has_surrogate s"
  by (induction s rule: has_surrogate.induct) auto

lemma ascii_no_surrogate: "ascii s \<Longrightarrow> \<not> has_surrogate s"
  by (induction s rule: has_surrogate.induct) (auto simp: ascii_def byte_of_def)

section \<open>Character classes\<close>

definition id_rest_c :: "char \<Rightarrow> bool" where
  "id_rest_c c \<longleftrightarrow> alnum_c c \<or> c \<in> set ''._:-''"

definition hex64 :: "string \<Rightarrow> bool" where
  "hex64 s \<longleftrightarrow> length s = 64 \<and> list_all hex_c s"

definition ascii_c :: "char \<Rightarrow> bool" where
  "ascii_c c \<longleftrightarrow> (of_char c :: nat) < 128"

lemma ascii_c_code [code]: "ascii_c (Char b0 b1 b2 b3 b4 b5 b6 b7) = (\<not> b7)"
  by (simp add: ascii_c_def of_char_Char of_bool_def)

lemma ascii_all: "list_all ascii_c s \<Longrightarrow> ascii s"
  by (simp add: ascii_def ascii_c_def list_all_iff)

text \<open>A value whose strings are ASCII has an ASCII encoding; checked on the short strings.\<close>

fun ascii_json :: "pyval \<Rightarrow> bool" where
  "ascii_json (PFloat s) = list_all ascii_c s"
| "ascii_json (PStr s) = list_all ascii_c s"
| "ascii_json (PList xs) = list_all ascii_json xs"
| "ascii_json (PDict d) = list_all (\<lambda>(k, v). list_all ascii_c k \<and> ascii_json v) d"
| "ascii_json _ = True"

lemma ascii_simps:
  "ascii []" "ascii (c # s) \<longleftrightarrow> (of_char c :: nat) < 128 \<and> ascii s" "ascii (s @ t) \<longleftrightarrow> ascii s \<and> ascii t"
  by (auto simp: ascii_def)

lemma ascii_joinc: "(\<And>s. s \<in> set ss \<Longrightarrow> ascii s) \<Longrightarrow> ascii (joinc ss)"
  by (induction ss rule: joinc.induct) (auto simp: ascii_simps)

lemma hexdig_ascii: "n < 16 \<Longrightarrow> (of_char (hexdig n) :: nat) < 128"
proof -
  assume "n < 16"
  then have "hexdig n \<in> set ''0123456789abcdef''" unfolding hexdig_def by (intro nth_mem) simp
  then show ?thesis by auto
qed

lemma ascii_esc_char: "(of_char c :: nat) < 128 \<Longrightarrow> ascii (esc_char c)"
  by (auto simp: esc_char_def ascii_simps intro!: hexdig_ascii)

lemma ascii_json_str: "list_all ascii_c s \<Longrightarrow> ascii (json_str s)"
proof -
  assume "list_all ascii_c s"
  then have "ascii (concat (map esc_char s))"
    by (induction s) (auto simp: ascii_simps ascii_c_def intro: ascii_esc_char)
  then show ?thesis by (simp add: json_str_def ascii_simps)
qed

lemma digit_ascii: "(of_char (digit n) :: nat) < 128"
proof -
  have "n mod 10 < 10" by simp
  then show ?thesis by simp
qed

lemma ascii_dec_nat: "ascii (dec_nat n)"
  by (induction n rule: dec_nat.induct) (subst dec_nat.simps, simp add: ascii_simps digit_ascii del: of_char_digit)

lemma ascii_json_enc: "ascii_json v \<Longrightarrow> ascii (json_enc v)"
proof (induction v rule: json_enc.induct)
  case (3 i)
  then show ?case by (simp add: dec_def ascii_dec_nat ascii_simps)
next
  case (6 xs)
  then have "ascii (joinc (map json_enc xs))" by (intro ascii_joinc) (auto simp: list_all_iff)
  then show ?case by (simp add: ascii_simps)
next
  case (7 d)
  then have "ascii (joinc (map (\<lambda>(k, e). json_str k @ CHR '':'' # e)
      (sort_key fst (map (\<lambda>(k, v). (k, json_enc v)) d))))"
    by (intro ascii_joinc) (fastforce simp: list_all_iff ascii_simps intro: ascii_json_str)
  then show ?case by (simp add: ascii_simps)
qed (auto simp: ascii_simps ascii_json_str ascii_all)

lemma alnum_ascii: "alnum_c c \<Longrightarrow> (of_char c :: nat) < 128"
  by (auto simp: alnum_c_def lower_c_def upper_c_def digit_c_def less_eq_char_def)

lemma hex_ascii: "hex_c c \<Longrightarrow> (of_char c :: nat) < 128"
  by (auto simp: hex_c_def digit_c_def less_eq_char_def)

lemma id_rest_ascii: "id_rest_c c \<Longrightarrow> (of_char c :: nat) < 128"
  by (auto simp: id_rest_c_def alnum_ascii)

end
