(* ===== verification/LaunchData.thy ===== *)
theory LaunchData
  imports PyText
begin

text \<open>
  Data of the CodeAgent launcher contract (\<open>codeagent-launcher/codeagent_launcher.py\<close>): the closed
  enumerations, the field validators, the launch request and its canonical digest, the trusted
  provider profile, what an executor answers, and the job record.

  A launch request is parametric in the type of its fields: \<open>pyval launch_request\<close> is an instance
  of the dataclass as any caller can build it, \<open>string launch_request\<close> is one that
  \<open>from_mapping\<close> has checked. SHA-256 is the parameter \<open>sha\<close>.
\<close>

section \<open>Constants and enumerations\<close>

definition launcher_schema :: string where
  "launcher_schema = ''codeagent-launcher.experimental-v0''"

definition receipt_schema :: string where
  "receipt_schema = ''codeagent-launcher-receipt.experimental-v0''"

definition max_request_bytes :: int where "max_request_bytes = 8 * 1024"
definition max_id_length :: int where "max_id_length = 128"
definition max_model_length :: int where "max_model_length = 256"
definition max_execution_id_length :: int where "max_execution_id_length = 256"
definition max_media_type_length :: int where "max_media_type_length = 128"
definition max_output_bytes_cap :: int where "max_output_bytes_cap = 4 * 1024 * 1024"
definition max_event_page :: int where "max_event_page = 100"
definition max_events_per_job :: int where "max_events_per_job = 32"

datatype executor_kind = Docker | Kubernetes

datatype backend_state = BackendRunning | BackendSucceeded | BackendFailed | BackendCancelled

datatype launcher_state =
    JobQueued | JobStarting | JobRunning | JobCancelRequested | JobCleanupPending
  | JobSucceeded | JobFailed | JobCancelled | JobHeld

datatype event_phase = PhaseQueued | PhaseStarting | PhaseRunning | PhaseQuiescing | PhaseTerminal

datatype event_code =
    CodeQueued | CodeStarting | CodeRunning | CodeCancelRequested | CodeCleanupPending
  | CodeSucceeded | CodeFailed | CodeCancelled | CodeHeld

fun kind_value :: "executor_kind \<Rightarrow> string" where
  "kind_value Docker = ''docker''"
| "kind_value Kubernetes = ''kubernetes''"

fun state_value :: "launcher_state \<Rightarrow> string" where
  "state_value JobQueued = ''queued''"
| "state_value JobStarting = ''starting''"
| "state_value JobRunning = ''running''"
| "state_value JobCancelRequested = ''cancel-requested''"
| "state_value JobCleanupPending = ''cleanup-pending''"
| "state_value JobSucceeded = ''succeeded''"
| "state_value JobFailed = ''failed''"
| "state_value JobCancelled = ''cancelled''"
| "state_value JobHeld = ''held''"

fun phase_value :: "event_phase \<Rightarrow> string" where
  "phase_value PhaseQueued = ''queued''"
| "phase_value PhaseStarting = ''starting''"
| "phase_value PhaseRunning = ''running''"
| "phase_value PhaseQuiescing = ''quiescing''"
| "phase_value PhaseTerminal = ''terminal''"

fun code_value :: "event_code \<Rightarrow> string" where
  "code_value CodeQueued = ''job-queued''"
| "code_value CodeStarting = ''executor-starting''"
| "code_value CodeRunning = ''backend-running''"
| "code_value CodeCancelRequested = ''cancel-requested''"
| "code_value CodeCleanupPending = ''cleanup-pending''"
| "code_value CodeSucceeded = ''job-succeeded''"
| "code_value CodeFailed = ''job-failed''"
| "code_value CodeCancelled = ''job-cancelled''"
| "code_value CodeHeld = ''job-held''"

definition terminal :: "launcher_state \<Rightarrow> bool" where
  "terminal s \<longleftrightarrow> s = JobSucceeded \<or> s = JobFailed \<or> s = JobCancelled \<or> s = JobHeld"

lemma terminal_simps [simp]:
  "\<not> terminal JobQueued" "\<not> terminal JobStarting" "\<not> terminal JobRunning"
  "\<not> terminal JobCancelRequested" "\<not> terminal JobCleanupPending"
  "terminal JobSucceeded" "terminal JobFailed" "terminal JobCancelled" "terminal JobHeld"
  by (simp_all add: terminal_def)

section \<open>Field validators\<close>

abbreviation contract_error :: "string \<Rightarrow> 'a res" where
  "contract_error m \<equiv> fail ''invalid-request'' m"

abbreviation executor_unavailable :: exn where
  "executor_unavailable \<equiv> Crash ''ExecutorUnavailable''"

definition require_string :: "pyval \<Rightarrow> string \<Rightarrow> string res" where
  "require_string v field =
    (case v of PStr s \<Rightarrow> Inr s | _ \<Rightarrow> contract_error (field @ '':expected-string''))"

definition id_shape :: "string \<Rightarrow> bool" where
  "id_shape s \<longleftrightarrow>
    (case s of [] \<Rightarrow> False | c # cs \<Rightarrow> alnum_c c \<and> list_all id_rest_c cs) \<and> len s \<le> max_id_length"

definition require_id :: "pyval \<Rightarrow> string \<Rightarrow> string res" where
  "require_id v field = bnd (require_string v field) (\<lambda>s.
    if id_shape s then Inr s else contract_error (field @ '':invalid-id''))"

definition model_shape :: "string \<Rightarrow> bool" where
  "model_shape s \<longleftrightarrow> 1 \<le> int (py_len s) \<and> int (py_len s) \<le> max_model_length \<and> is_stripped s
    \<and> \<not> starts_with s ''-'' \<and> list_all (\<lambda>c. \<not> ctrl_char c \<and> c \<noteq> CHR 0x7F) s"

definition require_model :: "pyval \<Rightarrow> string res" where
  "require_model v = bnd (require_string v ''model'') (\<lambda>s.
    if model_shape s then Inr s else contract_error ''model:invalid-model-id'')"

definition require_digest :: "pyval \<Rightarrow> string \<Rightarrow> string res" where
  "require_digest v field = bnd (require_string v field) (\<lambda>s.
    if hex64 s then Inr s else contract_error (field @ '':invalid-sha256''))"

definition execution_id_shape :: "string \<Rightarrow> bool" where
  "execution_id_shape s \<longleftrightarrow> s \<noteq> [] \<and> int (py_len s) \<le> max_execution_id_length
    \<and> list_all (\<lambda>c. 0x21 \<le> byte_of c \<and> byte_of c \<le> 0x7E) s"

definition require_execution_id :: "pyval \<Rightarrow> string res" where
  "require_execution_id v = bnd (require_string v ''backend_execution_id'') (\<lambda>s.
    if execution_id_shape s then Inr s else contract_error ''backend_execution_id:invalid'')"

definition media_token :: "string \<Rightarrow> bool" where
  "media_token s \<longleftrightarrow>
    (case s of [] \<Rightarrow> False
     | c # cs \<Rightarrow> alnum_c c \<and> list_all (\<lambda>c. alnum_c c \<or> c \<in> set ''!#$&^_.+-'') cs)
    \<and> length s \<le> 64"

definition media_shape :: "string \<Rightarrow> bool" where
  "media_shape s \<longleftrightarrow> len s \<le> max_media_type_length
    \<and> media_token (takeWhile (\<lambda>c. c \<noteq> CHR ''/'') s)
    \<and> (case dropWhile (\<lambda>c. c \<noteq> CHR ''/'') s of [] \<Rightarrow> False | _ # t \<Rightarrow> media_token t)"

definition require_media_type :: "pyval \<Rightarrow> string res" where
  "require_media_type v = bnd (require_string v ''output_media_type'') (\<lambda>s.
    if media_shape s then Inr s else contract_error ''output_media_type:invalid'')"

section \<open>The launch request\<close>

record 'v launch_request =
  rq_schema :: 'v
  rq_job :: 'v
  rq_attempt :: 'v
  rq_key :: 'v
  rq_profile :: 'v
  rq_provider :: 'v
  rq_model :: 'v
  rq_task :: 'v
  rq_input :: 'v
  rq_prompt :: 'v
  rq_resource :: 'v
  rq_network :: 'v

definition submit_fields :: "string list" where
  "submit_fields =
    [''schema_version'', ''job_id'', ''attempt_id'', ''idempotency_key'', ''provider_profile_id'',
     ''provider_id'', ''model'', ''task_digest_sha256'', ''input_digest_sha256'',
     ''prompt_digest_sha256'', ''resource_policy_id'', ''network_policy_id'']"

definition request_dict :: "('v \<Rightarrow> pyval) \<Rightarrow> 'v launch_request \<Rightarrow> pyval dict" where
  "request_dict f r =
    [(''schema_version'', f (rq_schema r)), (''job_id'', f (rq_job r)),
     (''attempt_id'', f (rq_attempt r)), (''idempotency_key'', f (rq_key r)),
     (''provider_profile_id'', f (rq_profile r)), (''provider_id'', f (rq_provider r)),
     (''model'', f (rq_model r)), (''task_digest_sha256'', f (rq_task r)),
     (''input_digest_sha256'', f (rq_input r)), (''prompt_digest_sha256'', f (rq_prompt r)),
     (''resource_policy_id'', f (rq_resource r)), (''network_policy_id'', f (rq_network r))]"

definition request_of_mapping :: "pyval \<Rightarrow> string launch_request res" where
  "request_of_mapping v =
    (case v of
       PDict d \<Rightarrow>
         (let unknown = sort (filter (\<lambda>k. k \<notin> set submit_fields) (keys d));
              missing = sort (filter (\<lambda>k. k \<notin> set (keys d)) submit_fields)
          in if unknown \<noteq> [] then contract_error (''request:unknown-fields:'' @ joinc unknown)
             else if missing \<noteq> [] then contract_error (''request:missing-fields:'' @ joinc missing)
             else
               bnd (require_string (dget d ''schema_version'') ''schema_version'') (\<lambda>schema.
               if schema \<noteq> launcher_schema then contract_error ''schema_version:unsupported''
               else
               bnd (require_id (dget d ''job_id'') ''job_id'') (\<lambda>job.
               bnd (require_id (dget d ''attempt_id'') ''attempt_id'') (\<lambda>attempt.
               bnd (require_id (dget d ''idempotency_key'') ''idempotency_key'') (\<lambda>key.
               bnd (require_id (dget d ''provider_profile_id'') ''provider_profile_id'') (\<lambda>profile.
               bnd (require_id (dget d ''provider_id'') ''provider_id'') (\<lambda>provider.
               bnd (require_model (dget d ''model'')) (\<lambda>model.
               bnd (require_digest (dget d ''task_digest_sha256'') ''task_digest_sha256'') (\<lambda>task.
               bnd (require_digest (dget d ''input_digest_sha256'') ''input_digest_sha256'') (\<lambda>input.
               bnd (require_digest (dget d ''prompt_digest_sha256'') ''prompt_digest_sha256'') (\<lambda>prompt.
               bnd (require_id (dget d ''resource_policy_id'') ''resource_policy_id'') (\<lambda>resource.
               bnd (require_id (dget d ''network_policy_id'') ''network_policy_id'') (\<lambda>network.
               Inr \<lparr>rq_schema = schema, rq_job = job, rq_attempt = attempt, rq_key = key,
                 rq_profile = profile, rq_provider = provider, rq_model = model, rq_task = task,
                 rq_input = input, rq_prompt = prompt, rq_resource = resource,
                 rq_network = network\<rparr>)))))))))))))
     | _ \<Rightarrow> contract_error ''request:expected-object'')"

text \<open>\<open>_canonical_json_bytes\<close>: the encoder refuses a lone surrogate.\<close>

definition canonical_bytes :: "pyval \<Rightarrow> string res" where
  "canonical_bytes v =
    (let b = json_enc v in if has_surrogate b then Inl (Crash ''UnicodeEncodeError'') else Inr b)"

definition request_digest :: "(string \<Rightarrow> string) \<Rightarrow> string launch_request \<Rightarrow> string res" where
  "request_digest sha r = bnd (canonical_bytes (PDict (request_dict PStr r))) (\<lambda>b. Inr (sha b))"

section \<open>Provider profiles\<close>

record provider_profile =
  pf_id :: pyval
  pf_digest :: pyval
  pf_provider :: pyval
  pf_models :: "pyval list"
  pf_kind :: "executor_kind option"
  pf_image :: pyval
  pf_resource :: pyval
  pf_resource_digest :: pyval
  pf_network :: pyval
  pf_network_digest :: pyval
  pf_max_output :: pyval
  pf_media :: pyval

text \<open>\<open>pf_kind\<close> is \<open>None\<close> when the field holds something else than an executor kind.\<close>

definition profile_check :: "provider_profile \<Rightarrow> unit res" where
  "profile_check p =
    bnd (require_id (pf_id p) ''provider_profile_id'') (\<lambda>_.
    bnd (require_digest (pf_digest p) ''provider_profile_digest_sha256'') (\<lambda>_.
    bnd (require_id (pf_provider p) ''provider_id'') (\<lambda>_.
    if pf_models p = [] then contract_error ''allowed_models:empty''
    else seq (each (\<lambda>m. bnd (require_model m) (\<lambda>_. Inr ())) (pf_models p)) (
    if pf_kind p = None then contract_error ''executor_kind:invalid''
    else
    bnd (require_digest (pf_image p) ''image_digest_sha256'') (\<lambda>_.
    bnd (require_id (pf_resource p) ''resource_policy_id'') (\<lambda>_.
    bnd (require_digest (pf_resource_digest p) ''resource_policy_digest_sha256'') (\<lambda>_.
    bnd (require_id (pf_network p) ''network_policy_id'') (\<lambda>_.
    bnd (require_digest (pf_network_digest p) ''network_policy_digest_sha256'') (\<lambda>_.
    if \<not> pint_within 1 max_output_bytes_cap (pf_max_output p)
    then contract_error ''max_output_bytes:out-of-range''
    else bnd (require_media_type (pf_media p)) (\<lambda>_. Inr ()))))))))))"

definition request_matches_profile :: "string launch_request \<Rightarrow> provider_profile \<Rightarrow> unit res" where
  "request_matches_profile r p =
    (if PStr (rq_provider r) \<noteq> pf_provider p then contract_error ''provider_id:profile-mismatch''
     else if PStr (rq_model r) \<notin> set (pf_models p) then contract_error ''model:profile-mismatch''
     else if PStr (rq_resource r) \<noteq> pf_resource p
     then contract_error ''resource_policy_id:profile-mismatch''
     else if PStr (rq_network r) \<noteq> pf_network p
     then contract_error ''network_policy_id:profile-mismatch''
     else Inr ())"

section \<open>What an executor answers\<close>

text \<open>
  The fields of the dataclasses an executor builds are not checked by Python, and the launcher
  checks them one by one: a field is a dynamic value, or \<open>None\<close> where it does not hold an instance
  of the class the launcher asks for.
\<close>

record success_receipt =
  sr_schema :: pyval
  sr_job :: pyval
  sr_attempt :: pyval
  sr_key :: pyval
  sr_request_digest :: pyval
  sr_execution :: pyval
  sr_kind :: "executor_kind option"
  sr_profile :: pyval
  sr_profile_digest :: pyval
  sr_provider :: pyval
  sr_model :: pyval
  sr_image :: pyval
  sr_resource :: pyval
  sr_resource_digest :: pyval
  sr_network :: pyval
  sr_network_digest :: pyval
  sr_task :: pyval
  sr_input :: pyval
  sr_prompt :: pyval
  sr_output_digest :: pyval
  sr_media :: pyval
  sr_size :: pyval
  sr_cleanup :: pyval
  sr_quiescent :: pyval

record backend_success =
  bs_output :: "string option"
  bs_media :: pyval
  bs_receipt :: "success_receipt option"

record observation =
  ob_execution :: pyval
  ob_state :: "backend_state option"
  ob_cleanup :: pyval
  ob_quiescent :: pyval
  ob_success :: "backend_success option"

text \<open>\<open>launch\<close> answers the execution identifier of the \<open>BackendLaunch\<close> it returns.\<close>

record executor =
  ex_launch :: "string launch_request \<Rightarrow> provider_profile \<Rightarrow> string \<Rightarrow> pyval res"
  ex_status :: "string \<Rightarrow> observation res"
  ex_cancel :: "string \<Rightarrow> observation res"

definition kubernetes_executor :: executor where
  "kubernetes_executor = \<lparr>ex_launch = (\<lambda>_ _ _. Inl executor_unavailable),
     ex_status = (\<lambda>_. Inl executor_unavailable), ex_cancel = (\<lambda>_. Inl executor_unavailable)\<rparr>"

section \<open>The job record and the service\<close>

type_synonym event = "int \<times> event_phase \<times> event_code"

record job =
  jb_request :: "string launch_request"
  jb_digest :: string
  jb_profile :: provider_profile
  jb_state :: launcher_state
  jb_execution :: "string option"
  jb_failure :: "string option"
  jb_success :: "backend_success option"
  jb_events :: "event list"
  jb_next :: int
  jb_pending :: "backend_state option"

type_synonym job_key = "string \<times> string"

record service =
  sv_profiles :: "provider_profile dict"
  sv_executors :: "executor_kind list"
  sv_jobs :: "(job_key \<times> job) list"
  sv_keys :: "(string \<times> job_key) dict"

text \<open>\<open>LauncherService.__init__\<close>; an executor whose kind is not an executor kind is \<open>None\<close>.\<close>

definition add_profile :: "provider_profile dict \<Rightarrow> provider_profile \<Rightarrow> provider_profile dict res" where
  "add_profile ps p =
    seq (profile_check p) (bnd (require_string (pf_id p) ''provider_profile_id'') (\<lambda>k.
      if has k ps then contract_error ''profiles:duplicate-provider-profile-id''
      else Inr (aput k p ps)))"

definition add_executor :: "executor_kind list \<Rightarrow> executor_kind option \<Rightarrow> executor_kind list res" where
  "add_executor ks k =
    (case k of None \<Rightarrow> contract_error ''executors:invalid-kind''
     | Some k \<Rightarrow> if k \<in> set ks then contract_error ''executors:duplicate-kind'' else Inr (ks @ [k]))"

definition init_service :: "provider_profile list \<Rightarrow> executor_kind option list \<Rightarrow> service res" where
  "init_service profiles executors =
    bnd (rfold add_profile [] profiles) (\<lambda>ps.
    bnd (rfold add_executor [] executors) (\<lambda>ks.
    Inr \<lparr>sv_profiles = ps, sv_executors = ks, sv_jobs = [], sv_keys = []\<rparr>))"

end
