(* ===== verification/LaunchService.thy ===== *)
theory LaunchService
  imports LaunchData
begin

text \<open>
  The launcher service (\<open>LauncherService\<close>): submit, status, cancel, list_events and result, with
  the job transitions they share. An operation returns the state it leaves behind together with
  its value or exception, because a job record is mutated in place and an exception of an executor
  does not undo what was written before the call. The executors are an argument of every call,
  since they may answer differently each time.
\<close>

type_synonym 'a outcome = "service \<times> 'a res"

section \<open>Job transitions\<close>

definition append_event :: "event_phase \<Rightarrow> event_code \<Rightarrow> job \<Rightarrow> job" where
  "append_event phase code j =
    (if max_events_per_job \<le> len (jb_events j) then
       j\<lparr>jb_state := JobCleanupPending, jb_failure := Some ''event-budget-exhausted'', jb_success := None\<rparr>
     else if jb_events j \<noteq> [] \<and> snd (last (jb_events j)) = (phase, code) then j
     else j\<lparr>jb_events := jb_events j @ [(jb_next j, phase, code)], jb_next := jb_next j + 1\<rparr>)"

definition hold :: "string \<Rightarrow> job \<Rightarrow> job" where
  "hold failure j = append_event PhaseTerminal CodeHeld
     (j\<lparr>jb_state := JobHeld, jb_failure := Some failure, jb_success := None\<rparr>)"

definition quiescence_pending :: "string \<Rightarrow> backend_state option \<Rightarrow> job \<Rightarrow> job" where
  "quiescence_pending failure pending j = append_event PhaseQuiescing CodeCleanupPending
     (j\<lparr>jb_state := JobCleanupPending, jb_failure := Some failure, jb_success := None,
        jb_pending := pending\<rparr>)"

definition receipt_expected :: "(string \<Rightarrow> string) \<Rightarrow> job \<Rightarrow> string \<Rightarrow> pyval \<Rightarrow> success_receipt" where
  "receipt_expected sha j out media =
    (let r = jb_request j; p = jb_profile j in
     \<lparr>sr_schema = PStr receipt_schema, sr_job = PStr (rq_job r), sr_attempt = PStr (rq_attempt r),
      sr_key = PStr (rq_key r), sr_request_digest = PStr (jb_digest j),
      sr_execution = opt_str (jb_execution j), sr_kind = pf_kind p, sr_profile = pf_id p,
      sr_profile_digest = pf_digest p, sr_provider = PStr (rq_provider r),
      sr_model = PStr (rq_model r), sr_image = pf_image p, sr_resource = pf_resource p,
      sr_resource_digest = pf_resource_digest p, sr_network = pf_network p,
      sr_network_digest = pf_network_digest p, sr_task = PStr (rq_task r),
      sr_input = PStr (rq_input r), sr_prompt = PStr (rq_prompt r),
      sr_output_digest = PStr (sha out), sr_media = media, sr_size = PInt (len out),
      sr_cleanup = PBool True, sr_quiescent = PBool True\<rparr>)"

fun fits_within :: "int \<Rightarrow> pyval \<Rightarrow> bool" where
  "fits_within n (PInt i) = (n \<le> i)"
| "fits_within n _ = False"

fun is_pint :: "pyval \<Rightarrow> bool" where
  "is_pint (PInt _) = True"
| "is_pint _ = False"

definition valid_success :: "(string \<Rightarrow> string) \<Rightarrow> job \<Rightarrow> backend_success \<Rightarrow> bool" where
  "valid_success sha j s =
    (case bs_output s of
       None \<Rightarrow> False
     | Some out \<Rightarrow>
         if \<not> fits_within (len out) (pf_max_output (jb_profile j)) then False
         else if bs_media s \<noteq> pf_media (jb_profile j) then False
         else (case bs_receipt s of
             None \<Rightarrow> False
           | Some r \<Rightarrow>
               if sr_kind r = None then False
               else if sr_cleanup r \<noteq> PBool True then False
               else if sr_quiescent r \<noteq> PBool True then False
               else if \<not> is_pint (sr_size r) then False
               else r = receipt_expected sha j out (bs_media s)))"

definition apply_success :: "(string \<Rightarrow> string) \<Rightarrow> backend_success option \<Rightarrow> job \<Rightarrow> job" where
  "apply_success sha success j =
    (case success of
       None \<Rightarrow> hold ''invalid-terminal-receipt'' j
     | Some s \<Rightarrow>
         if \<not> valid_success sha j s then hold ''invalid-terminal-receipt'' j
         else append_event PhaseTerminal CodeSucceeded
           (j\<lparr>jb_success := Some s, jb_failure := None, jb_pending := None, jb_state := JobSucceeded\<rparr>))"

definition apply_failure :: "backend_state \<Rightarrow> backend_success option \<Rightarrow> job \<Rightarrow> job" where
  "apply_failure state success j =
    (if success \<noteq> None then hold ''invalid-backend-observation'' j
     else (let j = j\<lparr>jb_success := None, jb_pending := None\<rparr> in
       case state of
         BackendFailed \<Rightarrow> append_event PhaseTerminal CodeFailed
           (j\<lparr>jb_failure := Some ''backend-failed'', jb_state := JobFailed\<rparr>)
       | BackendCancelled \<Rightarrow> append_event PhaseTerminal CodeCancelled
           (j\<lparr>jb_failure := None, jb_state := JobCancelled\<rparr>)
       | _ \<Rightarrow> hold ''invalid-backend-observation'' j))"

definition apply_running :: "backend_success option \<Rightarrow> job \<Rightarrow> job" where
  "apply_running success j =
    (if success \<noteq> None then quiescence_pending ''invalid-backend-observation'' None j
     else if jb_pending j \<noteq> None
     then quiescence_pending ''invalid-state-regression'' (jb_pending j) j
     else if jb_state j \<noteq> JobCancelRequested
     then append_event PhaseRunning CodeRunning (j\<lparr>jb_state := JobRunning, jb_failure := None\<rparr>)
     else j)"

definition apply_observation :: "(string \<Rightarrow> string) \<Rightarrow> observation \<Rightarrow> job \<Rightarrow> job" where
  "apply_observation sha ob j =
    (case require_execution_id (ob_execution ob) of
       Inl _ \<Rightarrow> quiescence_pending ''invalid-backend-observation'' None j
     | Inr observed \<Rightarrow>
         if Some observed \<noteq> jb_execution j
         then quiescence_pending ''backend-execution-id-mismatch'' None j
         else (case ob_state ob of
             None \<Rightarrow> quiescence_pending ''invalid-backend-observation'' None j
           | Some state \<Rightarrow>
               if state = BackendRunning then apply_running (ob_success ob) j
               else if \<not> is_pbool (ob_cleanup ob) \<or> \<not> is_pbool (ob_quiescent ob)
               then quiescence_pending ''invalid-backend-observation'' None j
               else if \<not> (ob_cleanup ob = PBool True \<and> ob_quiescent ob = PBool True)
               then quiescence_pending ''cleanup-not-confirmed'' (Some state) j
               else (let j = append_event PhaseQuiescing CodeCleanupPending j in
                 if state = BackendSucceeded then apply_success sha (ob_success ob) j
                 else apply_failure state (ob_success ob) j)))"

section \<open>Views\<close>

definition kind_json :: "executor_kind option \<Rightarrow> pyval" where
  "kind_json k = (case k of None \<Rightarrow> PNone | Some k \<Rightarrow> PStr (kind_value k))"

definition job_view :: "job \<Rightarrow> pyval dict" where
  "job_view j =
    [(''schema_version'', PStr launcher_schema), (''job_id'', PStr (rq_job (jb_request j))),
     (''attempt_id'', PStr (rq_attempt (jb_request j))),
     (''request_digest_sha256'', PStr (jb_digest j)),
     (''provider_profile_id'', pf_id (jb_profile j)),
     (''executor_kind'', kind_json (pf_kind (jb_profile j))),
     (''backend_execution_id'', opt_str (jb_execution j)),
     (''state'', PStr (state_value (jb_state j))), (''failure_code'', opt_str (jb_failure j))]"

definition b64_char :: "nat \<Rightarrow> char" where
  "b64_char n = ''ABCDEFGHIJKLMNOPQRSTUVWXYZabcdefghijklmnopqrstuvwxyz0123456789+/'' ! n"

text \<open>\<open>base64.b64encode\<close>.\<close>

fun b64encode :: "string \<Rightarrow> string" where
  "b64encode [] = []"
| "b64encode [a] =
     [b64_char (byte_of a div 4), b64_char (byte_of a mod 4 * 16), CHR ''='', CHR ''='']"
| "b64encode [a, b] =
     [b64_char (byte_of a div 4), b64_char (byte_of a mod 4 * 16 + byte_of b div 16),
      b64_char (byte_of b mod 16 * 4), CHR ''='']"
| "b64encode (a # b # c # s) =
     [b64_char (byte_of a div 4), b64_char (byte_of a mod 4 * 16 + byte_of b div 16),
      b64_char (byte_of b mod 16 * 4 + byte_of c div 64), b64_char (byte_of c mod 64)] @ b64encode s"

definition success_receipt_json :: "success_receipt \<Rightarrow> pyval dict" where
  "success_receipt_json r =
    [(''schema_version'', sr_schema r), (''job_id'', sr_job r), (''attempt_id'', sr_attempt r),
     (''idempotency_key'', sr_key r), (''request_digest_sha256'', sr_request_digest r),
     (''backend_execution_id'', sr_execution r), (''executor_kind'', kind_json (sr_kind r)),
     (''provider_profile_id'', sr_profile r), (''provider_profile_digest_sha256'', sr_profile_digest r),
     (''provider_id'', sr_provider r), (''model'', sr_model r), (''image_digest_sha256'', sr_image r),
     (''resource_policy_id'', sr_resource r),
     (''resource_policy_digest_sha256'', sr_resource_digest r),
     (''network_policy_id'', sr_network r), (''network_policy_digest_sha256'', sr_network_digest r),
     (''task_digest_sha256'', sr_task r), (''input_digest_sha256'', sr_input r),
     (''prompt_digest_sha256'', sr_prompt r), (''output_digest_sha256'', sr_output_digest r),
     (''output_media_type'', sr_media r), (''output_size_bytes'', sr_size r),
     (''cleanup_confirmed'', sr_cleanup r), (''whole_job_quiescent'', sr_quiescent r)]"

definition result_view :: "(string \<Rightarrow> string) \<Rightarrow> job \<Rightarrow> string \<Rightarrow> pyval \<Rightarrow> success_receipt \<Rightarrow> pyval dict" where
  "result_view sha j out media receipt =
    [(''schema_version'', PStr launcher_schema), (''job_id'', PStr (rq_job (jb_request j))),
     (''attempt_id'', PStr (rq_attempt (jb_request j))),
     (''state'', PStr (state_value JobSucceeded)),
     (''backend_execution_id'', opt_str (jb_execution j)),
     (''output'', PDict
       [(''encoding'', PStr ''base64''), (''media_type'', media), (''size_bytes'', PInt (len out)),
        (''sha256'', PStr (sha out)), (''data'', PStr (b64encode out))]),
     (''receipt'', PDict (success_receipt_json receipt))]"

section \<open>Operations\<close>

definition put_job :: "job_key \<Rightarrow> job \<Rightarrow> service \<Rightarrow> service" where
  "put_job k j sv = sv\<lparr>sv_jobs := aput k j (sv_jobs sv)\<rparr>"

definition execution_id :: "string \<Rightarrow> string" where
  "execution_id digest = ''vibapp-'' @ digest"

definition new_job :: "string launch_request \<Rightarrow> string \<Rightarrow> provider_profile \<Rightarrow> job" where
  "new_job r digest p =
    \<lparr>jb_request = r, jb_digest = digest, jb_profile = p, jb_state = JobQueued,
     jb_execution = Some (execution_id digest), jb_failure = None, jb_success = None,
     jb_events = [], jb_next = 1, jb_pending = None\<rparr>"

text \<open>The record as it stands when the executor is called.\<close>

definition starting_job :: "job \<Rightarrow> job" where
  "starting_job j =
    append_event PhaseStarting CodeStarting
      ((append_event PhaseQueued CodeQueued j)\<lparr>jb_state := JobStarting\<rparr>)"

definition launched_job :: "executor \<Rightarrow> job \<Rightarrow> job" where
  "launched_job ex j =
    (case bnd (ex_launch ex (jb_request j) (jb_profile j) (the (jb_execution j))) require_execution_id of
       Inr confirmed \<Rightarrow>
         if Some confirmed \<noteq> jb_execution j
         then quiescence_pending ''backend-execution-id-mismatch'' None j
         else append_event PhaseRunning CodeRunning (j\<lparr>jb_state := JobRunning\<rparr>)
     | Inl e \<Rightarrow>
         if e = executor_unavailable
         then append_event PhaseTerminal CodeFailed
           (j\<lparr>jb_state := JobFailed, jb_failure := Some ''executor-unavailable''\<rparr>)
         else quiescence_pending ''launch-outcome-unknown'' None j)"

definition submit_new :: "(executor_kind \<Rightarrow> executor) \<Rightarrow> service \<Rightarrow> string launch_request \<Rightarrow> string
    \<Rightarrow> pyval dict outcome" where
  "submit_new exs sv r digest =
    (case aget (sv_profiles sv) (rq_profile r) of
       None \<Rightarrow> (sv, contract_error ''provider_profile_id:unknown'')
     | Some p \<Rightarrow>
         (case request_matches_profile r p of
            Inl e \<Rightarrow> (sv, Inl e)
          | Inr _ \<Rightarrow>
              (case pf_kind p of
                 None \<Rightarrow> (sv, Inl executor_unavailable)
               | Some k \<Rightarrow>
                   if k \<notin> set (sv_executors sv) then (sv, Inl executor_unavailable)
                   else (let key = (rq_job r, rq_attempt r);
                             j = launched_job (exs k) (starting_job (new_job r digest p))
                         in (put_job key j (sv\<lparr>sv_keys := aput (rq_key r) (digest, key) (sv_keys sv)\<rparr>),
                             Inr (job_view j))))))"

text \<open>\<open>raw\<close> is \<open>None\<close> when the argument is not a \<open>LaunchRequest\<close>.\<close>

definition submit :: "(string \<Rightarrow> string) \<Rightarrow> (executor_kind \<Rightarrow> executor) \<Rightarrow> service
    \<Rightarrow> pyval launch_request option \<Rightarrow> pyval dict outcome" where
  "submit sha exs sv raw =
    (case raw of
       None \<Rightarrow> (sv, contract_error ''request:invalid-type'')
     | Some raw \<Rightarrow>
         (case request_of_mapping (PDict (request_dict (\<lambda>v. v) raw)) of
            Inl e \<Rightarrow> (sv, Inl e)
          | Inr r \<Rightarrow>
              (case request_digest sha r of
                 Inl e \<Rightarrow> (sv, Inl e)
               | Inr digest \<Rightarrow>
                   (let key = (rq_job r, rq_attempt r) in
                    case aget (sv_keys sv) (rq_key r) of
                      Some (prior_digest, prior_key) \<Rightarrow>
                        if prior_digest \<noteq> digest \<or> prior_key \<noteq> key
                        then (sv, fail ''conflict'' ''idempotency-key:payload-conflict'')
                        else (case aget (sv_jobs sv) prior_key of
                            None \<Rightarrow> (sv, Inl (Crash ''KeyError''))
                          | Some j \<Rightarrow> (sv, Inr (job_view j)))
                    | None \<Rightarrow>
                        if has key (sv_jobs sv)
                        then (sv, fail ''conflict'' ''job-attempt:already-exists'')
                        else submit_new exs sv r digest))))"

text \<open>\<open>_get_job\<close> and \<open>_executor\<close>.\<close>

definition get_job :: "service \<Rightarrow> pyval \<Rightarrow> pyval \<Rightarrow> (job_key \<times> job) res" where
  "get_job sv job attempt =
    bnd (require_id job ''job_id'') (\<lambda>a.
    bnd (require_id attempt ''attempt_id'') (\<lambda>b.
    case aget (sv_jobs sv) (a, b) of
      None \<Rightarrow> fail ''not-found'' ''job-attempt:not-found''
    | Some j \<Rightarrow> Inr ((a, b), j)))"

definition job_executor :: "(executor_kind \<Rightarrow> executor) \<Rightarrow> service \<Rightarrow> job \<Rightarrow> executor res" where
  "job_executor exs sv j =
    (case pf_kind (jb_profile j) of
       None \<Rightarrow> Inl executor_unavailable
     | Some k \<Rightarrow> if k \<in> set (sv_executors sv) then Inr (exs k) else Inl executor_unavailable)"

definition job_status :: "(string \<Rightarrow> string) \<Rightarrow> (executor_kind \<Rightarrow> executor) \<Rightarrow> service \<Rightarrow> pyval \<Rightarrow> pyval
    \<Rightarrow> pyval dict outcome" where
  "job_status sha exs sv job attempt =
    (case get_job sv job attempt of
       Inl e \<Rightarrow> (sv, Inl e)
     | Inr (k, j) \<Rightarrow>
         if terminal (jb_state j) then (sv, Inr (job_view j))
         else (case jb_execution j of
             None \<Rightarrow>
               (let j' = quiescence_pending ''missing-backend-execution-id'' None j
                in (put_job k j' sv, Inr (job_view j')))
           | Some eid \<Rightarrow>
               (case bnd (job_executor exs sv j) (\<lambda>ex. ex_status ex eid) of
                  Inl e \<Rightarrow> (sv, Inl e)
                | Inr ob \<Rightarrow>
                    (let j' = apply_observation sha ob j in (put_job k j' sv, Inr (job_view j'))))))"

definition cancel :: "(string \<Rightarrow> string) \<Rightarrow> (executor_kind \<Rightarrow> executor) \<Rightarrow> service \<Rightarrow> pyval \<Rightarrow> pyval
    \<Rightarrow> pyval dict outcome" where
  "cancel sha exs sv job attempt =
    (case get_job sv job attempt of
       Inl e \<Rightarrow> (sv, Inl e)
     | Inr (k, j) \<Rightarrow>
         if terminal (jb_state j) then (sv, Inr (job_view j))
         else
           (let j = append_event PhaseQuiescing CodeCancelRequested (j\<lparr>jb_state := JobCancelRequested\<rparr>) in
            case jb_execution j of
              None \<Rightarrow>
                (let j' = quiescence_pending ''missing-backend-execution-id'' None j
                 in (put_job k j' sv, Inr (job_view j')))
            | Some eid \<Rightarrow>
                (case bnd (job_executor exs sv j) (\<lambda>ex. ex_cancel ex eid) of
                   Inl e \<Rightarrow> (put_job k j sv, Inl e)
                 | Inr ob \<Rightarrow>
                     (let j' = apply_observation sha ob j in (put_job k j' sv, Inr (job_view j'))))))"

definition event_json :: "event \<Rightarrow> pyval" where
  "event_json e = (case e of (n, phase, code) \<Rightarrow>
    PDict [(''sequence'', PInt n), (''phase'', PStr (phase_value phase)),
      (''code'', PStr (code_value code))])"

text \<open>The page of events after a cursor: the events, the new cursor, and whether more follow.\<close>

definition event_page :: "event list \<Rightarrow> int \<Rightarrow> int \<Rightarrow> event list \<times> int \<times> bool" where
  "event_page events after limit =
    (let matching = filter (\<lambda>e. after < fst e) events;
         page = take (nat limit) matching
     in (page, if page = [] then after else fst (last page), len page < len matching))"

definition latest_sequence :: "event list \<Rightarrow> int" where
  "latest_sequence events = (if events = [] then 0 else fst (last events))"

definition list_events :: "service \<Rightarrow> pyval \<Rightarrow> pyval \<Rightarrow> pyval \<Rightarrow> pyval \<Rightarrow> pyval dict res" where
  "list_events sv job attempt after limit =
    (case after of
       PInt a \<Rightarrow>
         if \<not> (0 \<le> a \<and> a \<le> 2 ^ 63 - 1) then contract_error ''after_sequence:out-of-range''
         else (case limit of
             PInt n \<Rightarrow>
               if \<not> (1 \<le> n \<and> n \<le> max_event_page) then contract_error ''limit:out-of-range''
               else bnd (get_job sv job attempt) (\<lambda>(_, j).
                 if latest_sequence (jb_events j) < a
                 then contract_error ''after_sequence:unknown-cursor''
                 else (case event_page (jb_events j) a n of (page, cursor, has_more) \<Rightarrow>
                   Inr [(''schema_version'', PStr launcher_schema),
                     (''job_id'', PStr (rq_job (jb_request j))),
                     (''attempt_id'', PStr (rq_attempt (jb_request j))),
                     (''after_sequence'', PInt a), (''events'', PList (map event_json page)),
                     (''cursor'', PInt cursor), (''has_more'', PBool has_more)]))
           | _ \<Rightarrow> contract_error ''limit:out-of-range'')
     | _ \<Rightarrow> contract_error ''after_sequence:out-of-range'')"

text \<open>The release point of \<open>result\<close>, on the record after a refresh.\<close>

definition release :: "(string \<Rightarrow> string) \<Rightarrow> job_key \<Rightarrow> job \<Rightarrow> service \<Rightarrow> pyval dict outcome" where
  "release sha k j sv =
    (case (jb_state j, jb_success j) of
       (JobSucceeded, Some s) \<Rightarrow>
         if \<not> valid_success sha j s
         then (put_job k (hold ''invalid-terminal-receipt'' j) sv,
               fail ''result-unavailable'' ''result-unavailable:held'')
         else (case (bs_output s, bs_receipt s) of
             (Some out, Some receipt) \<Rightarrow> (sv, Inr (result_view sha j out (bs_media s) receipt))
           | _ \<Rightarrow> (sv, Inl (Crash ''TypeError'')))
     | _ \<Rightarrow> (sv, fail ''result-unavailable'' (''result-unavailable:'' @ state_value (jb_state j))))"

definition result :: "(string \<Rightarrow> string) \<Rightarrow> (executor_kind \<Rightarrow> executor) \<Rightarrow> service \<Rightarrow> pyval \<Rightarrow> pyval
    \<Rightarrow> pyval dict outcome" where
  "result sha exs sv job attempt =
    (case get_job sv job attempt of
       Inl e \<Rightarrow> (sv, Inl e)
     | Inr (k, j) \<Rightarrow>
         if terminal (jb_state j) then release sha k j sv
         else (case jb_execution j of
             None \<Rightarrow> (sv, fail ''result-unavailable'' ''result-unavailable:missing-backend-execution-id'')
           | Some eid \<Rightarrow>
               (case bnd (job_executor exs sv j) (\<lambda>ex. ex_status ex eid) of
                  Inl e \<Rightarrow> (sv, Inl e)
                | Inr ob \<Rightarrow>
                    (let j' = apply_observation sha ob j in release sha k j' (put_job k j' sv)))))"

end
