(* ===== verification/LaunchInvariant.thy ===== *)
theory LaunchInvariant
  imports LaunchService
begin

text \<open>
  What is true of every job record and of the tables of the launcher. A job has a fixed identity
  (request, digest, profile, execution identifier), a log of at most 32 numbered events in which no
  event repeats its predecessor, and a state that agrees with the end of the log: a terminal event
  is the last one, and it is there exactly in the terminal states.
\<close>

section \<open>Well-formed jobs\<close>

fun terminal_code :: "launcher_state \<Rightarrow> event_code option" where
  "terminal_code JobSucceeded = Some CodeSucceeded"
| "terminal_code JobFailed = Some CodeFailed"
| "terminal_code JobCancelled = Some CodeCancelled"
| "terminal_code JobHeld = Some CodeHeld"
| "terminal_code _ = None"

lemma terminal_code_iff: "terminal s \<longleftrightarrow> terminal_code s \<noteq> None"
  by (cases s) auto

definition identity_ok :: "(string \<Rightarrow> string) \<Rightarrow> job \<Rightarrow> bool" where
  "identity_ok sha j \<longleftrightarrow>
    request_of_mapping (PDict (request_dict PStr (jb_request j))) = Inr (jb_request j)
    \<and> request_digest sha (jb_request j) = Inr (jb_digest j)
    \<and> profile_check (jb_profile j) = Inr ()
    \<and> pf_id (jb_profile j) = PStr (rq_profile (jb_request j))
    \<and> request_matches_profile (jb_request j) (jb_profile j) = Inr ()
    \<and> jb_execution j = Some (execution_id (jb_digest j))"

definition log_ok :: "job \<Rightarrow> bool" where
  "log_ok j \<longleftrightarrow> map fst (jb_events j) = map int [1..<Suc (length (jb_events j))]
    \<and> jb_next j = len (jb_events j) + 1 \<and> len (jb_events j) \<le> max_events_per_job
    \<and> distinct_adj (map snd (jb_events j))"

definition no_terminal :: "event list \<Rightarrow> bool" where
  "no_terminal es \<longleftrightarrow> list_all (\<lambda>(_, phase, _). phase \<noteq> PhaseTerminal) es"

definition success_ok :: "(string \<Rightarrow> string) \<Rightarrow> job \<Rightarrow> bool" where
  "success_ok sha j \<longleftrightarrow>
    (case jb_success j of None \<Rightarrow> jb_state j \<noteq> JobSucceeded
     | Some s \<Rightarrow> jb_state j = JobSucceeded \<and> valid_success sha j s)"

definition pending_ok :: "job \<Rightarrow> bool" where
  "pending_ok j \<longleftrightarrow> jb_pending j \<noteq> Some BackendRunning
    \<and> (jb_pending j \<noteq> None \<longrightarrow> jb_state j \<in> {JobCleanupPending, JobCancelRequested, JobHeld})"

definition outcome_ok :: "job \<Rightarrow> bool" where
  "outcome_ok j \<longleftrightarrow>
    (case terminal_code (jb_state j) of
       None \<Rightarrow> no_terminal (jb_events j) \<and> jb_state j \<noteq> JobQueued \<and> jb_state j \<noteq> JobStarting
     | Some c \<Rightarrow> jb_events j \<noteq> [] \<and> snd (last (jb_events j)) = (PhaseTerminal, c)
         \<and> no_terminal (butlast (jb_events j)))"

definition job_ok :: "(string \<Rightarrow> string) \<Rightarrow> job \<Rightarrow> bool" where
  "job_ok sha j \<longleftrightarrow> identity_ok sha j \<and> log_ok j \<and> success_ok sha j \<and> pending_ok j \<and> outcome_ok j"

text \<open>A job between two transitions: nothing is known of its state, but its log is still open.\<close>

definition live :: "(string \<Rightarrow> string) \<Rightarrow> job \<Rightarrow> bool" where
  "live sha j \<longleftrightarrow> identity_ok sha j \<and> log_ok j \<and> no_terminal (jb_events j)"

lemma job_ok_live: "job_ok sha j \<Longrightarrow> \<not> terminal (jb_state j) \<Longrightarrow> live sha j"
  by (auto simp: job_ok_def live_def outcome_ok_def terminal_code_iff)

text \<open>The fields that never change.\<close>

definition same_identity :: "job \<Rightarrow> job \<Rightarrow> bool" where
  "same_identity j j' \<longleftrightarrow> jb_request j' = jb_request j \<and> jb_digest j' = jb_digest j
    \<and> jb_profile j' = jb_profile j \<and> jb_execution j' = jb_execution j"

lemma same_identity_refl [simp]: "same_identity j j"
  by (simp add: same_identity_def)

lemma same_identity_trans: "same_identity a b \<Longrightarrow> same_identity b c \<Longrightarrow> same_identity a c"
  by (simp add: same_identity_def)

lemma identity_ok_same: "same_identity j j' \<Longrightarrow> identity_ok sha j' = identity_ok sha j"
  by (simp add: same_identity_def identity_ok_def)

lemma valid_success_same: "same_identity j j' \<Longrightarrow> valid_success sha j' s = valid_success sha j s"
proof -
  assume "same_identity j j'"
  then have eqs: "jb_request j' = jb_request j" "jb_digest j' = jb_digest j"
      "jb_profile j' = jb_profile j" "jb_execution j' = jb_execution j"
    by (simp_all add: same_identity_def)
  show ?thesis unfolding valid_success_def receipt_expected_def eqs ..
qed

lemma success_ok_same:
  assumes "same_identity j j'" and "jb_state j' = jb_state j" and "jb_success j' = jb_success j"
    and "success_ok sha j"
  shows "success_ok sha j'"
  using assms(4) unfolding success_ok_def assms(2,3) valid_success_same [OF assms(1)] .

section \<open>Appending an event\<close>

lemma append_event_cases:
  obtains (full) "max_events_per_job \<le> len (jb_events j)"
      "append_event phase code j =
        j\<lparr>jb_state := JobCleanupPending, jb_failure := Some ''event-budget-exhausted'', jb_success := None\<rparr>"
  | (again) "len (jb_events j) < max_events_per_job" "jb_events j \<noteq> []"
      "snd (last (jb_events j)) = (phase, code)" "append_event phase code j = j"
  | (new) "len (jb_events j) < max_events_per_job"
      "jb_events j \<noteq> [] \<longrightarrow> snd (last (jb_events j)) \<noteq> (phase, code)"
      "append_event phase code j =
        j\<lparr>jb_events := jb_events j @ [(jb_next j, phase, code)], jb_next := jb_next j + 1\<rparr>"
  unfolding append_event_def by (metis linorder_not_less)

lemma append_event_identity [simp]: "same_identity j (append_event phase code j)"
  by (simp add: append_event_def same_identity_def)

lemma append_event_pending [simp]: "jb_pending (append_event phase code j) = jb_pending j"
  by (simp add: append_event_def)

lemma append_event_log:
  assumes "log_ok j"
  shows "log_ok (append_event phase code j)"
proof (cases rule: append_event_cases [of j phase code])
  case new
  then show ?thesis using assms
    by (auto simp: log_ok_def distinct_adj_append_iff last_map hd_map)
qed (use assms in \<open>auto simp: log_ok_def\<close>)

lemma append_event_live:
  assumes "live sha j" and "phase \<noteq> PhaseTerminal"
  shows "live sha (append_event phase code j)"
proof -
  have "no_terminal (jb_events (append_event phase code j))"
    using assms by (simp add: append_event_def live_def no_terminal_def)
  then show ?thesis
    using assms identity_ok_same [OF append_event_identity] append_event_log
    by (simp add: live_def)
qed

text \<open>Appending an event of an open state keeps a record well formed, or ends in cleanup.\<close>

lemma append_event_open:
  assumes "live sha j" and "phase \<noteq> PhaseTerminal" and "\<not> terminal (jb_state j)"
    and "jb_state j \<noteq> JobQueued" and "jb_state j \<noteq> JobStarting"
    and "jb_success j = None" and "pending_ok j"
  shows "job_ok sha (append_event phase code j)"
proof -
  let ?j = "append_event phase code j"
  have "live sha ?j" by (rule append_event_live [OF assms(1,2)])
  moreover have "jb_state ?j = jb_state j \<or> jb_state ?j = JobCleanupPending" and "jb_success ?j = None"
    using assms(6) by (simp_all add: append_event_def)
  ultimately show ?thesis
    using assms(3-7)
    by (auto simp: job_ok_def live_def outcome_ok_def success_ok_def pending_ok_def terminal_code_iff)
qed

text \<open>Appending the event of a terminal state closes the log, or the budget is exhausted.\<close>

lemma append_event_close:
  assumes "live sha j" and "terminal_code (jb_state j) = Some code"
    and "success_ok sha j" and "pending_ok j"
  shows "job_ok sha (append_event PhaseTerminal code j)"
proof (cases rule: append_event_cases [of j PhaseTerminal code])
  case full
  then show ?thesis
    using assms
    by (simp add: job_ok_def live_def outcome_ok_def success_ok_def pending_ok_def identity_ok_def log_ok_def)
next
  case again
  then obtain n where "(n, PhaseTerminal, code) \<in> set (jb_events j)"
    by (metis last_in_set prod.collapse)
  then show ?thesis
    using assms(1) by (auto simp: live_def no_terminal_def list_all_iff)
next
  case new
  let ?j = "append_event PhaseTerminal code j"
  have st: "jb_state ?j = jb_state j" "jb_success ?j = jb_success j" "jb_pending ?j = jb_pending j"
      "jb_events ?j = jb_events j @ [(jb_next j, PhaseTerminal, code)]"
    by (simp_all add: new(3))
  have "success_ok sha ?j" by (rule success_ok_same [OF _ st(1,2) assms(3)]) simp
  moreover have "outcome_ok ?j" "pending_ok ?j"
    using assms(1,2,4) by (simp_all add: outcome_ok_def pending_ok_def st live_def)
  ultimately show ?thesis
    using assms(1) append_event_log identity_ok_same [OF append_event_identity]
    by (simp add: job_ok_def live_def)
qed

section \<open>The transitions keep a job well formed\<close>

lemma live_update [simp]:
  "live sha (j\<lparr>jb_state := s\<rparr>) = live sha j"
  "live sha (j\<lparr>jb_failure := f\<rparr>) = live sha j"
  "live sha (j\<lparr>jb_success := x\<rparr>) = live sha j"
  "live sha (j\<lparr>jb_pending := p\<rparr>) = live sha j"
  by (simp_all add: live_def identity_ok_def log_ok_def)

lemma hold_ok:
  assumes "live sha j" and "jb_pending j \<noteq> Some BackendRunning"
  shows "job_ok sha (hold failure j)"
  unfolding hold_def
  by (rule append_event_close) (use assms in \<open>simp_all add: success_ok_def pending_ok_def\<close>)

lemma quiescence_pending_ok:
  assumes "live sha j" and "pending \<noteq> Some BackendRunning"
  shows "job_ok sha (quiescence_pending failure pending j)"
  unfolding quiescence_pending_def
  by (rule append_event_open) (use assms in \<open>simp_all add: pending_ok_def\<close>)

lemma apply_success_ok:
  assumes "live sha j" and "jb_pending j \<noteq> Some BackendRunning"
  shows "job_ok sha (apply_success sha success j)"
proof (cases success)
  case None
  then show ?thesis using hold_ok [OF assms] by (simp add: apply_success_def)
next
  case (Some s)
  show ?thesis
  proof (cases "valid_success sha j s")
    case False
    then show ?thesis using Some hold_ok [OF assms] by (simp add: apply_success_def)
  next
    case True
    let ?j = "j\<lparr>jb_success := Some s, jb_failure := None, jb_pending := None, jb_state := JobSucceeded\<rparr>"
    have "valid_success sha ?j s"
      using True valid_success_same [of j ?j] by (simp add: same_identity_def)
    then have "job_ok sha (append_event PhaseTerminal CodeSucceeded ?j)"
      by (intro append_event_close) (use assms in \<open>simp_all add: success_ok_def pending_ok_def\<close>)
    then show ?thesis using Some True by (simp add: apply_success_def)
  qed
qed

lemma apply_failure_ok:
  assumes "live sha j" and "jb_pending j \<noteq> Some BackendRunning"
  shows "job_ok sha (apply_failure state success j)"
proof (cases state)
  case BackendFailed
  then show ?thesis using assms
    by (auto simp: apply_failure_def success_ok_def pending_ok_def intro!: hold_ok append_event_close)
next
  case BackendCancelled
  then show ?thesis using assms
    by (auto simp: apply_failure_def success_ok_def pending_ok_def intro!: hold_ok append_event_close)
qed (use assms in \<open>auto simp: apply_failure_def intro!: hold_ok\<close>)

lemma apply_running_ok:
  assumes j: "job_ok sha j" and open_j: "\<not> terminal (jb_state j)"
  shows "job_ok sha (apply_running success j)"
proof -
  have l: "live sha j" by (rule job_ok_live [OF assms])
  have p: "jb_pending j \<noteq> Some BackendRunning" using j by (simp add: job_ok_def pending_ok_def)
  have "job_ok sha (append_event PhaseRunning CodeRunning (j\<lparr>jb_state := JobRunning, jb_failure := None\<rparr>))"
    if "jb_pending j = None"
    by (rule append_event_open)
      (use l that j open_j in \<open>auto simp: pending_ok_def job_ok_def success_ok_def split: option.splits\<close>)
  then show ?thesis
    using j p quiescence_pending_ok [OF l] by (simp add: apply_running_def)
qed

lemma apply_observation_ok:
  assumes j: "job_ok sha j" and open_j: "\<not> terminal (jb_state j)"
  shows "job_ok sha (apply_observation sha ob j)"
proof -
  have l: "live sha j" by (rule job_ok_live [OF assms])
  have p: "jb_pending j \<noteq> Some BackendRunning" using j by (simp add: job_ok_def pending_ok_def)
  let ?q = "append_event PhaseQuiescing CodeCleanupPending j"
  have lq: "live sha ?q" by (rule append_event_live [OF l]) simp
  have pq: "jb_pending ?q \<noteq> Some BackendRunning" using p by simp
  show ?thesis
    unfolding apply_observation_def Let_def
    by (auto split: sum.split option.split
      intro!: quiescence_pending_ok [OF l] apply_success_ok [OF lq pq] apply_failure_ok [OF lq pq]
        apply_running_ok [OF assms])
qed

section \<open>Progress of a job\<close>

text \<open>A job keeps its identity, its log is only extended, and a terminal job never changes.\<close>

definition job_grows :: "job \<Rightarrow> job \<Rightarrow> bool" where
  "job_grows j j' \<longleftrightarrow> same_identity j j' \<and> (\<exists>later. jb_events j' = jb_events j @ later)
    \<and> (terminal (jb_state j) \<longrightarrow> j' = j)"

lemma job_grows_refl [simp]: "job_grows j j"
  by (simp add: job_grows_def)

lemma job_grows_trans: "job_grows a b \<Longrightarrow> job_grows b c \<Longrightarrow> job_grows a c"
  by (auto simp: job_grows_def intro: same_identity_trans)

text \<open>A transition of an open job: the identity stays, and the log is extended.\<close>

definition extends :: "job \<Rightarrow> job \<Rightarrow> bool" where
  "extends j j' \<longleftrightarrow> same_identity j j' \<and> (\<exists>later. jb_events j' = jb_events j @ later)"

lemma extends_refl [simp]: "extends j j"
  by (simp add: extends_def)

lemma extends_trans: "extends a b \<Longrightarrow> extends b c \<Longrightarrow> extends a c"
  by (auto simp: extends_def intro: same_identity_trans)

lemma extends_grows: "\<not> terminal (jb_state j) \<Longrightarrow> extends j j' \<Longrightarrow> job_grows j j'"
  by (simp add: job_grows_def extends_def)

lemma extends_append_event:
  "extends i j \<Longrightarrow> extends i (append_event phase code j)"
  by (auto simp: extends_def append_event_def same_identity_def)

lemma extends_update [simp]:
  "extends i (j\<lparr>jb_state := s\<rparr>) = extends i j"
  "extends i (j\<lparr>jb_failure := f\<rparr>) = extends i j"
  "extends i (j\<lparr>jb_success := x\<rparr>) = extends i j"
  "extends i (j\<lparr>jb_pending := p\<rparr>) = extends i j"
  by (simp_all add: extends_def same_identity_def)

lemma extends_hold: "extends i j \<Longrightarrow> extends i (hold failure j)"
  unfolding hold_def by (intro extends_append_event) simp

lemma extends_quiescence: "extends i j \<Longrightarrow> extends i (quiescence_pending failure pending j)"
  unfolding quiescence_pending_def by (intro extends_append_event) simp

lemma extends_success: "extends i j \<Longrightarrow> extends i (apply_success sha success j)"
  by (auto simp: apply_success_def intro!: extends_hold extends_append_event split: option.split)

lemma extends_failure: "extends i j \<Longrightarrow> extends i (apply_failure state success j)"
  by (cases state) (auto simp: apply_failure_def Let_def intro!: extends_hold extends_append_event)

lemma extends_running: "extends i j \<Longrightarrow> extends i (apply_running success j)"
  by (auto simp: apply_running_def intro!: extends_quiescence extends_append_event)

lemma extends_observation: "extends i j \<Longrightarrow> extends i (apply_observation sha ob j)"
  unfolding apply_observation_def Let_def
  by (auto split: sum.split option.split
    intro!: extends_quiescence extends_running extends_success extends_failure extends_append_event)

lemmas extends_intros = extends_append_event extends_hold extends_quiescence extends_observation

end
