(* ===== verification/LaunchMachine.thy ===== *)
theory LaunchMachine
  imports LaunchInvariant
begin

text \<open>
  The launcher as a machine: one step per call, its invariant, and the order no call goes back in.
\<close>

section \<open>Calls\<close>

datatype launch_op =
    OpSubmit "executor_kind \<Rightarrow> executor" "pyval launch_request option"
  | OpStatus "executor_kind \<Rightarrow> executor" pyval pyval
  | OpCancel "executor_kind \<Rightarrow> executor" pyval pyval
  | OpResult "executor_kind \<Rightarrow> executor" pyval pyval
  | OpEvents pyval pyval pyval pyval

fun launch_step :: "(string \<Rightarrow> string) \<Rightarrow> service \<Rightarrow> launch_op \<Rightarrow> service" where
  "launch_step sha sv (OpSubmit exs raw) = fst (submit sha exs sv raw)"
| "launch_step sha sv (OpStatus exs a b) = fst (job_status sha exs sv a b)"
| "launch_step sha sv (OpCancel exs a b) = fst (cancel sha exs sv a b)"
| "launch_step sha sv (OpResult exs a b) = fst (result sha exs sv a b)"
| "launch_step sha sv (OpEvents a b c d) = sv"

section \<open>The invariant\<close>

definition profile_entry_ok :: "string \<Rightarrow> provider_profile \<Rightarrow> bool" where
  "profile_entry_ok k p \<longleftrightarrow> pf_id p = PStr k \<and> profile_check p = Inr ()"

definition job_entry_ok :: "(string \<Rightarrow> string) \<Rightarrow> (string \<times> job_key) dict \<Rightarrow> job_key \<Rightarrow> job \<Rightarrow> bool" where
  "job_entry_ok sha idem k j \<longleftrightarrow> job_ok sha j
    \<and> k = (rq_job (jb_request j), rq_attempt (jb_request j))
    \<and> aget idem (rq_key (jb_request j)) = Some (jb_digest j, k)"

definition key_entry_ok :: "(job_key \<times> job) list \<Rightarrow> string \<Rightarrow> string \<times> job_key \<Rightarrow> bool" where
  "key_entry_ok jobs key e \<longleftrightarrow>
    (case aget jobs (snd e) of None \<Rightarrow> False
     | Some j \<Rightarrow> rq_key (jb_request j) = key \<and> jb_digest j = fst e)"

definition service_ok :: "(string \<Rightarrow> string) \<Rightarrow> service \<Rightarrow> bool" where
  "service_ok sha sv \<longleftrightarrow> dict_all profile_entry_ok (sv_profiles sv)
    \<and> distinct (sv_executors sv)
    \<and> dict_all (job_entry_ok sha (sv_keys sv)) (sv_jobs sv)
    \<and> dict_all (key_entry_ok (sv_jobs sv)) (sv_keys sv)"

text \<open>What a call may do to the service: jobs and keys are kept, and each job only progresses.\<close>

definition service_grows :: "service \<Rightarrow> service \<Rightarrow> bool" where
  "service_grows sv sv' \<longleftrightarrow> sv_profiles sv' = sv_profiles sv \<and> sv_executors sv' = sv_executors sv
    \<and> grows job_grows (sv_jobs sv) (sv_jobs sv') \<and> grows (=) (sv_keys sv) (sv_keys sv')"

lemma service_grows_refl [simp]: "service_grows sv sv"
  by (simp add: service_grows_def grows_refl)

lemma service_grows_trans: "service_grows a b \<Longrightarrow> service_grows b c \<Longrightarrow> service_grows a c"
  unfolding service_grows_def by (auto elim!: grows_trans intro: job_grows_trans)

section \<open>Start-up\<close>

lemma require_string_Inr: "require_string v f = Inr s \<longleftrightarrow> v = PStr s"
  by (cases v) (auto simp: require_string_def)

lemma require_id_Inr: "require_id v f = Inr s \<longleftrightarrow> v = PStr s \<and> id_shape s"
  by (auto simp: require_id_def require_string_Inr bnd_Inr_iff split: if_splits)

lemma add_profile_ok:
  assumes "dict_all profile_entry_ok ps" and "add_profile ps p = Inr ps'"
  shows "dict_all profile_entry_ok ps'"
  using assms(2) unfolding add_profile_def
  by (elim res_elims)
    (auto simp: require_string_Inr profile_entry_ok_def intro!: dict_all_aput [OF assms(1)])

lemma init_service_ok:
  assumes "init_service profiles executors = Inr sv"
  shows "service_ok sha sv"
proof -
  obtain ps ks where p: "rfold add_profile [] profiles = Inr ps"
    and k: "rfold add_executor [] executors = Inr ks"
    and sv: "sv = \<lparr>sv_profiles = ps, sv_executors = ks, sv_jobs = [], sv_keys = []\<rparr>"
    using assms by (auto simp: init_service_def bnd_Inr_iff)
  have "dict_all profile_entry_ok ps"
    by (rule rfold_invariant [OF p, where P = "dict_all profile_entry_ok"])
      (simp add: dict_all_def, erule (1) add_profile_ok)
  moreover have "distinct ks"
    by (rule rfold_invariant [OF k]) (auto simp: add_executor_def split: option.splits if_splits)
  ultimately show ?thesis by (simp add: sv service_ok_def dict_all_def)
qed

section \<open>A new job\<close>

lemma request_dict_get [simp]:
  "dget (request_dict f r) ''schema_version'' = f (rq_schema r)"
  "dget (request_dict f r) ''job_id'' = f (rq_job r)"
  "dget (request_dict f r) ''attempt_id'' = f (rq_attempt r)"
  "dget (request_dict f r) ''idempotency_key'' = f (rq_key r)"
  "dget (request_dict f r) ''provider_profile_id'' = f (rq_profile r)"
  "dget (request_dict f r) ''provider_id'' = f (rq_provider r)"
  "dget (request_dict f r) ''model'' = f (rq_model r)"
  "dget (request_dict f r) ''task_digest_sha256'' = f (rq_task r)"
  "dget (request_dict f r) ''input_digest_sha256'' = f (rq_input r)"
  "dget (request_dict f r) ''prompt_digest_sha256'' = f (rq_prompt r)"
  "dget (request_dict f r) ''resource_policy_id'' = f (rq_resource r)"
  "dget (request_dict f r) ''network_policy_id'' = f (rq_network r)"
  unfolding request_dict_def dget_def by simp_all

lemma keys_request_dict [simp]: "keys (request_dict f r) = submit_fields"
  by (simp add: request_dict_def submit_fields_def)

lemma require_model_Inr: "require_model v = Inr s \<longleftrightarrow> v = PStr s \<and> model_shape s"
  by (auto simp: require_model_def require_string_Inr bnd_Inr_iff split: if_splits)

lemma require_digest_Inr: "require_digest v f = Inr s \<longleftrightarrow> v = PStr s \<and> hex64 s"
  by (auto simp: require_digest_def require_string_Inr bnd_Inr_iff split: if_splits)

lemmas require_Inr = require_string_Inr require_id_Inr require_model_Inr require_digest_Inr

lemma request_fields:
  assumes "request_of_mapping (PDict (request_dict f raw)) = Inr r"
  shows "request_dict f raw = request_dict PStr r"
proof -
  have "f (rq_schema raw) = PStr (rq_schema r) \<and> f (rq_job raw) = PStr (rq_job r)
    \<and> f (rq_attempt raw) = PStr (rq_attempt r) \<and> f (rq_key raw) = PStr (rq_key r)
    \<and> f (rq_profile raw) = PStr (rq_profile r) \<and> f (rq_provider raw) = PStr (rq_provider r)
    \<and> f (rq_model raw) = PStr (rq_model r) \<and> f (rq_task raw) = PStr (rq_task r)
    \<and> f (rq_input raw) = PStr (rq_input r) \<and> f (rq_prompt raw) = PStr (rq_prompt r)
    \<and> f (rq_resource raw) = PStr (rq_resource r) \<and> f (rq_network raw) = PStr (rq_network r)"
    using assms unfolding request_of_mapping_def Let_def pyval.case keys_request_dict request_dict_get
    by (elim res_elims) (simp add: require_Inr [symmetric], auto simp: require_Inr)
  then show ?thesis by (simp only: request_dict_def)
qed

lemma new_job_live:
  assumes "request_of_mapping (PDict (request_dict PStr r)) = Inr r" and "request_digest sha r = Inr digest"
    and "profile_check p = Inr ()" and "pf_id p = PStr (rq_profile r)"
    and "request_matches_profile r p = Inr ()"
  shows "live sha (starting_job (new_job r digest p))"
  unfolding starting_job_def
  by (intro append_event_live) (use assms in \<open>simp_all add: live_def identity_ok_def log_ok_def
    new_job_def append_event_def no_terminal_def max_events_per_job_def\<close>)

lemma starting_job_simps [simp]:
  "jb_success (starting_job (new_job r digest p)) = None"
  "jb_pending (starting_job (new_job r digest p)) = None"
  "jb_request (starting_job (new_job r digest p)) = r"
  "jb_digest (starting_job (new_job r digest p)) = digest"
  "jb_profile (starting_job (new_job r digest p)) = p"
  "jb_execution (starting_job (new_job r digest p)) = Some (execution_id digest)"
  "jb_state (starting_job (new_job r digest p)) = JobStarting"
  "jb_events (starting_job (new_job r digest p)) = [(1, PhaseQueued, CodeQueued), (2, PhaseStarting, CodeStarting)]"
  "jb_next (starting_job (new_job r digest p)) = 3"
  by (simp_all add: starting_job_def new_job_def append_event_def max_events_per_job_def)

lemma launched_job_ok:
  assumes "live sha j" and "jb_success j = None" and "jb_pending j = None"
  shows "job_ok sha (launched_job ex j)"
proof -
  have "job_ok sha (append_event PhaseRunning CodeRunning (j\<lparr>jb_state := JobRunning\<rparr>))"
    by (rule append_event_open) (use assms in \<open>simp_all add: pending_ok_def\<close>)
  moreover have "job_ok sha (append_event PhaseTerminal CodeFailed
      (j\<lparr>jb_state := JobFailed, jb_failure := Some ''executor-unavailable''\<rparr>))"
    by (rule append_event_close) (use assms in \<open>simp_all add: pending_ok_def success_ok_def\<close>)
  moreover have "job_ok sha (quiescence_pending f None j)" for f
    by (rule quiescence_pending_ok [OF assms(1)]) simp
  ultimately show ?thesis unfolding launched_job_def by (auto split: sum.split)
qed

lemma launched_job_identity: "same_identity j (launched_job ex j)"
proof -
  have "extends j (launched_job ex j)"
    unfolding launched_job_def by (auto split: sum.split intro!: extends_intros)
  then show ?thesis by (simp add: extends_def)
qed

section \<open>One call\<close>

text \<open>Replacing the record of one job by a later version of it.\<close>

lemma put_job_ok:
  assumes sv: "service_ok sha sv" and j: "aget (sv_jobs sv) k = Some j"
    and j': "job_ok sha j'" and same: "same_identity j j'"
  shows "service_ok sha (put_job k j' sv)"
proof -
  have e: "job_entry_ok sha (sv_keys sv) k j"
    using sv j by (auto simp: service_ok_def dest: dict_all_aget)
  have "dict_all (job_entry_ok sha (sv_keys sv)) (aput k j' (sv_jobs sv))"
    by (rule dict_all_aput [where P = "job_entry_ok sha (sv_keys sv)"])
      (use sv e j' same in \<open>auto simp: service_ok_def job_entry_ok_def same_identity_def\<close>)
  moreover have "dict_all (key_entry_ok (aput k j' (sv_jobs sv))) (sv_keys sv)"
    by (rule dict_all_mono [where P = "key_entry_ok (sv_jobs sv)"])
      (use sv j same in \<open>auto simp: service_ok_def key_entry_ok_def dict_simps same_identity_def
        split: option.splits\<close>)
  ultimately show ?thesis using sv by (simp add: service_ok_def put_job_def)
qed

lemma put_job_grows:
  assumes "aget (sv_jobs sv) k = Some j" and "job_grows j j'"
  shows "service_grows sv (put_job k j' sv)"
  using assms by (auto simp: service_grows_def put_job_def grows_refl intro!: grows_aput)

lemma service_job:
  assumes "service_ok sha sv" and "get_job sv a b = Inr (k, j)"
  shows "aget (sv_jobs sv) k = Some j" and "job_ok sha j" and "a = PStr (fst k)" and "b = PStr (snd k)"
proof -
  show j: "aget (sv_jobs sv) k = Some j" and "a = PStr (fst k)" and "b = PStr (snd k)"
    using assms(2) by (auto simp: get_job_def require_id_Inr elim!: res_elims)
  show "job_ok sha j"
    using assms(1) j by (auto simp: service_ok_def job_entry_ok_def dest: dict_all_aget)
qed

text \<open>The shape of every call on an existing job: the record is replaced by a later version.\<close>

definition job_step :: "(string \<Rightarrow> string) \<Rightarrow> service \<Rightarrow> service \<Rightarrow> bool" where
  "job_step sha sv sv' \<longleftrightarrow> sv' = sv \<or>
    (\<exists>k j j'. aget (sv_jobs sv) k = Some j \<and> \<not> terminal (jb_state j) \<and> sv' = put_job k j' sv
      \<and> job_ok sha j' \<and> extends j j')"

lemma extends_same: "extends j j' \<Longrightarrow> same_identity j j'"
  by (simp add: extends_def)

lemma job_step_ok:
  "service_ok sha sv \<Longrightarrow> job_step sha sv sv' \<Longrightarrow> service_ok sha sv' \<and> service_grows sv sv'"
  by (auto simp: job_step_def intro: put_job_ok put_job_grows extends_grows extends_same)

lemma job_stepI:
  assumes "service_ok sha sv" and "get_job sv a b = Inr (k, j)" and "\<not> terminal (jb_state j)"
    and "job_ok sha j'" and "extends j j'"
  shows "job_step sha sv (put_job k j' sv)"
  using assms service_job(1) [OF assms(1,2)] unfolding job_step_def by blast

lemma status_step:
  assumes "service_ok sha sv"
  shows "job_step sha sv (fst (job_status sha exs sv a b))"
proof (cases "get_job sv a b")
  case (Inl e)
  then show ?thesis by (simp add: job_status_def job_step_def)
next
  case (Inr kj)
  then obtain k j where g: "get_job sv a b = Inr (k, j)" by (cases kj) auto
  note jok = service_job(2) [OF assms g]
  show ?thesis
  proof (cases "terminal (jb_state j)")
    case True
    then show ?thesis by (simp add: job_status_def g job_step_def)
  next
    case False
    note step = job_stepI [OF assms g False]
    show ?thesis
      using False jok
      by (auto simp: job_status_def g Let_def job_step_def [of _ _ sv] split: option.split sum.split
          intro!: step apply_observation_ok quiescence_pending_ok extends_intros intro: job_ok_live)
  qed
qed

lemma cancel_requested_ok:
  assumes "job_ok sha j" and "\<not> terminal (jb_state j)"
  shows "job_ok sha (append_event PhaseQuiescing CodeCancelRequested (j\<lparr>jb_state := JobCancelRequested\<rparr>))"
  by (rule append_event_open)
    (use assms in \<open>auto simp: job_ok_live job_ok_def success_ok_def pending_ok_def split: option.splits\<close>)

lemma cancel_requested_open:
  "\<not> terminal (jb_state (append_event phase code (j\<lparr>jb_state := JobCancelRequested\<rparr>)))"
  by (simp add: append_event_def)

lemma cancel_step:
  assumes "service_ok sha sv"
  shows "job_step sha sv (fst (cancel sha exs sv a b))"
proof (cases "get_job sv a b")
  case (Inl e)
  then show ?thesis by (simp add: cancel_def job_step_def)
next
  case (Inr kj)
  then obtain k j where g: "get_job sv a b = Inr (k, j)" by (cases kj) auto
  note jok = service_job(2) [OF assms g]
  show ?thesis
  proof (cases "terminal (jb_state j)")
    case True
    then show ?thesis by (simp add: cancel_def g job_step_def)
  next
    case False
    note step = job_stepI [OF assms g False]
    let ?c = "append_event PhaseQuiescing CodeCancelRequested (j\<lparr>jb_state := JobCancelRequested\<rparr>)"
    have c: "job_ok sha ?c" "\<not> terminal (jb_state ?c)" "live sha ?c"
      using cancel_requested_ok [OF jok False] cancel_requested_open job_ok_live by blast+
    have x: "extends j ?c" by (intro extends_append_event) simp
    show ?thesis
      unfolding cancel_def g Let_def
      by (auto simp: False split: option.split sum.split
          intro!: step apply_observation_ok quiescence_pending_ok extends_intros c x)
  qed
qed

lemma release_state:
  assumes "job_ok sha j"
  shows "fst (release sha k j sv) = sv"
  using assms by (auto simp: release_def job_ok_def success_ok_def split: launcher_state.split option.split)

lemma result_step:
  assumes "service_ok sha sv"
  shows "job_step sha sv (fst (result sha exs sv a b))"
proof (cases "get_job sv a b")
  case (Inl e)
  then show ?thesis by (simp add: result_def job_step_def)
next
  case (Inr kj)
  then obtain k j where g: "get_job sv a b = Inr (k, j)" by (cases kj) auto
  note jok = service_job(2) [OF assms g]
  show ?thesis
  proof (cases "terminal (jb_state j)")
    case True
    then show ?thesis by (simp add: result_def g job_step_def release_state [OF jok])
  next
    case False
    note step = job_stepI [OF assms g False]
    show ?thesis
      using False jok apply_observation_ok [OF jok False]
      by (auto simp: result_def g Let_def release_state job_step_def [of _ _ sv]
          split: option.split sum.split intro!: step extends_intros)
  qed
qed

text \<open>A submission either changes nothing, or adds one job and its key.\<close>

lemma submit_cases:
  assumes "service_ok sha sv"
  obtains (same) "fst (submit sha exs sv raw) = sv"
  | (new) r digest p j k where "raw \<noteq> None"
      "request_of_mapping (PDict (request_dict (\<lambda>v. v) (the raw))) = Inr r"
      "request_digest sha r = Inr digest" "aget (sv_keys sv) (rq_key r) = None"
      "aget (sv_jobs sv) (rq_job r, rq_attempt r) = None" "aget (sv_profiles sv) (rq_profile r) = Some p"
      "pf_kind p = Some k" "k \<in> set (sv_executors sv)"
      "j = launched_job (exs k) (starting_job (new_job r digest p))" "job_ok sha j"
      "submit sha exs sv raw =
        (put_job (rq_job r, rq_attempt r) j
          (sv\<lparr>sv_keys := aput (rq_key r) (digest, rq_job r, rq_attempt r) (sv_keys sv)\<rparr>), Inr (job_view j))"
proof (cases "fst (submit sha exs sv raw) = sv")
  case True
  then show ?thesis by (rule same)
next
  case False
  then obtain raw' r digest where raw: "raw = Some raw'"
    and r: "request_of_mapping (PDict (request_dict (\<lambda>v. v) raw')) = Inr r"
    and digest: "request_digest sha r = Inr digest"
    by (auto simp: submit_def split: option.splits sum.splits)
  from False have key: "aget (sv_keys sv) (rq_key r) = None"
    by (auto simp: submit_def raw r digest Let_def split: option.splits if_splits)
  from False have new_k: "aget (sv_jobs sv) (rq_job r, rq_attempt r) = None"
    by (auto simp: submit_def raw r digest Let_def key has_def split: if_splits)
  have s: "submit sha exs sv raw = submit_new exs sv r digest"
    by (simp add: submit_def raw r digest key new_k has_def Let_def)
  from False obtain p k where p: "aget (sv_profiles sv) (rq_profile r) = Some p"
    and m: "request_matches_profile r p = Inr ()" and k: "pf_kind p = Some k" "k \<in> set (sv_executors sv)"
    unfolding s submit_new_def by (auto split: option.splits sum.splits if_splits)
  have "profile_entry_ok (rq_profile r) p"
    using assms p by (auto simp: service_ok_def dest: dict_all_aget)
  then have "live sha (starting_job (new_job r digest p))"
    using r m digest request_fields [OF r] by (intro new_job_live) (simp_all add: profile_entry_ok_def)
  then have "job_ok sha (launched_job (exs k) (starting_job (new_job r digest p)))"
    by (rule launched_job_ok) simp_all
  then show ?thesis
    using r digest key new_k p k
    by (intro new [OF _ _ _ _ _ _ _ _ refl]) (simp_all add: raw s [unfolded raw] submit_new_def m Let_def)
qed

lemma submit_step:
  assumes sv: "service_ok sha sv"
  shows "service_ok sha (fst (submit sha exs sv raw)) \<and> service_grows sv (fst (submit sha exs sv raw))"
  using sv
proof (cases rule: submit_cases [where exs = exs and raw = raw])
  case same
  then show ?thesis using sv by simp
next
  case (new r digest p j k)
  let ?k = "(rq_job r, rq_attempt r)"
  have id_j: "jb_request j = r" "jb_digest j = digest"
    using launched_job_identity [of "starting_job (new_job r digest p)" "exs k"] new(9)
    by (simp_all add: same_identity_def)
  have "dict_all (job_entry_ok sha (aput (rq_key r) (digest, ?k) (sv_keys sv))) (aput ?k j (sv_jobs sv))"
    by (rule dict_all_aput [where P = "job_entry_ok sha (sv_keys sv)"])
      (use sv new id_j in \<open>auto simp: service_ok_def job_entry_ok_def dict_simps\<close>)
  moreover have "dict_all (key_entry_ok (aput ?k j (sv_jobs sv))) (aput (rq_key r) (digest, ?k) (sv_keys sv))"
    by (rule dict_all_aput [where P = "key_entry_ok (sv_jobs sv)"])
      (use sv new(5) id_j in \<open>auto simp: service_ok_def key_entry_ok_def dict_simps split: option.splits\<close>)
  ultimately have "service_ok sha (fst (submit sha exs sv raw))"
    using sv by (simp add: new(11) service_ok_def put_job_def)
  moreover have "service_grows sv (fst (submit sha exs sv raw))"
    using new(4,5) by (auto simp: new(11) service_grows_def put_job_def intro!: grows_aput)
  ultimately show ?thesis by simp
qed

lemma launch_step_ok:
  assumes "service_ok sha sv"
  shows "service_ok sha (launch_step sha sv x) \<and> service_grows sv (launch_step sha sv x)"
  using assms
  by (cases x) (simp_all add: submit_step job_step_ok status_step cancel_step result_step)

interpretation launcher: progress_machine "launch_step sha" "\<lambda>_. True" "service_ok sha" service_grows for sha
  by unfold_locales (auto simp: launch_step_ok intro: service_grows_trans)

end
