(* ===== verification/PyJson.thy ===== *)
theory PyJson
  imports PyText
begin

text \<open>
  \<open>json.loads\<close> of the standard library on UTF-8 text, as the components use it: the scanner with
  an \<open>object_pairs_hook\<close>, its three exceptions (\<open>JSONDecodeError\<close>, \<open>RecursionError\<close> beyond the
  nesting the interpreter has left, \<open>ValueError\<close> for an integer of more than 4300 digits), and the
  round trip with the canonical encoding of theory PyVal.

  \<open>py_depth\<close> is the nesting depth the interpreter has left, \<open>py_float\<close> the representation of the
  float that a literal denotes, \<open>py_constant\<close> the \<open>parse_constant\<close> hook (the standard one unless a
  component sets its own).
\<close>

record interp =
  py_depth :: nat
  py_float :: "string \<Rightarrow> string"
  py_constant :: "string \<Rightarrow> pyval res"

abbreviation json_error :: "'a res" where
  "json_error \<equiv> Inl (Crash ''JSONDecodeError'')"

definition std_constant :: "string \<Rightarrow> pyval res" where
  "std_constant s = Inr (PFloat s)"

section \<open>Strings\<close>

definition hex_digit :: "char \<Rightarrow> nat option" where
  "hex_digit c =
    (if digit_c c then Some (byte_of c - 48)
     else if CHR ''a'' \<le> c \<and> c \<le> CHR ''f'' then Some (byte_of c - 87)
     else if CHR ''A'' \<le> c \<and> c \<le> CHR ''F'' then Some (byte_of c - 55)
     else None)"

definition hex4 :: "string \<Rightarrow> (nat \<times> string) option" where
  "hex4 s =
    (case s of
       a # b # c # d # t \<Rightarrow>
         (case (hex_digit a, hex_digit b, hex_digit c, hex_digit d) of
            (Some w, Some x, Some y, Some z) \<Rightarrow> Some (((w * 16 + x) * 16 + y) * 16 + z, t)
          | _ \<Rightarrow> None)
     | _ \<Rightarrow> None)"

text \<open>The second half of a surrogate pair, where one follows.\<close>

definition low_escape :: "string \<Rightarrow> (nat \<times> string) option" where
  "low_escape s =
    (case s of
       b # u # t \<Rightarrow>
         if b = CHR 0x5C \<and> u = CHR ''u'' then
           (case hex4 t of
              Some (n, t') \<Rightarrow> if 0xDC00 \<le> n \<and> n \<le> 0xDFFF then Some (n, t') else None
            | None \<Rightarrow> None)
         else None
     | _ \<Rightarrow> None)"

definition simple_escape :: "char \<Rightarrow> char option" where
  "simple_escape c =
    (if c = CHR 0x22 \<or> c = CHR 0x5C \<or> c = CHR ''/'' then Some c
     else if c = CHR ''b'' then Some (CHR 0x08)
     else if c = CHR ''f'' then Some (CHR 0x0C)
     else if c = CHR ''n'' then Some (CHR 0x0A)
     else if c = CHR ''r'' then Some (CHR 0x0D)
     else if c = CHR ''t'' then Some (CHR 0x09)
     else None)"

definition before :: "string \<Rightarrow> (string \<times> string) res \<Rightarrow> (string \<times> string) res" where
  "before p r = bnd r (\<lambda>(s, t). Inr (p @ s, t))"

lemma hex4_length: "hex4 s = Some (n, t) \<Longrightarrow> length t < length s"
  by (auto simp: hex4_def split: list.splits option.splits)

lemma low_escape_length: "low_escape s = Some (n, t) \<Longrightarrow> length t < length s"
  by (auto simp: low_escape_def dest: hex4_length split: list.splits option.splits if_splits)

text \<open>The rest of a string literal after its opening quote: its value, and what follows.\<close>

function scan_string :: "string \<Rightarrow> (string \<times> string) res" where
  "scan_string [] = json_error"
| "scan_string (c # s) =
    (if c = CHR 0x22 then Inr ([], s)
     else if c = CHR 0x5C then
       (case s of
          [] \<Rightarrow> json_error
        | e # t \<Rightarrow>
            if e = CHR ''u'' then
              (case hex4 t of
                 None \<Rightarrow> json_error
               | Some (n, t1) \<Rightarrow>
                   if 0xD800 \<le> n \<and> n \<le> 0xDBFF then
                     (case low_escape t1 of
                        Some (m, t2) \<Rightarrow>
                          before (utf8_enc (0x10000 + (n - 0xD800) * 1024 + (m - 0xDC00))) (scan_string t2)
                      | None \<Rightarrow> before (utf8_enc n) (scan_string t1))
                   else before (utf8_enc n) (scan_string t1))
            else (case simple_escape e of
                None \<Rightarrow> json_error
              | Some x \<Rightarrow> before [x] (scan_string t)))
     else if ctrl_char c then json_error
     else before [c] (scan_string s))"
  by pat_completeness auto

termination
  by (relation "measure length") (auto dest!: hex4_length low_escape_length)

section \<open>Numbers\<close>

text \<open>The integer part, the literal without its integer part, and what follows.\<close>

definition take_digits :: "string \<Rightarrow> string \<times> string" where
  "take_digits s = (takeWhile digit_c s, dropWhile digit_c s)"

definition scan_frac :: "string \<Rightarrow> string \<times> string" where
  "scan_frac s =
    (case s of
       c # t \<Rightarrow>
         if c = CHR ''.'' \<and> takeWhile digit_c t \<noteq> []
         then (c # takeWhile digit_c t, dropWhile digit_c t) else ([], s)
     | [] \<Rightarrow> ([], s))"

definition scan_exp :: "string \<Rightarrow> string \<times> string" where
  "scan_exp s =
    (case s of
       c # t \<Rightarrow>
         if c = CHR ''e'' \<or> c = CHR ''E'' then
           (let sign = (case t of x # _ \<Rightarrow> if x = CHR ''+'' \<or> x = CHR ''-'' then [x] else [] | [] \<Rightarrow> []);
                u = drop (length sign) t
            in if takeWhile digit_c u \<noteq> []
               then (c # sign @ takeWhile digit_c u, dropWhile digit_c u) else ([], s))
         else ([], s)
     | [] \<Rightarrow> ([], s))"

definition max_int_digits :: int where "max_int_digits = 4300"

text \<open>\<open>neg\<close> tells whether a minus sign has been read.\<close>

definition scan_number :: "interp \<Rightarrow> bool \<Rightarrow> string \<Rightarrow> (pyval \<times> string) res" where
  "scan_number ip neg s =
    (case s of
       [] \<Rightarrow> json_error
     | c # t \<Rightarrow>
         if \<not> digit_c c then json_error
         else
           (let (ds, t1) = (if c = CHR ''0'' then ([c], t) else take_digits s);
                (fr, t2) = scan_frac t1;
                (ex, t3) = scan_exp t2
            in if fr = [] \<and> ex = [] then
                 if max_int_digits < len ds then Inl (Crash ''ValueError'')
                 else Inr (PInt (if neg then - int (undec ds) else int (undec ds)), t3)
               else Inr (PFloat (py_float ip ((if neg then ''-'' else []) @ ds @ fr @ ex)), t3)))"

section \<open>Values\<close>

definition ws_c :: "char \<Rightarrow> bool" where
  "ws_c c \<longleftrightarrow> c = CHR 0x20 \<or> c = CHR 0x09 \<or> c = CHR 0x0A \<or> c = CHR 0x0D"

definition skip_ws :: "string \<Rightarrow> string" where
  "skip_ws s = dropWhile ws_c s"

text \<open>
  The elements of an array and the members of an object, with the parser \<open>p\<close> of the values one
  level down. The fuel is the length of the text: every element consumes some of it
  (\<open>container_fuel\<close> below).
\<close>

fun elements :: "nat \<Rightarrow> (string \<Rightarrow> (pyval \<times> string) res) \<Rightarrow> string \<Rightarrow> (pyval list \<times> string) res" where
  "elements 0 p s = json_error"
| "elements (Suc n) p s = bnd (p s) (\<lambda>(v, s1).
    case skip_ws s1 of
      [] \<Rightarrow> json_error
    | c # s2 \<Rightarrow>
        if c = CHR '']'' then Inr ([v], s2)
        else if c = CHR '','' then bnd (elements n p (skip_ws s2)) (\<lambda>(vs, s3). Inr (v # vs, s3))
        else json_error)"

definition member :: "(string \<Rightarrow> (pyval \<times> string) res) \<Rightarrow> string \<Rightarrow> ((string \<times> pyval) \<times> string) res" where
  "member p s =
    (case s of
       [] \<Rightarrow> json_error
     | q # s1 \<Rightarrow>
         if q \<noteq> CHR 0x22 then json_error
         else bnd (scan_string s1) (\<lambda>(k, s2).
           case skip_ws s2 of
             [] \<Rightarrow> json_error
           | c # s3 \<Rightarrow>
               if c \<noteq> CHR '':'' then json_error
               else bnd (p (skip_ws s3)) (\<lambda>(v, s4). Inr ((k, v), s4))))"

fun members :: "nat \<Rightarrow> (string \<Rightarrow> (pyval \<times> string) res) \<Rightarrow> string
    \<Rightarrow> ((string \<times> pyval) list \<times> string) res" where
  "members 0 p s = json_error"
| "members (Suc n) p s = bnd (member p s) (\<lambda>(kv, s1).
    case skip_ws s1 of
      [] \<Rightarrow> json_error
    | c # s2 \<Rightarrow>
        if c = CHR ''}'' then Inr ([kv], s2)
        else if c = CHR '','' then bnd (members n p (skip_ws s2)) (\<lambda>(kvs, s3). Inr (kv # kvs, s3))
        else json_error)"

definition scan_array :: "(string \<Rightarrow> (pyval \<times> string) res) \<Rightarrow> string \<Rightarrow> (pyval \<times> string) res" where
  "scan_array p s =
    (case skip_ws s of
       [] \<Rightarrow> json_error
     | c # t \<Rightarrow>
         if c = CHR '']'' then Inr (PList [], t)
         else bnd (elements (length s) p (c # t)) (\<lambda>(vs, u). Inr (PList vs, u)))"

definition scan_object :: "((string \<times> pyval) list \<Rightarrow> pyval res) \<Rightarrow> (string \<Rightarrow> (pyval \<times> string) res) \<Rightarrow> string
    \<Rightarrow> (pyval \<times> string) res" where
  "scan_object hook p s =
    (case skip_ws s of
       [] \<Rightarrow> json_error
     | c # t \<Rightarrow>
         if c = CHR ''}'' then bnd (hook []) (\<lambda>v. Inr (v, t))
         else bnd (members (length s) p (c # t)) (\<lambda>(kvs, u). bnd (hook kvs) (\<lambda>v. Inr (v, u))))"

text \<open>Everything but strings and containers.\<close>

definition scan_literal :: "interp \<Rightarrow> string \<Rightarrow> (pyval \<times> string) res" where
  "scan_literal ip s =
    (if starts_with s ''null'' then Inr (PNone, drop 4 s)
     else if starts_with s ''true'' then Inr (PBool True, drop 4 s)
     else if starts_with s ''false'' then Inr (PBool False, drop 5 s)
     else if starts_with s ''NaN'' then bnd (py_constant ip ''NaN'') (\<lambda>v. Inr (v, drop 3 s))
     else if starts_with s ''Infinity'' then bnd (py_constant ip ''Infinity'') (\<lambda>v. Inr (v, drop 8 s))
     else if starts_with s ''-Infinity'' then bnd (py_constant ip ''-Infinity'') (\<lambda>v. Inr (v, drop 9 s))
     else if starts_with s ''-'' then scan_number ip True (drop 1 s)
     else scan_number ip False s)"

fun scan_value :: "interp \<Rightarrow> ((string \<times> pyval) list \<Rightarrow> pyval res) \<Rightarrow> nat \<Rightarrow> string
    \<Rightarrow> (pyval \<times> string) res" where
  "scan_value ip hook d s =
    (case s of
       [] \<Rightarrow> json_error
     | c # t \<Rightarrow>
         if c = CHR 0x22 then bnd (scan_string t) (\<lambda>(x, u). Inr (PStr x, u))
         else if c = CHR ''{'' then
           (case d of 0 \<Rightarrow> Inl (Crash ''RecursionError'')
            | Suc d' \<Rightarrow> scan_object hook (\<lambda>u. scan_value ip hook d' u) t)
         else if c = CHR ''['' then
           (case d of 0 \<Rightarrow> Inl (Crash ''RecursionError'')
            | Suc d' \<Rightarrow> scan_array (\<lambda>u. scan_value ip hook d' u) t)
         else scan_literal ip s)"

declare scan_value.simps [simp del]

definition json_loads :: "interp \<Rightarrow> ((string \<times> pyval) list \<Rightarrow> pyval res) \<Rightarrow> string \<Rightarrow> pyval res" where
  "json_loads ip hook s =
    (if starts_with s (bytes_str [0xEF, 0xBB, 0xBF]) then json_error
     else bnd (scan_value ip hook (py_depth ip) (skip_ws s)) (\<lambda>(v, t).
       if skip_ws t = [] then Inr v else json_error))"

section \<open>The fuel of the container loops is enough\<close>

definition shrinks :: "(string \<Rightarrow> ('a \<times> string) res) \<Rightarrow> bool" where
  "shrinks p \<longleftrightarrow> (\<forall>s v t. p s = Inr (v, t) \<longrightarrow> length t < length s)"

lemma shrinksD: "shrinks p \<Longrightarrow> p s = Inr (v, t) \<Longrightarrow> length t < length s"
  by (simp add: shrinks_def)

lemma skip_ws_length: "length (skip_ws s) \<le> length s"
  by (simp add: skip_ws_def length_dropWhile_le)

lemma skip_ws_Cons_length: "skip_ws s = c # t \<Longrightarrow> length t < length s"
  using skip_ws_length [of s] by simp

lemma before_Inr: "before p r = Inr (x, t) \<longleftrightarrow> (\<exists>s. r = Inr (s, t) \<and> x = p @ s)"
  by (auto simp: before_def bnd_Inr_iff)

lemma scan_string_length: "scan_string s = Inr (x, t) \<Longrightarrow> length t < length s"
proof (induction s arbitrary: x rule: scan_string.induct)
  case (2 c s)
  show ?case
    using "2.prems" "2.IH"
    by (fastforce simp: before_Inr split: if_splits list.splits option.splits
        dest: hex4_length low_escape_length)
qed simp

lemma elements_length: "shrinks p \<Longrightarrow> elements n p s = Inr (vs, t) \<Longrightarrow> length t < length s"
proof (induction n arbitrary: s vs)
  case (Suc n)
  from Suc.prems(2) obtain v s1 c s2 where p: "p s = Inr (v, s1)" and s1: "skip_ws s1 = c # s2"
    and r: "c = CHR '']'' \<and> t = s2 \<or> (\<exists>vs'. elements n p (skip_ws s2) = Inr (vs', t))"
    by (auto elim!: bnd_InrE split: list.splits if_splits)
  have "length s1 < length s" by (rule shrinksD [OF Suc.prems(1) p])
  moreover have "length s2 < length s1" by (rule skip_ws_Cons_length [OF s1])
  moreover have "length t \<le> length s2"
    using r Suc.IH [OF Suc.prems(1)] skip_ws_length [of s2] by fastforce
  ultimately show ?case by simp
qed simp

lemma elements_fuel:
  assumes "shrinks p" and "p [] = json_error"
  shows "length s \<le> n \<Longrightarrow> length s \<le> m \<Longrightarrow> elements n p s = elements m p s"
proof (induction n arbitrary: s m)
  case 0
  then show ?case using assms(2) by (cases m) auto
next
  case (Suc n)
  show ?case
  proof (cases m)
    case 0
    then show ?thesis using Suc.prems assms(2) by simp
  next
    case m: (Suc k)
    have "elements n p (skip_ws s2) = elements k p (skip_ws s2)"
      if "p s = Inr (v, s1)" and "skip_ws s1 = c # s2" for v s1 c s2
      by (rule Suc.IH)
        (use shrinksD [OF assms(1) that(1)] skip_ws_Cons_length [OF that(2)] skip_ws_length [of s2]
          Suc.prems m in linarith)+
    then show ?thesis
      unfolding m elements.simps
      by (intro bnd_cong refl) (auto split: list.split)
  qed
qed

lemma member_length:
  assumes "shrinks p" and "member p s = Inr (kv, t)"
  shows "length t < length s"
proof -
  obtain s1 k s2 c s3 v where s: "s = CHR 0x22 # s1" and k: "scan_string s1 = Inr (k, s2)"
    and c: "skip_ws s2 = c # s3" and p: "p (skip_ws s3) = Inr (v, t)"
    using assms(2) by (auto simp: member_def elim!: bnd_InrE split: list.splits if_splits)
  have "length t < length (skip_ws s3)" by (rule shrinksD [OF assms(1) p])
  then show ?thesis
    using s scan_string_length [OF k] skip_ws_Cons_length [OF c] skip_ws_length [of s3] by simp
qed

lemma members_length: "shrinks p \<Longrightarrow> members n p s = Inr (kvs, t) \<Longrightarrow> length t < length s"
proof (induction n arbitrary: s kvs)
  case (Suc n)
  from Suc.prems(2) obtain kv s1 c s2 where p: "member p s = Inr (kv, s1)" and s1: "skip_ws s1 = c # s2"
    and r: "c = CHR ''}'' \<and> t = s2 \<or> (\<exists>kvs'. members n p (skip_ws s2) = Inr (kvs', t))"
    by (auto elim!: bnd_InrE split: list.splits if_splits)
  have "length s1 < length s" by (rule member_length [OF Suc.prems(1) p])
  moreover have "length s2 < length s1" by (rule skip_ws_Cons_length [OF s1])
  moreover have "length t \<le> length s2"
    using r Suc.IH [OF Suc.prems(1)] skip_ws_length [of s2] by fastforce
  ultimately show ?case by simp
qed simp

lemma members_fuel:
  assumes "shrinks p"
  shows "length s \<le> n \<Longrightarrow> length s \<le> m \<Longrightarrow> members n p s = members m p s"
proof (induction n arbitrary: s m)
  case 0
  then show ?case by (cases m) (auto simp: member_def)
next
  case (Suc n)
  show ?case
  proof (cases m)
    case 0
    then show ?thesis using Suc.prems by (simp add: member_def)
  next
    case m: (Suc k)
    have "members n p (skip_ws s2) = members k p (skip_ws s2)"
      if "member p s = Inr (v, s1)" and "skip_ws s1 = c # s2" for v s1 c s2
      by (rule Suc.IH)
        (use member_length [OF assms that(1)] skip_ws_Cons_length [OF that(2)] skip_ws_length [of s2]
          Suc.prems m in linarith)+
    then show ?thesis
      unfolding m members.simps
      by (intro bnd_cong refl) (auto split: list.split)
  qed
qed

lemma scan_frac_length: "length (snd (scan_frac s)) \<le> length s"
  by (cases s) (simp_all add: scan_frac_def length_dropWhile_le le_SucI)

lemma scan_exp_length: "length (snd (scan_exp s)) \<le> length s"
proof (cases s)
  case (Cons c t)
  have "length (dropWhile digit_c (drop n t)) \<le> Suc (length t)" for n
    using length_dropWhile_le [of digit_c "drop n t"] by simp
  then show ?thesis by (simp add: Cons scan_exp_def Let_def)
qed (simp add: scan_exp_def)

lemma scan_number_length: "scan_number ip neg s = Inr (v, t) \<Longrightarrow> length t < length s"
proof -
  assume r: "scan_number ip neg s = Inr (v, t)"
  then obtain c u where s: "s = c # u" and c: "digit_c c"
    by (auto simp: scan_number_def split: list.splits if_splits)
  define t1 where "t1 = (if c = CHR ''0'' then u else dropWhile digit_c s)"
  have t1: "length t1 \<le> length u"
    using c length_dropWhile_le [of digit_c u] by (simp add: t1_def s)
  have "t = snd (scan_exp (snd (scan_frac t1)))"
    using r c by (auto simp: scan_number_def s Let_def t1_def take_digits_def split: if_splits prod.splits)
  then show ?thesis
    using t1 scan_exp_length [of "snd (scan_frac t1)"] scan_frac_length [of t1] by (simp add: s)
qed

lemma scan_literal_length: "scan_literal ip s = Inr (v, t) \<Longrightarrow> length t < length s"
  by (auto simp: scan_literal_def starts_with_iff bnd_Inr_iff split: if_splits dest!: scan_number_length)

lemma shrinks_scan_value: "shrinks (scan_value ip hook d)"
proof (induction d)
  case 0
  have "length t < length s" if "scan_value ip hook 0 s = Inr (v, t)" for s v t
    using that by (subst (asm) scan_value.simps)
      (auto elim!: bnd_InrE dest: scan_string_length scan_literal_length split: list.splits if_splits)
  then show ?case by (simp add: shrinks_def)
next
  case (Suc d)
  have "length t < length s" if "scan_value ip hook (Suc d) s = Inr (v, t)" for s v t
  proof -
    have arr: "length t < Suc (length u)" if "scan_array (scan_value ip hook d) u = Inr (v, t)" for u
      using that skip_ws_length [of u]
      by (auto simp: scan_array_def elim!: bnd_InrE dest: elements_length [OF Suc] skip_ws_Cons_length
          split: list.splits if_splits)
    have obj: "length t < Suc (length u)" if "scan_object hook (scan_value ip hook d) u = Inr (v, t)" for u
      using that skip_ws_length [of u]
      by (auto simp: scan_object_def elim!: bnd_InrE dest: members_length [OF Suc] skip_ws_Cons_length
          split: list.splits if_splits)
    show ?thesis
      using that arr obj by (subst (asm) scan_value.simps)
        (auto elim!: bnd_InrE dest: scan_string_length scan_literal_length split: list.splits if_splits)
  qed
  then show ?case by (simp add: shrinks_def)
qed

lemma scan_value_Nil: "scan_value ip hook d [] = json_error"
  by (subst scan_value.simps) simp

text \<open>No text makes the reader of a container stop before its loop would: more fuel changes nothing.\<close>

lemma container_fuel:
  assumes "length s \<le> n"
  shows "elements n (scan_value ip hook d) s = elements (length s) (scan_value ip hook d) s"
    and "members n (scan_value ip hook d) s = members (length s) (scan_value ip hook d) s"
  by (rule elements_fuel [OF shrinks_scan_value scan_value_Nil assms order_refl])
    (rule members_fuel [OF shrinks_scan_value assms order_refl])

end
