(* ===== verification/PyJsonRound.thy ===== *)
theory PyJsonRound
  imports PyJson
begin

text \<open>
  The scanner inverts the canonical encoding: what \<open>json_enc\<close> prints for a value with sorted,
  distinct keys and no float is read back as that value. The fuel of the container loops is enough.
\<close>

section \<open>Strings\<close>

lemma hex4_ctrl:
  "list_all (\<lambda>n. hex4 [CHR ''0'', CHR ''0'', hexdig (n div 16), hexdig (n mod 16)] = Some (n, [])) [0..<32]"
  by code_simp

lemma hex4_append: "hex4 [a, b, c, d] = Some (n, []) \<Longrightarrow> hex4 (a # b # c # d # t) = Some (n, t)"
  by (auto simp: hex4_def split: option.splits)

lemma scan_esc_char: "scan_string (esc_char c @ t) = before [c] (scan_string t)"
proof (cases "ctrl_char c \<and> c \<notin> {CHR 0x0A, CHR 0x0D, CHR 0x09, CHR 0x0C, CHR 0x08}")
  case True
  let ?n = "of_char c :: nat"
  have n: "?n < 32" and c: "char_of ?n = c" using True by (simp_all add: ctrl_char_def)
  have "hex4 [CHR ''0'', CHR ''0'', hexdig (?n div 16), hexdig (?n mod 16)] = Some (?n, [])"
    using hex4_ctrl n by (auto simp: list_all_iff)
  then have "hex4 (CHR ''0'' # CHR ''0'' # hexdig (?n div 16) # hexdig (?n mod 16) # t) = Some (?n, t)"
    by (rule hex4_append)
  moreover have "c \<noteq> CHR 0x22" "c \<noteq> CHR 0x5C" using n by auto
  moreover have "utf8_enc ?n = [c]" using n c by (simp add: utf8_enc_def bytes_str_def)
  ultimately show ?thesis using True n by (simp add: esc_char_def)
next
  case False
  then show ?thesis
    by (auto simp: esc_char_def simple_escape_def)
qed

lemma scan_json_str:
  "scan_string (concat (map esc_char s) @ CHR 0x22 # t) = Inr (s, t)"
  by (induction s) (simp_all add: scan_esc_char before_def)

section \<open>Numbers\<close>

lemma char_of_48: "char_of (48 :: nat) = CHR ''0''"
  by code_simp

lemma bom_bytes: "bytes_str [0xEF, 0xBB, 0xBF] = [CHR 0xEF, CHR 0xBB, CHR 0xBF]"
  by code_simp

definition stops :: "string \<Rightarrow> bool" where
  "stops t \<longleftrightarrow> (case t of [] \<Rightarrow> True | c # _ \<Rightarrow> c \<in> {CHR '','', CHR '']'', CHR ''}''})"

lemma stops_Nil [simp]: "stops []"
  by (simp add: stops_def)

lemma stops_Cons [simp]: "stops (c # t) \<longleftrightarrow> c \<in> {CHR '','', CHR '']'', CHR ''}''}"
  by (simp add: stops_def)

lemma stop_not_digit: "c \<in> {CHR '','', CHR '']'', CHR ''}''} \<Longrightarrow> \<not> digit_c c"
  by (auto simp: digit_c_def less_eq_char_def)

lemma take_digits_stop:
  assumes "list_all digit_c ds" and "stops t"
  shows "take_digits (ds @ t) = (ds, t)"
proof -
  have "takeWhile digit_c t = []" and "dropWhile digit_c t = t"
    using assms(2) stop_not_digit by (cases t; simp)+
  then show ?thesis using assms(1) by (simp add: take_digits_def list_all_iff takeWhile_append dropWhile_append)
qed

lemma dec_nat_hd: "dec_nat n \<noteq> [] \<and> (hd (dec_nat n) = CHR ''0'' \<longrightarrow> n = 0)"
proof (induction n rule: dec_nat.induct)
  case (1 n)
  show ?case
  proof (cases "n < 10")
    case True
    then have "dec_nat n = [digit n]" by (simp add: dec_nat.simps)
    moreover have "CHR ''0'' = digit 0" by (simp add: digit_def char_of_48)
    ultimately show ?thesis using True by (auto simp: digit_eq_iff)
  next
    case False
    then have "dec_nat n = dec_nat (n div 10) @ [digit (n mod 10)]" by (subst dec_nat.simps) simp
    with 1 False show ?thesis by auto
  qed
qed

lemma dec_nat_cases:
  obtains (zero) "n = 0" "dec_nat n = ''0''"
  | (pos) c s where "dec_nat n = c # s" "c \<noteq> CHR ''0''" "digit_c c" "list_all digit_c s"
proof (cases "n = 0")
  case True
  then have "dec_nat n = ''0''" by (simp add: dec_nat.simps digit_def char_of_48)
  with True show ?thesis by (rule zero)
next
  case False
  obtain c s where cs: "dec_nat n = c # s" using dec_nat_hd [of n] by (cases "dec_nat n") auto
  have "list_all digit_c (c # s)" using dec_nat_digits [of _ n] by (auto simp: cs list_all_iff)
  then show ?thesis using pos cs dec_nat_hd [of n] False by simp
qed

lemma scan_number_dec:
  assumes "len (dec_nat n) \<le> max_int_digits" and "stops t"
  shows "scan_number ip neg (dec_nat n @ t) = Inr (PInt (if neg then - int n else int n), t)"
proof -
  have tail: "scan_frac t = ([], t)" "scan_exp t = ([], t)"
    using assms(2) by (cases t; auto simp: scan_frac_def scan_exp_def)+
  have u: "undec (dec_nat n) = n" by (rule undec_dec_nat)
  show ?thesis
  proof (cases rule: dec_nat_cases [of n])
    case zero
    then show ?thesis using u assms(1) tail
      by (simp add: scan_number_def digit_c_def less_eq_char_def del: undec.simps)
  next
    case (pos c s)
    have "take_digits (c # s @ t) = (c # s, t)"
      using take_digits_stop [of "c # s" t] pos assms(2) by simp
    then show ?thesis using pos u assms(1) tail
      by (simp add: scan_number_def del: undec.simps)
  qed
qed

lemma digit_not_letter:
  "digit_c c \<Longrightarrow> c \<noteq> CHR ''n'' \<and> c \<noteq> CHR ''t'' \<and> c \<noteq> CHR ''f'' \<and> c \<noteq> CHR ''N'' \<and> c \<noteq> CHR ''I''
    \<and> c \<noteq> CHR ''-'' \<and> c \<noteq> CHR 0x22 \<and> c \<noteq> CHR ''{'' \<and> c \<noteq> CHR ''['' \<and> \<not> ws_c c
    \<and> c \<noteq> CHR '']'' \<and> c \<noteq> CHR ''}''"
  by (auto simp: digit_c_def less_eq_char_def ws_c_def)

lemma scan_literal_int:
  assumes "len (dec_nat (nat \<bar>i\<bar>)) \<le> max_int_digits" and "stops t"
  shows "scan_literal ip (dec i @ t) = Inr (PInt i, t)"
proof -
  let ?n = "nat \<bar>i\<bar>"
  obtain c s where cs: "dec_nat ?n = c # s" and c: "digit_c c"
    by (cases rule: dec_nat_cases [of ?n]) (auto simp: digit_c_def less_eq_char_def)
  note num = scan_number_dec [OF assms, of ip]
  show ?thesis
  proof (cases "i < 0")
    case True
    then have "dec i = CHR ''-'' # dec_nat ?n" by (simp add: dec_def)
    then show ?thesis using num [of True] True digit_not_letter [OF c] cs
      by (auto simp: scan_literal_def starts_with_def)
  next
    case False
    then have "dec i = dec_nat ?n" by (simp add: dec_def)
    then show ?thesis using num [of False] False digit_not_letter [OF c] cs
      by (auto simp: scan_literal_def starts_with_def)
  qed
qed

section \<open>Values\<close>

text \<open>What the canonical encoder prints in the form the reader returns, nested at most \<open>d\<close> deep.\<close>

fun json_canon :: "nat \<Rightarrow> pyval \<Rightarrow> bool" where
  "json_canon d (PInt i) = (len (dec_nat (nat \<bar>i\<bar>)) \<le> max_int_digits)"
| "json_canon d (PFloat s) = False"
| "json_canon d (PList vs) = (case d of 0 \<Rightarrow> False | Suc d' \<Rightarrow> list_all (\<lambda>v. json_canon d' v) vs)"
| "json_canon d (PDict kvs) =
    (case d of 0 \<Rightarrow> False
     | Suc d' \<Rightarrow> sorted_wrt (<) (map fst kvs) \<and> list_all (\<lambda>(k, v). json_canon d' v) kvs)"
| "json_canon d _ = True"

lemma ws_skip: "\<not> ws_c c \<Longrightarrow> skip_ws (c # t) = c # t"
  by (simp add: skip_ws_def)

lemma json_enc_head:
  assumes "json_canon d v"
  shows "\<exists>c s. json_enc v = c # s \<and> \<not> ws_c c \<and> c \<noteq> CHR '']'' \<and> c \<noteq> CHR ''}''"
proof (cases v)
  case (PInt i)
  obtain c s where "dec_nat (nat \<bar>i\<bar>) = c # s" and "digit_c c"
    by (cases rule: dec_nat_cases [of "nat \<bar>i\<bar>"]) (auto simp: digit_c_def less_eq_char_def)
  then show ?thesis using PInt digit_not_letter [of c]
    by (cases "i < 0") (auto simp: dec_def ws_c_def)
qed (use assms in \<open>auto simp: ws_c_def json_str_def\<close>)

lemma skip_json_enc: "json_canon d v \<Longrightarrow> skip_ws (json_enc v @ t) = json_enc v @ t"
  by (drule json_enc_head) (auto simp: ws_skip)

lemma joinc_Cons: "joinc (x # xs) = x @ (if xs = [] then [] else CHR '','' # joinc xs)"
  by (cases xs) auto

lemma joinc_length: "list_all (\<lambda>x. x \<noteq> []) xs \<Longrightarrow> length xs \<le> length (joinc xs)"
  by (induction xs) (auto simp: joinc_Cons Suc_le_eq)

lemma simple_ws [simp]: "\<not> ws_c CHR '']''" "\<not> ws_c CHR ''}''" "\<not> ws_c CHR '',''" "\<not> ws_c CHR '':''"
    "\<not> ws_c CHR 0x22"
  by (simp_all add: ws_c_def)

lemma elements_enc:
  assumes "\<And>v t. v \<in> set vs \<Longrightarrow> stops t \<Longrightarrow> p (json_enc v @ t) = Inr (v, t)"
    and "list_all (json_canon d) vs" and "vs \<noteq> []" and "length vs \<le> n"
  shows "elements n p (joinc (map json_enc vs) @ CHR '']'' # t) = Inr (vs, t)"
  using assms
proof (induction vs arbitrary: n)
  case (Cons v vs)
  then obtain m where n: "n = Suc m" by (cases n) auto
  have p: "p (json_enc v @ u) = Inr (v, u)" if "stops u" for u
    using Cons.prems(1) that by simp
  show ?case
  proof (cases "vs = []")
    case True
    then show ?thesis by (simp add: n p ws_skip)
  next
    case False
    have "elements m p (joinc (map json_enc vs) @ CHR '']'' # t) = Inr (vs, t)"
      by (rule Cons.IH) (use Cons.prems n False in auto)
    moreover obtain w ws where "vs = w # ws" using False by (cases vs) auto
    ultimately show ?thesis using False Cons.prems(2) skip_json_enc [of d w]
      by (simp add: n p ws_skip joinc_Cons)
  qed
qed simp

definition enc_member :: "string \<times> pyval \<Rightarrow> string" where
  "enc_member kv = json_str (fst kv) @ CHR '':'' # json_enc (snd kv)"

lemma member_enc:
  assumes "\<And>t. stops t \<Longrightarrow> p (json_enc v @ t) = Inr (v, t)" and "json_canon d v" and "stops t"
  shows "member p (enc_member (k, v) @ t) = Inr ((k, v), t)"
proof -
  have "scan_string (concat (map esc_char k) @ CHR 0x22 # CHR '':'' # json_enc v @ t)
      = Inr (k, CHR '':'' # json_enc v @ t)"
    by (rule scan_json_str)
  then show ?thesis using assms
    by (simp add: member_def enc_member_def json_str_def ws_skip skip_json_enc)
qed

lemma skip_member: "skip_ws (enc_member kv @ t) = enc_member kv @ t"
  by (simp add: enc_member_def json_str_def ws_skip)

lemma members_enc:
  assumes "\<And>k v t. (k, v) \<in> set kvs \<Longrightarrow> stops t \<Longrightarrow> p (json_enc v @ t) = Inr (v, t)"
    and "list_all (\<lambda>(k, v). json_canon d v) kvs" and "kvs \<noteq> []" and "length kvs \<le> n"
  shows "members n p (joinc (map enc_member kvs) @ CHR ''}'' # t) = Inr (kvs, t)"
  using assms
proof (induction kvs arbitrary: n)
  case (Cons kv kvs)
  then obtain m where n: "n = Suc m" by (cases n) auto
  obtain k v where kv: "kv = (k, v)" by force
  have p: "member p (enc_member kv @ u) = Inr (kv, u)" if "stops u" for u
    using Cons.prems(1,2) that unfolding kv by (intro member_enc [of _ _ d]) auto
  show ?case
  proof (cases "kvs = []")
    case True
    then show ?thesis by (simp add: n p ws_skip)
  next
    case False
    have "members m p (joinc (map enc_member kvs) @ CHR ''}'' # t) = Inr (kvs, t)"
      by (rule Cons.IH) (use Cons.prems n False in auto)
    moreover obtain w ws where "kvs = w # ws" using False by (cases kvs) auto
    ultimately show ?thesis using False
      by (simp add: n p ws_skip joinc_Cons skip_member)
  qed
qed simp

lemma json_enc_sorted:
  assumes "sorted_wrt (<) (map fst kvs)"
  shows "json_enc (PDict kvs) = CHR ''{'' # joinc (map enc_member kvs) @ ''}''"
proof -
  have "sorted (map fst (map (\<lambda>(k, v). (k, json_enc v)) kvs))"
    using assms by (simp add: comp_def case_prod_beta strict_sorted_imp_sorted)
  then have "sort_key fst (map (\<lambda>(k, v). (k, json_enc v)) kvs) = map (\<lambda>(k, v). (k, json_enc v)) kvs"
    by (intro sort_key_id_if_sorted)
  then show ?thesis by (simp add: comp_def case_prod_beta enc_member_def [abs_def])
qed

lemma scan_value_enc:
  assumes "\<And>kvs. distinct (map fst kvs) \<Longrightarrow> hook kvs = Inr (PDict kvs)"
    and "json_canon d v" and "stops t"
  shows "scan_value ip hook d (json_enc v @ t) = Inr (v, t)"
  using assms(2,3)
proof (induction v arbitrary: d t)
  case (PInt i)
  obtain c s where "dec_nat (nat \<bar>i\<bar>) = c # s" and "digit_c c"
    by (cases rule: dec_nat_cases [of "nat \<bar>i\<bar>"]) (auto simp: digit_c_def less_eq_char_def)
  then have "\<exists>c s. dec i = c # s \<and> c \<noteq> CHR 0x22 \<and> c \<noteq> CHR ''{'' \<and> c \<noteq> CHR ''[''"
    using digit_not_letter [of c] by (auto simp: dec_def)
  then show ?case
    using scan_literal_int [of i t ip] PInt by (auto simp: scan_value.simps)
next
  case (PStr s)
  then show ?case by (simp add: scan_value.simps json_str_def scan_json_str)
next
  case (PList vs)
  then obtain d' where d: "d = Suc d'" and vs: "list_all (json_canon d') vs" by (cases d) auto
  have p: "scan_value ip hook d' (json_enc v @ u) = Inr (v, u)" if "v \<in> set vs" "stops u" for v u
    using PList.IH [OF that(1)] vs that by (simp add: list_all_iff)
  show ?case
  proof (cases vs)
    case Nil
    then show ?thesis by (simp add: d scan_value.simps scan_array_def ws_skip)
  next
    case (Cons w ws)
    let ?s = "joinc (map json_enc vs) @ CHR '']'' # t"
    have ne: "list_all (\<lambda>x. x \<noteq> []) (map json_enc vs)"
      using vs json_enc_head by (fastforce simp: list_all_iff)
    have "elements (length ?s) (scan_value ip hook d') ?s = Inr (vs, t)"
      by (rule elements_enc [OF p vs]) (use Cons joinc_length [OF ne] in auto)
    moreover obtain c s where "?s = c # s" and "\<not> ws_c c" and "c \<noteq> CHR '']''"
      using json_enc_head [of d' w] vs Cons by (auto simp: joinc_Cons)
    ultimately show ?thesis by (simp add: d scan_value.simps scan_array_def ws_skip)
  qed
next
  case (PDict kvs)
  then obtain d' where d: "d = Suc d'" and s: "sorted_wrt (<) (map fst kvs)"
    and vs: "list_all (\<lambda>(k, v). json_canon d' v) kvs" by (cases d) auto
  have h: "hook kvs = Inr (PDict kvs)"
    using s by (intro assms(1)) (simp add: strict_sorted_iff)
  have p: "scan_value ip hook d' (json_enc v @ u) = Inr (v, u)" if "(k, v) \<in> set kvs" "stops u" for k v u
    using PDict.IH [OF that(1), of v d' u] vs that by (auto simp: list_all_iff)
  show ?case
  proof (cases kvs)
    case Nil
    then show ?thesis using h by (simp add: d scan_value.simps scan_object_def ws_skip)
  next
    case (Cons w ws)
    let ?s = "joinc (map enc_member kvs) @ CHR ''}'' # t"
    have ne: "list_all (\<lambda>x. x \<noteq> []) (map enc_member kvs)"
      by (simp add: list_all_iff enc_member_def)
    have "members (length ?s) (scan_value ip hook d') ?s = Inr (kvs, t)"
      by (rule members_enc [OF p vs]) (use Cons joinc_length [OF ne] in auto)
    moreover obtain s where "?s = CHR 0x22 # s"
      using Cons by (auto simp: joinc_Cons enc_member_def json_str_def)
    ultimately show ?thesis using h
      by (simp add: d scan_value.simps scan_object_def ws_skip json_enc_sorted [OF s] del: json_enc.simps)
  qed
qed (simp_all add: scan_value.simps scan_literal_def starts_with_def)

theorem json_loads_enc:
  assumes "\<And>kvs. distinct (map fst kvs) \<Longrightarrow> hook kvs = Inr (PDict kvs)"
    and "json_canon (py_depth ip) v"
  shows "json_loads ip hook (json_enc v) = Inr v"
proof -
  have "\<not> starts_with (json_enc v) (bytes_str [0xEF, 0xBB, 0xBF])"
  proof
    assume "starts_with (json_enc v) (bytes_str [0xEF, 0xBB, 0xBF])"
    then obtain s where s: "json_enc v = CHR 0xEF # s"
      by (auto simp: starts_with_iff bom_bytes)
    show False
    proof (cases v)
      case (PInt i)
      obtain c s where "dec_nat (nat \<bar>i\<bar>) = c # s" and "digit_c c"
        by (cases rule: dec_nat_cases [of "nat \<bar>i\<bar>"]) (auto simp: digit_c_def less_eq_char_def)
      then show False using s PInt
        by (cases "i < 0") (auto simp: dec_def digit_c_def less_eq_char_def)
    qed (use s assms(2) in \<open>auto simp: json_str_def split: if_splits\<close>)
  qed
  then show ?thesis
    using scan_value_enc [OF assms, of "[]" ip] skip_json_enc [OF assms(2), of "[]"]
    by (simp add: json_loads_def skip_ws_def)
qed

end
