(* ===== verification/LaunchParse.thy ===== *)
theory LaunchParse
  imports LaunchMachine PyJsonRound
begin

text \<open>
  The JSON transport of the launcher: the bounded strict reader, \<open>LaunchRequest.from_json\<close> and
  \<open>submit_json\<close>, and the round trip of a request through its canonical bytes.
\<close>

section \<open>The strict reader\<close>

text \<open>What a caller may pass: bytes, a string (possibly with lone surrogates), or something else.\<close>

datatype raw_text = RawBytes string | RawStr string | RawOther

text \<open>\<open>DuplicateKeyError\<close> is the contract error with its own code.\<close>

fun reject_duplicates :: "pyval dict \<Rightarrow> (string \<times> pyval) list \<Rightarrow> pyval res" where
  "reject_duplicates d [] = Inr (PDict d)"
| "reject_duplicates d ((k, v) # kvs) =
    (if has k d then fail ''duplicate-json-key'' (''duplicate-json-key:'' @ k)
     else reject_duplicates (aput k v d) kvs)"

definition strict_json_loads :: "interp \<Rightarrow> raw_text \<Rightarrow> pyval res" where
  "strict_json_loads ip raw =
    bnd (case raw of
        RawBytes b \<Rightarrow> if utf8_ok b then Inr b else contract_error ''request:invalid-utf8''
      | RawStr s \<Rightarrow> if has_surrogate s then contract_error ''request:invalid-utf8'' else Inr s
      | RawOther \<Rightarrow> contract_error ''request:expected-json-text'') (\<lambda>text.
    if max_request_bytes < len text then contract_error ''request:too-large''
    else (case json_loads (ip\<lparr>py_constant := std_constant\<rparr>) (reject_duplicates []) text of
        Inl e \<Rightarrow>
          if e = Crash ''JSONDecodeError'' \<or> e = Crash ''RecursionError''
          then contract_error ''request:malformed-json'' else Inl e
      | Inr v \<Rightarrow> Inr v))"

definition request_of_json :: "interp \<Rightarrow> raw_text \<Rightarrow> string launch_request res" where
  "request_of_json ip raw = bnd (strict_json_loads ip raw) (\<lambda>v.
    if is_pdict v then request_of_mapping v else contract_error ''request:expected-object'')"

text \<open>The parsed request as the instance that \<open>submit\<close> takes.\<close>

definition raw_request :: "string launch_request \<Rightarrow> pyval launch_request" where
  "raw_request r =
    \<lparr>rq_schema = PStr (rq_schema r), rq_job = PStr (rq_job r), rq_attempt = PStr (rq_attempt r),
     rq_key = PStr (rq_key r), rq_profile = PStr (rq_profile r), rq_provider = PStr (rq_provider r),
     rq_model = PStr (rq_model r), rq_task = PStr (rq_task r), rq_input = PStr (rq_input r),
     rq_prompt = PStr (rq_prompt r), rq_resource = PStr (rq_resource r),
     rq_network = PStr (rq_network r)\<rparr>"

definition submit_json :: "interp \<Rightarrow> (string \<Rightarrow> string) \<Rightarrow> (executor_kind \<Rightarrow> executor) \<Rightarrow> service
    \<Rightarrow> raw_text \<Rightarrow> pyval dict outcome" where
  "submit_json ip sha exs sv raw =
    (case request_of_json ip raw of
       Inl e \<Rightarrow> (sv, Inl e)
     | Inr r \<Rightarrow> submit sha exs sv (Some (raw_request r)))"

section \<open>Lemmas\<close>

lemma raw_request_dict: "request_dict (\<lambda>v. v) (raw_request r) = request_dict PStr r"
  by (simp add: request_dict_def raw_request_def)

lemma reject_duplicates_distinct:
  "distinct (keys d @ keys kvs) \<Longrightarrow> reject_duplicates d kvs = Inr (PDict (d @ kvs))"
proof (induction d kvs rule: reject_duplicates.induct)
  case (2 d k v kvs)
  then have "k \<notin> set (keys d)" by auto
  then show ?case using 2 by (simp add: has_iff aput_new)
qed simp

text \<open>Success or a duplicate: the reader returns exactly the texts whose objects have distinct keys.\<close>

lemma reject_duplicates_Inr: "reject_duplicates d kvs = Inr v \<Longrightarrow> dict_ok d \<Longrightarrow> \<exists>d'. v = PDict d' \<and> dict_ok d'"
  by (induction d kvs rule: reject_duplicates.induct) (auto split: if_splits)

text \<open>A mapping is read through its lookups and its set of keys only.\<close>

lemma request_of_mapping_cong:
  assumes "\<And>k. dget d k = dget d' k" and "set (keys d) = set (keys d')"
    and "set (keys d) = set submit_fields"
  shows "request_of_mapping (PDict d) = request_of_mapping (PDict d')"
proof -
  have g: "dget d = dget d'" using assms(1) by blast
  have "filter (\<lambda>k. k \<notin> set submit_fields) (keys d) = []"
    and "filter (\<lambda>k. k \<notin> set submit_fields) (keys d') = []"
    using assms(2,3) by (auto simp: filter_empty_conv)
  moreover have "filter (\<lambda>k. k \<notin> set (keys d)) submit_fields = []"
    and "filter (\<lambda>k. k \<notin> set (keys d')) submit_fields = []"
    using assms(2,3) by (auto simp: filter_empty_conv)
  ultimately show ?thesis
    unfolding request_of_mapping_def pyval.case g by simp
qed

lemma request_dict_distinct: "distinct (keys (request_dict f r))"
  unfolding keys_request_dict by (simp add: submit_fields_def)

definition sorted_request :: "string launch_request \<Rightarrow> pyval dict" where
  "sorted_request r = sort_key fst (request_dict PStr r)"

lemma sorted_request_keys:
  "sorted_wrt (<) (keys (sorted_request r))" "set (sorted_request r) = set (request_dict PStr r)"
  unfolding strict_sorted_iff sorted_request_def
  using request_dict_distinct [of PStr r] by (simp_all add: distinct_map del: keys_request_dict)

lemma insort_map_values:
  "insort_key fst (k, h v) (map (\<lambda>(k, v). (k, h v)) d) = map (\<lambda>(k, v). (k, h v)) (insort_key fst (k, v) d)"
  by (induction d) auto

lemma sort_map_values:
  "sort_key fst (map (\<lambda>(k, v). (k, h v)) d) = map (\<lambda>(k, v). (k, h v)) (sort_key fst d)"
  by (induction d) (auto simp: insort_map_values)

lemma json_enc_sort: "json_enc (PDict (sort_key fst d)) = json_enc (PDict d)"
  by (simp add: sort_map_values sort_key_id_if_sorted)

lemma request_values: "(k, v) \<in> set (request_dict PStr r) \<Longrightarrow> \<exists>s. v = PStr s"
  by (auto simp: request_dict_def)

lemma sorted_request_canon:
  assumes "1 \<le> n"
  shows "json_canon n (PDict (sorted_request r))"
proof -
  obtain m where "n = Suc m" using assms by (cases n) auto
  moreover have "list_all (\<lambda>(k, v). json_canon m v) (sorted_request r)"
    using request_values by (fastforce simp: list_all_iff sorted_request_keys(2))
  ultimately show ?thesis using sorted_request_keys(1) by simp
qed

text \<open>Reading back the canonical bytes of a request that \<open>from_mapping\<close> accepts.\<close>

lemma request_roundtrip:
  assumes "request_of_mapping (PDict (request_dict PStr r)) = Inr r"
    and b: "canonical_bytes (PDict (request_dict PStr r)) = Inr b"
    and "len b \<le> max_request_bytes" and "1 \<le> py_depth ip"
  shows "request_of_json ip (RawStr b) = Inr r"
proof -
  let ?d = "sorted_request r"
  have b: "b = json_enc (PDict ?d)" and ns: "\<not> has_surrogate b"
    using b json_enc_sort [of "request_dict PStr r"]
    by (auto simp: canonical_bytes_def Let_def sorted_request_def split: if_splits)
  have "json_loads (ip\<lparr>py_constant := std_constant\<rparr>) (reject_duplicates []) b = Inr (PDict ?d)"
    unfolding b
  proof (rule json_loads_enc)
    show "json_canon (py_depth (ip\<lparr>py_constant := std_constant\<rparr>)) (PDict ?d)"
      using sorted_request_canon [OF assms(4)] by (simp del: json_canon.simps)
  qed (simp add: reject_duplicates_distinct)
  then have "strict_json_loads ip (RawStr b) = Inr (PDict ?d)"
    using ns assms(3) by (simp add: strict_json_loads_def)
  moreover have "request_of_mapping (PDict ?d) = request_of_mapping (PDict (request_dict PStr r))"
  proof (rule request_of_mapping_cong)
    have d: "distinct (keys ?d)" using sorted_request_keys(1) by (simp add: strict_sorted_iff)
    have "map_of ?d = map_of (request_dict PStr r)"
      using map_of_inject_set [OF d request_dict_distinct] sorted_request_keys(2) by blast
    then show "dget ?d k = dget (request_dict PStr r) k" for k by (simp add: dget_def)
    show k: "set (keys ?d) = set (keys (request_dict PStr r))"
      using sorted_request_keys(2) [of r] by (metis list.set_map)
    show "set (keys ?d) = set submit_fields" unfolding k keys_request_dict ..
  qed
  ultimately show ?thesis using assms(1) by (simp add: request_of_json_def)
qed

end
