(* ===== verification/LaunchTheorems.thy ===== *)
theory LaunchTheorems
  imports LaunchParse
begin

text \<open>
  The properties of the launcher, with the concrete service their witnesses run in.
\<close>

section \<open>A concrete service\<close>

definition demo_hex :: string where
  "demo_hex = replicate 64 (CHR ''a'')"

definition demo_profile :: provider_profile where
  "demo_profile = \<lparr>pf_id = PStr ''p'', pf_digest = PStr demo_hex, pf_provider = PStr ''v'',
     pf_models = [PStr ''m''], pf_kind = Some Docker, pf_image = PStr demo_hex,
     pf_resource = PStr ''r'', pf_resource_digest = PStr demo_hex, pf_network = PStr ''n'',
     pf_network_digest = PStr demo_hex, pf_max_output = PInt 10, pf_media = PStr ''a/b''\<rparr>"

definition demo_launch :: "string launch_request" where
  "demo_launch = \<lparr>rq_schema = launcher_schema, rq_job = ''j'', rq_attempt = ''t'', rq_key = ''k'',
     rq_profile = ''p'', rq_provider = ''v'', rq_model = ''m'', rq_task = demo_hex,
     rq_input = demo_hex, rq_prompt = demo_hex, rq_resource = ''r'', rq_network = ''n''\<rparr>"

definition demo_service :: service where
  "demo_service = \<lparr>sv_profiles = [(''p'', demo_profile)], sv_executors = [Docker], sv_jobs = [],
     sv_keys = []\<rparr>"

text \<open>A stand-in for SHA-256, and an executor that runs every job and reports a state.\<close>

definition demo_sha :: "string \<Rightarrow> string" where
  "demo_sha s = ''h''"

definition demo_success :: backend_success where
  "demo_success = \<lparr>bs_output = Some ''ok'', bs_media = PStr ''a/b'', bs_receipt = Some
     (receipt_expected demo_sha (new_job demo_launch ''h'' demo_profile) ''ok'' (PStr ''a/b''))\<rparr>"

definition demo_answer :: "backend_state \<Rightarrow> bool \<Rightarrow> string \<Rightarrow> observation" where
  "demo_answer state clean eid = \<lparr>ob_execution = PStr eid, ob_state = Some state,
     ob_cleanup = PBool clean, ob_quiescent = PBool clean,
     ob_success = (if state = BackendSucceeded then Some demo_success else None)\<rparr>"

definition demo_executor :: "backend_state \<Rightarrow> bool \<Rightarrow> executor_kind \<Rightarrow> executor" where
  "demo_executor state clean k = \<lparr>ex_launch = (\<lambda>_ _ eid. Inr (PStr eid)),
     ex_status = (\<lambda>eid. Inr (demo_answer state clean eid)),
     ex_cancel = (\<lambda>eid. Inr (demo_answer state clean eid))\<rparr>"

definition demo_submit :: launch_op where
  "demo_submit = OpSubmit (demo_executor BackendRunning False) (Some (raw_request demo_launch))"

lemma demo_init: "init_service [demo_profile] [Some Docker] = Inr demo_service"
  by code_simp

lemma demo_service_ok: "service_ok demo_sha demo_service"
  by (rule init_service_ok [OF demo_init])

definition demo_running :: service where
  "demo_running = launch_step demo_sha demo_service demo_submit"

lemma demo_running_ok: "service_ok demo_sha demo_running"
  unfolding demo_running_def by (simp add: launch_step_ok demo_service_ok)

lemma run_service_ok: "service_ok sha sv \<Longrightarrow> service_ok sha (foldl (launch_step sha) sv ops)"
  by (rule launcher.run_inv) (simp_all add: list_all_iff)

section \<open>The service as a whole\<close>

text \<open>
  C13. Whatever calls are made, in whatever order and whatever the executors answer or raise, the
  launcher stays well formed: every job is bound to the request, digest and profile it was admitted
  with; its log is numbered 1, 2, 3, ... without gaps, has at most 32 events and ends in a terminal
  event exactly when the job is terminal; a result is stored only with a receipt valid for that job;
  and idempotency keys and jobs refer to each other.
\<close>

theorem launcher_always_well_formed:
  assumes "init_service profiles executors = Inr sv"
  shows "service_ok sha (foldl (launch_step sha) sv ops)"
  by (rule launcher.run_inv [OF init_service_ok [OF assms]]) (simp add: list_all_iff)

theorem launcher_always_well_formed_witness:
  "service_ok demo_sha (foldl (launch_step demo_sha) demo_service [demo_submit])"
  by (rule launcher_always_well_formed [OF demo_init])

text \<open>
  C15. No call takes anything back: a job, once admitted, stays admitted under the same key with the
  same request, digest, profile and execution identifier; its event log is only extended; and a job
  that has succeeded, failed, been cancelled or been held never changes again in any field.
\<close>

theorem launcher_never_goes_back:
  assumes "init_service profiles executors = Inr sv"
  shows "service_grows (foldl (launch_step sha) sv ops) (foldl (launch_step sha) sv (ops @ later))"
proof -
  have "service_ok sha (foldl (launch_step sha) sv ops)"
    by (rule launcher.run_inv [OF init_service_ok [OF assms]]) (simp add: list_all_iff)
  then show ?thesis unfolding foldl_append by (rule launcher.run_below) (simp add: list_all_iff)
qed

theorem launcher_never_goes_back_witness:
  "service_grows (foldl (launch_step demo_sha) demo_service [demo_submit])
    (foldl (launch_step demo_sha) demo_service ([demo_submit] @ [demo_submit]))"
  by (rule launcher_never_goes_back [OF demo_init])

section \<open>Results\<close>

lemma valid_success_cases:
  assumes "valid_success sha j s"
  obtains out m where "bs_output s = Some out" and "pf_max_output (jb_profile j) = PInt m" and "len out \<le> m"
    and "bs_media s = pf_media (jb_profile j)"
    and "bs_receipt s = Some (receipt_expected sha j out (pf_media (jb_profile j)))"
proof -
  obtain out where out: "bs_output s = Some out" and f: "fits_within (len out) (pf_max_output (jb_profile j))"
    and "bs_media s = pf_media (jb_profile j)"
    and "bs_receipt s = Some (receipt_expected sha j out (pf_media (jb_profile j)))"
    using assms unfolding valid_success_def by (auto split: option.splits if_splits)
  moreover from f obtain m where "pf_max_output (jb_profile j) = PInt m" "len out \<le> m"
    by (cases "pf_max_output (jb_profile j)") auto
  ultimately show ?thesis using that by blast
qed

lemma release_Inr:
  assumes "release sha k j sv = (sv', Inr view)"
  obtains s out receipt where "sv' = sv" and "jb_state j = JobSucceeded" and "jb_success j = Some s"
    and "valid_success sha j s" and "bs_output s = Some out" and "bs_receipt s = Some receipt"
    and "view = result_view sha j out (bs_media s) receipt"
  using assms by (auto simp: release_def split: launcher_state.splits option.splits if_splits)

lemma result_released:
  assumes "service_ok sha sv" and "result sha exs sv a b = (sv', Inr view)"
  obtains k j where "a = PStr (fst k)" and "b = PStr (snd k)" and "aget (sv_jobs sv') k = Some j"
    and "release sha k j sv' = (sv', Inr view)" and "job_ok sha j"
proof -
  obtain k j where g: "get_job sv a b = Inr (k, j)"
    using assms(2) by (cases "get_job sv a b") (auto simp: result_def)
  note job = service_job [OF assms(1) g]
  show ?thesis
  proof (cases "terminal (jb_state j)")
    case True
    then have r: "release sha k j sv = (sv', Inr view)" using assms(2) by (simp add: result_def g)
    then have "sv' = sv" by (rule release_Inr)
    then show ?thesis using that job r by blast
  next
    case False
    then obtain ob where r: "release sha k (apply_observation sha ob j)
        (put_job k (apply_observation sha ob j) sv) = (sv', Inr view)"
      using assms(2) by (auto simp: result_def g Let_def split: option.splits sum.splits)
    then have sv': "sv' = put_job k (apply_observation sha ob j) sv" by (rule release_Inr)
    show ?thesis
      by (rule that [OF job(3,4) _ r [folded sv'] apply_observation_ok [OF job(2) False]])
        (simp add: sv' put_job_def dict_simps)
  qed
qed

text \<open>
  C11. A result is released only for a succeeded job of that name, and what is released is what the
  executor's receipt vouches for: the output is no longer than the profile allows and has the
  profile's media type, its printed size and digest are those of the output, and every field of the
  receipt is the one the launcher itself computes from the job, the profile and the output, with
  clean-up and quiescence confirmed.
\<close>

theorem released_result_is_bound:
  assumes "service_ok sha sv" and "result sha exs sv a b = (sv', Inr view)"
  shows "\<exists>k j out m. a = PStr (fst k) \<and> b = PStr (snd k) \<and> aget (sv_jobs sv') k = Some j
    \<and> jb_state j = JobSucceeded \<and> pf_max_output (jb_profile j) = PInt m \<and> len out \<le> m
    \<and> view = result_view sha j out (pf_media (jb_profile j))
        (receipt_expected sha j out (pf_media (jb_profile j)))"
  using assms
proof (rule result_released)
  fix k j
  assume job: "a = PStr (fst k)" "b = PStr (snd k)" "aget (sv_jobs sv') k = Some j"
    and r: "release sha k j sv' = (sv', Inr view)"
  from r show ?thesis
  proof (rule release_Inr)
    fix s out receipt
    assume s: "jb_state j = JobSucceeded" "valid_success sha j s" "bs_output s = Some out"
      "bs_receipt s = Some receipt" "view = result_view sha j out (bs_media s) receipt"
    from s(2) show ?thesis
      by (rule valid_success_cases) (use job s in auto)
  qed
qed

definition demo_result :: "pyval dict outcome" where
  "demo_result = result demo_sha (demo_executor BackendSucceeded True) demo_running (PStr ''j'') (PStr ''t'')"

theorem released_result_is_bound_witness:
  "\<exists>k j out m. PStr ''j'' = PStr (fst k) \<and> PStr ''t'' = PStr (snd k)
    \<and> aget (sv_jobs (fst demo_result)) k = Some j
    \<and> jb_state j = JobSucceeded \<and> pf_max_output (jb_profile j) = PInt m \<and> len out \<le> m
    \<and> projr (snd demo_result) = result_view demo_sha j out (pf_media (jb_profile j))
        (receipt_expected demo_sha j out (pf_media (jb_profile j)))"
proof -
  have "is_ok (snd demo_result)" by code_simp
  then obtain view where "demo_result = (fst demo_result, Inr view)"
    by (auto simp: is_ok_iff prod_eq_iff)
  then have r: "result demo_sha (demo_executor BackendSucceeded True) demo_running (PStr ''j'') (PStr ''t'')
      = (fst demo_result, Inr view)" and v: "projr (snd demo_result) = view"
    by (metis demo_result_def, metis snd_conv sum.sel(2))
  show ?thesis unfolding v by (rule released_result_is_bound [OF demo_running_ok r])
qed

section \<open>Success\<close>

lemma append_event_state:
  "jb_state (append_event phase code j) = jb_state j \<or> jb_state (append_event phase code j) = JobCleanupPending"
  by (simp add: append_event_def)

lemma quiescence_pending_state [simp]: "jb_state (quiescence_pending failure pending j) = JobCleanupPending"
  by (simp add: quiescence_pending_def append_event_def)

lemma hold_state [simp]: "jb_state (hold failure j) \<noteq> JobSucceeded"
  by (simp add: hold_def append_event_def)

lemma apply_failure_state: "jb_state (apply_failure state success j) \<noteq> JobSucceeded"
  by (cases state) (simp_all add: apply_failure_def Let_def append_event_def)

lemma apply_observation_success:
  assumes "jb_state (apply_observation sha ob j) = JobSucceeded" and "jb_state j \<noteq> JobSucceeded"
  obtains eid s where "jb_execution j = Some eid" and "ob_execution ob = PStr eid"
    and "ob_state ob = Some BackendSucceeded" and "ob_cleanup ob = PBool True"
    and "ob_quiescent ob = PBool True" and "ob_success ob = Some s" and "valid_success sha j s"
proof -
  have q: "jb_state (append_event PhaseRunning CodeRunning (j\<lparr>jb_state := JobRunning, jb_failure := None\<rparr>))
      \<noteq> JobSucceeded"
    by (simp add: append_event_def)
  have r: "jb_state (apply_running success j) \<noteq> JobSucceeded" for success
    using assms(2) q by (simp add: apply_running_def)
  obtain eid state where e: "require_execution_id (ob_execution ob) = Inr eid" and eid: "jb_execution j = Some eid"
    and state: "ob_state ob = Some state" and c: "ob_cleanup ob = PBool True" "ob_quiescent ob = PBool True"
    and "state = BackendSucceeded"
    and a: "jb_state (apply_success sha (ob_success ob) (append_event PhaseQuiescing CodeCleanupPending j)) = JobSucceeded"
    using assms(1) r apply_failure_state unfolding apply_observation_def Let_def
    by (auto split: sum.splits option.splits if_splits)
  moreover obtain s where "ob_success ob = Some s" and "valid_success sha j s"
    using a valid_success_same [OF append_event_identity]
    by (auto simp: apply_success_def split: option.splits if_splits)
  moreover have "ob_execution ob = PStr eid"
    using e by (auto simp: require_execution_id_def require_string_Inr elim!: res_elims split: if_splits)
  ultimately show ?thesis using that by blast
qed

lemma launched_job_state: "jb_state (launched_job ex j) \<noteq> JobSucceeded"
  by (auto simp: launched_job_def append_event_def split: sum.split)

text \<open>The answer of the executor that one call obtains for a job.\<close>

fun answer_for :: "service \<Rightarrow> job_key \<Rightarrow> job \<Rightarrow> launch_op \<Rightarrow> observation \<Rightarrow> bool" where
  "answer_for sv k j (OpStatus exs a b) ob \<longleftrightarrow> a = PStr (fst k) \<and> b = PStr (snd k)
    \<and> bnd (job_executor exs sv j) (\<lambda>ex. ex_status ex (the (jb_execution j))) = Inr ob"
| "answer_for sv k j (OpResult exs a b) ob \<longleftrightarrow> a = PStr (fst k) \<and> b = PStr (snd k)
    \<and> bnd (job_executor exs sv j) (\<lambda>ex. ex_status ex (the (jb_execution j))) = Inr ob"
| "answer_for sv k j (OpCancel exs a b) ob \<longleftrightarrow> a = PStr (fst k) \<and> b = PStr (snd k)
    \<and> bnd (job_executor exs sv j) (\<lambda>ex. ex_cancel ex (the (jb_execution j))) = Inr ob"
| "answer_for sv k j _ ob \<longleftrightarrow> False"

text \<open>What a call on an existing job makes of it, when it is not left alone.\<close>

lemma job_call_cases:
  assumes sv: "service_ok sha sv" and x: "\<forall>exs raw. x \<noteq> OpSubmit exs raw"
    and j': "aget (sv_jobs (launch_step sha sv x)) k = Some j'"
  obtains (same) "aget (sv_jobs sv) k = Some j'"
  | (failed) j where "aget (sv_jobs sv) k = Some j" "\<not> terminal (jb_state j)"
      "j' = append_event PhaseQuiescing CodeCancelRequested (j\<lparr>jb_state := JobCancelRequested\<rparr>)"
  | (answered) j i ob where "aget (sv_jobs sv) k = Some j" "\<not> terminal (jb_state j)"
      "answer_for sv k j x ob" "j' = apply_observation sha ob i" "\<not> terminal (jb_state i)" "same_identity j i" "extends j i"
proof (cases "\<exists>a b exs k' j. (x = OpStatus exs a b \<or> x = OpCancel exs a b \<or> x = OpResult exs a b)
    \<and> get_job sv a b = Inr (k', j) \<and> \<not> terminal (jb_state j) \<and> k' = k")
  case False
  have put: "aget (sv_jobs (put_job k2 i sv)) k = aget (sv_jobs sv) k" if "k2 \<noteq> k" for k2 i
    using that by (simp add: put_job_def dict_simps)
  have rel: "fst (release sha k2 i t) = t" if "job_ok sha i" for k2 i t
    by (rule release_state [OF that])
  have "aget (sv_jobs (launch_step sha sv x)) k = aget (sv_jobs sv) k"
  proof (cases x)
    case (OpStatus exs a b)
    then show ?thesis using False put
      by (cases "get_job sv a b") (auto simp: job_status_def Let_def split: sum.split option.split)
  next
    case (OpCancel exs a b)
    then show ?thesis using False put
      by (cases "get_job sv a b") (auto simp: cancel_def Let_def split: sum.split option.split)
  next
    case (OpResult exs a b)
    show ?thesis
    proof (cases "get_job sv a b")
      case (Inr kj)
      then obtain k2 j where g: "get_job sv a b = Inr (k2, j)" by (cases kj) auto
      note jok = service_job(2) [OF sv g]
      show ?thesis
      proof (cases "terminal (jb_state j)")
        case True
        then show ?thesis by (simp add: OpResult result_def g rel [OF jok])
      next
        case open_j: False
        then have "k2 \<noteq> k" using False OpResult g by blast
        then show ?thesis using put open_j rel [OF apply_observation_ok [OF jok open_j]]
          by (auto simp: OpResult result_def g Let_def split: sum.split option.split)
      qed
    qed (simp add: OpResult result_def)
  qed (use x in auto)
  with j' show ?thesis by (intro same) simp
next
  case True
  then obtain a b exs j where x_cases: "x = OpStatus exs a b \<or> x = OpCancel exs a b \<or> x = OpResult exs a b"
    and g: "get_job sv a b = Inr (k, j)" and o: "\<not> terminal (jb_state j)" by blast
  note job = service_job [OF sv g]
  note g' = g [unfolded job(3,4)]
  obtain eid where eid: "jb_execution j = Some eid"
    using job(2) by (auto simp: job_ok_def identity_ok_def)
  let ?c = "append_event PhaseQuiescing CodeCancelRequested (j\<lparr>jb_state := JobCancelRequested\<rparr>)"
  have later: "extends j ?c" by (intro extends_append_event) simp
  have c: "same_identity j ?c" "jb_execution ?c = Some eid" "job_executor exs sv ?c = job_executor exs sv j"
    by (simp_all add: append_event_def same_identity_def eid job_executor_def)
  have rel: "fst (release sha k (apply_observation sha ob j) t) = t" for ob t
    by (rule release_state [OF apply_observation_ok [OF job(2) o]])
  have put: "aget (sv_jobs (put_job k i sv)) k = Some i" for i by (simp add: put_job_def dict_simps)
  from x_cases show ?thesis
  proof (elim disjE)
    assume x: "x = OpStatus exs a b"
    show ?thesis
    proof (cases "bnd (job_executor exs sv j) (\<lambda>ex. ex_status ex eid)")
      case (Inl e)
      then show ?thesis using j' job(1) by (intro same) (simp add: x job_status_def g g' o eid)
    next
      case (Inr ob)
      then show ?thesis using j' job o put
        by (intro answered [of j ob j]) (simp_all add: x job_status_def g g' eid Let_def)
    qed
  next
    assume x: "x = OpCancel exs a b"
    show ?thesis
    proof (cases "bnd (job_executor exs sv j) (\<lambda>ex. ex_cancel ex eid)")
      case (Inl e)
      then show ?thesis using j' job(1) o put
        by (intro failed [of j]) (simp_all add: x cancel_def g g' Let_def c)
    next
      case (Inr ob)
      then show ?thesis using j' job o put c(1) later cancel_requested_open
        by (intro answered [of j ob ?c]) (simp_all add: x cancel_def g g' Let_def c(2,3) eid)
    qed
  next
    assume x: "x = OpResult exs a b"
    show ?thesis
    proof (cases "bnd (job_executor exs sv j) (\<lambda>ex. ex_status ex eid)")
      case (Inl e)
      then show ?thesis using j' job(1) by (intro same) (simp add: x result_def g g' o eid)
    next
      case (Inr ob)
      then show ?thesis using j' job o put rel
        by (intro answered [of j ob j]) (simp_all add: x result_def g g' eid Let_def)
    qed
  qed
qed

lemma submit_other_job:
  assumes sv: "service_ok sha sv" and j': "aget (sv_jobs (fst (submit sha exs sv raw))) k = Some j'"
    and "jb_state j' = JobSucceeded"
  shows "aget (sv_jobs sv) k = Some j'"
  using sv
proof (cases rule: submit_cases [where exs = exs and raw = raw])
  case same
  then show ?thesis using j' by simp
next
  case (new r digest p j i)
  then show ?thesis using j' assms(3) launched_job_state
    by (auto simp: put_job_def dict_simps split: if_splits)
qed

text \<open>
  C12. A job succeeds only on the word of its executor: whenever a call turns a job into a succeeded
  one, that call was a status, cancel or result call naming the job, and the executor's answer named
  the job's execution identifier, said succeeded with clean-up and quiescence both confirmed, and
  carried a success whose receipt is valid for the job.
\<close>

theorem success_needs_clean_answer:
  assumes "service_ok sha sv"
    and "aget (sv_jobs (launch_step sha sv x)) k = Some j'" and "jb_state j' = JobSucceeded"
    and "\<forall>j. aget (sv_jobs sv) k = Some j \<longrightarrow> jb_state j \<noteq> JobSucceeded"
  shows "\<exists>j ob eid s. aget (sv_jobs sv) k = Some j \<and> answer_for sv k j x ob \<and> jb_execution j = Some eid
    \<and> ob_execution ob = PStr eid \<and> ob_state ob = Some BackendSucceeded \<and> ob_cleanup ob = PBool True
    \<and> ob_quiescent ob = PBool True \<and> ob_success ob = Some s \<and> valid_success sha j s"
proof (cases "\<exists>exs raw. x = OpSubmit exs raw")
  case True
  then show ?thesis using submit_other_job [OF assms(1)] assms(2-4) by fastforce
next
  case False
  then have "\<forall>exs raw. x \<noteq> OpSubmit exs raw" by blast
  with assms(1) show ?thesis using assms(2)
  proof (cases rule: job_call_cases)
    case same
    then show ?thesis using assms(3,4) by blast
  next
    case (failed j)
    then show ?thesis using assms(3) by (simp add: append_event_def split: if_splits)
  next
    case (answered j i ob)
    then have "jb_state i \<noteq> JobSucceeded" by (auto simp: terminal_def)
    then obtain eid s where "jb_execution i = Some eid" "ob_execution ob = PStr eid"
      "ob_state ob = Some BackendSucceeded" "ob_cleanup ob = PBool True" "ob_quiescent ob = PBool True"
      "ob_success ob = Some s" "valid_success sha i s"
      using assms(3) unfolding answered(4) by (elim apply_observation_success) auto
    then show ?thesis
      using answered(1,3,6) valid_success_same [OF answered(6)] by (auto simp: same_identity_def)
  qed
qed

definition demo_finish :: launch_op where
  "demo_finish = OpStatus (demo_executor BackendSucceeded True) (PStr ''j'') (PStr ''t'')"

theorem success_needs_clean_answer_witness:
  "\<exists>j ob eid s. aget (sv_jobs demo_running) (''j'', ''t'') = Some j
    \<and> answer_for demo_running (''j'', ''t'') j demo_finish ob \<and> jb_execution j = Some eid
    \<and> ob_execution ob = PStr eid \<and> ob_state ob = Some BackendSucceeded \<and> ob_cleanup ob = PBool True
    \<and> ob_quiescent ob = PBool True \<and> ob_success ob = Some s \<and> valid_success demo_sha j s"
proof -
  have "(case aget (sv_jobs (launch_step demo_sha demo_running demo_finish)) (''j'', ''t'') of
      None \<Rightarrow> False | Some j \<Rightarrow> jb_state j = JobSucceeded)" by code_simp
  then obtain j' where j': "aget (sv_jobs (launch_step demo_sha demo_running demo_finish)) (''j'', ''t'') = Some j'"
    and s: "jb_state j' = JobSucceeded" by (auto split: option.splits)
  have "(case aget (sv_jobs demo_running) (''j'', ''t'') of
      None \<Rightarrow> False | Some j \<Rightarrow> jb_state j = JobRunning)" by code_simp
  then have n: "\<forall>j. aget (sv_jobs demo_running) (''j'', ''t'') = Some j \<longrightarrow> jb_state j \<noteq> JobSucceeded"
    by (auto split: option.splits)
  show ?thesis by (rule success_needs_clean_answer [OF demo_running_ok j' s n])
qed

end
