(* ===== verification/LaunchProtocol.thy ===== *)
theory LaunchProtocol
  imports LaunchTheorems
begin

text \<open>
  The launcher as its clients see it: retries and conflicts of submissions, closing a job, the event
  pages and their budget, and the requests that are admitted at all.
\<close>

section \<open>Retries and conflicts\<close>

lemma submit_new_has:
  "submit_new exs sv r digest = (sv', Inr v) \<Longrightarrow> has (rq_job r, rq_attempt r) (sv_jobs sv')"
  by (auto simp: submit_new_def put_job_def has_def dict_simps Let_def
      split: option.splits sum.splits if_splits)

lemma grows_eqD: "grows (=) d d' \<Longrightarrow> aget d k = Some v \<Longrightarrow> aget d' k = Some v"
  by (auto simp: grows_def)

lemma submit_accepted:
  assumes sv: "service_ok sha sv" and s: "submit sha exs sv (Some raw) = (sv', Inr v)"
  obtains r digest j where "request_of_mapping (PDict (request_dict (\<lambda>v. v) raw)) = Inr r"
    and "request_digest sha r = Inr digest"
    and "aget (sv_keys sv') (rq_key r) = Some (digest, rq_job r, rq_attempt r)"
    and "aget (sv_jobs sv') (rq_job r, rq_attempt r) = Some j" and "v = job_view j"
  using sv
proof (cases rule: submit_cases [where exs = exs and raw = "Some raw"])
  case same
  then have sv': "sv' = sv" using s by simp
  obtain r digest where r: "request_of_mapping (PDict (request_dict (\<lambda>v. v) raw)) = Inr r"
      "request_digest sha r = Inr digest"
    using s by (auto simp: submit_def split: sum.splits)
  show ?thesis
  proof (cases "aget (sv_keys sv) (rq_key r)")
    case None
    then have "submit_new exs sv r digest = (sv, Inr v)" and "\<not> has (rq_job r, rq_attempt r) (sv_jobs sv)"
      using s by (auto simp: submit_def r sv' Let_def split: if_splits)
    then show ?thesis using submit_new_has by blast
  next
    case (Some e)
    obtain d k where e: "e = (d, k)" by (cases e) auto
    have dk: "d = digest" "k = (rq_job r, rq_attempt r)"
      using s Some by (auto simp: submit_def r e Let_def split: if_splits)
    have "key_entry_ok (sv_jobs sv) (rq_key r) e"
      using sv Some by (auto simp: service_ok_def dest: dict_all_aget)
    then obtain j where j: "aget (sv_jobs sv) k = Some j"
      by (auto simp: key_entry_ok_def e split: option.splits)
    have "v = job_view j" using s Some j by (simp add: submit_def r e dk Let_def)
    then show ?thesis using that [OF r] Some e dk j sv' by simp
  qed
next
  case (new r digest p j k)
  then show ?thesis
    using s that [of r digest j] by (auto simp: put_job_def dict_simps)
qed

lemma accepted_later:
  assumes sv: "service_ok sha sv" and "aget (sv_keys sv) key = Some (digest, k)" and "service_grows sv sv'"
    and "service_ok sha sv'"
  obtains j where "aget (sv_keys sv') key = Some (digest, k)" and "aget (sv_jobs sv') k = Some j"
proof -
  have key: "aget (sv_keys sv') key = Some (digest, k)"
    using assms(2,3) by (auto simp: service_grows_def intro: grows_eqD)
  then have "key_entry_ok (sv_jobs sv') key (digest, k)"
    using assms(4) by (auto simp: service_ok_def dest: dict_all_aget)
  then show ?thesis using that key by (auto simp: key_entry_ok_def split: option.splits)
qed

lemma run_service:
  assumes "service_ok sha sv"
  shows "service_ok sha (foldl (launch_step sha) sv ops)" "service_grows sv (foldl (launch_step sha) sv ops)"
  using launcher.run_inv [OF assms, of ops] launcher.run_below [OF assms, of ops]
  by (simp_all add: list_all_iff)



text \<open>
  An idempotency key names one payload for ever: once a request has been accepted under a key, any
  other valid request under that key (one with another digest) is refused with a conflict at every
  later time, and a request for the same job and attempt under another key is refused as well;
  neither changes the service.
\<close>

lemma submissions_conflict:
  assumes "service_ok sha sv" and "submit sha exs sv (Some raw) = (sv', Inr v)"
    and "request_of_mapping (PDict (request_dict (\<lambda>v. v) raw)) = Inr r" and "request_digest sha r = Inr digest"
    and "request_of_mapping (PDict (request_dict (\<lambda>v. v) raw2)) = Inr r2" and "request_digest sha r2 = Inr digest2"
    and "rq_key r2 = rq_key r \<and> digest2 \<noteq> digest
      \<or> aget (sv_keys (foldl (launch_step sha) sv' ops)) (rq_key r2) = None
        \<and> rq_job r2 = rq_job r \<and> rq_attempt r2 = rq_attempt r"
  shows "submit sha exs' (foldl (launch_step sha) sv' ops) (Some raw2)
    = (foldl (launch_step sha) sv' ops, fail ''conflict''
        (if rq_key r2 = rq_key r then ''idempotency-key:payload-conflict'' else ''job-attempt:already-exists''))"
  using assms(1,2)
proof (rule submit_accepted)
  fix r' digest' j
  assume "request_of_mapping (PDict (request_dict (\<lambda>v. v) raw)) = Inr r'" "request_digest sha r' = Inr digest'"
    and key: "aget (sv_keys sv') (rq_key r') = Some (digest', rq_job r', rq_attempt r')"
  then have r': "r' = r" "digest' = digest" using assms(3,4) by auto
  have sv': "service_ok sha sv'" using submit_step [OF assms(1), of exs "Some raw"] assms(2) by simp
  let ?t = "foldl (launch_step sha) sv' ops"
  obtain j where k: "aget (sv_keys ?t) (rq_key r) = Some (digest, rq_job r, rq_attempt r)"
      and j: "aget (sv_jobs ?t) (rq_job r, rq_attempt r) = Some j"
    by (rule accepted_later [OF sv' key [unfolded r'] run_service(2,1) [OF sv']])
  from assms(7) show ?thesis
  proof (elim disjE conjE)
    assume "rq_key r2 = rq_key r" and "digest2 \<noteq> digest"
    then show ?thesis by (simp add: submit_def assms(5,6) k Let_def)
  next
    assume n: "aget (sv_keys ?t) (rq_key r2) = None" and "rq_job r2 = rq_job r" "rq_attempt r2 = rq_attempt r"
    moreover have "rq_key r2 \<noteq> rq_key r" using n k by auto
    ultimately show ?thesis by (simp add: submit_def assms(5,6) j has_def Let_def)
  qed
qed

end
