(* ===== verification/LaunchEvents.thy ===== *)
theory LaunchEvents
  imports LaunchTheorems
begin

text \<open>
  The event log of a job: pages and cursors, how an answer of the executor closes a job, and what
  happens when the budget of 32 events is used up.
\<close>

section \<open>Pages\<close>

lemma numbered_filter:
  assumes "map fst es = map int [m..<m + length es]"
  shows "filter (\<lambda>e. int a < fst e) es = drop (Suc a - m) es"
  using assms
proof (induction es arbitrary: m)
  case (Cons e es)
  have up: "[m..<m + length (e # es)] = m # [Suc m..<Suc m + length es]"
    by (simp add: upt_conv_Cons del: upt_Suc)
  have e: "fst e = int m" and es: "map fst es = map int [Suc m..<Suc m + length es]"
    using Cons.prems unfolding up by simp_all
  note IH = Cons.IH [OF es]
  show ?case
  proof (cases "a < m")
    case True
    then show ?thesis using IH e by simp
  next
    case False
    then have "Suc a - m = Suc (Suc a - Suc m)" by simp
    then show ?thesis using IH e False by simp
  qed
qed simp

lemma numbered_nth:
  assumes "map fst es = map int [1..<Suc (length es)]" and "i < length es"
  shows "fst (es ! i) = int (Suc i)"
proof -
  have "fst (es ! i) = map fst es ! i" using assms(2) by simp
  also have "\<dots> = int (Suc i)" unfolding assms(1) using assms(2) by (simp add: nth_map nth_upt del: upt_Suc)
  finally show ?thesis .
qed

lemma numbered_latest:
  assumes "map fst es = map int [1..<Suc (length es)]"
  shows "latest_sequence es = len es"
  using numbered_nth [OF assms, of "length es - 1"] by (auto simp: latest_sequence_def last_conv_nth)

lemma event_page_slice:
  assumes n: "map fst es = map int [1..<Suc (length es)]" and a: "a \<le> length es" and "1 \<le> k"
  shows "event_page es (int a) (int k) = (take k (drop a es), int (min (a + k) (length es)), a + k < length es)"
proof -
  have f: "filter (\<lambda>e. int a < fst e) es = drop a es"
    using numbered_filter [of es 1 a] n by simp
  show ?thesis
  proof (cases "a = length es")
    case True
    then show ?thesis using f by (simp add: event_page_def)
  next
    case False
    let ?p = "take k (drop a es)"
    have ne: "?p \<noteq> []" using False a \<open>1 \<le> k\<close> by simp
    have "last ?p = es ! (min (a + k) (length es) - 1)"
    proof (cases "a + k \<le> length es")
      case True
      then have "k - 1 < length ?p" and "length ?p = k" using \<open>1 \<le> k\<close> by auto
      then show ?thesis using True a \<open>1 \<le> k\<close> ne by (simp add: last_conv_nth)
    next
      case False
      then have "?p = drop a es" by simp
      then show ?thesis using False a \<open>a \<noteq> length es\<close> by (simp add: last_drop last_conv_nth)
    qed
    then have "fst (last ?p) = int (min (a + k) (length es))"
      using numbered_nth [OF n, of "min (a + k) (length es) - 1"] False a \<open>1 \<le> k\<close> by simp
    then show ?thesis using f ne a by (simp add: event_page_def Let_def) linarith
  qed
qed

text \<open>
  C17. Following the cursor reads the log exactly once: for a job of the service, a call with cursor
  \<open>a\<close> and limit \<open>k\<close> returns the events \<open>a + 1\<close> to \<open>a + k\<close> (as far as there are any) in order, the
  cursor of the last one returned, and whether more follow; a cursor beyond the log is refused.
\<close>

theorem event_pages_partition_the_log:
  assumes "service_ok sha sv" and "get_job sv job attempt = Inr (key, j)"
    and "int a < 2 ^ 63" and "1 \<le> k" and "int k \<le> 100"
  shows "list_events sv job attempt (PInt (int a)) (PInt (int k)) =
    (if length (jb_events j) < a then contract_error ''after_sequence:unknown-cursor''
     else Inr [(''schema_version'', PStr launcher_schema), (''job_id'', PStr (fst key)),
       (''attempt_id'', PStr (snd key)), (''after_sequence'', PInt (int a)),
       (''events'', PList (map event_json (take k (drop a (jb_events j))))),
       (''cursor'', PInt (int (min (a + k) (length (jb_events j))))),
       (''has_more'', PBool (a + k < length (jb_events j)))])"
proof -
  note job = service_job [OF assms(1,2)]
  have n: "map fst (jb_events j) = map int [1..<Suc (length (jb_events j))]"
    using job(2) by (simp add: job_ok_def log_ok_def del: upt_Suc)
  have "job_entry_ok sha (sv_keys sv) key j"
    using assms(1) job(1) by (auto simp: service_ok_def dest: dict_all_aget)
  then have key: "key = (rq_job (jb_request j), rq_attempt (jb_request j))" by (simp add: job_entry_ok_def)
  show ?thesis
  proof (cases "length (jb_events j) < a")
    case True
    then show ?thesis using assms numbered_latest [OF n]
      by (simp add: list_events_def max_event_page_def)
  next
    case False
    then have p: "event_page (jb_events j) (int a) (int k)
        = (take k (drop a (jb_events j)), int (min (a + k) (length (jb_events j))), a + k < length (jb_events j))"
      by (intro event_page_slice [OF n _ assms(4)]) simp
    show ?thesis using assms False numbered_latest [OF n] p
      by (simp add: list_events_def max_event_page_def key)
  qed
qed

theorem event_pages_partition_the_log_witness:
  "\<exists>j :: job. list_events demo_running (PStr ''j'') (PStr ''t'') (PInt (int 1)) (PInt (int 50)) =
    (if length (jb_events j) < 1 then contract_error ''after_sequence:unknown-cursor''
     else Inr [(''schema_version'', PStr launcher_schema), (''job_id'', PStr (fst (''j'', ''t''))),
       (''attempt_id'', PStr (snd (''j'', ''t''))), (''after_sequence'', PInt (int 1)),
       (''events'', PList (map event_json (take 50 (drop 1 (jb_events j))))),
       (''cursor'', PInt (int (min (1 + 50) (length (jb_events j))))),
       (''has_more'', PBool (1 + 50 < length (jb_events j)))])"
proof -
  have "case get_job demo_running (PStr ''j'') (PStr ''t'') of Inl _ \<Rightarrow> False | Inr (k, j) \<Rightarrow> k = (''j'', ''t'')"
    by code_simp
  then obtain j where g: "get_job demo_running (PStr ''j'') (PStr ''t'') = Inr ((''j'', ''t''), j)"
    by (auto split: sum.splits)
  show ?thesis
    using event_pages_partition_the_log [OF demo_running_ok g, of 1 50] by (intro exI [of _ j]) simp
qed

section \<open>Closing a job\<close>

text \<open>What an answer naming the job, terminal and clean makes of a job.\<close>

definition closed_state :: "(string \<Rightarrow> string) \<Rightarrow> job \<Rightarrow> backend_state \<Rightarrow> backend_success option \<Rightarrow> launcher_state" where
  "closed_state sha j state success =
    (case (state, success) of
       (BackendSucceeded, Some s) \<Rightarrow> if valid_success sha j s then JobSucceeded else JobHeld
     | (BackendFailed, None) \<Rightarrow> JobFailed
     | (BackendCancelled, None) \<Rightarrow> JobCancelled
     | _ \<Rightarrow> JobHeld)"

lemma append_event_room:
  assumes "len (jb_events j) < max_events_per_job"
  shows "jb_state (append_event phase code j) = jb_state j"
    and "len (jb_events (append_event phase code j)) \<le> len (jb_events j) + 1"
  using assms by (simp_all add: append_event_def)

lemma hold_room: "len (jb_events j) < max_events_per_job \<Longrightarrow> jb_state (hold failure j) = JobHeld"
  by (simp add: hold_def append_event_room)

lemma close_room:
  assumes "len (jb_events j) + 1 < max_events_per_job" and "state \<noteq> BackendRunning"
  defines "q \<equiv> append_event PhaseQuiescing CodeCleanupPending j"
  shows "jb_state (if state = BackendSucceeded then apply_success sha success q
    else apply_failure state success q) = closed_state sha j state success"
proof -
  have room: "len (jb_events q) < max_events_per_job"
    using assms(1) append_event_room(2) [of j PhaseQuiescing CodeCleanupPending] unfolding q_def by simp
  have v: "valid_success sha q = valid_success sha j"
    unfolding q_def using valid_success_same [OF append_event_identity] by (intro ext)
  note held = hold_room [OF room]
  show ?thesis
  proof (cases state)
    case BackendSucceeded
    then show ?thesis using room held v
      by (cases success) (auto simp: apply_success_def closed_state_def append_event_room)
  next
    case BackendFailed
    then show ?thesis using room held
      by (cases success) (auto simp: apply_failure_def closed_state_def Let_def append_event_room)
  next
    case BackendCancelled
    then show ?thesis using room held
      by (cases success) (auto simp: apply_failure_def closed_state_def Let_def append_event_room)
  qed (use assms(2) in simp)
qed

text \<open>
  C16. One status call closes a finished job: if an open job has room for two more events and its
  executor answers that the execution with the job's identifier has ended, clean and quiescent, the
  job is terminal afterwards: succeeded with a valid receipt, failed or cancelled as reported, and
  held when the success is missing, invalid or out of place.
\<close>

theorem clean_answer_closes_the_job:
  assumes "service_ok sha sv" and "get_job sv job attempt = Inr (k, j)" and "\<not> terminal (jb_state j)"
    and "len (jb_events j) \<le> 30" and "job_executor exs sv j = Inr ex"
    and "ex_status ex (execution_id (jb_digest j)) = Inr ob"
    and "ob_execution ob = PStr (execution_id (jb_digest j))" and "execution_id_shape (execution_id (jb_digest j))"
    and "ob_state ob = Some state" and "state \<noteq> BackendRunning"
    and "ob_cleanup ob = PBool True" and "ob_quiescent ob = PBool True"
  shows "\<exists>j'. aget (sv_jobs (fst (job_status sha exs sv job attempt))) k = Some j'
    \<and> jb_state j' = closed_state sha j state (ob_success ob) \<and> terminal (jb_state j')"
proof -
  note job = service_job [OF assms(1,2)]
  have eid: "jb_execution j = Some (execution_id (jb_digest j))"
    using job(2) by (simp add: job_ok_def identity_ok_def)
  have room: "len (jb_events j) + 1 < max_events_per_job" using assms(4) by (simp add: max_events_per_job_def)
  have "jb_state (apply_observation sha ob j) = closed_state sha j state (ob_success ob)"
    using close_room [OF room assms(10), of sha "ob_success ob"] assms(7-12) eid
    by (simp add: apply_observation_def require_execution_id_def require_string_def Let_def)
  moreover have "terminal (closed_state sha j state (ob_success ob))"
    using assms(10) by (cases state; cases "ob_success ob") (auto simp: closed_state_def)
  ultimately show ?thesis
    using assms(2,3,5,6) eid by (simp add: job_status_def Let_def put_job_def dict_simps)
qed

theorem clean_answer_closes_the_job_witness:
  "\<exists>k j j'. aget (sv_jobs (fst (job_status demo_sha (demo_executor BackendFailed True) demo_running
      (PStr ''j'') (PStr ''t'')))) k = Some j'
    \<and> jb_state j' = closed_state demo_sha j BackendFailed
        (ob_success (demo_answer BackendFailed True (execution_id ''h''))) \<and> terminal (jb_state j')"
proof -
  have "case get_job demo_running (PStr ''j'') (PStr ''t'') of Inl _ \<Rightarrow> False | Inr (k, j) \<Rightarrow>
      jb_state j = JobRunning \<and> length (jb_events j) = 3 \<and> jb_digest j = ''h''
      \<and> pf_kind (jb_profile j) = Some Docker"
    by code_simp
  then obtain k j where g: "get_job demo_running (PStr ''j'') (PStr ''t'') = Inr (k, j)"
    and s: "jb_state j = JobRunning" and l: "length (jb_events j) = 3" and d: "jb_digest j = ''h''"
    and kind: "pf_kind (jb_profile j) = Some Docker" by (auto split: sum.splits)
  have shape: "execution_id_shape (execution_id ''h'')" by code_simp
  have "sv_executors demo_running = [Docker]" by code_simp
  then have ex: "job_executor (demo_executor BackendFailed True) demo_running j
      = Inr (demo_executor BackendFailed True Docker)"
    by (simp add: job_executor_def kind)
  have ob: "ex_status (demo_executor BackendFailed True Docker) (execution_id (jb_digest j))
      = Inr (demo_answer BackendFailed True (execution_id ''h''))"
    by (simp add: demo_executor_def d)
  show ?thesis
    by (rule exI, rule exI, rule clean_answer_closes_the_job [OF demo_running_ok g _ _ ex ob])
      (simp_all add: s l d shape demo_answer_def)
qed

section \<open>The event budget\<close>

text \<open>A job whose budget is used up while it is open: no transition can close it any more.\<close>

definition exhausted :: "job \<Rightarrow> bool" where
  "exhausted j \<longleftrightarrow> max_events_per_job \<le> len (jb_events j) \<and> \<not> terminal (jb_state j)"

lemma exhausted_append [simp]:
  "max_events_per_job \<le> len (jb_events j) \<Longrightarrow> exhausted (append_event phase code j)"
  by (simp add: append_event_def exhausted_def)

lemma exhausted_hold: "max_events_per_job \<le> len (jb_events j) \<Longrightarrow> exhausted (hold failure j)"
  by (simp add: hold_def)

lemma exhausted_quiescence:
  "max_events_per_job \<le> len (jb_events j) \<Longrightarrow> exhausted (quiescence_pending failure pending j)"
  by (simp add: quiescence_pending_def)

lemma full_append: "max_events_per_job \<le> len (jb_events j) \<Longrightarrow> max_events_per_job \<le> len (jb_events (append_event phase code j))"
  by (simp add: append_event_def)

lemma exhausted_success: "max_events_per_job \<le> len (jb_events j) \<Longrightarrow> exhausted (apply_success sha success j)"
  by (auto simp: apply_success_def exhausted_hold split: option.split)

lemma exhausted_failure: "max_events_per_job \<le> len (jb_events j) \<Longrightarrow> exhausted (apply_failure state success j)"
  by (cases state) (auto simp: apply_failure_def Let_def exhausted_hold)

lemma exhausted_running:
  "exhausted j \<Longrightarrow> exhausted (apply_running success j)"
  by (auto simp: apply_running_def exhausted_def exhausted_quiescence [unfolded exhausted_def]
      exhausted_append [unfolded exhausted_def])

lemma exhausted_observation:
  assumes "exhausted j"
  shows "exhausted (apply_observation sha ob j)"
proof -
  have f: "max_events_per_job \<le> len (jb_events j)" using assms by (simp add: exhausted_def)
  show ?thesis
    unfolding apply_observation_def Let_def
    by (auto split: sum.split option.split
      intro!: exhausted_quiescence [OF f] exhausted_running [OF assms] exhausted_success [OF full_append [OF f]]
        exhausted_failure [OF full_append [OF f]])
qed

definition job_exhausted :: "service \<Rightarrow> job_key \<Rightarrow> bool" where
  "job_exhausted sv k \<longleftrightarrow> (case aget (sv_jobs sv) k of None \<Rightarrow> False | Some j \<Rightarrow> exhausted j)"

lemma job_exhaustedE:
  assumes "job_exhausted sv k"
  obtains j where "aget (sv_jobs sv) k = Some j" and "exhausted j"
  using assms by (auto simp: job_exhausted_def split: option.splits)

lemma exhausted_step:
  assumes sv: "service_ok sha sv" and "job_exhausted sv k"
  shows "job_exhausted (launch_step sha sv x) k"
proof -
  obtain j where j: "aget (sv_jobs sv) k = Some j" and e: "exhausted j"
    using assms(2) by (rule job_exhaustedE)
  have full: "max_events_per_job \<le> len (jb_events j)" using e by (simp add: exhausted_def)
  have "service_grows sv (launch_step sha sv x)" using launch_step_ok [OF sv] by blast
  then obtain j' where j': "aget (sv_jobs (launch_step sha sv x)) k = Some j'" and g: "job_grows j j'"
    using j unfolding service_grows_def grows_def by blast
  have "exhausted j'"
  proof (cases "\<exists>exs raw. x = OpSubmit exs raw")
    case True
    then obtain exs raw where x: "x = OpSubmit exs raw" by blast
    from sv have "j' = j"
    proof (cases rule: submit_cases [where exs = exs and raw = raw])
      case same
      then show ?thesis using j j' by (simp add: x)
    next
      case (new r digest p i n)
      then show ?thesis using j j' by (auto simp: x put_job_def dict_simps split: if_splits)
    qed
    then show ?thesis using e by simp
  next
    case False
    then have "\<forall>exs raw. x \<noteq> OpSubmit exs raw" by blast
    with sv show ?thesis using j'
    proof (cases rule: job_call_cases)
      case same
      then show ?thesis using j e by simp
    next
      case (failed i)
      then show ?thesis using j full by simp
    next
      case (answered i c ob)
      have "max_events_per_job \<le> len (jb_events c)"
        using answered(7) j answered(1) full by (auto simp: extends_def)
      then show ?thesis
        using answered(4,5) by (simp add: exhausted_observation exhausted_def [of c])
    qed
  qed
  then show ?thesis by (simp add: job_exhausted_def j')
qed

interpretation budget: machine "launch_step sha" "\<lambda>_. True" "\<lambda>sv. service_ok sha sv \<and> job_exhausted sv k"
  for sha k
  by unfold_locales (simp add: launch_step_ok exhausted_step)

lemma exhausted_no_result:
  assumes "service_ok sha sv" and "job_exhausted sv k"
  shows "\<exists>e. snd (result sha exs sv (PStr (fst k)) (PStr (snd k))) = Inl e"
proof (cases "result sha exs sv (PStr (fst k)) (PStr (snd k))")
  case (Pair sv' r)
  show ?thesis
  proof (cases r)
    case (Inr view)
    with Pair have r: "result sha exs sv (PStr (fst k)) (PStr (snd k)) = (sv', Inr view)" by simp
    from assms(1) r show ?thesis
    proof (rule result_released)
      fix i j
      assume "PStr (fst k) = PStr (fst i)" "PStr (snd k) = PStr (snd i)"
        and j: "aget (sv_jobs sv') i = Some j" and rel: "release sha i j sv' = (sv', Inr view)"
      then have "i = k" by (simp add: prod_eq_iff)
      moreover have "job_exhausted sv' k"
        using exhausted_step [OF assms, of "OpResult exs (PStr (fst k)) (PStr (snd k))"] r by simp
      ultimately have "exhausted j" using j by (auto elim: job_exhaustedE)
      moreover have "jb_state j = JobSucceeded" using rel by (rule release_Inr)
      ultimately show ?thesis by (simp add: exhausted_def)
    qed
  qed (simp add: Pair)
qed

text \<open>
  C20. The event budget is final: once 32 events are recorded for a job that is not terminal, the job
  never becomes terminal and no result of it is ever released, whatever is called and whatever its
  executor answers, a clean success included. (Every retried cancel whose clean-up is not yet
  confirmed uses two events, so fifteen such calls suffice; see the witness.)
\<close>

theorem exhausted_job_never_ends:
  assumes "service_ok sha sv" and "job_exhausted sv k"
  shows "job_exhausted (foldl (launch_step sha) sv ops) k
    \<and> (\<exists>e. snd (result sha exs (foldl (launch_step sha) sv ops) (PStr (fst k)) (PStr (snd k))) = Inl e)"
proof -
  have "service_ok sha (foldl (launch_step sha) sv ops) \<and> job_exhausted (foldl (launch_step sha) sv ops) k"
    by (rule budget.run_inv) (use assms in \<open>simp_all add: list_all_iff\<close>)
  then show ?thesis using exhausted_no_result by blast
qed

definition demo_cancel :: launch_op where
  "demo_cancel = OpCancel (demo_executor BackendCancelled False) (PStr ''j'') (PStr ''t'')"

theorem exhausted_job_never_ends_witness:
  "job_exhausted (foldl (launch_step demo_sha) (foldl (launch_step demo_sha) demo_running
      (replicate 15 demo_cancel)) [demo_finish]) (''j'', ''t'')
    \<and> (\<exists>e. snd (result demo_sha (demo_executor BackendSucceeded True)
        (foldl (launch_step demo_sha) (foldl (launch_step demo_sha) demo_running
          (replicate 15 demo_cancel)) [demo_finish]) (PStr (fst (''j'', ''t''))) (PStr (snd (''j'', ''t'')))) = Inl e)"
proof -
  have "job_exhausted (foldl (launch_step demo_sha) demo_running (replicate 15 demo_cancel)) (''j'', ''t'')"
    by code_simp
  then show ?thesis
    by (rule exhausted_job_never_ends [OF run_service_ok [OF demo_running_ok]])
qed

end
