(* ===== verification/LaunchRequests.thy ===== *)
theory LaunchRequests
  imports LaunchTheorems
begin

text \<open>
  What goes in and out of the launcher as JSON: which mappings are requests, the canonical bytes of
  a request read back, and the base64 text of a released output.
\<close>

section \<open>Admitted requests\<close>

definition request_ids :: "string launch_request \<Rightarrow> string dict" where
  "request_ids r =
    [(''job_id'', rq_job r), (''attempt_id'', rq_attempt r), (''idempotency_key'', rq_key r),
     (''provider_profile_id'', rq_profile r), (''provider_id'', rq_provider r),
     (''resource_policy_id'', rq_resource r), (''network_policy_id'', rq_network r)]"

definition request_digests :: "string launch_request \<Rightarrow> string dict" where
  "request_digests r =
    [(''task_digest_sha256'', rq_task r), (''input_digest_sha256'', rq_input r),
     (''prompt_digest_sha256'', rq_prompt r)]"

text \<open>
  C18. A mapping is accepted as a launch request exactly when it has the twelve fields and no other,
  the supported schema version, seven identifiers and three digests of the right shape and a model
  name of 1 to 256 characters without control characters, outer white space or a leading dash; the
  request is made of these values, unchanged.
\<close>

theorem request_accepted_iff:
  "request_of_mapping (PDict d) = Inr r \<longleftrightarrow>
    set (keys d) = set submit_fields
    \<and> dget d ''schema_version'' = PStr launcher_schema \<and> rq_schema r = launcher_schema
    \<and> list_all (\<lambda>(f, x). dget d f = PStr x \<and> id_shape x) (request_ids r)
    \<and> list_all (\<lambda>(f, x). dget d f = PStr x \<and> hex64 x) (request_digests r)
    \<and> dget d ''model'' = PStr (rq_model r) \<and> model_shape (rq_model r)"
proof (cases "set (keys d) = set submit_fields")
  case False
  have "sort (filter (\<lambda>k. k \<notin> set submit_fields) (keys d)) \<noteq> []
      \<or> sort (filter (\<lambda>k. k \<notin> set (keys d)) submit_fields) \<noteq> []"
  proof -
    have "\<exists>k. k \<in> set (keys d) \<and> k \<notin> set submit_fields \<or> k \<in> set submit_fields \<and> k \<notin> set (keys d)"
      using False by blast
    then have "set (sort (filter (\<lambda>k. k \<notin> set submit_fields) (keys d))) \<noteq> {}
        \<or> set (sort (filter (\<lambda>k. k \<notin> set (keys d)) submit_fields)) \<noteq> {}"
      by (auto simp del: set_map)
    then show ?thesis by (metis list.set(1))
  qed
  then have "request_of_mapping (PDict d) \<noteq> Inr r"
    unfolding request_of_mapping_def pyval.case Let_def by (auto simp del: set_map)
  with False show ?thesis by simp
next
  case True
  then have none: "sort (filter (\<lambda>k. k \<notin> set submit_fields) (keys d)) = []"
      "sort (filter (\<lambda>k. k \<notin> set (keys d)) submit_fields) = []"
    by (simp_all add: filter_empty_conv del: set_map)
  show ?thesis (is "?l \<longleftrightarrow> ?r")
  proof
    assume ?l
    then show ?r
      unfolding request_of_mapping_def pyval.case Let_def none request_ids_def request_digests_def
      by (elim res_elims) (auto simp: require_Inr True simp del: set_map)
  next
    assume ?r
    then have "require_string (dget d ''schema_version'') ''schema_version'' = Inr launcher_schema"
      and "rq_schema r = launcher_schema"
      and "list_all (\<lambda>(f, x). require_id (dget d f) f = Inr x) (request_ids r)"
      and "list_all (\<lambda>(f, x). require_digest (dget d f) f = Inr x) (request_digests r)"
      and "require_model (dget d ''model'') = Inr (rq_model r)"
      by (simp_all add: require_Inr case_prod_beta)
    then show ?l
      unfolding request_of_mapping_def pyval.case Let_def none request_ids_def request_digests_def
      by simp
  qed
qed

section \<open>Reading a request back\<close>

text \<open>
  C19. The canonical bytes of an admissible request, sent as JSON text, are the request: when they fit
  the limit of 8192 bytes, \<open>submit_json\<close> on them does exactly what \<open>submit\<close> does on the request itself
  (so the digest the launcher computes is that of the bytes sent).
\<close>

theorem submit_json_reads_canonical_bytes:
  assumes "request_of_mapping (PDict (request_dict PStr r)) = Inr r"
    and "canonical_bytes (PDict (request_dict PStr r)) = Inr b"
    and "len b \<le> max_request_bytes" and "1 \<le> py_depth ip"
  shows "submit_json ip sha exs sv (RawStr b) = submit sha exs sv (Some (raw_request r))
    \<and> request_digest sha r = Inr (sha b)"
  using request_roundtrip [OF assms] assms(2) by (simp_all add: submit_json_def request_digest_def)

theorem submit_json_reads_canonical_bytes_witness:
  "\<exists>b. submit_json \<lparr>py_depth = 1, py_float = id, py_constant = std_constant\<rparr> demo_sha (demo_executor BackendRunning False) demo_service (RawStr b)
      = submit demo_sha (demo_executor BackendRunning False) demo_service (Some (raw_request demo_launch))
    \<and> request_digest demo_sha demo_launch = Inr (demo_sha b)"
proof -
  have "case canonical_bytes (PDict (request_dict PStr demo_launch)) of Inl _ \<Rightarrow> False
      | Inr b \<Rightarrow> len b \<le> max_request_bytes" by code_simp
  then obtain b where b: "canonical_bytes (PDict (request_dict PStr demo_launch)) = Inr b"
    and l: "len b \<le> max_request_bytes" by (auto split: sum.splits)
  have r: "request_of_mapping (PDict (request_dict PStr demo_launch)) = Inr demo_launch" by code_simp
  show ?thesis
    by (rule exI, rule submit_json_reads_canonical_bytes [OF r b l]) simp
qed

section \<open>Released output\<close>

text \<open>The decoder of base64 text, as the specification of what a client reads.\<close>

definition b64_index :: "char \<Rightarrow> nat" where
  "b64_index c = length (takeWhile (\<lambda>x. x \<noteq> c)
    ''ABCDEFGHIJKLMNOPQRSTUVWXYZabcdefghijklmnopqrstuvwxyz0123456789+/'')"

fun b64decode :: "string \<Rightarrow> string" where
  "b64decode (a # b # c # d # s) =
    (let w = b64_index a; x = b64_index b; y = b64_index c; z = b64_index d in
     if c = CHR ''='' then [char_of (w * 4 + x div 16)]
     else if d = CHR ''='' then [char_of (w * 4 + x div 16), char_of (x mod 16 * 16 + y div 4)]
     else [char_of (w * 4 + x div 16), char_of (x mod 16 * 16 + y div 4), char_of (y mod 4 * 64 + z)]
       @ b64decode s)"
| "b64decode _ = []"

lemma b64_table: "list_all (\<lambda>n. b64_index (b64_char n) = n \<and> b64_char n \<noteq> CHR ''='') [0..<64]"
  by code_simp

lemma b64_char_index: "n < 64 \<Longrightarrow> b64_index (b64_char n) = n"
  and b64_char_pad: "n < 64 \<Longrightarrow> b64_char n \<noteq> CHR ''=''"
  using b64_table by (auto simp: list_all_iff)

lemma byte_bound: "byte_of c < 256"
  by (simp add: byte_of_def)

lemma byte_char [simp]: "char_of (byte_of c) = c"
  by (simp add: byte_of_def)

text \<open>The arithmetic of splitting three bytes into four sextets and back.\<close>

lemma join_split:
  fixes y z n :: nat
  assumes "z < n"
  shows "(y * n + z) div n = y" and "(y * n + z) mod n = z"
  using assms by simp_all

lemma sextets:
  fixes a b c :: nat
  assumes "a < 256" "b < 256" "c < 256"
  shows "a div 4 < 64" "a mod 4 * 16 + b div 16 < 64" "b mod 16 * 4 + c div 64 < 64" "c mod 64 < 64"
    "a mod 4 * 16 < 64" "b mod 16 * 4 < 64"
    "a div 4 * 4 + (a mod 4 * 16 + b div 16) div 16 = a"
    "(a mod 4 * 16 + b div 16) mod 16 * 16 + (b mod 16 * 4 + c div 64) div 4 = b"
    "(b mod 16 * 4 + c div 64) mod 4 * 64 + c mod 64 = c"
    "a div 4 * 4 + a mod 4 * 16 div 16 = a"
    "(a mod 4 * 16 + b div 16) mod 16 * 16 + b mod 16 * 4 div 4 = b"
proof -
  have d: "b div 16 < 16" "c div 64 < 4" using assms by linarith+
  show "a div 4 < 64" "a mod 4 * 16 + b div 16 < 64" "b mod 16 * 4 + c div 64 < 64" "c mod 64 < 64"
    "a mod 4 * 16 < 64" "b mod 16 * 4 < 64"
    using assms by linarith+
  show "a div 4 * 4 + (a mod 4 * 16 + b div 16) div 16 = a"
    "(a mod 4 * 16 + b div 16) mod 16 * 16 + (b mod 16 * 4 + c div 64) div 4 = b"
    "(b mod 16 * 4 + c div 64) mod 4 * 64 + c mod 64 = c"
    "a div 4 * 4 + a mod 4 * 16 div 16 = a"
    "(a mod 4 * 16 + b div 16) mod 16 * 16 + b mod 16 * 4 div 4 = b"
    unfolding join_split(1) [OF d(1)] join_split(2) [OF d(1)] join_split(1) [OF d(2)] join_split(2) [OF d(2)]
    by simp_all
qed

text \<open>
  The text in which a result carries its output decodes to that output, whatever its bytes.
\<close>

lemma released_text_decodes:
  "b64decode (b64encode s) = s"
proof (induction s rule: b64encode.induct)
  case (2 a)
  note x = sextets [OF byte_bound [of a] byte_bound [of a] byte_bound [of a]]
  show ?case using x by (simp add: b64_char_index)
next
  case (3 a b)
  note x = sextets [OF byte_bound [of a] byte_bound [of b] byte_bound [of b]]
  show ?case using x by (simp add: b64_char_index b64_char_pad)
next
  case (4 a b c s)
  note x = sextets [OF byte_bound [of a] byte_bound [of b] byte_bound [of c]]
  show ?case using x 4 by (simp add: b64_char_index b64_char_pad)
qed simp

end
