(* ===== verification/RegNeed.thy ===== *)
theory RegNeed
  imports PyJson Timestamps
begin

text \<open>
  The Registry's input documents (\<open>registry/registry_service.py\<close>): the strict JSON reader, the
  checks of the need specification and of the search constraints.

  The code returns the checked dictionary itself. Here the validators return its typed content, a
  record per object; \<open>need_json\<close> is the dictionary again (theory RegTheorems shows that
  nothing is lost). A membership test of a list or a dictionary in a set of strings raises
  \<open>TypeError\<close> in Python (the value is unhashable), which the validators do not catch.
\<close>

abbreviation reg_error :: "string \<Rightarrow> 'a res" where
  "reg_error m \<equiv> fail ''invalid-argument'' m"

section \<open>Readers\<close>

fun reg_no_duplicates :: "pyval dict \<Rightarrow> (string \<times> pyval) list \<Rightarrow> pyval res" where
  "reg_no_duplicates d [] = Inr (PDict d)"
| "reg_no_duplicates d ((k, v) # kvs) =
    (if has k d then reg_error (''duplicate JSON key: '' @ k)
     else reg_no_duplicates (aput k v d) kvs)"

text \<open>
  \<open>decode_json\<close>: the constants \<open>NaN\<close>, \<open>Infinity\<close> and \<open>-Infinity\<close> are refused where the scanner meets
  one; \<open>explain\<close> is the text of the exception that is wrapped.
\<close>

definition reject_constant :: "string \<Rightarrow> pyval res" where
  "reject_constant s = reg_error (''non-standard JSON constant is forbidden: '' @ s)"

definition decode_json :: "interp \<Rightarrow> (string \<Rightarrow> string) \<Rightarrow> string \<Rightarrow> int \<Rightarrow> pyval res" where
  "decode_json ip explain payload limit =
    (if limit < len payload then reg_error (''input exceeds '' @ dec limit @ '' bytes'')
     else if \<not> utf8_ok payload then reg_error (''invalid JSON: '' @ explain ''UnicodeDecodeError'')
     else (case json_loads (ip\<lparr>py_constant := reject_constant\<rparr>) (reg_no_duplicates []) payload of
         Inl (Crash k) \<Rightarrow>
           if k = ''JSONDecodeError'' \<or> k = ''RecursionError'' then reg_error (''invalid JSON: '' @ explain k)
           else Inl (Crash k)
       | r \<Rightarrow> r))"

fun comma_join :: "string list \<Rightarrow> string" where
  "comma_join [] = []"
| "comma_join [x] = x"
| "comma_join (x # y # xs) = x @ '', '' @ comma_join (y # xs)"

definition exact_keys :: "pyval \<Rightarrow> string list \<Rightarrow> string \<Rightarrow> pyval dict res" where
  "exact_keys v required label =
    (case v of
       PDict d \<Rightarrow>
         (let missing = sort (filter (\<lambda>k. k \<notin> set (keys d)) required);
              extra = sort (filter (\<lambda>k. k \<notin> set required) (keys d))
          in if missing \<noteq> [] then reg_error (label @ '' missing fields: '' @ comma_join missing)
             else if extra \<noteq> [] then reg_error (label @ '' has unknown fields: '' @ comma_join extra)
             else Inr d)
     | _ \<Rightarrow> reg_error (label @ '' must be an object''))"

definition bounded_text :: "pyval \<Rightarrow> string \<Rightarrow> int \<Rightarrow> string res" where
  "bounded_text v label limit =
    (case v of
       PStr s \<Rightarrow>
         if s = [] \<or> limit < int (py_len s)
         then reg_error (label @ '' length is outside 1..'' @ dec limit)
         else if list_ex (\<lambda>c. ctrl_char c \<or> c = CHR 0x7F) s
         then reg_error (label @ '' contains a control character'')
         else Inr s
     | _ \<Rightarrow> reg_error (label @ '' must be a string''))"

definition identifier_shape :: "string \<Rightarrow> bool" where
  "identifier_shape s \<longleftrightarrow>
    (case s of [] \<Rightarrow> False | c # cs \<Rightarrow> alnum_c c \<and> list_all id_rest_c cs \<and> len cs \<le> 127)"

definition reg_identifier :: "pyval \<Rightarrow> string \<Rightarrow> string res" where
  "reg_identifier v label = bnd (bounded_text v label 128) (\<lambda>s.
    if identifier_shape s then Inr s else reg_error (label @ '' is not a valid identifier''))"

definition unique_strings :: "pyval \<Rightarrow> string \<Rightarrow> int \<Rightarrow> int \<Rightarrow> string list res" where
  "unique_strings v label items length_limit =
    (case v of
       PList xs \<Rightarrow>
         if items < len xs
         then reg_error (label @ '' must be an array of at most '' @ dec items @ '' items'')
         else bnd (rmap (\<lambda>x. bounded_text x (label @ ''[]'') length_limit) xs) (\<lambda>r.
           if \<not> distinct r then reg_error (label @ '' must contain unique values'') else Inr r)
     | _ \<Rightarrow> reg_error (label @ '' must be an array of at most '' @ dec items @ '' items''))"

text \<open>A field that must hold one of a closed set of strings.\<close>

definition enum_field :: "string list \<Rightarrow> pyval \<Rightarrow> string \<Rightarrow> string res" where
  "enum_field ss v message = bnd (member_of ss v) (\<lambda>ok.
    case v of PStr s \<Rightarrow> if ok then Inr s else reg_error message | _ \<Rightarrow> reg_error message)"

text \<open>A loop over \<open>enumerate(xs)\<close> that collects its results.\<close>

fun rmap_from :: "int \<Rightarrow> (int \<Rightarrow> 'a \<Rightarrow> 'b res) \<Rightarrow> 'a list \<Rightarrow> 'b list res" where
  "rmap_from i f [] = Inr []"
| "rmap_from i f (x # xs) = bnd (f i x) (\<lambda>y. bnd (rmap_from (i + 1) f xs) (\<lambda>ys. Inr (y # ys)))"

definition indexed :: "string \<Rightarrow> int \<Rightarrow> string" where
  "indexed s i = s @ ''['' @ dec i @ '']''"

section \<open>The need specification\<close>

record requirement =
  rm_id :: string
  rm_text :: string
  rm_priority :: string
  rm_examples :: "string list"

record need_constraint =
  nc_id :: string
  nc_kind :: string
  nc_value :: string
  nc_source :: string

type_synonym platform = "string \<times> string \<times> string"

record need =
  nd_id :: string
  nd_owner :: string
  nd_owner_kind :: string
  nd_goal :: string
  nd_requirements :: "requirement list"
  nd_constraints :: "need_constraint list"
  nd_platforms :: "platform list"
  nd_profiles :: "string list"
  nd_allowed :: "string list"
  nd_forbidden :: "string list"
  nd_scopes :: "string list"
  nd_privacy :: string
  nd_created :: string
  nd_revision :: int

definition profile_names :: "string list" where
  "profile_names = [''desktop'', ''web-preview'', ''web-runtime'', ''headless'']"

definition constraint_kinds :: "string list" where
  "constraint_kinds = [''forbidden-capability'', ''forbidden-publisher'', ''forbidden-package'',
     ''privacy'', ''platform'', ''profile'', ''other'']"

definition requirement_of :: "int \<Rightarrow> pyval \<Rightarrow> requirement res" where
  "requirement_of i v =
    bnd (exact_keys v [''requirement_id'', ''text'', ''priority'', ''acceptance_examples'']
      (indexed ''need.requirements'' i)) (\<lambda>d.
    bnd (reg_identifier (dget d ''requirement_id'') (indexed ''requirement'' i @ ''.id'')) (\<lambda>rid.
    bnd (bounded_text (dget d ''text'') (indexed ''requirement'' i @ ''.text'') 1000) (\<lambda>text.
    bnd (enum_field [''must-have'', ''nice-to-have''] (dget d ''priority'')
      (indexed ''requirement'' i @ ''.priority is invalid'')) (\<lambda>priority.
    case dget d ''acceptance_examples'' of
      PList xs \<Rightarrow>
        if 16 < len xs then reg_error (indexed ''requirement'' i @ ''.acceptance_examples is invalid'')
        else bnd (rmap_from 0 (\<lambda>k x. bounded_text x
            (indexed (indexed ''requirement'' i @ ''.acceptance_examples'') k) 1000) xs) (\<lambda>examples.
          Inr \<lparr>rm_id = rid, rm_text = text, rm_priority = priority, rm_examples = examples\<rparr>)
    | _ \<Rightarrow> reg_error (indexed ''requirement'' i @ ''.acceptance_examples is invalid'')))))"

definition constraint_of :: "int \<Rightarrow> pyval \<Rightarrow> need_constraint res" where
  "constraint_of i v =
    bnd (exact_keys v [''constraint_id'', ''kind'', ''value'', ''source'']
      (indexed ''need.negative_constraints'' i)) (\<lambda>d.
    bnd (reg_identifier (dget d ''constraint_id'') (indexed ''constraint'' i @ ''.id'')) (\<lambda>cid.
    bnd (enum_field constraint_kinds (dget d ''kind'')
      (indexed ''constraint'' i @ ''.kind is invalid'')) (\<lambda>kind.
    bnd (bounded_text (dget d ''value'') (indexed ''constraint'' i @ ''.value'') 500) (\<lambda>value.
    bnd (enum_field [''user'', ''rejection-feedback'', ''policy''] (dget d ''source'')
      (indexed ''constraint'' i @ ''.source is invalid'')) (\<lambda>source.
    Inr \<lparr>nc_id = cid, nc_kind = kind, nc_value = value, nc_source = source\<rparr>)))))"

definition platform_of :: "int \<Rightarrow> pyval \<Rightarrow> platform res" where
  "platform_of i v =
    (let bad = indexed ''need.platforms'' i @ '' contains an unsupported enum'' in
    bnd (exact_keys v [''os'', ''arch'', ''profile''] (indexed ''need.platforms'' i)) (\<lambda>d.
    bnd (enum_field [''macos'', ''windows'', ''linux'', ''browser''] (dget d ''os'') bad) (\<lambda>os.
    bnd (enum_field [''aarch64'', ''x86-64'', ''wasm32''] (dget d ''arch'') bad) (\<lambda>arch.
    bnd (enum_field profile_names (dget d ''profile'') bad) (\<lambda>profile.
    Inr (os, arch, profile))))))"

text \<open>A list of between \<open>lo\<close> and \<open>hi\<close> entries, each read with its index, with distinct keys.\<close>

definition entries_of :: "pyval \<Rightarrow> int \<Rightarrow> int \<Rightarrow> (int \<Rightarrow> pyval \<Rightarrow> 'a res) \<Rightarrow> ('a \<Rightarrow> 'k) \<Rightarrow> string \<Rightarrow> string
    \<Rightarrow> 'a list res" where
  "entries_of v lo hi f key bad repeated =
    (case v of
       PList xs \<Rightarrow>
         if \<not> (lo \<le> len xs \<and> len xs \<le> hi) then reg_error bad
         else bnd (rmap_from 0 f xs) (\<lambda>r.
           if \<not> distinct (map key r) then reg_error repeated else Inr r)
     | _ \<Rightarrow> reg_error bad)"

definition need_fields :: "string list" where
  "need_fields =
    [''schema_version'', ''document_type'', ''need_id'', ''owner'', ''goal'', ''requirements'',
     ''negative_constraints'', ''platforms'', ''profiles'', ''permission_ceiling'',
     ''privacy_requirement'', ''created_at_utc'', ''revision'']"

definition need_schema :: string where
  "need_schema = ''vibapp.need-spec.product-v0.0.1''"

text \<open>The identity, owner and goal; the lists; the ceiling; the rest.\<close>

definition need_head :: "pyval dict \<Rightarrow> (string \<times> string \<times> string \<times> string) res" where
  "need_head d =
    (if dget d ''schema_version'' \<noteq> PStr need_schema then reg_error ''need.schema_version is unsupported''
     else if dget d ''document_type'' \<noteq> PStr ''need-spec''
     then reg_error ''need.document_type must be need-spec''
     else
       bnd (reg_identifier (dget d ''need_id'') ''need.need_id'') (\<lambda>nid.
       bnd (exact_keys (dget d ''owner'') [''principal_id'', ''principal_kind''] ''need.owner'') (\<lambda>owner.
       bnd (reg_identifier (dget owner ''principal_id'') ''need.owner.principal_id'') (\<lambda>pid.
       bnd (enum_field [''user'', ''service'', ''auditor''] (dget owner ''principal_kind'')
         ''need.owner.principal_kind is invalid'') (\<lambda>kind.
       bnd (bounded_text (dget d ''goal'') ''need.goal'' 4000) (\<lambda>goal.
       Inr (nid, pid, kind, goal)))))))"

definition need_lists :: "pyval dict \<Rightarrow>
    (requirement list \<times> need_constraint list \<times> platform list \<times> string list) res" where
  "need_lists d =
    bnd (entries_of (dget d ''requirements'') 1 64 requirement_of rm_id
      ''need.requirements must contain 1..64 entries'' ''need.requirement_id values must be unique'') (\<lambda>rs.
    bnd (entries_of (dget d ''negative_constraints'') 0 64 constraint_of nc_id
      ''need.negative_constraints must contain at most 64 entries''
      ''need.constraint_id values must be unique'') (\<lambda>cs.
    bnd (entries_of (dget d ''platforms'') 1 16 platform_of (\<lambda>p. p)
      ''need.platforms must contain 1..16 entries'' ''need.platforms must contain unique tuples'') (\<lambda>ps.
    bnd (unique_strings (dget d ''profiles'') ''need.profiles'' 4 32) (\<lambda>profiles.
    if profiles = [] \<or> \<not> set profiles \<subseteq> set profile_names
    then reg_error ''need.profiles must contain supported profiles''
    else if list_ex (\<lambda>(_, _, p). p \<notin> set profiles) ps
    then reg_error ''each platform profile must also appear in need.profiles''
    else Inr (rs, cs, ps, profiles)))))"

definition need_ceiling :: "pyval dict \<Rightarrow> (string list \<times> string list \<times> string list) res" where
  "need_ceiling d =
    bnd (exact_keys (dget d ''permission_ceiling'')
      [''allowed_interfaces'', ''forbidden_interfaces'', ''maximum_scope_digests''] ''need.permission_ceiling'') (\<lambda>c.
    bnd (unique_strings (dget c ''allowed_interfaces'') ''allowed_interfaces'' 32 200) (\<lambda>allowed.
    bnd (unique_strings (dget c ''forbidden_interfaces'') ''forbidden_interfaces'' 32 200) (\<lambda>forbidden.
    bnd (unique_strings (dget c ''maximum_scope_digests'') ''maximum_scope_digests'' 32 64) (\<lambda>scopes.
    if list_ex (\<lambda>a. a \<in> set forbidden) allowed
    then reg_error ''permission interface cannot be both allowed and forbidden''
    else if list_ex (\<lambda>s. \<not> hex64 s) scopes
    then reg_error ''maximum_scope_digests contains a non-SHA-256 value''
    else Inr (allowed, forbidden, scopes)))))"

definition need_rest :: "pyval dict \<Rightarrow> (string \<times> string \<times> int) res" where
  "need_rest d =
    bnd (enum_field [''local-private'', ''remote-private'', ''public''] (dget d ''privacy_requirement'')
      ''need.privacy_requirement is invalid'') (\<lambda>privacy.
    bnd (bounded_text (dget d ''created_at_utc'') ''need.created_at_utc'' 20) (\<lambda>created.
    if \<not> utc_shape created then reg_error ''need.created_at_utc must be canonical whole-second UTC''
    else if parse_utc_text created = None then reg_error ''need.created_at_utc is not a calendar instant''
    else (case dget d ''revision'' of
        PInt i \<Rightarrow>
          if i < 1 then reg_error ''need.revision must be an integer of at least 1''
          else Inr (privacy, created, i)
      | _ \<Rightarrow> reg_error ''need.revision must be an integer of at least 1'')))"

definition validate_need :: "pyval \<Rightarrow> need res" where
  "validate_need v =
    bnd (exact_keys v need_fields ''need'') (\<lambda>d.
    bnd (need_head d) (\<lambda>(nid, pid, kind, goal).
    bnd (need_lists d) (\<lambda>(rs, cs, ps, profiles).
    bnd (need_ceiling d) (\<lambda>(allowed, forbidden, scopes).
    bnd (need_rest d) (\<lambda>(privacy, created, revision).
    Inr \<lparr>nd_id = nid, nd_owner = pid, nd_owner_kind = kind, nd_goal = goal, nd_requirements = rs,
      nd_constraints = cs, nd_platforms = ps, nd_profiles = profiles, nd_allowed = allowed,
      nd_forbidden = forbidden, nd_scopes = scopes, nd_privacy = privacy, nd_created = created,
      nd_revision = revision\<rparr>)))))"

text \<open>The dictionary the validators return.\<close>

definition strs :: "string list \<Rightarrow> pyval" where
  "strs xs = PList (map PStr xs)"

definition requirement_json :: "requirement \<Rightarrow> pyval" where
  "requirement_json r = PDict
    [(''requirement_id'', PStr (rm_id r)), (''text'', PStr (rm_text r)),
     (''priority'', PStr (rm_priority r)), (''acceptance_examples'', strs (rm_examples r))]"

definition constraint_json :: "need_constraint \<Rightarrow> pyval" where
  "constraint_json c = PDict
    [(''constraint_id'', PStr (nc_id c)), (''kind'', PStr (nc_kind c)), (''value'', PStr (nc_value c)),
     (''source'', PStr (nc_source c))]"

definition platform_json :: "platform \<Rightarrow> pyval" where
  "platform_json p = (case p of (os, arch, profile) \<Rightarrow>
    PDict [(''os'', PStr os), (''arch'', PStr arch), (''profile'', PStr profile)])"

definition need_json :: "need \<Rightarrow> pyval" where
  "need_json n = PDict
    [(''schema_version'', PStr need_schema), (''document_type'', PStr ''need-spec''),
     (''need_id'', PStr (nd_id n)),
     (''owner'', PDict [(''principal_id'', PStr (nd_owner n)), (''principal_kind'', PStr (nd_owner_kind n))]),
     (''goal'', PStr (nd_goal n)), (''requirements'', PList (map requirement_json (nd_requirements n))),
     (''negative_constraints'', PList (map constraint_json (nd_constraints n))),
     (''platforms'', PList (map platform_json (nd_platforms n))), (''profiles'', strs (nd_profiles n)),
     (''permission_ceiling'', PDict
       [(''allowed_interfaces'', strs (nd_allowed n)), (''forbidden_interfaces'', strs (nd_forbidden n)),
        (''maximum_scope_digests'', strs (nd_scopes n))]),
     (''privacy_requirement'', PStr (nd_privacy n)), (''created_at_utc'', PStr (nd_created n)),
     (''revision'', PInt (nd_revision n))]"

section \<open>The search constraints\<close>

record search_constraints =
  sc_kinds :: "string list"
  sc_interfaces :: "string list"
  sc_states :: "string list"
  sc_consent :: string

definition app_kinds :: "string list" where
  "app_kinds = [''hybrid'', ''service'', ''ui'']"

definition default_constraints :: "pyval dict" where
  "default_constraints =
    [(''acceptable_app_kinds'', strs (sort app_kinds)), (''required_interfaces'', strs []),
     (''minimum_publisher_verification'', PStr ''verified''),
     (''acceptable_publication_states'', strs [''published'']),
     (''require_verified_artifact'', PBool True), (''require_not_revoked'', PBool True),
     (''embedding_consent'', PStr ''not-granted'')]"

definition validate_constraints :: "pyval \<Rightarrow> search_constraints res" where
  "validate_constraints v =
    bnd (exact_keys v (keys default_constraints) ''constraints'') (\<lambda>d.
    bnd (unique_strings (dget d ''acceptable_app_kinds'') ''acceptable_app_kinds'' 3 16) (\<lambda>kinds.
    if kinds = [] \<or> \<not> set kinds \<subseteq> set app_kinds
    then reg_error ''acceptable_app_kinds must contain supported kinds''
    else bnd (unique_strings (dget d ''required_interfaces'') ''required_interfaces'' 32 200) (\<lambda>interfaces.
    if dget d ''minimum_publisher_verification'' \<noteq> PStr ''verified''
    then reg_error ''only verified publishers are supported''
    else bnd (unique_strings (dget d ''acceptable_publication_states'') ''acceptable_publication_states'' 1 32) (\<lambda>states.
    if states \<noteq> [''published''] then reg_error ''only published candidates are supported''
    else if dget d ''require_verified_artifact'' \<noteq> PBool True \<or> dget d ''require_not_revoked'' \<noteq> PBool True
    then reg_error ''verification and revocation checks cannot be relaxed''
    else bnd (enum_field [''granted'', ''not-granted''] (dget d ''embedding_consent'')
      ''embedding_consent is invalid'') (\<lambda>consent.
    Inr \<lparr>sc_kinds = kinds, sc_interfaces = interfaces, sc_states = states, sc_consent = consent\<rparr>)))))"

end
