(* ===== verification/RegFilter.thy ===== *)
theory RegFilter
  imports RegNeed
begin

text \<open>
  The Registry's corpus and its hard filter: the fixture records built from the catalog, and the
  checks every candidate must pass before it is ranked.

  The catalog is a file of the repository whose shape the code takes for granted beyond its keys; a
  \<open>catalog_app\<close> is one of its entries. \<open>sha\<close> is SHA-256 in hexadecimal and \<open>cf\<close> is
  \<open>str.casefold\<close>.
\<close>

section \<open>Records\<close>

record catalog_app =
  ca_id :: string
  ca_version :: string
  ca_kind :: string
  ca_name :: string
  ca_summary :: string
  ca_world :: string
  ca_profiles :: "string list"
  ca_platforms :: "platform list"
  ca_tags :: "string list"
  ca_labels :: "string list"

record app_permission =
  pm_interface :: string
  pm_necessity :: string
  pm_scope :: string
  pm_summary :: string

record app_record =
  ar_record :: string
  ar_id :: string
  ar_version :: string
  ar_kind :: string
  ar_name :: string
  ar_summary :: string
  ar_publisher :: string
  ar_publisher_state :: string
  ar_package :: string
  ar_format :: string
  ar_contract :: string
  ar_wasi :: string
  ar_world :: string
  ar_platforms :: "platform list"
  ar_profiles :: "string list"
  ar_permissions :: "app_permission list"
  ar_visibility :: string
  ar_license :: string
  ar_verified :: string
  ar_revocation :: string
  ar_evidence :: string
  ar_publication :: string
  ar_tags :: "string list"
  ar_labels :: "string list"

definition registry_status :: string where "registry_status = ''experimental-product-hold''"
definition package_format :: string where "package_format = ''vibapp.package.experimental-v0''"
definition component_contract :: string where "component_contract = ''vibapp:experimental-v0@0.0.1''"
definition wasi_version :: string where "wasi_version = ''0.2''"
definition max_scan_records :: int where "max_scan_records = 50"

definition worlds :: "string list dict" where
  "worlds =
    [(''ui-only-reference'', [''clock'', ''kv'', ''log'', ''host-info'', ''settings'']),
     (''service-only-reference'',
       [''clock'', ''scheduler'', ''kv'', ''log'', ''host-info'', ''settings'', ''system-metrics'', ''http'']),
     (''hybrid-reference'',
       [''clock'', ''scheduler'', ''notification'', ''kv'', ''log'', ''host-info'', ''settings'']),
     (''web-preview-reference'',
       [''clock'', ''scheduler'', ''kv'', ''log'', ''host-info'', ''settings'', ''system-metrics'', ''http''])]"

definition interface_name :: "string \<Rightarrow> string" where
  "interface_name short = ''vibapp:experimental-v0/'' @ short @ ''@0.0.1''"

definition fixture_permission :: "(string \<Rightarrow> string) \<Rightarrow> string \<Rightarrow> string \<Rightarrow> app_permission" where
  "fixture_permission sha app_id short =
    \<lparr>pm_interface = interface_name short,
     pm_necessity = (if short = ''http'' then ''degradable'' else ''required''),
     pm_scope = sha (app_id @ '':scope:'' @ short),
     pm_summary = ''Synthetic fixture declaration for '' @ short @ ''.''\<rparr>"

definition fixture_record :: "(string \<Rightarrow> string) \<Rightarrow> int \<Rightarrow> catalog_app \<Rightarrow> app_record res" where
  "fixture_record sha i app =
    (case aget worlds (ca_world app) of
       None \<Rightarrow> reg_error (indexed ''catalog.apps'' i @ '' has invalid kind or WIT world'')
     | Some shorts \<Rightarrow>
         if ca_kind app \<notin> set app_kinds
         then reg_error (indexed ''catalog.apps'' i @ '' has invalid kind or WIT world'')
         else Inr
           \<lparr>ar_record = ''registry.fixture.'' @ dec (i + 1), ar_id = ca_id app, ar_version = ca_version app,
            ar_kind = ca_kind app, ar_name = ca_name app, ar_summary = ca_summary app,
            ar_publisher = ''fixture.vibapp'', ar_publisher_state = ''verified'',
            ar_package = sha (ca_id app @ '':'' @ ca_version app @ '':package''),
            ar_format = package_format, ar_contract = component_contract, ar_wasi = wasi_version,
            ar_world = ca_world app, ar_platforms = ca_platforms app, ar_profiles = ca_profiles app,
            ar_permissions = map (fixture_permission sha (ca_id app)) shorts,
            ar_visibility = ''public'', ar_license = ''Apache-2.0'', ar_verified = ''verified'',
            ar_revocation = ''not-revoked'', ar_evidence = ''fixture.verify.'' @ dec (i + 1),
            ar_publication = ''published'', ar_tags = ca_tags app, ar_labels = ca_labels app\<rparr>)"

definition build_records :: "(string \<Rightarrow> string) \<Rightarrow> string \<Rightarrow> catalog_app list \<Rightarrow> app_record list res" where
  "build_records sha catalog_status apps =
    (if catalog_status \<noteq> registry_status then reg_error ''catalog must remain experimental-product-hold''
     else if \<not> (1 \<le> len apps \<and> len apps \<le> max_scan_records)
     then reg_error (''catalog apps must contain 1..'' @ dec max_scan_records @ '' entries'')
     else bnd (rmap_from 0 (fixture_record sha) apps) (\<lambda>records.
       if \<not> distinct (map ar_id records) then reg_error ''catalog app IDs must be unique''
       else Inr records))"

section \<open>Texts\<close>

text \<open>The texts of a candidate with their JSON pointers.\<close>

definition numbered :: "string \<Rightarrow> string list \<Rightarrow> (string \<times> string) list" where
  "numbered pointer xs = map (\<lambda>(i, x). (pointer @ dec (int i), x)) (enumerate 0 xs)"

definition candidate_fields :: "app_record \<Rightarrow> (string \<times> string) list" where
  "candidate_fields r =
    [(''/app/display_name'', ar_name r), (''/app/summary'', ar_summary r)]
    @ numbered ''/search_metadata/tags/'' (ar_tags r)
    @ numbered ''/search_metadata/capability_labels/'' (ar_labels r)"

fun line_join :: "string list \<Rightarrow> string" where
  "line_join [] = []"
| "line_join [x] = x"
| "line_join (x # y # xs) = x @ CHR 0x0A # line_join (y # xs)"

definition candidate_document :: "app_record \<Rightarrow> string" where
  "candidate_document r = line_join (map snd (candidate_fields r))"

definition requirement_document :: "requirement \<Rightarrow> string" where
  "requirement_document r = line_join (rm_text r # rm_examples r)"

definition need_document :: "need \<Rightarrow> string" where
  "need_document n = line_join (nd_goal n # map requirement_document (nd_requirements n))"

text \<open>\<open>s.split()\<close>: the words between runs of white space.\<close>

function split_words :: "string \<Rightarrow> string \<Rightarrow> string list" where
  "split_words acc [] = (if acc = [] then [] else [acc])"
| "split_words acc (c # s) =
    (if leading_space (c # s) = 0 then split_words (acc @ [c]) s
     else (if acc = [] then [] else [acc]) @ split_words [] (drop (leading_space (c # s)) (c # s)))"
  by pat_completeness auto

termination
  by (relation "measure (\<lambda>(_, s). length s)") auto

definition py_split :: "string \<Rightarrow> string list" where
  "py_split s = split_words [] s"

fun space_join :: "string list \<Rightarrow> string" where
  "space_join [] = []"
| "space_join [x] = x"
| "space_join (x # y # xs) = x @ '' '' @ space_join (y # xs)"

section \<open>The hard filter\<close>

record filter_result =
  fr_eligible :: bool
  fr_reasons :: "string list"
  fr_facts :: "string list"

definition rejection_order :: "string list" where
  "rejection_order =
    [''package-format'', ''contract'', ''wasi'', ''wit-world'', ''platform'', ''profile'', ''app-kind'',
     ''required-capability'', ''permission-ceiling'', ''negative-constraint'', ''publisher-trust'',
     ''verification'', ''revocation'', ''publication-state'', ''privacy'']"

definition check_reason :: "bool \<Rightarrow> string \<Rightarrow> string list \<Rightarrow> string list" where
  "check_reason cond reason reasons =
    (if \<not> cond \<and> reason \<notin> set reasons then reasons @ [reason] else reasons)"

definition interfaces_of :: "app_record \<Rightarrow> string list" where
  "interfaces_of r = map pm_interface (ar_permissions r)"

definition scopes_of :: "app_record \<Rightarrow> string list" where
  "scopes_of r = map pm_scope (ar_permissions r)"

definition all_in :: "'a list \<Rightarrow> 'a list \<Rightarrow> bool" where
  "all_in xs ys \<longleftrightarrow> list_all (\<lambda>x. x \<in> set ys) xs"

text \<open>The checks before the negative constraints, in the code's order.\<close>

definition contract_checks :: "app_record \<Rightarrow> string list \<Rightarrow> string list" where
  "contract_checks r =
    check_reason (ar_world r \<in> set (keys worlds)) ''wit-world''
    \<circ> check_reason (ar_wasi r = wasi_version) ''wasi''
    \<circ> check_reason (ar_contract r = component_contract) ''contract''
    \<circ> check_reason (ar_format r = package_format) ''package-format''"

definition compatibility_checks :: "need \<Rightarrow> search_constraints \<Rightarrow> app_record \<Rightarrow> string list \<Rightarrow> string list" where
  "compatibility_checks n c r =
    check_reason (ar_kind r \<in> set (sc_kinds c)) ''app-kind''
    \<circ> check_reason (all_in (nd_profiles n) (ar_profiles r)) ''profile''
    \<circ> check_reason (all_in (nd_platforms n) (ar_platforms r)) ''platform''"

definition permission_checks :: "need \<Rightarrow> search_constraints \<Rightarrow> app_record \<Rightarrow> string list \<Rightarrow> string list" where
  "permission_checks n c r =
    check_reason (nd_scopes n = [] \<or> all_in (scopes_of r) (nd_scopes n)) ''permission-ceiling''
    \<circ> check_reason (all_in (interfaces_of r) (nd_allowed n)
        \<and> list_all (\<lambda>i. i \<notin> set (nd_forbidden n)) (interfaces_of r)) ''permission-ceiling''
    \<circ> check_reason (all_in (sc_interfaces c) (interfaces_of r)) ''required-capability''"

definition trust_checks :: "need \<Rightarrow> search_constraints \<Rightarrow> app_record \<Rightarrow> string list \<Rightarrow> string list" where
  "trust_checks n c r =
    check_reason (\<not> (nd_privacy n = ''local-private'' \<and> interface_name ''http'' \<in> set (interfaces_of r))) ''privacy''
    \<circ> check_reason (ar_publication r \<in> set (sc_states c)) ''publication-state''
    \<circ> check_reason (ar_revocation r = ''not-revoked'') ''revocation''
    \<circ> check_reason (ar_verified r = ''verified'') ''verification''
    \<circ> check_reason (ar_publisher_state r = ''verified'' \<and> ar_visibility r = ''public'') ''publisher-trust''"

definition base_reasons :: "need \<Rightarrow> search_constraints \<Rightarrow> app_record \<Rightarrow> string list" where
  "base_reasons n c r =
    trust_checks n c r (permission_checks n c r (compatibility_checks n c r (contract_checks r [])))"

definition searchable :: "(string \<Rightarrow> string) \<Rightarrow> app_record \<Rightarrow> string" where
  "searchable cf r = cf (space_join ([ar_id r, ar_publisher r] @ ar_tags r @ ar_labels r))"

definition violates :: "(string \<Rightarrow> string) \<Rightarrow> app_record \<Rightarrow> need_constraint \<Rightarrow> bool" where
  "violates cf r c \<longleftrightarrow>
    (let kind = nc_kind c; v = cf (nc_value c) in
     (kind = ''forbidden-capability''
       \<and> (v \<in> set (map cf (interfaces_of r)) \<or> v \<in> set (map cf (ar_labels r))))
     \<or> (kind = ''forbidden-publisher'' \<and> v = cf (ar_publisher r))
     \<or> (kind = ''forbidden-package'' \<and> (v = cf (ar_id r) \<or> v = ar_package r))
     \<or> (kind = ''platform'' \<and> list_ex (\<lambda>(os, arch, p). v \<in> {os, arch, p}) (ar_platforms r))
     \<or> (kind = ''profile'' \<and> v \<in> set (map cf (ar_profiles r)))
     \<or> (kind = ''privacy'' \<and> v \<in> {''network'', ''remote-processing'', ''http''}
         \<and> interface_name ''http'' \<in> set (interfaces_of r))
     \<or> (kind = ''other'' \<and> v \<in> set (py_split (searchable cf r))))"

text \<open>The loop over the negative constraints: reasons and facts.\<close>

fun constraint_checks :: "(string \<Rightarrow> string) \<Rightarrow> app_record \<Rightarrow> need_constraint list
    \<Rightarrow> string list \<times> string list \<Rightarrow> string list \<times> string list" where
  "constraint_checks cf r [] st = st"
| "constraint_checks cf r (c # cs) (reasons, facts) =
    constraint_checks cf r cs
      (if violates cf r c
       then (check_reason False ''negative-constraint'' reasons,
             facts @ [''/need/negative_constraints/'' @ nc_id c])
       else (reasons, facts))"

definition base_facts :: "need \<Rightarrow> app_record \<Rightarrow> string list" where
  "base_facts n r =
    [''/contract/package_format='' @ ar_format r, ''/contract/component_contract='' @ ar_contract r,
     ''/contract/wasi='' @ ar_wasi r, ''/contract/wit_world='' @ ar_world r,
     ''/compatibility/platforms'', ''/compatibility/profiles'', ''/app/kind='' @ ar_kind r,
     ''/permissions'', ''/need/permission_ceiling'', ''/constraints/required_interfaces'',
     ''/app/publisher/verification_state='' @ ar_publisher_state r,
     ''/verification/status='' @ ar_verified r, ''/verification/revocation='' @ ar_revocation r,
     ''/publication/state='' @ ar_publication r, ''/source/visibility='' @ ar_visibility r,
     ''/need/privacy_requirement='' @ nd_privacy n]"

definition hard_filter :: "(string \<Rightarrow> string) \<Rightarrow> need \<Rightarrow> search_constraints \<Rightarrow> app_record \<Rightarrow> filter_result" where
  "hard_filter cf n c r =
    (case constraint_checks cf r (nd_constraints n) (base_reasons n c r, base_facts n r) of
       (reasons, facts) \<Rightarrow>
         (let ordered = filter (\<lambda>x. x \<in> set reasons) rejection_order in
          \<lparr>fr_eligible = (ordered = []), fr_reasons = ordered, fr_facts = take 128 facts\<rparr>))"

section \<open>What the filter decides\<close>

lemma check_reason_set [simp]:
  "set (check_reason cond x reasons) = set reasons \<union> (if cond then {} else {x})"
  by (auto simp: check_reason_def)

lemma constraint_checks_reasons:
  "set (fst (constraint_checks cf r cs (reasons, facts)))
    = set reasons \<union> (if list_ex (violates cf r) cs then {''negative-constraint''} else {})"
  by (induction cs arbitrary: reasons facts) auto

text \<open>The condition of each reason.\<close>

definition reason_fails :: "(string \<Rightarrow> string) \<Rightarrow> need \<Rightarrow> search_constraints \<Rightarrow> app_record \<Rightarrow> bool dict" where
  "reason_fails cf n c r =
    [(''package-format'', ar_format r \<noteq> package_format),
     (''contract'', ar_contract r \<noteq> component_contract),
     (''wasi'', ar_wasi r \<noteq> wasi_version),
     (''wit-world'', ar_world r \<notin> set (keys worlds)),
     (''platform'', \<not> set (nd_platforms n) \<subseteq> set (ar_platforms r)),
     (''profile'', \<not> set (nd_profiles n) \<subseteq> set (ar_profiles r)),
     (''app-kind'', ar_kind r \<notin> set (sc_kinds c)),
     (''required-capability'', \<not> set (sc_interfaces c) \<subseteq> set (interfaces_of r)),
     (''permission-ceiling'', \<not> set (interfaces_of r) \<subseteq> set (nd_allowed n) - set (nd_forbidden n)
        \<or> nd_scopes n \<noteq> [] \<and> \<not> set (scopes_of r) \<subseteq> set (nd_scopes n)),
     (''negative-constraint'', list_ex (violates cf r) (nd_constraints n)),
     (''publisher-trust'', ar_publisher_state r \<noteq> ''verified'' \<or> ar_visibility r \<noteq> ''public''),
     (''verification'', ar_verified r \<noteq> ''verified''),
     (''revocation'', ar_revocation r \<noteq> ''not-revoked''),
     (''publication-state'', ar_publication r \<notin> set (sc_states c)),
     (''privacy'', nd_privacy n = ''local-private'' \<and> interface_name ''http'' \<in> set (interfaces_of r))]"

lemma all_in_iff: "all_in xs ys \<longleftrightarrow> set xs \<subseteq> set ys"
  by (auto simp: all_in_def list_all_iff)

end
