(* ===== verification/RegSearch.thy ===== *)
theory RegSearch
  imports RegFilter Complex_Main
begin

text \<open>
  Ranking and routing in the Registry: tokens, scores, and \<open>search\<close>, which recommends acceptable
  candidates or asks for refinement.

  A Python float is the rational number it denotes. \<open>floats\<close> holds what the code uses of float
  arithmetic: the rounding of an exact result to a float, \<open>math.sqrt\<close>, \<open>round(x, 6)\<close> and the
  printed form; overflow to infinity is not modelled. The embedding provider is a parameter: its
  answer to a list of texts may depend on a state (theory RegEmbed has the one of the repository).
\<close>

section \<open>Tokens\<close>

definition word_c :: "char \<Rightarrow> bool" where
  "word_c c \<longleftrightarrow> lower_c c \<or> digit_c c"

lemma dropWhile_shorter: "dropWhile P s = p # t \<Longrightarrow> length t < length s"
  by (metis length_dropWhile_le length_Cons Suc_le_eq)

text \<open>The longest match of \<open>[a-z0-9]+(?:[.-][a-z0-9]+)*\<close> at the front of a text, and the rest.\<close>

function take_word :: "string \<Rightarrow> string \<times> string" where
  "take_word s =
    (case dropWhile word_c s of
       p # q # t \<Rightarrow>
         if (p = CHR ''.'' \<or> p = CHR ''-'') \<and> word_c q
         then (case take_word (q # t) of (w, r) \<Rightarrow> (takeWhile word_c s @ p # w, r))
         else (takeWhile word_c s, p # q # t)
     | r \<Rightarrow> (takeWhile word_c s, r))"
  by pat_completeness auto

termination
  by (relation "measure length") (auto dest: dropWhile_shorter)

declare take_word.simps [simp del]

lemma take_word_length: "length (snd (take_word s)) \<le> length s"
proof (induction s rule: take_word.induct)
  case (1 s)
  have d: "length (dropWhile word_c s) \<le> length s" by (rule length_dropWhile_le)
  show ?case
  proof (cases "\<exists>p q t. dropWhile word_c s = p # q # t \<and> (p = CHR ''.'' \<or> p = CHR ''-'') \<and> word_c q")
    case True
    then obtain p q t where e: "dropWhile word_c s = p # q # t" and c: "p = CHR ''.'' \<or> p = CHR ''-''" "word_c q"
      by blast
    have "length (snd (take_word (q # t))) \<le> length (q # t)" using 1 e c by blast
    then show ?thesis using d e c by (subst take_word.simps) (auto split: prod.splits)
  next
    case False
    then show ?thesis using d by (subst take_word.simps) (auto split: list.split prod.splits)
  qed
qed

lemma take_word_shorter:
  assumes "word_c c"
  shows "length (snd (take_word (c # s))) \<le> length s"
proof -
  have d: "length (dropWhile word_c s) \<le> length s" by (rule length_dropWhile_le)
  have w: "length (snd (take_word (q # t))) \<le> Suc (length t)" for q t
    using take_word_length [of "q # t"] by simp
  have "length r \<le> length s" if "dropWhile word_c s = p # q # t" and "take_word (q # t) = (u, r)" for p q t u r
    using d w [of q t] that by simp
  then show ?thesis
    using assms d by (subst take_word.simps) (auto split: list.split prod.splits)
qed

text \<open>A code point from U+3400 to U+9FFF, as three bytes.\<close>

definition cjk_c :: "char \<Rightarrow> char \<Rightarrow> char \<Rightarrow> bool" where
  "cjk_c a b c \<longleftrightarrow> 0xE3 \<le> byte_of a \<and> byte_of a \<le> 0xE9 \<and> (byte_of a = 0xE3 \<longrightarrow> 0x90 \<le> byte_of b)
    \<and> cont_byte b \<and> cont_byte c"

function find_tokens :: "string \<Rightarrow> string list" where
  "find_tokens [] = []"
| "find_tokens (a # s) =
    (if word_c a then fst (take_word (a # s)) # find_tokens (snd (take_word (a # s)))
     else (case s of
         b # c # t \<Rightarrow> if cjk_c a b c then [a, b, c] # find_tokens t else find_tokens s
       | _ \<Rightarrow> find_tokens s))"
  by pat_completeness auto

termination
  by (relation "measure length") (auto simp: less_Suc_eq_le take_word_shorter)

definition stop_words :: "string list" where
  "stop_words =
    [''a'', ''an'', ''and'', ''as'', ''at'', ''be'', ''for'', ''in'', ''is'', ''it'', ''of'', ''on'', ''or'',
     ''the'', ''this'', ''to'', ''with'', ''without'']"

definition tokens :: "(string \<Rightarrow> string) \<Rightarrow> string \<Rightarrow> string list" where
  "tokens cf text = remdups (filter (\<lambda>t. t \<notin> set stop_words) (find_tokens (cf text)))"

definition common :: "string list \<Rightarrow> string list \<Rightarrow> string list" where
  "common xs ys = filter (\<lambda>x. x \<in> set ys) xs"

section \<open>Scores\<close>

record floats =
  fl_round :: "rat \<Rightarrow> rat"
  fl_sqrt :: "rat \<Rightarrow> rat"
  fl_six :: "rat \<Rightarrow> rat"
  fl_text :: "rat \<Rightarrow> string"

definition fsum :: "floats \<Rightarrow> rat list \<Rightarrow> rat" where
  "fsum fl xs = foldl (\<lambda>acc x. fl_round fl (acc + x)) 0 xs"

definition cosine :: "floats \<Rightarrow> rat list \<Rightarrow> rat list \<Rightarrow> rat" where
  "cosine fl left right =
    (let numerator = fsum fl (map (\<lambda>(a, b). fl_round fl (a * b)) (zip left right));
         left_norm = fl_sqrt fl (fsum fl (map (\<lambda>v. fl_round fl (v * v)) left));
         right_norm = fl_sqrt fl (fsum fl (map (\<lambda>v. fl_round fl (v * v)) right))
     in if left_norm = 0 \<or> right_norm = 0 then 0
        else max (- 1) (min 1 (fl_round fl (numerator / fl_round fl (left_norm * right_norm)))))"

definition overlap_score :: "floats \<Rightarrow> string list \<Rightarrow> string list \<Rightarrow> rat" where
  "overlap_score fl xs ys = fl_round fl (of_nat (length (common xs ys)) / of_nat (max 1 (length xs)))"

definition hybrid_score :: "floats \<Rightarrow> rat \<Rightarrow> rat \<Rightarrow> rat" where
  "hybrid_score fl lexical vector =
    fl_round fl (fl_round fl (fl_round fl (4 / 10) * lexical) + fl_round fl (fl_round fl (6 / 10) * max 0 vector))"

definition minimum_hybrid :: "floats \<Rightarrow> rat" where
  "minimum_hybrid fl = fl_round fl (50 / 100)"

definition minimum_similarity :: "floats \<Rightarrow> rat" where
  "minimum_similarity fl = fl_round fl (55 / 100)"

record coverage =
  cv_id :: string
  cv_covered :: bool
  cv_lexical :: rat
  cv_semantic :: rat
  cv_fields :: "string list"

record candidate =
  cd_record :: app_record
  cd_acceptable :: bool
  cd_keyword :: rat
  cd_cosine :: rat
  cd_hybrid :: rat
  cd_coverage :: "coverage list"
  cd_evidence :: "string list"
  cd_digest :: string

definition candidate_tokens :: "(string \<Rightarrow> string) \<Rightarrow> app_record \<Rightarrow> string list" where
  "candidate_tokens cf r = remdups (concat (map (\<lambda>(_, text). tokens cf text) (candidate_fields r)))"

definition cover :: "(string \<Rightarrow> string) \<Rightarrow> floats \<Rightarrow> app_record \<Rightarrow> rat list \<Rightarrow> requirement \<times> rat list \<Rightarrow> coverage" where
  "cover cf fl r cv rv =
    (case rv of (req, vec) \<Rightarrow>
      (let req_tokens = tokens cf (requirement_document req);
           cand = candidate_tokens cf r;
           overlap = common req_tokens cand;
           lexical = overlap_score fl req_tokens cand;
           semantic = cosine fl vec cv;
           covered = fl_round fl (30 / 100) \<le> lexical \<or> minimum_similarity fl \<le> semantic;
           found = map fst (filter (\<lambda>(_, text). common (tokens cf text) overlap \<noteq> []) (candidate_fields r));
           evidence = (if found = [] \<and> covered then [''/app/summary'', ''/search_metadata/tags''] else found)
       in \<lparr>cv_id = rm_id req, cv_covered = covered, cv_lexical = fl_six fl lexical,
           cv_semantic = fl_six fl semantic, cv_fields = take 16 evidence\<rparr>))"

definition must_have_complete :: "need \<Rightarrow> coverage list \<Rightarrow> bool" where
  "must_have_complete n cs \<longleftrightarrow>
    list_all (\<lambda>(req, c). rm_priority req = ''must-have'' \<longrightarrow> cv_covered c) (zip (nd_requirements n) cs)"

definition rate :: "(string \<Rightarrow> string) \<Rightarrow> (string \<Rightarrow> string) \<Rightarrow> floats \<Rightarrow> need \<Rightarrow> rat list \<Rightarrow> rat list list
    \<Rightarrow> (app_record \<times> filter_result) \<times> rat list \<Rightarrow> candidate" where
  "rate cf sha fl n overall req_vectors x =
    (case x of ((r, hard), cv) \<Rightarrow>
      (let lexical = overlap_score fl (tokens cf (need_document n)) (candidate_tokens cf r);
           vector = cosine fl overall cv;
           hybrid = hybrid_score fl lexical vector;
           cov = map (cover cf fl r cv) (zip (nd_requirements n) req_vectors)
       in \<lparr>cd_record = r, cd_acceptable = (must_have_complete n cov \<and> minimum_hybrid fl \<le> hybrid),
           cd_keyword = fl_six fl lexical, cd_cosine = fl_six fl vector, cd_hybrid = fl_six fl hybrid,
           cd_coverage = cov,
           cd_evidence = take 128 (sort (remdups (fr_facts hard @ [''/app/display_name'', ''/app/summary'',
             ''/search_metadata/tags'', ''/search_metadata/capability_labels'']))),
           cd_digest = sha (candidate_document r)\<rparr>))"

definition rank_key :: "candidate \<Rightarrow> nat \<times> rat \<times> string \<times> string" where
  "rank_key c = (if cd_acceptable c then 0 else 1, - cd_hybrid c, ar_id (cd_record c), ar_package (cd_record c))"

section \<open>Results\<close>

record embedder_info =
  ei_provider :: string
  ei_model :: string
  ei_dimensions :: int

record rejected_app =
  rj_record :: app_record
  rj_result :: filter_result

definition float_json :: "floats \<Rightarrow> rat \<Rightarrow> pyval" where
  "float_json fl x = PFloat (fl_text fl x)"

definition app_json :: "app_record \<Rightarrow> pyval" where
  "app_json r = PDict
    [(''id'', PStr (ar_id r)), (''version'', PStr (ar_version r)), (''kind'', PStr (ar_kind r)),
     (''display_name'', PStr (ar_name r)), (''summary'', PStr (ar_summary r)),
     (''publisher'', PDict [(''publisher_id'', PStr (ar_publisher r)),
       (''verification_state'', PStr (ar_publisher_state r))])]"

definition package_json :: "app_record \<Rightarrow> pyval" where
  "package_json r = PDict
    [(''app_id'', PStr (ar_id r)), (''version'', PStr (ar_version r)),
     (''package_digest_sha256'', PStr (ar_package r))]"

definition permission_json :: "app_permission \<Rightarrow> pyval" where
  "permission_json p = PDict
    [(''interface'', PStr (pm_interface p)), (''necessity'', PStr (pm_necessity p)),
     (''scope_digest_sha256'', PStr (pm_scope p)), (''summary'', PStr (pm_summary p))]"

definition coverage_json :: "floats \<Rightarrow> coverage \<Rightarrow> pyval" where
  "coverage_json fl c = PDict
    [(''requirement_id'', PStr (cv_id c)), (''state'', PStr (if cv_covered c then ''covered'' else ''uncovered'')),
     (''lexical_score'', float_json fl (cv_lexical c)), (''semantic_score'', float_json fl (cv_semantic c)),
     (''evidence_fields'', strs (cv_fields c))]"

definition candidate_json :: "floats \<Rightarrow> candidate \<Rightarrow> pyval" where
  "candidate_json fl c = PDict
    [(''app'', app_json (cd_record c)), (''package'', package_json (cd_record c)),
     (''decision'', PStr (if cd_acceptable c then ''acceptable'' else ''insufficient-match'')),
     (''scores'', PDict [(''keyword'', float_json fl (cd_keyword c)),
       (''embedding_cosine'', float_json fl (cd_cosine c)), (''hybrid'', float_json fl (cd_hybrid c))]),
     (''coverage'', PList (map (coverage_json fl) (cd_coverage c))),
     (''required_permissions'', PList (map permission_json (ar_permissions (cd_record c)))),
     (''explanation'', PDict
       [(''summary'', PStr ''Candidate passed every hard filter; ranking used keyword overlap and a real embedding cosine score.''),
        (''evidence_fields'', strs (cd_evidence c)),
        (''embedding_input_digest_sha256'', PStr (cd_digest c))])]"

definition rejected_json :: "rejected_app \<Rightarrow> pyval" where
  "rejected_json x = PDict
    [(''app_id'', PStr (ar_id (rj_record x))), (''display_name'', PStr (ar_name (rj_record x))),
     (''package_digest_sha256'', PStr (ar_package (rj_record x))),
     (''rejected_reasons'', strs (fr_reasons (rj_result x))), (''checked_facts'', strs (fr_facts (rj_result x)))]"

text \<open>\<open>canonical_bytes\<close> and \<open>bounded_result\<close>.\<close>

definition reg_bytes :: "pyval \<Rightarrow> string res" where
  "reg_bytes v =
    (let b = json_enc v in if has_surrogate b then Inl (Crash ''UnicodeEncodeError'') else Inr b)"

definition max_output :: int where "max_output = 512 * 1024"

definition bounded_result :: "pyval dict \<Rightarrow> pyval dict res" where
  "bounded_result d = bnd (reg_bytes (PDict d)) (\<lambda>b.
    if max_output < len b then reg_error (''output exceeds '' @ dec max_output @ '' bytes'') else Inr d)"

definition route_schema :: string where
  "route_schema = ''vibapp.registry-route.experimental.2026-08-24.1''"

definition request_name :: "(string \<Rightarrow> string) \<Rightarrow> need \<Rightarrow> string res" where
  "request_name sha n = bnd (reg_bytes (need_json n)) (\<lambda>b. Inr (''registry.'' @ take 24 (sha b)))"

definition retrieval_mode :: string where
  "retrieval_mode = ''hard-filter-then-keyword-plus-embedding''"

definition embedding_json :: "string \<Rightarrow> embedder_info \<Rightarrow> pyval" where
  "embedding_json state ei = PDict
    [(''status'', PStr state), (''provider'', PStr (ei_provider ei)), (''model'', PStr (ei_model ei)),
     (''dimensions'', PInt (ei_dimensions ei))]"

definition handoff_json :: "string \<Rightarrow> pyval" where
  "handoff_json why = PDict [(''created'', PBool False), (''permitted'', PBool False), (''reason'', PStr why)]"

definition refinement_result :: "(string \<Rightarrow> string) \<Rightarrow> need \<Rightarrow> rejected_app list \<Rightarrow> string \<Rightarrow> string \<Rightarrow> string
    \<Rightarrow> embedder_info \<Rightarrow> nat \<Rightarrow> pyval dict res" where
  "refinement_result sha n rejected reason message state ei eligible =
    bnd (request_name sha n) (\<lambda>rid.
    bounded_result
      [(''schema_version'', PStr route_schema), (''status'', PStr registry_status),
       (''route'', PStr ''refinement''), (''request_id'', PStr rid), (''need_id'', PStr (nd_id n)),
       (''recommendations'', PList []),
       (''refinement'', PDict [(''reason_code'', PStr reason), (''message'', PStr message)]),
       (''retrieval'', PDict [(''mode'', PStr retrieval_mode), (''embedding'', embedding_json state ei),
         (''eligible_candidates'', PInt (int eligible)), (''rejected_candidates'', PInt (len rejected))]),
       (''rejected'', PList (map rejected_json rejected)),
       (''codeagent_handoff'', handoff_json ''Registry only recommends or requests refinement.'')])"

definition recommendation_result :: "(string \<Rightarrow> string) \<Rightarrow> floats \<Rightarrow> need \<Rightarrow> rejected_app list \<Rightarrow> candidate list
    \<Rightarrow> embedder_info \<Rightarrow> nat \<Rightarrow> pyval dict res" where
  "recommendation_result sha fl n rejected acceptable ei eligible =
    bnd (request_name sha n) (\<lambda>rid.
    bounded_result
      [(''schema_version'', PStr route_schema), (''status'', PStr registry_status),
       (''route'', PStr ''recommendation''), (''request_id'', PStr rid), (''need_id'', PStr (nd_id n)),
       (''recommendations'', PList (map (candidate_json fl) acceptable)), (''refinement'', PNone),
       (''retrieval'', PDict [(''mode'', PStr retrieval_mode), (''embedding'', embedding_json ''live'' ei),
         (''eligible_candidates'', PInt (int eligible)), (''rejected_candidates'', PInt (len rejected)),
         (''thresholds'', PDict [(''hybrid'', float_json fl (minimum_hybrid fl)),
           (''requirement_semantic'', float_json fl (minimum_similarity fl))])]),
       (''rejected'', PList (map rejected_json rejected)),
       (''codeagent_handoff'', handoff_json
         ''An acceptable existing application must be offered before development.'')])"

section \<open>Search\<close>

definition max_matches :: int where "max_matches = 20"

definition limit_of :: "pyval \<Rightarrow> int res" where
  "limit_of v =
    (if pint_within 1 max_matches v then (case v of PInt i \<Rightarrow> Inr i | _ \<Rightarrow> Inr 0)
     else reg_error (''limit must be between 1 and '' @ dec max_matches))"

definition partition_records :: "(string \<Rightarrow> string) \<Rightarrow> need \<Rightarrow> search_constraints \<Rightarrow> app_record list
    \<Rightarrow> (app_record \<times> filter_result) list \<times> rejected_app list" where
  "partition_records cf n c records =
    (let rs = map (\<lambda>r. (r, hard_filter cf n c r)) records in
     (filter (\<lambda>(_, h). fr_eligible h) rs,
      map (\<lambda>(r, h). \<lparr>rj_record = r, rj_result = h\<rparr>) (filter (\<lambda>(_, h). \<not> fr_eligible h) rs)))"

definition query_texts :: "need \<Rightarrow> (app_record \<times> filter_result) list \<Rightarrow> string list" where
  "query_texts n eligible =
    need_document n # map requirement_document (nd_requirements n) @ map (candidate_document \<circ> fst) eligible"

definition ranked_of :: "(string \<Rightarrow> string) \<Rightarrow> (string \<Rightarrow> string) \<Rightarrow> floats \<Rightarrow> need
    \<Rightarrow> (app_record \<times> filter_result) list \<Rightarrow> rat list list \<Rightarrow> candidate list" where
  "ranked_of cf sha fl n eligible vectors =
    (let m = length (nd_requirements n);
         overall = hd vectors;
         req_vectors = take m (drop 1 vectors);
         candidate_vectors = drop (1 + m) vectors
     in sort_key rank_key (map (rate cf sha fl n overall req_vectors) (zip eligible candidate_vectors)))"

text \<open>The answer to the vectors of the provider.\<close>

definition conclude :: "(string \<Rightarrow> string) \<Rightarrow> (string \<Rightarrow> string) \<Rightarrow> floats \<Rightarrow> embedder_info \<Rightarrow> need
    \<Rightarrow> (app_record \<times> filter_result) list \<Rightarrow> rejected_app list \<Rightarrow> int \<Rightarrow> rat list list \<Rightarrow> pyval dict res" where
  "conclude cf sha fl ei n eligible rejected limit vectors =
    (let ranked = ranked_of cf sha fl n eligible vectors;
         acceptable = take (nat limit) (filter cd_acceptable ranked)
     in if acceptable = [] then
          bnd (refinement_result sha n rejected ''no-acceptable-semantic-match''
            ''Candidates passed hard filters but none met must-have coverage and the hybrid relevance threshold.''
            ''live'' ei (length eligible)) (\<lambda>d.
          bounded_result (aput ''considered'' (PList (map (candidate_json fl) (take (nat limit) ranked))) d))
        else recommendation_result sha fl n rejected acceptable ei (length eligible))"

definition search :: "(string \<Rightarrow> string) \<Rightarrow> (string \<Rightarrow> string) \<Rightarrow> floats \<Rightarrow> embedder_info
    \<Rightarrow> ('s \<Rightarrow> string list \<Rightarrow> 's \<times> rat list list res) \<Rightarrow> 's \<Rightarrow> pyval \<Rightarrow> pyval \<Rightarrow> app_record list \<Rightarrow> pyval
    \<Rightarrow> 's \<times> pyval dict res" where
  "search cf sha fl ei provide st need_value constraints_value records limit_value =
    (case bnd (validate_need need_value) (\<lambda>n. bnd (validate_constraints constraints_value) (\<lambda>c.
        bnd (limit_of limit_value) (\<lambda>limit.
        if max_scan_records < len records
        then reg_error (''corpus exceeds '' @ dec max_scan_records @ '' records'') else Inr (n, c, limit)))) of
       Inl e \<Rightarrow> (st, Inl e)
     | Inr (n, c, limit) \<Rightarrow>
         (case partition_records cf n c records of (eligible, rejected) \<Rightarrow>
           if eligible = [] then
             (st, refinement_result sha n rejected ''no-hard-filter-match''
               ''No candidate passed every platform, kind, capability, permission, publication and trust constraint.''
               ''not-needed'' ei 0)
           else if sc_consent c \<noteq> ''granted'' then
             (st, refinement_result sha n rejected ''embedding-consent-required''
               ''Semantic retrieval requires explicit remote embedding consent; no candidate was recommended.''
               ''not-called'' ei (length eligible))
           else
             (case provide st (query_texts n eligible) of (st', r) \<Rightarrow>
               (st', case r of
                  Inl (Fail code message retry) \<Rightarrow>
                    if code = ''embedding-error''
                    then refinement_result sha n rejected ''embedding-provider-unavailable'' message
                      ''degraded'' ei (length eligible)
                    else Inl (Fail code message retry)
                | Inl e \<Rightarrow> Inl e
                | Inr vectors \<Rightarrow>
                    if length vectors \<noteq> length (query_texts n eligible)
                    then refinement_result sha n rejected ''embedding-provider-invalid''
                      ''Embedding provider returned the wrong number of vectors.'' ''degraded'' ei (length eligible)
                    else conclude cf sha fl ei n eligible rejected limit vectors))))"

definition parse_query :: "pyval \<Rightarrow> (need \<times> search_constraints \<times> int) res" where
  "parse_query v =
    bnd (exact_keys v [''need'', ''constraints'', ''limit''] ''query'') (\<lambda>d.
    bnd (validate_need (dget d ''need'')) (\<lambda>n.
    bnd (validate_constraints (dget d ''constraints'')) (\<lambda>c.
    bnd (limit_of (dget d ''limit'')) (\<lambda>limit. Inr (n, c, limit)))))"

end
