(* ===== verification/RegEmbed.thy ===== *)
theory RegEmbed
  imports RegSearch
begin

text \<open>
  The embedding client of the Registry: the limits on its input, and the bounded least-recently-used
  cache of vectors keyed by the digest of the text. The request to the provider (\<open>_uncached\<close>, HTTP)
  is the parameter \<open>fetch\<close>; the cache is an association list, least recently used first, as the
  \<open>OrderedDict\<close> is.
\<close>

abbreviation embedding_error :: "string \<Rightarrow> 'a res" where
  "embedding_error m \<equiv> fail ''embedding-error'' m"

definition max_embedding_inputs :: int where "max_embedding_inputs = 128"
definition max_embedding_chars :: int where "max_embedding_chars = 8 * 1024"
definition max_embedding_total :: int where "max_embedding_total = 256 * 1024"
definition max_cache_vectors :: nat where "max_cache_vectors = 256"

type_synonym vector_cache = "(string \<times> rat list) list"

text \<open>\<open>move_to_end(key)\<close>, and \<open>cache[key] = vector\<close> followed by it.\<close>

definition move_to_end :: "string \<Rightarrow> vector_cache \<Rightarrow> vector_cache" where
  "move_to_end k cache =
    (case map_of cache k of None \<Rightarrow> cache | Some v \<Rightarrow> filter (\<lambda>e. fst e \<noteq> k) cache @ [(k, v)])"

definition store_vector :: "string \<times> rat list \<Rightarrow> vector_cache \<Rightarrow> vector_cache" where
  "store_vector e cache = filter (\<lambda>x. fst x \<noteq> fst e) cache @ [e]"

text \<open>The first pass: what the cache has, marking it as used.\<close>

fun lookup_pass :: "string list \<Rightarrow> vector_cache \<Rightarrow> (string \<times> rat list) list \<Rightarrow> vector_cache \<times> (string \<times> rat list) list" where
  "lookup_pass [] cache found = (cache, found)"
| "lookup_pass (k # ks) cache found =
    (case map_of cache k of
       None \<Rightarrow> lookup_pass ks cache found
     | Some v \<Rightarrow> lookup_pass ks (move_to_end k cache) (AList.update k v found))"

text \<open>The texts whose key was not found, once each, in order.\<close>

fun missing_pass :: "(string \<times> string) list \<Rightarrow> (string \<times> rat list) list \<Rightarrow> (string \<times> string) list" where
  "missing_pass [] found = []"
| "missing_pass ((k, t) # kts) found =
    (let rest = missing_pass (filter (\<lambda>x. fst x \<noteq> k) kts) found in
     if k \<in> set (map fst found) then missing_pass kts found else (k, t) # rest)"

definition trim_cache :: "vector_cache \<Rightarrow> vector_cache" where
  "trim_cache cache = drop (length cache - max_cache_vectors) cache"

definition texts_ok :: "string list \<Rightarrow> unit res" where
  "texts_ok texts =
    (if \<not> (1 \<le> len texts \<and> len texts \<le> max_embedding_inputs)
     then embedding_error (''embedding input count must be 1..'' @ dec max_embedding_inputs)
     else if list_ex (\<lambda>t. t = [] \<or> max_embedding_chars < int (py_len t)) texts
     then embedding_error ''embedding text is empty or exceeds its character limit''
     else if max_embedding_total < int (sum_list (map py_len texts))
     then embedding_error ''embedding text total exceeds its character limit''
     else if list_ex has_surrogate texts then Inl (Crash ''UnicodeEncodeError'')
     else Inr ())"

definition embed_texts :: "(string \<Rightarrow> string) \<Rightarrow> (string list \<Rightarrow> rat list list res) \<Rightarrow> vector_cache \<Rightarrow> string list
    \<Rightarrow> vector_cache \<times> rat list list res" where
  "embed_texts sha fetch cache texts =
    (case texts_ok texts of
       Inl e \<Rightarrow> (cache, Inl e)
     | Inr _ \<Rightarrow>
         (let ks = map sha texts in
          case lookup_pass ks cache [] of (cache1, found) \<Rightarrow>
            (let missing = missing_pass (zip ks texts) found in
             if missing = [] then (cache1, Inr (map (\<lambda>k. the (map_of found k)) ks))
             else (case fetch (map snd missing) of
                 Inl e \<Rightarrow> (cache1, Inl e)
               | Inr fresh \<Rightarrow>
                   (let new = zip (map fst missing) fresh;
                        cache2 = trim_cache (foldl (\<lambda>c e. store_vector e c) cache1 new);
                        all = foldl (\<lambda>f e. AList.update (fst e) (snd e) f) found new
                    in if list_ex (\<lambda>k. map_of all k = None) ks then (cache2, Inl (Crash ''KeyError''))
                       else (cache2, Inr (map (\<lambda>k. the (map_of all k)) ks)))))))"

end
