(* ===== verification/RegNeedTheorems.thy ===== *)
theory RegNeedTheorems
  imports RegNeed
begin

text \<open>
  What the validation of a need specification guarantees: the typed record keeps the whole document,
  satisfies the invariants the filter relies on, and validates again.
\<close>

section \<open>Documents\<close>

text \<open>Every object of a document has distinct keys, as the strict reader ensures.\<close>

fun distinct_objects :: "pyval \<Rightarrow> bool" where
  "distinct_objects (PList vs) = list_all distinct_objects vs"
| "distinct_objects (PDict d) = (distinct (map fst d) \<and> list_all (\<lambda>(_, v). distinct_objects v) d)"
| "distinct_objects _ = True"

lemma distinct_objects_dget:
  assumes "distinct_objects (PDict d)"
  shows "distinct_objects (dget d k)"
proof (cases "aget d k")
  case (Some v)
  then have "(k, v) \<in> set d" by (rule map_of_SomeD)
  then show ?thesis using assms Some by (auto simp: dget_def list_all_iff)
qed (simp add: dget_def)

lemma json_enc_dict_cong:
  assumes d: "distinct (keys d)" and d': "distinct (keys d')" and k: "set (keys d) = set (keys d')"
    and v: "\<And>x. x \<in> set (keys d') \<Longrightarrow> json_enc (dget d x) = json_enc (dget d' x)"
  shows "json_enc (PDict d) = json_enc (PDict d')"
proof -
  let ?f = "map (\<lambda>(k, v). (k, json_enc v))"
  have keys: "map fst (?f e) = keys e" for e :: "pyval dict" by (simp add: comp_def case_prod_beta)
  have get: "map_of (?f e) x = map_option json_enc (aget e x)" for e :: "pyval dict" and x
    by (induction e) auto
  have "map_of (?f d) x = map_of (?f d') x" for x
  proof (cases "x \<in> set (keys d')")
    case True
    then obtain a b where "aget d x = Some a" and "aget d' x = Some b"
      using k by (metis (no_types, lifting) map_of_eq_None_iff option.exhaust list.set_map)
    then show ?thesis using v [OF True] by (simp add: get dget_def)
  next
    case False
    then have "aget d x = None" and "aget d' x = None" using k by (simp_all add: map_of_eq_None_iff)
    then show ?thesis by (simp add: get)
  qed
  then have "map_of (?f d) = map_of (?f d')" by (rule ext)
  then have s: "set (?f d) = set (?f d')"
    using d d' keys by (metis map_of_inject_set)
  have sk: "distinct (map fst (sort_key fst xs))" if "distinct (map fst xs)" for xs :: "(string \<times> string) list"
    using that by (simp add: distinct_map)
  have "sort_key fst (?f d) = sort_key fst (?f d')"
  proof (rule map_sorted_distinct_set_unique [where f = fst])
    have "inj_on fst (set (?f d'))" using d' keys [of d'] by (metis distinct_map)
    then show "inj_on fst (set (sort_key fst (?f d)) \<union> set (sort_key fst (?f d')))"
      using s by simp
    show "distinct (map fst (sort_key fst (?f d)))" and "distinct (map fst (sort_key fst (?f d')))"
      using sk [of "?f d"] sk [of "?f d'"] d d' by (simp_all only: keys)
  qed (use s in simp_all)
  then show ?thesis by simp
qed

lemma json_enc_list_cong:
  assumes "list_all2 (\<lambda>v w. json_enc v = json_enc w) vs ws"
  shows "json_enc (PList vs) = json_enc (PList ws)"
proof -
  have "map json_enc vs = map json_enc ws"
    using assms by (induction rule: list_all2_induct) auto
  then show ?thesis by simp
qed

section \<open>Readers\<close>

lemma exact_keys_Inr:
  "exact_keys v required label = Inr d \<longleftrightarrow> v = PDict d \<and> set (keys d) = set required"
proof (cases v)
  case (PDict e)
  have "(sort (filter (\<lambda>k. k \<notin> set (keys e)) required) = [] \<and> sort (filter (\<lambda>k. k \<notin> set required) (keys e)) = [])
      \<longleftrightarrow> set (keys e) = set required"
  proof -
    have "sort xs = [] \<longleftrightarrow> xs = []" for xs :: "string list"
      by (metis set_empty set_sort)
    then show ?thesis by (auto simp: filter_empty_conv simp del: set_map)
  qed
  then show ?thesis by (auto simp: exact_keys_def PDict Let_def simp del: set_map)
qed (simp_all add: exact_keys_def)

lemma bounded_text_Inr:
  "bounded_text v label n = Inr s \<longleftrightarrow>
    v = PStr s \<and> s \<noteq> [] \<and> int (py_len s) \<le> n \<and> list_all (\<lambda>c. \<not> ctrl_char c \<and> c \<noteq> CHR 0x7F) s"
proof (cases v)
  case (PStr t)
  have "list_ex (\<lambda>c. ctrl_char c \<or> c = CHR 0x7F) t \<longleftrightarrow> \<not> list_all (\<lambda>c. \<not> ctrl_char c \<and> c \<noteq> CHR 0x7F) t"
    by (induction t) auto
  then have "bounded_text v label n =
      (if t = [] \<or> n < int (py_len t) then Inl (Fail ''invalid-argument'' (label @ '' length is outside 1..'' @ dec n) False)
       else if \<not> list_all (\<lambda>c. \<not> ctrl_char c \<and> c \<noteq> CHR 0x7F) t
       then Inl (Fail ''invalid-argument'' (label @ '' contains a control character'') False) else Inr t)"
    by (simp only: PStr bounded_text_def pyval.case not_not)
  then show ?thesis using PStr by (auto split: if_splits)
qed (simp_all add: bounded_text_def)

definition id_text :: "string \<Rightarrow> bool" where
  "id_text s \<longleftrightarrow> s \<noteq> [] \<and> int (py_len s) \<le> 128
    \<and> list_all (\<lambda>c. \<not> ctrl_char c \<and> c \<noteq> CHR 0x7F) s \<and> identifier_shape s"

lemma reg_identifier_Inr: "reg_identifier v label = Inr s \<longleftrightarrow> v = PStr s \<and> id_text s"
  by (auto simp: reg_identifier_def bnd_Inr_iff bounded_text_Inr id_text_def split: if_splits)

lemma enum_field_Inr: "enum_field ss v m = Inr s \<longleftrightarrow> v = PStr s \<and> s \<in> set ss"
  by (cases v) (auto simp: enum_field_def member_of_def)

definition text_ok :: "int \<Rightarrow> string \<Rightarrow> bool" where
  "text_ok n s \<longleftrightarrow> s \<noteq> [] \<and> int (py_len s) \<le> n \<and> list_all (\<lambda>c. \<not> ctrl_char c \<and> c \<noteq> CHR 0x7F) s"

lemma bounded_text_ok: "bounded_text v label n = Inr s \<longleftrightarrow> v = PStr s \<and> text_ok n s"
  by (simp add: bounded_text_Inr text_ok_def)

lemma rmap_bounded:
  "rmap (\<lambda>x. bounded_text x label n) xs = Inr ys \<longleftrightarrow> xs = map PStr ys \<and> list_all (text_ok n) ys"
proof (induction xs arbitrary: ys)
  case Nil
  then show ?case by (cases ys) auto
next
  case (Cons x xs)
  then show ?case
    by (cases ys) (auto simp: bnd_Inr_iff bounded_text_ok)
qed

lemma strs_inject [simp]: "strs xs = strs ys \<longleftrightarrow> xs = ys"
  using inj_map_eq_map [of PStr xs ys] by (simp add: strs_def inj_def)

definition strings_ok :: "int \<Rightarrow> int \<Rightarrow> string list \<Rightarrow> bool" where
  "strings_ok items n ss \<longleftrightarrow> len ss \<le> items \<and> distinct ss \<and> list_all (text_ok n) ss"

lemma unique_strings_Inr:
  "unique_strings v label items n = Inr ss \<longleftrightarrow> v = strs ss \<and> strings_ok items n ss"
  by (cases v) (auto simp: unique_strings_def bnd_Inr_iff rmap_bounded strs_def strings_ok_def)

lemma rmap_from_Inr:
  "rmap_from i f xs = Inr ys \<longleftrightarrow> length ys = length xs \<and> (\<forall>k < length xs. f (i + int k) (xs ! k) = Inr (ys ! k))"
proof (induction xs arbitrary: i ys)
  case Nil
  then show ?case by auto
next
  case (Cons x xs)
  show ?case
  proof (cases ys)
    case Nil
    then show ?thesis by (simp add: bnd_Inr_iff)
  next
    case ys: (Cons y zs)
    have "(\<forall>k < Suc (length xs). f (i + int k) ((x # xs) ! k) = Inr ((y # zs) ! k))
        \<longleftrightarrow> f i x = Inr y \<and> (\<forall>k < length xs. f (i + 1 + int k) (xs ! k) = Inr (zs ! k))"
      by (simp add: All_less_Suc2 add.assoc)
    then show ?thesis using Cons.IH [of "i + 1" zs] by (auto simp: ys bnd_Inr_iff)
  qed
qed

lemmas reader_Inr = exact_keys_Inr bounded_text_ok reg_identifier_Inr enum_field_Inr unique_strings_Inr

section \<open>Well-formed needs\<close>

definition requirement_ok :: "requirement \<Rightarrow> bool" where
  "requirement_ok r \<longleftrightarrow> id_text (rm_id r) \<and> text_ok 1000 (rm_text r)
    \<and> rm_priority r \<in> {''must-have'', ''nice-to-have''} \<and> len (rm_examples r) \<le> 16
    \<and> list_all (text_ok 1000) (rm_examples r)"

definition constraint_ok :: "need_constraint \<Rightarrow> bool" where
  "constraint_ok c \<longleftrightarrow> id_text (nc_id c) \<and> nc_kind c \<in> set constraint_kinds \<and> text_ok 500 (nc_value c)
    \<and> nc_source c \<in> {''user'', ''rejection-feedback'', ''policy''}"

definition platform_ok :: "platform \<Rightarrow> bool" where
  "platform_ok p \<longleftrightarrow> (case p of (os, arch, profile) \<Rightarrow>
    os \<in> {''macos'', ''windows'', ''linux'', ''browser''} \<and> arch \<in> {''aarch64'', ''x86-64'', ''wasm32''}
    \<and> profile \<in> set profile_names)"

definition need_ok :: "need \<Rightarrow> bool" where
  "need_ok n \<longleftrightarrow> id_text (nd_id n) \<and> id_text (nd_owner n)
    \<and> nd_owner_kind n \<in> {''user'', ''service'', ''auditor''} \<and> text_ok 4000 (nd_goal n)
    \<and> (1 \<le> len (nd_requirements n) \<and> len (nd_requirements n) \<le> 64
      \<and> list_all requirement_ok (nd_requirements n) \<and> distinct (map rm_id (nd_requirements n)))
    \<and> (len (nd_constraints n) \<le> 64 \<and> list_all constraint_ok (nd_constraints n)
      \<and> distinct (map nc_id (nd_constraints n)))
    \<and> (1 \<le> len (nd_platforms n) \<and> len (nd_platforms n) \<le> 16 \<and> list_all platform_ok (nd_platforms n)
      \<and> distinct (nd_platforms n))
    \<and> (strings_ok 4 32 (nd_profiles n) \<and> nd_profiles n \<noteq> [] \<and> set (nd_profiles n) \<subseteq> set profile_names
      \<and> list_all (\<lambda>(_, _, p). p \<in> set (nd_profiles n)) (nd_platforms n))
    \<and> (strings_ok 32 200 (nd_allowed n) \<and> strings_ok 32 200 (nd_forbidden n) \<and> strings_ok 32 64 (nd_scopes n)
      \<and> list_all (\<lambda>a. a \<notin> set (nd_forbidden n)) (nd_allowed n) \<and> list_all hex64 (nd_scopes n))
    \<and> nd_privacy n \<in> {''local-private'', ''remote-private'', ''public''}
    \<and> (text_ok 20 (nd_created n) \<and> utc_shape (nd_created n) \<and> parse_utc_text (nd_created n) \<noteq> None)
    \<and> 1 \<le> nd_revision n"

section \<open>Entries\<close>

lemma rmap_from_bounded:
  "rmap_from i (\<lambda>k x. bounded_text x (g k) n) xs = Inr ys \<longleftrightarrow> xs = map PStr ys \<and> list_all (text_ok n) ys"
proof (induction xs arbitrary: i ys)
  case Nil
  then show ?case by (cases ys) auto
next
  case (Cons x xs)
  then show ?case by (cases ys) (auto simp: bnd_Inr_iff bounded_text_ok)
qed

lemma entries_of_Inr:
  "entries_of v lo hi f key bad rep = Inr r \<longleftrightarrow>
    (\<exists>xs. v = PList xs \<and> lo \<le> len xs \<and> len xs \<le> hi \<and> rmap_from 0 f xs = Inr r \<and> distinct (map key r))"
  by (cases v) (auto simp: entries_of_def bnd_Inr_iff)

lemma rmap_from_all:
  assumes "rmap_from i f xs = Inr ys" and "\<And>k x y. x \<in> set xs \<Longrightarrow> f k x = Inr y \<Longrightarrow> P x y"
  shows "list_all2 P xs ys"
  using assms
proof (induction xs arbitrary: i ys)
  case Nil
  then show ?case by simp
next
  case (Cons x xs)
  from Cons.prems(1) obtain y zs where y: "f i x = Inr y" and zs: "rmap_from (i + 1) f xs = Inr zs"
    and ys: "ys = y # zs" by (auto simp: bnd_Inr_iff)
  have "P x y" by (rule Cons.prems(2) [OF _ y]) simp
  moreover have "list_all2 P xs zs" by (rule Cons.IH [OF zs]) (rule Cons.prems(2); simp)
  ultimately show ?case by (simp add: ys)
qed

lemma rmap_from_map:
  "(\<And>k y. y \<in> set ys \<Longrightarrow> f k (g y) = Inr y) \<Longrightarrow> rmap_from i f (map g ys) = Inr ys"
  by (induction ys arbitrary: i) simp_all

lemma entries_of_json:
  assumes "lo \<le> len ys" and "len ys \<le> hi" and "distinct (map key ys)"
    and "\<And>k y. y \<in> set ys \<Longrightarrow> f k (g y) = Inr y"
  shows "entries_of (PList (map g ys)) lo hi f key bad rep = Inr ys"
  unfolding entries_of_Inr using assms(1-3) rmap_from_map [of ys f g 0, OF assms(4)] by auto

text \<open>One step of \<open>json_enc_dict_cong\<close> for a dictionary with known keys.\<close>

lemma json_enc_fields:
  assumes "distinct_objects (PDict d)" and "set (keys d) = set (keys d')" and "distinct (keys d')"
    and "list_all (\<lambda>(k, v). json_enc (dget d k) = json_enc v) d'"
  shows "json_enc (PDict d) = json_enc (PDict d')"
proof (rule json_enc_dict_cong)
  show "distinct (keys d)" using assms(1) by simp
  fix x
  assume "x \<in> set (keys d')"
  then obtain v where v: "(x, v) \<in> set d'" by auto
  then have "dget d' x = v" using assms(3) by (simp add: dget_def)
  then show "json_enc (dget d x) = json_enc (dget d' x)" using assms(4) v by (auto simp: list_all_iff)
qed (use assms in auto)

declare dget_Cons [simp]

lemma requirement_of_ok:
  assumes "requirement_of i v = Inr r"
  shows "requirement_ok r" and "distinct_objects v \<Longrightarrow> json_enc v = json_enc (requirement_json r)"
proof -
  obtain d rid body priority examples where
    v: "v = PDict d" and k: "set (keys d) = set [''requirement_id'', ''text'', ''priority'', ''acceptance_examples'']"
    and f: "dget d ''requirement_id'' = PStr rid" "dget d ''text'' = PStr body" "dget d ''priority'' = PStr priority"
      "dget d ''acceptance_examples'' = strs examples"
    and ok: "id_text rid" "text_ok 1000 body" "priority \<in> set [''must-have'', ''nice-to-have'']" "len examples \<le> 16"
      "list_all (text_ok 1000) examples"
    and r: "r = \<lparr>rm_id = rid, rm_text = body, rm_priority = priority, rm_examples = examples\<rparr>"
    using assms unfolding requirement_of_def
    by (elim bnd_InrE)
      (auto simp: reader_Inr rmap_from_bounded strs_def bnd_Inr_iff split: pyval.splits if_splits)
  show "requirement_ok r" using ok by (simp add: r requirement_ok_def)
  assume "distinct_objects v"
  then show "json_enc v = json_enc (requirement_json r)"
    unfolding v requirement_json_def
    by (intro json_enc_fields) (use k f in \<open>simp_all add: r del: json_enc.simps\<close>)
qed

lemma requirement_of_json: "requirement_ok r \<Longrightarrow> requirement_of i (requirement_json r) = Inr r"
  unfolding requirement_of_def
  by (cases r) (auto simp: bnd_Inr_iff reader_Inr requirement_json_def requirement_ok_def strs_def rmap_from_bounded)

lemma constraint_of_ok:
  assumes "constraint_of i v = Inr c"
  shows "constraint_ok c" and "distinct_objects v \<Longrightarrow> json_enc v = json_enc (constraint_json c)"
proof -
  obtain d cid kind val source where
    v: "v = PDict d" and k: "set (keys d) = set [''constraint_id'', ''kind'', ''value'', ''source'']"
    and f: "dget d ''constraint_id'' = PStr cid" "dget d ''kind'' = PStr kind" "dget d ''value'' = PStr val"
      "dget d ''source'' = PStr source"
    and ok: "id_text cid" "kind \<in> set constraint_kinds" "text_ok 500 val"
      "source \<in> set [''user'', ''rejection-feedback'', ''policy'']"
    and c: "c = \<lparr>nc_id = cid, nc_kind = kind, nc_value = val, nc_source = source\<rparr>"
    using assms unfolding constraint_of_def by (elim bnd_InrE) (auto simp: reader_Inr bnd_Inr_iff)
  show "constraint_ok c" using ok by (simp add: c constraint_ok_def)
  assume "distinct_objects v"
  then show "json_enc v = json_enc (constraint_json c)"
    unfolding v constraint_json_def
    by (intro json_enc_fields) (use k f in \<open>simp_all add: c del: json_enc.simps\<close>)
qed

lemma constraint_of_json: "constraint_ok c \<Longrightarrow> constraint_of i (constraint_json c) = Inr c"
  unfolding constraint_of_def
  by (cases c) (auto simp: bnd_Inr_iff reader_Inr constraint_json_def constraint_ok_def)

lemma platform_of_ok:
  assumes "platform_of i v = Inr p"
  shows "platform_ok p" and "distinct_objects v \<Longrightarrow> json_enc v = json_enc (platform_json p)"
proof -
  obtain d os arch profile where
    v: "v = PDict d" and k: "set (keys d) = set [''os'', ''arch'', ''profile'']"
    and f: "dget d ''os'' = PStr os" "dget d ''arch'' = PStr arch" "dget d ''profile'' = PStr profile"
    and ok: "os \<in> set [''macos'', ''windows'', ''linux'', ''browser'']"
      "arch \<in> set [''aarch64'', ''x86-64'', ''wasm32'']" "profile \<in> set profile_names"
    and p: "p = (os, arch, profile)"
    using assms unfolding platform_of_def Let_def by (elim bnd_InrE) (auto simp: reader_Inr bnd_Inr_iff)
  show "platform_ok p" using ok by (simp add: p platform_ok_def)
  assume "distinct_objects v"
  then show "json_enc v = json_enc (platform_json p)"
    unfolding v platform_json_def p prod.case
    by (intro json_enc_fields) (use k f in \<open>simp_all del: json_enc.simps\<close>)
qed

lemma platform_of_json: "platform_ok p \<Longrightarrow> platform_of i (platform_json p) = Inr p"
  unfolding platform_of_def Let_def
  by (cases p) (auto simp: bnd_Inr_iff reader_Inr platform_json_def platform_ok_def)

text \<open>A list of entries keeps its content, entry by entry.\<close>

lemma entries_of_ok:
  assumes e: "entries_of v lo hi f key bad rep = Inr ys"
    and ok: "\<And>k x y. f k x = Inr y \<Longrightarrow> Q y"
    and enc: "\<And>k x y. f k x = Inr y \<Longrightarrow> distinct_objects x \<Longrightarrow> json_enc x = json_enc (g y)"
  shows "lo \<le> len ys" and "len ys \<le> hi" and "list_all Q ys" and "distinct (map key ys)"
    and "distinct_objects v \<Longrightarrow> json_enc v = json_enc (PList (map g ys))"
proof -
  obtain xs where v: "v = PList xs" and l: "lo \<le> len xs" "len xs \<le> hi" and r: "rmap_from 0 f xs = Inr ys"
    and d: "distinct (map key ys)" using e by (auto simp: entries_of_Inr)
  have a: "list_all2 (\<lambda>x y. \<exists>k. f k x = Inr y) xs ys" by (rule rmap_from_all [OF r]) blast
  have "length ys = length xs" using a by (simp add: list_all2_lengthD)
  then show "lo \<le> len ys" and "len ys \<le> hi" and "distinct (map key ys)" using l d by simp_all
  have "\<forall>y\<in>set ys. \<exists>x k. f k x = Inr y"
    using a by (induction rule: list_all2_induct) auto
  then show "list_all Q ys" using ok by (auto simp: list_all_iff)
  assume "distinct_objects v"
  then have "\<forall>x\<in>set xs. distinct_objects x" by (simp add: v list_all_iff)
  then have "list_all2 (\<lambda>x w. json_enc x = json_enc w) xs (map g ys)"
    using a enc by (fastforce simp: list_all2_conv_all_nth)
  then show "json_enc v = json_enc (PList (map g ys))" unfolding v by (rule json_enc_list_cong)
qed

lemma requirements_of_ok:
  assumes "entries_of v lo hi requirement_of key bad rep = Inr ys"
  shows "lo \<le> len ys" and "len ys \<le> hi" and "list_all requirement_ok ys" and "distinct (map key ys)"
    and "distinct_objects v \<Longrightarrow> json_enc v = json_enc (PList (map requirement_json ys))"
  using entries_of_ok [OF assms, of requirement_ok requirement_json] requirement_of_ok by blast+

lemma constraints_of_ok:
  assumes "entries_of v lo hi constraint_of key bad rep = Inr ys"
  shows "lo \<le> len ys" and "len ys \<le> hi" and "list_all constraint_ok ys" and "distinct (map key ys)"
    and "distinct_objects v \<Longrightarrow> json_enc v = json_enc (PList (map constraint_json ys))"
  using entries_of_ok [OF assms, of constraint_ok constraint_json] constraint_of_ok by blast+

lemma platforms_of_ok:
  assumes "entries_of v lo hi platform_of key bad rep = Inr ys"
  shows "lo \<le> len ys" and "len ys \<le> hi" and "list_all platform_ok ys" and "distinct (map key ys)"
    and "distinct_objects v \<Longrightarrow> json_enc v = json_enc (PList (map platform_json ys))"
  using entries_of_ok [OF assms, of platform_ok platform_json] platform_of_ok by blast+

section \<open>The whole document\<close>

lemma list_ex_not: "list_ex (\<lambda>x. \<not> P x) xs = (\<not> list_all P xs)"
  by (simp add: list_ex_iff list_all_iff)

lemma platform_profiles:
  "\<not> list_ex (\<lambda>(_, _, p). p \<notin> set profiles) ps \<longleftrightarrow> list_all (\<lambda>(_, _, p). p \<in> set profiles) ps"
  by (auto simp: list_ex_iff list_all_iff)

lemma need_head_Inr:
  "need_head d = Inr (nid, pid, kind, goal) \<longleftrightarrow>
    dget d ''schema_version'' = PStr need_schema \<and> dget d ''document_type'' = PStr ''need-spec''
    \<and> dget d ''need_id'' = PStr nid \<and> id_text nid
    \<and> (\<exists>owner. dget d ''owner'' = PDict owner \<and> set (keys owner) = set [''principal_id'', ''principal_kind'']
      \<and> dget owner ''principal_id'' = PStr pid \<and> dget owner ''principal_kind'' = PStr kind)
    \<and> id_text pid \<and> kind \<in> {''user'', ''service'', ''auditor''}
    \<and> dget d ''goal'' = PStr goal \<and> text_ok 4000 goal"
  unfolding need_head_def
  by (auto simp: bnd_Inr_iff reader_Inr simp del: set_map)

lemma need_lists_Inr:
  "need_lists d = Inr (rs, cs, ps, profiles) \<longleftrightarrow>
    entries_of (dget d ''requirements'') 1 64 requirement_of rm_id
      ''need.requirements must contain 1..64 entries'' ''need.requirement_id values must be unique'' = Inr rs
    \<and> entries_of (dget d ''negative_constraints'') 0 64 constraint_of nc_id
      ''need.negative_constraints must contain at most 64 entries'' ''need.constraint_id values must be unique'' = Inr cs
    \<and> entries_of (dget d ''platforms'') 1 16 platform_of (\<lambda>p. p)
      ''need.platforms must contain 1..16 entries'' ''need.platforms must contain unique tuples'' = Inr ps
    \<and> dget d ''profiles'' = strs profiles \<and> strings_ok 4 32 profiles
    \<and> profiles \<noteq> [] \<and> set profiles \<subseteq> set profile_names \<and> list_all (\<lambda>(_, _, p). p \<in> set profiles) ps"
  unfolding need_lists_def
  by (auto simp: bnd_Inr_iff unique_strings_Inr platform_profiles [symmetric] split: if_splits)

lemma need_ceiling_Inr:
  "need_ceiling d = Inr (allowed, forbidden, scopes) \<longleftrightarrow>
    (\<exists>c. dget d ''permission_ceiling'' = PDict c
      \<and> set (keys c) = set [''allowed_interfaces'', ''forbidden_interfaces'', ''maximum_scope_digests'']
      \<and> dget c ''allowed_interfaces'' = strs allowed \<and> dget c ''forbidden_interfaces'' = strs forbidden
      \<and> dget c ''maximum_scope_digests'' = strs scopes)
    \<and> strings_ok 32 200 allowed \<and> strings_ok 32 200 forbidden \<and> strings_ok 32 64 scopes
    \<and> list_all (\<lambda>a. a \<notin> set forbidden) allowed \<and> list_all hex64 scopes"
proof -
  have a: "list_ex (\<lambda>a. a \<in> set forbidden) allowed = (\<not> list_all (\<lambda>a. a \<notin> set forbidden) allowed)"
    by (simp add: list_ex_iff list_all_iff)
  show ?thesis (is "?l \<longleftrightarrow> ?r")
  proof
    assume ?l
    then obtain c where c: "exact_keys (dget d ''permission_ceiling'')
        [''allowed_interfaces'', ''forbidden_interfaces'', ''maximum_scope_digests''] ''need.permission_ceiling'' = Inr c"
      and u: "unique_strings (dget c ''allowed_interfaces'') ''allowed_interfaces'' 32 200 = Inr allowed"
        "unique_strings (dget c ''forbidden_interfaces'') ''forbidden_interfaces'' 32 200 = Inr forbidden"
        "unique_strings (dget c ''maximum_scope_digests'') ''maximum_scope_digests'' 32 64 = Inr scopes"
      and n: "list_all (\<lambda>a. a \<notin> set forbidden) allowed" "list_all hex64 scopes"
      unfolding need_ceiling_def list_ex_not
      by (elim res_elims) (simp add: a list_ex_iff list_all_iff)
    then show ?r unfolding exact_keys_Inr unique_strings_Inr by (intro conjI exI [of _ c]) simp_all
  next
    assume ?r
    then show ?l
      unfolding need_ceiling_def a list_ex_not
      by (elim exE conjE) (simp add: bnd_Inr_iff exact_keys_Inr unique_strings_Inr a del: set_map)
  qed
qed

lemma need_rest_Inr:
  "need_rest d = Inr (privacy, created, revision) \<longleftrightarrow>
    dget d ''privacy_requirement'' = PStr privacy \<and> privacy \<in> {''local-private'', ''remote-private'', ''public''}
    \<and> dget d ''created_at_utc'' = PStr created \<and> text_ok 20 created \<and> utc_shape created
    \<and> parse_utc_text created \<noteq> None \<and> dget d ''revision'' = PInt revision \<and> 1 \<le> revision"
  (is "?l \<longleftrightarrow> ?r")
proof
  assume ?l
  then show ?r
    unfolding need_rest_def
    by (elim bnd_InrE guard_InrE) (simp add: reader_Inr split: pyval.splits if_splits)
next
  assume ?r
  then show ?l
    unfolding need_rest_def by (elim conjE) (simp add: bnd_Inr_iff reader_Inr)
qed

lemma need_json_get:
  "\<exists>d. need_json n = PDict d \<and> set (keys d) = set need_fields
    \<and> dget d ''schema_version'' = PStr need_schema \<and> dget d ''document_type'' = PStr ''need-spec''
    \<and> dget d ''need_id'' = PStr (nd_id n)
    \<and> dget d ''owner'' = PDict [(''principal_id'', PStr (nd_owner n)), (''principal_kind'', PStr (nd_owner_kind n))]
    \<and> dget d ''goal'' = PStr (nd_goal n)
    \<and> dget d ''requirements'' = PList (map requirement_json (nd_requirements n))
    \<and> dget d ''negative_constraints'' = PList (map constraint_json (nd_constraints n))
    \<and> dget d ''platforms'' = PList (map platform_json (nd_platforms n))
    \<and> dget d ''profiles'' = strs (nd_profiles n)
    \<and> dget d ''permission_ceiling'' = PDict
       [(''allowed_interfaces'', strs (nd_allowed n)), (''forbidden_interfaces'', strs (nd_forbidden n)),
        (''maximum_scope_digests'', strs (nd_scopes n))]
    \<and> dget d ''privacy_requirement'' = PStr (nd_privacy n) \<and> dget d ''created_at_utc'' = PStr (nd_created n)
    \<and> dget d ''revision'' = PInt (nd_revision n)"
  unfolding need_json_def need_fields_def by (rule exI, rule conjI [OF refl]) simp

lemma validate_need_ok:
  assumes "need_ok n"
  shows "validate_need (need_json n) = Inr n"
proof -
  obtain d where d: "need_json n = PDict d" "set (keys d) = set need_fields"
    "dget d ''schema_version'' = PStr need_schema" "dget d ''document_type'' = PStr ''need-spec''"
    "dget d ''need_id'' = PStr (nd_id n)"
    "dget d ''owner'' = PDict [(''principal_id'', PStr (nd_owner n)), (''principal_kind'', PStr (nd_owner_kind n))]"
    "dget d ''goal'' = PStr (nd_goal n)"
    "dget d ''requirements'' = PList (map requirement_json (nd_requirements n))"
    "dget d ''negative_constraints'' = PList (map constraint_json (nd_constraints n))"
    "dget d ''platforms'' = PList (map platform_json (nd_platforms n))"
    "dget d ''profiles'' = strs (nd_profiles n)"
    "dget d ''permission_ceiling'' = PDict
       [(''allowed_interfaces'', strs (nd_allowed n)), (''forbidden_interfaces'', strs (nd_forbidden n)),
        (''maximum_scope_digests'', strs (nd_scopes n))]"
    "dget d ''privacy_requirement'' = PStr (nd_privacy n)" "dget d ''created_at_utc'' = PStr (nd_created n)"
    "dget d ''revision'' = PInt (nd_revision n)"
    using need_json_get [of n] by blast
  have "need_head d = Inr (nd_id n, nd_owner n, nd_owner_kind n, nd_goal n)"
    unfolding need_head_Inr using assms d by (simp add: need_ok_def)
  moreover have "need_lists d = Inr (nd_requirements n, nd_constraints n, nd_platforms n, nd_profiles n)"
    unfolding need_lists_Inr d using assms
    by (intro conjI entries_of_json refl)
      (auto simp: need_ok_def list_all_iff requirement_of_json constraint_of_json platform_of_json)
  moreover have "need_ceiling d = Inr (nd_allowed n, nd_forbidden n, nd_scopes n)"
    unfolding need_ceiling_Inr using assms d by (simp add: need_ok_def)
  moreover have "need_rest d = Inr (nd_privacy n, nd_created n, nd_revision n)"
    unfolding need_rest_Inr using assms d by (simp add: need_ok_def)
  moreover have "exact_keys (need_json n) need_fields ''need'' = Inr d"
    unfolding exact_keys_Inr using d(1,2) by blast
  ultimately show ?thesis by (simp add: validate_need_def)
qed

lemma validate_need_parts:
  assumes "validate_need v = Inr n"
  obtains d where "v = PDict d" and "set (keys d) = set need_fields"
    and "need_head d = Inr (nd_id n, nd_owner n, nd_owner_kind n, nd_goal n)"
    and "need_lists d = Inr (nd_requirements n, nd_constraints n, nd_platforms n, nd_profiles n)"
    and "need_ceiling d = Inr (nd_allowed n, nd_forbidden n, nd_scopes n)"
    and "need_rest d = Inr (nd_privacy n, nd_created n, nd_revision n)"
  using assms unfolding validate_need_def
  by (elim bnd_InrE) (auto simp: exact_keys_Inr elim!: bnd_InrE simp del: set_map)

lemma validate_need_sound:
  assumes "validate_need v = Inr n"
  shows "need_ok n" and "distinct_objects v \<Longrightarrow> json_enc v = json_enc (need_json n)"
proof -
  obtain d where d: "v = PDict d" "set (keys d) = set need_fields"
    and h: "need_head d = Inr (nd_id n, nd_owner n, nd_owner_kind n, nd_goal n)"
    and l: "need_lists d = Inr (nd_requirements n, nd_constraints n, nd_platforms n, nd_profiles n)"
    and c: "need_ceiling d = Inr (nd_allowed n, nd_forbidden n, nd_scopes n)"
    and r: "need_rest d = Inr (nd_privacy n, nd_created n, nd_revision n)"
    using assms by (rule validate_need_parts)
  note h = h [unfolded need_head_Inr] and l = l [unfolded need_lists_Inr]
    and c = c [unfolded need_ceiling_Inr] and r = r [unfolded need_rest_Inr]
  note rs = requirements_of_ok [OF l [THEN conjunct1]]
    and cs = constraints_of_ok [OF l [THEN conjunct2, THEN conjunct1]]
    and ps = platforms_of_ok [OF l [THEN conjunct2, THEN conjunct2, THEN conjunct1]]
  show "need_ok n"
    unfolding need_ok_def using h l c r rs(1-4) cs(1-4) ps(1-4) by (simp add: comp_def)
  assume "distinct_objects v"
  then have o: "distinct_objects (PDict d)" and sub: "distinct_objects (dget d k)" for k
    using distinct_objects_dget d(1) by auto
  obtain owner where owner: "dget d ''owner'' = PDict owner" "set (keys owner) = set [''principal_id'', ''principal_kind'']"
      "dget owner ''principal_id'' = PStr (nd_owner n)" "dget owner ''principal_kind'' = PStr (nd_owner_kind n)"
    using h by blast
  obtain ceil where ceil: "dget d ''permission_ceiling'' = PDict ceil"
      "set (keys ceil) = set [''allowed_interfaces'', ''forbidden_interfaces'', ''maximum_scope_digests'']"
      "dget ceil ''allowed_interfaces'' = strs (nd_allowed n)" "dget ceil ''forbidden_interfaces'' = strs (nd_forbidden n)"
      "dget ceil ''maximum_scope_digests'' = strs (nd_scopes n)"
    using c by blast
  have "json_enc (PDict owner) = json_enc (PDict [(''principal_id'', PStr (nd_owner n)), (''principal_kind'', PStr (nd_owner_kind n))])"
    by (rule json_enc_fields) (use sub [of "''owner''"] owner in \<open>simp_all del: json_enc.simps\<close>)
  moreover have "json_enc (PDict ceil) = json_enc (PDict
       [(''allowed_interfaces'', strs (nd_allowed n)), (''forbidden_interfaces'', strs (nd_forbidden n)),
        (''maximum_scope_digests'', strs (nd_scopes n))])"
    by (rule json_enc_fields) (use sub [of "''permission_ceiling''"] ceil in \<open>simp_all del: json_enc.simps\<close>)
  ultimately show "json_enc v = json_enc (need_json n)"
    unfolding d(1) need_json_def using d(2) h l r owner(1) ceil(1) rs(5) [OF sub] cs(5) [OF sub] ps(5) [OF sub]
    by (intro json_enc_fields [OF o]) (simp_all add: need_fields_def del: json_enc.simps)
qed

end
