(* ===== verification/RegTheorems.thy ===== *)
theory RegTheorems
  imports RegEmbed RegNeedTheorems
begin

text \<open>
  The properties of the Registry: validation, the hard filter, search, and the vector cache, with
  the concrete documents their witnesses use.
\<close>

section \<open>Validation\<close>

definition demo_need :: need where
  "demo_need = \<lparr>nd_id = ''n'', nd_owner = ''u'', nd_owner_kind = ''user'', nd_goal = ''g'',
     nd_requirements = [\<lparr>rm_id = ''r'', rm_text = ''t'', rm_priority = ''must-have'', rm_examples = []\<rparr>],
     nd_constraints = [], nd_platforms = [(''linux'', ''x86-64'', ''desktop'')],
     nd_profiles = [''desktop''], nd_allowed = [], nd_forbidden = [], nd_scopes = [],
     nd_privacy = ''public'', nd_created = ''2030-01-02T03:04:05Z'', nd_revision = 1\<rparr>"

lemma demo_need_valid: "validate_need (need_json demo_need) = Inr demo_need"
  by code_simp

text \<open>
  C24. An accepted need specification keeps its meaning: its typed content satisfies the invariants
  the filter relies on (unique identifiers, supported enumerations, allowed and forbidden interfaces
  disjoint, every platform's profile listed), prints to the same canonical bytes as the document
  that was sent, and is accepted again.
\<close>

theorem need_keeps_its_meaning:
  assumes "validate_need v = Inr n" and "distinct_objects v"
  shows "need_ok n \<and> json_enc v = json_enc (need_json n) \<and> validate_need (need_json n) = Inr n"
  using validate_need_sound [OF assms(1)] assms(2) validate_need_ok by blast

theorem need_keeps_its_meaning_witness:
  "need_ok demo_need \<and> json_enc (need_json demo_need) = json_enc (need_json demo_need)
    \<and> validate_need (need_json demo_need) = Inr demo_need"
proof -
  have "distinct_objects (need_json demo_need)" by code_simp
  then show ?thesis by (rule need_keeps_its_meaning [OF demo_need_valid])
qed

section \<open>The hard filter\<close>

lemma reason_order: "map fst (reason_fails cf n c r) = rejection_order"
  by (simp add: reason_fails_def rejection_order_def)

lemma filter_keys_eq:
  assumes "distinct (map fst kbs)"
  shows "filter (\<lambda>x. x \<in> set (map fst (filter snd kbs))) (map fst kbs) = map fst (filter snd kbs)"
  using assms
proof (induction kbs)
  case (Cons e kbs)
  have "fst e \<notin> set (map fst (filter snd kbs))" using Cons.prems by auto
  moreover have "filter (\<lambda>x. x \<in> set (map fst (filter snd (e # kbs)))) (map fst kbs)
      = filter (\<lambda>x. x \<in> set (map fst (filter snd kbs))) (map fst kbs)"
    using Cons.prems by (intro filter_cong) (auto simp: image_iff)
  ultimately show ?case using Cons by simp
qed simp

lemma rejection_order_distinct: "distinct rejection_order"
  by code_simp

text \<open>The reasons collected by the checks, whatever the order of the calls.\<close>

definition flagged :: "bool \<Rightarrow> string \<Rightarrow> string set" where
  "flagged b k = (if b then {k} else {})"

lemma flagged_facts:
  "set (check_reason cond k reasons) = set reasons \<union> flagged (\<not> cond) k"
  "set (map fst (filter snd ((k, b) # kbs))) = flagged b k \<union> set (map fst (filter snd kbs))"
  "flagged a k \<union> flagged b k = flagged (a \<or> b) k"
  "flagged a k \<union> (flagged b k \<union> X) = flagged (a \<or> b) k \<union> X"
  by (auto simp: flagged_def)

lemma forbids_iff:
  "(all_in xs ys \<and> list_all (\<lambda>i. i \<notin> set zs) xs) \<longleftrightarrow> set xs \<subseteq> set ys - set zs"
  by (auto simp: all_in_iff list_all_iff)

lemma collected_reasons:
  "set (fst (constraint_checks cf r (nd_constraints n) (base_reasons n c r, facts)))
    = set (map fst (filter snd (reason_fails cf n c r)))"
proof -
  have neg: "(if b then {k} else {}) = flagged b k" for b and k :: string by (simp add: flagged_def)
  show ?thesis
    unfolding constraint_checks_reasons base_reasons_def trust_checks_def permission_checks_def
      compatibility_checks_def contract_checks_def reason_fails_def comp_apply neg
    unfolding flagged_facts(1,2) forbids_iff
    unfolding all_in_iff de_Morgan_conj de_Morgan_disj not_not list.set(1) list.map(1)
      filter.simps(1) Un_empty_left Un_empty_right Un_assoc flagged_facts(3,4)
    by (simp only: Un_ac)
qed

lemma hard_filter_eligible: "fr_eligible (hard_filter cf n c r) = (fr_reasons (hard_filter cf n c r) = [])"
  by (simp add: hard_filter_def Let_def split: prod.split)

lemma hard_filter_reasons:
  "fr_reasons (hard_filter cf n c r) = map fst (filter snd (reason_fails cf n c r))"
proof -
  obtain reasons facts where e: "constraint_checks cf r (nd_constraints n) (base_reasons n c r, base_facts n r)
      = (reasons, facts)"
    by (rule prod.exhaust)
  then have "set reasons = set (map fst (filter snd (reason_fails cf n c r)))"
    using collected_reasons [of cf r n c "base_facts n r"] by simp
  then have "filter (\<lambda>x. x \<in> set reasons) rejection_order = map fst (filter snd (reason_fails cf n c r))"
    using filter_keys_eq [of "reason_fails cf n c r"] rejection_order_distinct by (simp only: reason_order simp_thms)
  then show ?thesis by (simp add: hard_filter_def e Let_def)
qed

lemma filter_exact: "fr_eligible (hard_filter cf n c r) = (\<not> list_ex snd (reason_fails cf n c r))"
proof -
  have "(map fst (filter snd kbs) = []) = (\<not> list_ex snd kbs)" for kbs :: "bool dict"
    by (auto simp: filter_empty_conv list_ex_iff)
  then show ?thesis by (simp add: hard_filter_reasons hard_filter_eligible)
qed

text \<open>
  C22. The hard filter is exact: it reports precisely the failing conditions, each once and in the
  fixed order, and lets a candidate through exactly when none fails.
\<close>

theorem hard_filter_is_exact:
  "fr_reasons (hard_filter cf n c r) = map fst (filter snd (reason_fails cf n c r))
    \<and> fr_eligible (hard_filter cf n c r) = (\<not> list_ex snd (reason_fails cf n c r))"
  using hard_filter_reasons filter_exact by blast

section \<open>Search\<close>

definition recommendations :: "pyval dict \<Rightarrow> pyval list" where
  "recommendations d = (case dget d ''recommendations'' of PList xs \<Rightarrow> xs | _ \<Rightarrow> [])"

lemma bounded_result_same: "bounded_result d = Inr d' \<Longrightarrow> d' = d"
  by (auto simp: bounded_result_def elim!: bnd_InrE split: if_splits)

lemma refinement_recommends_nothing:
  "refinement_result sha n rejected reason message state ei k = Inr d \<Longrightarrow> recommendations d = []"
  by (auto simp: refinement_result_def recommendations_def dget_def elim!: bnd_InrE dest: bounded_result_same)

lemma recommendation_list:
  "recommendation_result sha fl n rejected cs ei k = Inr d \<Longrightarrow> recommendations d = map (candidate_json fl) cs"
  by (auto simp: recommendation_result_def recommendations_def dget_def elim!: bnd_InrE dest: bounded_result_same)

lemma conclude_list:
  assumes "conclude cf sha fl ei n eligible rejected limit vectors = Inr d"
  shows "recommendations d =
    map (candidate_json fl) (take (nat limit) (filter cd_acceptable (ranked_of cf sha fl n eligible vectors)))"
proof (cases "take (nat limit) (filter cd_acceptable (ranked_of cf sha fl n eligible vectors)) = []")
  case True
  then have "bnd (refinement_result sha n rejected ''no-acceptable-semantic-match''
      ''Candidates passed hard filters but none met must-have coverage and the hybrid relevance threshold.''
      ''live'' ei (length eligible)) (\<lambda>e. bounded_result (aput ''considered'' (PList (map (candidate_json fl)
        (take (nat limit) (ranked_of cf sha fl n eligible vectors)))) e)) = Inr d"
    using assms by (simp add: conclude_def Let_def)
  then show ?thesis
  proof (rule bnd_InrE)
    fix e
    assume r: "refinement_result sha n rejected ''no-acceptable-semantic-match''
        ''Candidates passed hard filters but none met must-have coverage and the hybrid relevance threshold.''
        ''live'' ei (length eligible) = Inr e"
      and b: "bounded_result (aput ''considered'' (PList (map (candidate_json fl)
        (take (nat limit) (ranked_of cf sha fl n eligible vectors)))) e) = Inr d"
    have "recommendations d = recommendations e"
      using bounded_result_same [OF b] by (simp add: recommendations_def dget_def dict_simps)
    then show ?thesis using True refinement_recommends_nothing [OF r] by simp
  qed
next
  case False
  then show ?thesis using assms recommendation_list by (simp add: conclude_def Let_def)
qed

text \<open>A successful search: nothing is recommended, or the whole pipeline ran.\<close>

lemma search_cases [consumes 1, case_names empty ranked]:
  assumes "search cf sha fl ei provide st need constraints records limit = (st', Inr d)"
  obtains "recommendations d = []"
    | n c m vectors where "validate_need need = Inr n" "validate_constraints constraints = Inr c" "limit = PInt m"
      "sc_consent c = ''granted''"
      "recommendations d = map (candidate_json fl) (take (nat m) (filter cd_acceptable
         (ranked_of cf sha fl n (fst (partition_records cf n c records)) vectors)))"
proof -
  let ?checks = "bnd (validate_need need) (\<lambda>n. bnd (validate_constraints constraints) (\<lambda>c.
        bnd (limit_of limit) (\<lambda>limit.
        if max_scan_records < len records
        then reg_error (''corpus exceeds '' @ dec max_scan_records @ '' records'') else Inr (n, c, limit))))"
  obtain n c m where ok: "?checks = Inr (n, c, m)"
    using assms by (cases ?checks) (auto simp: search_def)
  then have v: "validate_need need = Inr n" "validate_constraints constraints = Inr c" "limit_of limit = Inr m"
    by (auto elim!: res_elims)
  then have m: "limit = PInt m" by (auto simp: limit_of_def pint_within_iff split: if_splits)
  obtain eligible rejected where p: "partition_records cf n c records = (eligible, rejected)"
    by (rule prod.exhaust)
  obtain s r where pr: "provide st (query_texts n eligible) = (s, r)" by (rule prod.exhaust)
  show thesis
  proof (cases "eligible = [] \<or> sc_consent c \<noteq> ''granted''")
    case True
    have "recommendations d = []"
      using assms True by (auto simp: search_def ok p split: if_splits dest: refinement_recommends_nothing)
    then show thesis by (rule that(1))
  next
    case False
    then have out: "(case r of
          Inl (Fail code message retry) \<Rightarrow>
            if code = ''embedding-error''
            then refinement_result sha n rejected ''embedding-provider-unavailable'' message
              ''degraded'' ei (length eligible)
            else Inl (Fail code message retry)
        | Inl e \<Rightarrow> Inl e
        | Inr vectors \<Rightarrow>
            if length vectors \<noteq> length (query_texts n eligible)
            then refinement_result sha n rejected ''embedding-provider-invalid''
              ''Embedding provider returned the wrong number of vectors.'' ''degraded'' ei (length eligible)
            else conclude cf sha fl ei n eligible rejected m vectors) = Inr d"
      using assms by (simp add: search_def ok p pr)
    show thesis
    proof (cases r)
      case (Inl e)
      then have "recommendations d = []"
        using out by (cases e) (auto split: if_splits dest: refinement_recommends_nothing)
      then show thesis by (rule that(1))
    next
      case (Inr vectors)
      show thesis
      proof (cases "length vectors = length (query_texts n eligible)")
        case True
        then show thesis
          using that(2) [OF v(1,2) m, of vectors] conclude_list [of cf sha fl ei n eligible rejected m vectors d]
            False out Inr p by simp
      next
        case bad: False
        then have "recommendations d = []" using out Inr by (auto dest: refinement_recommends_nothing)
        then show thesis by (rule that(1))
      qed
    qed
  qed
qed





text \<open>
  C23. Without granted consent the provider is never asked: the answer is the same for every
  provider, the provider's state is untouched, and nothing is recommended.
\<close>

theorem no_consent_no_provider:
  assumes "\<And>c. validate_constraints constraints = Inr c \<Longrightarrow> sc_consent c \<noteq> ''granted''"
  shows "\<exists>r. \<forall>(provide :: 's \<Rightarrow> _) st. search cf sha fl ei provide st need constraints records limit = (st, r)
    \<and> (\<forall>d. r = Inr d \<longrightarrow> recommendations d = [])"
proof -
  have "\<exists>r. \<forall>(provide :: 's \<Rightarrow> _) st. search cf sha fl ei provide st need constraints records limit = (st, r)"
  proof (cases "bnd (validate_need need) (\<lambda>n. bnd (validate_constraints constraints) (\<lambda>c.
        bnd (limit_of limit) (\<lambda>limit.
        if max_scan_records < len records
        then reg_error (''corpus exceeds '' @ dec max_scan_records @ '' records'') else Inr (n, c, limit))))")
    case (Inr x)
    then obtain n c m where x: "x = (n, c, m)" and c: "validate_constraints constraints = Inr c"
      by (auto elim!: res_elims)
    obtain eligible rejected where "partition_records cf n c records = (eligible, rejected)"
      by (rule prod.exhaust)
    then show ?thesis using assms [OF c] by (cases "eligible = []") (simp_all add: search_def Inr x)
  qed (simp add: search_def)
  then obtain r where r: "\<And>(provide :: 's \<Rightarrow> _) st. search cf sha fl ei provide st need constraints records limit = (st, r)"
    by blast
  have "recommendations d = []" if "r = Inr d" for d
    using r [unfolded that]
  proof (cases rule: search_cases)
    case (ranked n c m vectors)
    then show ?thesis using assms by blast
  qed
  then show ?thesis using r by blast
qed

section \<open>A concrete search\<close>

definition demo_app :: app_record where
  "demo_app = \<lparr>ar_record = ''registry.fixture.1'', ar_id = ''app.one'', ar_version = ''1.0.0'',
     ar_kind = ''ui'', ar_name = ''g'', ar_summary = ''t'', ar_publisher = ''fixture.vibapp'',
     ar_publisher_state = ''verified'', ar_package = ''p'', ar_format = package_format,
     ar_contract = component_contract, ar_wasi = wasi_version, ar_world = ''ui-only-reference'',
     ar_platforms = [(''linux'', ''x86-64'', ''desktop'')], ar_profiles = [''desktop''], ar_permissions = [],
     ar_visibility = ''public'', ar_license = ''Apache-2.0'', ar_verified = ''verified'',
     ar_revocation = ''not-revoked'', ar_evidence = ''fixture.verify.1'', ar_publication = ''published'',
     ar_tags = [''g''], ar_labels = [''t'']\<rparr>"

definition exact_floats :: floats where
  "exact_floats = \<lparr>fl_round = \<lambda>x. x, fl_sqrt = \<lambda>x. x, fl_six = \<lambda>x. x, fl_text = \<lambda>_. ''1.0''\<rparr>"

definition demo_constraints :: "string \<Rightarrow> pyval" where
  "demo_constraints consent = PDict (aput ''embedding_consent'' (PStr consent) default_constraints)"

definition demo_info :: embedder_info where
  "demo_info = \<lparr>ei_provider = ''local'', ei_model = ''m'', ei_dimensions = 1\<rparr>"














theorem no_consent_no_provider_witness:
  "\<exists>r. \<forall>provide st. search (\<lambda>s. s) (\<lambda>s. s) exact_floats demo_info (provide :: unit \<Rightarrow> _) st
     (need_json demo_need) (demo_constraints ''not-granted'') [demo_app] (PInt 1) = (st, r)
    \<and> (\<forall>d. r = Inr d \<longrightarrow> recommendations d = [])"
proof (rule no_consent_no_provider)
  have "case validate_constraints (demo_constraints ''not-granted'') of Inl _ \<Rightarrow> False
      | Inr c \<Rightarrow> sc_consent c \<noteq> ''granted''"
    by code_simp
  then show "sc_consent c \<noteq> ''granted''" if "validate_constraints (demo_constraints ''not-granted'') = Inr c" for c
    using that by simp
qed

end
