(* ===== verification/PyEq.thy ===== *)
theory PyEq
  imports PyText
begin

text \<open>
  Dynamic values as several components compare and read them: Python equality of decoded JSON
  values, \<open>d.get(key, {}).get(...)\<close> chains, chains of conditions joined with \<open>or\<close>, and the strict
  canonical encoding (\<open>allow_nan=False\<close>, encoded to UTF-8).

  Booleans are integers in Python (\<open>True == 1\<close>), an integral float equals the integer, and the
  order of a dictionary's items does not matter. \<open>fi\<close> gives the integer a float literal is equal to,
  where there is one.
\<close>

section \<open>Equality\<close>

fun py_number :: "(string \<Rightarrow> int option) \<Rightarrow> pyval \<Rightarrow> int option" where
  "py_number fi (PBool b) = Some (if b then 1 else 0)"
| "py_number fi (PInt i) = Some i"
| "py_number fi (PFloat s) = fi s"
| "py_number fi _ = None"

function py_eq :: "(string \<Rightarrow> int option) \<Rightarrow> pyval \<Rightarrow> pyval \<Rightarrow> bool" where
  "py_eq fi PNone w = (w = PNone)"
| "py_eq fi (PStr s) w = (w = PStr s)"
| "py_eq fi (PBool b) w = (py_number fi w = Some (if b then 1 else 0))"
| "py_eq fi (PInt i) w = (py_number fi w = Some i)"
| "py_eq fi (PFloat s) w =
    ((w = PFloat s \<and> s \<noteq> ''NaN'') \<or> (fi s \<noteq> None \<and> py_number fi w = fi s))"
| "py_eq fi (PList xs) w =
    (case w of PList ys \<Rightarrow> length xs = length ys \<and> list_all (\<lambda>(x, y). py_eq fi x y) (zip xs ys) | _ \<Rightarrow> False)"
| "py_eq fi (PDict d) w =
    (case w of
       PDict e \<Rightarrow> length d = length e \<and>
         list_all (\<lambda>(k, v). case map_of e k of None \<Rightarrow> False | Some u \<Rightarrow> py_eq fi v u) d
     | _ \<Rightarrow> False)"
  by pat_completeness auto

termination
  by (relation "measure (\<lambda>(_, v, _). size v)")
    (auto dest!: set_zip_leftD simp: less_Suc_eq_le size_list_estimation' intro: le_imp_less_Suc)

lemma py_eq_text [simp]: "py_eq fi v (PStr s) \<longleftrightarrow> v = PStr s"
  by (cases v) auto

lemma py_eq_none [simp]: "py_eq fi v PNone \<longleftrightarrow> v = PNone"
  by (cases v) auto

section \<open>Reading\<close>

text \<open>\<open>d.get(k, {})\<close> where a dictionary is needed next: another value has no \<open>get\<close>.\<close>

definition dsub :: "pyval dict \<Rightarrow> string \<Rightarrow> pyval dict res" where
  "dsub d k =
    (case aget d k of
       None \<Rightarrow> Inr []
     | Some (PDict e) \<Rightarrow> Inr e
     | Some _ \<Rightarrow> Inl (Crash ''AttributeError''))"

text \<open>\<open>d[k]\<close>, and \<open>d[k]\<close> where a dictionary is needed next (a list or a string is not indexed by one).\<close>

definition ditem :: "pyval dict \<Rightarrow> string \<Rightarrow> pyval res" where
  "ditem d k = (case aget d k of None \<Rightarrow> Inl (Crash ''KeyError'') | Some v \<Rightarrow> Inr v)"

definition need_dict :: "pyval \<Rightarrow> pyval dict res" where
  "need_dict v = (case v of PDict d \<Rightarrow> Inr d | _ \<Rightarrow> Inl (Crash ''TypeError''))"

definition ditems :: "pyval dict \<Rightarrow> string \<Rightarrow> pyval dict res" where
  "ditems d k = bnd (ditem d k) need_dict"

text \<open>\<open>c1 or c2 or ...\<close>: later conditions are not evaluated once one holds.\<close>

fun any_res :: "bool res list \<Rightarrow> bool res" where
  "any_res [] = Inr False"
| "any_res (c # cs) = bnd c (\<lambda>b. if b then Inr True else any_res cs)"

lemma any_res_False: "any_res cs = Inr False \<longleftrightarrow> (\<forall>c\<in>set cs. c = Inr False)"
  by (induction cs) (auto simp: bnd_Inr_iff)

text \<open>\<open>if c1 or c2 or ...: raise e\<close>.\<close>

definition refuse :: "bool res list \<Rightarrow> exn \<Rightarrow> unit res" where
  "refuse cs e = bnd (any_res cs) (\<lambda>b. if b then Inl e else Inr ())"

lemma refuse_Inr [res_simps]: "refuse cs e = Inr u \<longleftrightarrow> (\<forall>c\<in>set cs. c = Inr False)"
  by (auto simp: refuse_def bnd_Inr_iff any_res_False split: if_splits)

abbreviation holds :: "bool \<Rightarrow> bool res" where
  "holds b \<equiv> Inr b"

section \<open>The strict canonical encoding\<close>

fun has_nan :: "pyval \<Rightarrow> bool" where
  "has_nan (PFloat s) = (s \<in> {''NaN'', ''Infinity'', ''-Infinity''})"
| "has_nan (PList xs) = list_ex has_nan xs"
| "has_nan (PDict d) = list_ex (\<lambda>(k, v). has_nan v) d"
| "has_nan _ = False"

definition strict_bytes :: "pyval \<Rightarrow> string res" where
  "strict_bytes v =
    (if has_nan v then Inl (Crash ''ValueError'')
     else (let b = json_enc v in if has_surrogate b then Inl (Crash ''UnicodeEncodeError'') else Inr b))"

lemma strict_bytes_Inr: "strict_bytes v = Inr b \<Longrightarrow> b = json_enc v"
  by (auto simp: strict_bytes_def Let_def split: if_splits)

text \<open>\<open>canonical_json(a) != canonical_json(b)\<close>.\<close>

definition bytes_differ :: "pyval \<Rightarrow> pyval \<Rightarrow> bool res" where
  "bytes_differ v w = bnd (strict_bytes v) (\<lambda>a. bnd (strict_bytes w) (\<lambda>b. Inr (a \<noteq> b)))"

lemma bytes_differ_False: "bytes_differ v w = Inr False \<Longrightarrow> json_enc v = json_enc w"
  by (auto simp: bytes_differ_def elim!: bnd_InrE dest!: strict_bytes_Inr)

section \<open>Shapes\<close>

text \<open>\<open>type(v) is int and v >= low\<close>.\<close>

fun pint_from :: "int \<Rightarrow> pyval \<Rightarrow> bool" where
  "pint_from low (PInt i) = (low \<le> i)"
| "pint_from low _ = False"

lemma pint_from_iff: "pint_from low v \<longleftrightarrow> (\<exists>i. v = PInt i \<and> low \<le> i)"
  by (cases v) auto

fun exact_int :: "pyval \<Rightarrow> bool" where
  "exact_int (PInt _) = True"
| "exact_int _ = False"

text \<open>\<open>s[:n]\<close>: the first \<open>n\<close> code points.\<close>

fun py_take :: "nat \<Rightarrow> string \<Rightarrow> string" where
  "py_take n [] = []"
| "py_take n (c # s) =
    (if continuation c then c # py_take n s else (case n of 0 \<Rightarrow> [] | Suc m \<Rightarrow> c # py_take m s))"

text \<open>A string for which a predicate holds.\<close>

fun pstr_such :: "(string \<Rightarrow> bool) \<Rightarrow> pyval \<Rightarrow> bool" where
  "pstr_such P (PStr s) = P s"
| "pstr_such P _ = False"

lemma pstr_such_iff: "pstr_such P v \<longleftrightarrow> (\<exists>s. v = PStr s \<and> P s)"
  by (cases v) auto

definition text_between :: "nat \<Rightarrow> nat \<Rightarrow> pyval \<Rightarrow> bool" where
  "text_between lo hi v = pstr_such (\<lambda>s. lo \<le> py_len s \<and> py_len s \<le> hi) v"

section \<open>A bound on the encoding\<close>

text \<open>\<open>json_cap\<close> bounds the length of an encoding without computing it.\<close>

fun json_cap :: "pyval \<Rightarrow> nat" where
  "json_cap PNone = 4"
| "json_cap (PBool b) = 5"
| "json_cap (PInt i) = length (dec i)"
| "json_cap (PFloat s) = length s"
| "json_cap (PStr s) = 6 * length s + 2"
| "json_cap (PList xs) = sum_list (map (\<lambda>x. json_cap x + 1) xs) + 2"
| "json_cap (PDict d) = sum_list (map (\<lambda>(k, v). 6 * length k + json_cap v + 4) d) + 2"

lemma length_esc: "length (esc_char c) \<le> 6"
  by (simp add: esc_char_def)

lemma length_json_str: "length (json_str s) \<le> 6 * length s + 2"
proof -
  have "length (concat (map esc_char s)) \<le> 6 * length s"
    by (induction s) (use length_esc in \<open>auto intro: add_mono\<close>)
  then show ?thesis by (simp add: json_str_def)
qed

lemma length_joinc: "length (joinc xs) \<le> sum_list (map (\<lambda>x. length x + 1) xs)"
  by (induction xs rule: joinc.induct) auto

lemma sum_list_sort_key: "sum_list (map f (sort_key g xs)) = sum_list (map f xs)" for f :: "'a \<Rightarrow> nat"
proof (induction xs)
  case (Cons x xs)
  have "sum_list (map f (insort_key g x ys)) = f x + sum_list (map f ys)" for ys
    by (induction ys) auto
  then show ?case using Cons by simp
qed simp

lemma length_json_enc: "length (json_enc v) \<le> json_cap v"
proof (induction v rule: json_cap.induct)
  case (6 xs)
  have "length (joinc (map json_enc xs)) \<le> sum_list (map (\<lambda>x. length (json_enc x) + 1) xs)"
    using length_joinc [of "map json_enc xs"] by (simp add: comp_def)
  also have "\<dots> \<le> sum_list (map (\<lambda>x. json_cap x + 1) xs)"
    using 6 by (intro sum_list_mono) auto
  finally show ?case by simp
next
  case (7 d)
  let ?item = "\<lambda>(k, e). json_str k @ CHR '':'' # e"
  let ?es = "map (\<lambda>(k, v). (k, json_enc v)) d"
  have "length (joinc (map ?item (sort_key fst ?es))) \<le> sum_list (map (\<lambda>x. length (?item x) + 1) (sort_key fst ?es))"
    using length_joinc [of "map ?item (sort_key fst ?es)"] by (simp add: comp_def)
  also have "\<dots> = sum_list (map (\<lambda>x. length (?item x) + 1) ?es)"
    by (rule sum_list_sort_key)
  also have "\<dots> = sum_list (map (\<lambda>(k, v). length (json_str k) + length (json_enc v) + 2) d)"
    by (simp add: comp_def split_beta')
  also have "\<dots> \<le> sum_list (map (\<lambda>(k, v). 6 * length k + json_cap v + 4) d)"
  proof (rule sum_list_mono)
    fix p assume p: "p \<in> set d"
    obtain k v where kv: "p = (k, v)" by force
    show "(case p of (k, v) \<Rightarrow> length (json_str k) + length (json_enc v) + 2) \<le> (case p of (k, v) \<Rightarrow> 6 * length k + json_cap v + 4)"
      using 7 [OF p kv [symmetric]] length_json_str [of k] kv by simp
  qed
  finally show ?case by (simp add: add_ac)
qed (use length_json_str in auto)

definition doc_ok :: "nat \<Rightarrow> pyval \<Rightarrow> bool" where
  "doc_ok n v \<longleftrightarrow> ascii_json v \<and> \<not> has_nan v \<and> json_cap v \<le> n"

lemma doc_ok_bytes: "doc_ok n v \<Longrightarrow> strict_bytes v = Inr (json_enc v) \<and> length (json_enc v) \<le> n"
  using length_json_enc [of v] ascii_no_surrogate [OF ascii_json_enc]
  by (auto simp: doc_ok_def strict_bytes_def simp del: json_enc.simps)

end
