(* ===== verification/DelivData.thy ===== *)
theory DelivData
  imports PyEq RegNeed
begin

text \<open>
  The delivery controller (\<open>orchestrator/delivery_controller.py\<close>): its constants, the policy that
  classifies failures, the checks of the durable records, and the diagnostics it shows of a running
  or finished CodeAgent.

  A \<open>DeliveryError\<close> is its code and message; the stage it also carries is only printed, except where
  a definition returns it. Files are private regular files the process may read: their owner, mode
  and links are not modelled.
\<close>

section \<open>Constants\<close>

definition delivery_schema :: string where
  "delivery_schema = ''vibapp.delivery-controller.experimental-v2''"
definition task_version :: string where "task_version = ''vibapp.delivery-task.experimental-v2''"
definition attempt_version :: string where "attempt_version = ''vibapp.delivery-attempt.experimental-v2''"
definition event_version :: string where "event_version = ''vibapp.delivery-event.experimental-v1''"
definition terminal_statuses :: "string list" where
  "terminal_statuses = [''private-appstore-ready'', ''failed'']"
definition max_document_bytes :: int where "max_document_bytes = 512 * 1024"
definition max_event_bytes :: int where "max_event_bytes = 16 * 1024"
definition max_event_log_bytes :: int where "max_event_log_bytes = 1024 * 1024"
definition attempt_cap :: int where "attempt_cap = 64"

definition trigger_order :: "string list" where
  "trigger_order = [''on-enable'', ''scheduler'', ''manual'']"

definition task_provider_to_adapter :: "string dict" where
  "task_provider_to_adapter =
    [(''openai-codex'', ''codex''), (''anthropic-claude-code'', ''claude-code''), (''opencode'', ''opencode''),
     (''google-gemini-cli'', ''gemini-cli'')]"

section \<open>Identifier shapes\<close>

definition task_id_shape :: "string \<Rightarrow> bool" where
  "task_id_shape s \<longleftrightarrow>
    starts_with s ''development-'' \<and> length s = 12 + 32 \<and> list_all hex_c (drop 12 s)"

definition attempt_id_shape :: "string \<Rightarrow> bool" where
  "attempt_id_shape s \<longleftrightarrow>
    starts_with s ''attempt-'' \<and> length s = 8 + 4 + 1 + 16 \<and> list_all digit_c (take 4 (drop 8 s))
    \<and> s ! 12 = CHR ''-'' \<and> list_all hex_c (drop 13 s)"

text \<open>\<open>[a-z][a-z0-9]*(?:[.-][a-z0-9]+)*\<close>.\<close>

definition app_c :: "char \<Rightarrow> bool" where
  "app_c c \<longleftrightarrow> lower_c c \<or> digit_c c"

fun app_tail :: "string \<Rightarrow> bool" where
  "app_tail [] = True"
| "app_tail (c # s) =
    (if app_c c then app_tail s
     else (c = CHR ''.'' \<or> c = CHR ''-'') \<and> (case s of [] \<Rightarrow> False | d # _ \<Rightarrow> app_c d) \<and> app_tail s)"

definition app_identifier_shape :: "string \<Rightarrow> bool" where
  "app_identifier_shape s \<longleftrightarrow> (case s of [] \<Rightarrow> False | c # t \<Rightarrow> lower_c c \<and> app_tail t)"

definition int_of :: "pyval \<Rightarrow> int" where
  "int_of v = (case v of PInt i \<Rightarrow> i | _ \<Rightarrow> 0)"

definition in_texts :: "string list \<Rightarrow> pyval \<Rightarrow> bool" where
  "in_texts ss v = pstr_such (\<lambda>s. s \<in> set ss) v"

section \<open>The retry policy\<close>

definition non_retryable_markers :: "string list" where
  "non_retryable_markers =
    [''admission'', ''authorization'', ''binding'', ''consent'', ''digest'', ''forged'', ''identity'',
     ''integrity'', ''invalid'', ''malformed'', ''mismatch'', ''path-escape'', ''replayed'', ''schema'',
     ''unsafe'']"

definition transient_codes :: "string list" where
  "transient_codes =
    [''provider-timeout'', ''provider-rate-limited'', ''provider-network-error'',
     ''provider-upstream-unavailable'', ''local-capacity-busy'', ''builder-timeout'', ''verifier-timeout'',
     ''codeagent-interrupted'', ''provider-cancelled'']"

text \<open>\<open>str.lower\<close> on the ASCII letters; the codes of the program have no other ones.\<close>

definition lower_char :: "char \<Rightarrow> char" where
  "lower_char c = (if upper_c c then char_of (of_char c + 32 :: nat) else c)"

definition failure_retry_policy :: "string \<Rightarrow> bool \<times> string" where
  "failure_retry_policy code =
    (let normalized = map lower_char code in
     if list_ex (\<lambda>marker. infixb marker normalized) non_retryable_markers
     then (False, ''review-task-or-trust-binding'')
     else if normalized \<in> set transient_codes then (True, ''retry-with-new-attempt-and-consent'')
     else if list_ex (\<lambda>marker. infixb marker normalized)
       [''unavailable'', ''config'', ''authentication'', ''credential'']
     then (False, ''configure-backend-before-new-attempt'')
     else (False, ''inspect-diagnostic-before-new-attempt''))"

section \<open>Durable records\<close>

definition integrity_error :: "string \<Rightarrow> exn" where
  "integrity_error m = Fail ''record-integrity-failure'' m False"

definition task_fields :: "string list" where
  "task_fields =
    [''schema_version'', ''document_type'', ''task_id'', ''need_id'', ''need_spec_revision'',
     ''job_id'', ''immutable_task_digest_sha256'', ''provider_execution_identity_sha256'',
     ''supersedes_task_id'', ''attempt_count'', ''current_attempt_id'', ''attempt_ids'',
     ''created_at_utc'', ''updated_at_utc'']"

definition attempt_ids_ok :: "pyval dict \<Rightarrow> bool" where
  "attempt_ids_ok d =
    (case dget d ''attempt_ids'' of
       PList xs \<Rightarrow>
         len xs \<le> attempt_cap \<and> list_all (pstr_such attempt_id_shape) xs \<and> distinct xs
         \<and> dget d ''attempt_count'' = PInt (len xs)
         \<and> dget d ''current_attempt_id'' = (if xs = [] then PNone else last xs)
     | _ \<Rightarrow> False)"

text \<open>
  \<open>_validate_task_record\<close>. The tests of the code are evaluated from left to right and each is guarded
  by the ones before it, so none raises anything but the error.
\<close>

definition task_record_ok :: "pyval dict \<Rightarrow> bool" where
  "task_record_ok d \<longleftrightarrow>
    fields_are task_fields d
    \<and> dget d ''schema_version'' = PStr task_version
    \<and> dget d ''document_type'' = PStr ''delivery-task''
    \<and> pstr_such task_id_shape (dget d ''task_id'')
    \<and> pstr_such identifier_shape (dget d ''need_id'')
    \<and> pint_from 1 (dget d ''need_spec_revision'')
    \<and> pstr_such identifier_shape (dget d ''job_id'')
    \<and> pstr_such hex64 (dget d ''immutable_task_digest_sha256'')
    \<and> pstr_such hex64 (dget d ''provider_execution_identity_sha256'')
    \<and> (dget d ''supersedes_task_id'' = PNone
        \<or> pstr_such task_id_shape (dget d ''supersedes_task_id'') \<and> dget d ''supersedes_task_id'' \<noteq> dget d ''task_id'')
    \<and> attempt_ids_ok d
    \<and> pstr_such utc_shape (dget d ''created_at_utc'') \<and> pstr_such utc_shape (dget d ''updated_at_utc'')"

definition validate_task_record :: "pyval dict \<Rightarrow> pyval dict res" where
  "validate_task_record d =
    (if task_record_ok d then Inr d else Inl (integrity_error ''delivery task record is malformed''))"

definition attempt_fields :: "string list" where
  "attempt_fields =
    [''schema_version'', ''document_type'', ''task_id'', ''attempt_id'', ''attempt_number'',
     ''retry_of_attempt_id'', ''need_id'', ''title'', ''need_spec_revision'', ''job_id'',
     ''consent_id'', ''provider_execution_identity_sha256'',
     ''registry_request_id'', ''registry_evidence_sha256'', ''canonical_task_sha256'',
     ''immutable_task_digest_sha256'', ''status'', ''stage'', ''progress_percent'', ''error'',
     ''outputs'', ''event_count'', ''created_at_utc'', ''updated_at_utc'']"

definition attempt_statuses :: "string list" where
  "attempt_statuses = [''queued'', ''running'', ''failed'', ''private-appstore-ready'']"

text \<open>
  \<open>_validate_attempt_record\<close>. A status that is a list or a dictionary is not hashable, and the test of
  its membership raises.
\<close>

definition validate_attempt_record :: "pyval dict \<Rightarrow> pyval dict res" where
  "validate_attempt_record d = bnd (refuse
     [holds (\<not> fields_are attempt_fields d),
      holds (dget d ''schema_version'' \<noteq> PStr attempt_version),
      holds (dget d ''document_type'' \<noteq> PStr ''delivery-attempt''),
      holds (\<not> pstr_such task_id_shape (dget d ''task_id'')),
      holds (\<not> pstr_such attempt_id_shape (dget d ''attempt_id'')),
      holds (\<not> pint_within 1 attempt_cap (dget d ''attempt_number'')),
      holds (dget d ''retry_of_attempt_id'' \<noteq> PNone
        \<and> \<not> pstr_such attempt_id_shape (dget d ''retry_of_attempt_id'')),
      holds (\<not> pstr_such identifier_shape (dget d ''need_id'')),
      holds (\<not> text_between 1 80 (dget d ''title'')),
      holds (\<not> pint_from 1 (dget d ''need_spec_revision'')),
      holds (\<not> pstr_such identifier_shape (dget d ''job_id'')),
      holds (\<not> pstr_such identifier_shape (dget d ''consent_id'')),
      holds (\<not> pstr_such hex64 (dget d ''provider_execution_identity_sha256'')),
      holds (\<not> text_between 1 128 (dget d ''registry_request_id'')),
      holds (\<not> list_all (\<lambda>k. pstr_such hex64 (dget d k))
        [''registry_evidence_sha256'', ''canonical_task_sha256'', ''immutable_task_digest_sha256'']),
      bnd (member_of attempt_statuses (dget d ''status'')) (\<lambda>b. Inr (\<not> b)),
      holds (\<not> text_between 1 80 (dget d ''stage'')),
      holds (\<not> pint_within 0 100 (dget d ''progress_percent'')),
      holds (dget d ''error'' \<noteq> PNone \<and> \<not> is_pdict (dget d ''error'')),
      holds (\<not> is_pdict (dget d ''outputs'')),
      holds (\<not> pint_from 0 (dget d ''event_count'')),
      holds (\<not> pstr_such utc_shape (dget d ''created_at_utc'')),
      holds (\<not> pstr_such utc_shape (dget d ''updated_at_utc''))]
     (integrity_error ''delivery attempt record is malformed'')) (\<lambda>_. Inr d)"

end
