(* ===== verification/DelivBind.thy ===== *)
theory DelivBind
  imports DelivData
begin

text \<open>
  What binds one delivery together: the projections of the entrypoints, the Registry evidence, the
  replayed task and its consent, and the checks that the Builder's receipt, the manifests, the
  Verifier's candidate and the private AppStore record all name the same thing.

  \<open>dx\<close> holds what the controller takes from elsewhere: SHA-256 in hexadecimal, the integer a float is
  equal to, whether a float is at most an integer, the adapter's \<open>validate\<close> and the schema and digest functions of the cloud agent.
\<close>

record dx =
  dx_sha :: "string \<Rightarrow> string"
  dx_float :: "string \<Rightarrow> int option"
  dx_float_le :: "string \<Rightarrow> int \<Rightarrow> bool"
  dx_validate :: "pyval \<Rightarrow> pyval dict res"
  dx_schema :: "pyval dict \<Rightarrow> unit res"
  dx_task_digest :: "pyval dict \<Rightarrow> string res"
  dx_instructions :: "pyval \<Rightarrow> pyval dict \<Rightarrow> string res"
  dx_contract :: string
  dx_policy :: string
  dx_classes :: "pyval list"

abbreviation same :: "dx \<Rightarrow> pyval \<Rightarrow> pyval \<Rightarrow> bool" where
  "same dx \<equiv> py_eq (dx_float dx)"

definition differ :: "dx \<Rightarrow> pyval dict \<Rightarrow> pyval dict \<Rightarrow> string \<Rightarrow> bool res" where
  "differ dx a b k = holds (\<not> same dx (dget a k) (dget b k))"

abbreviation admission_conflict :: "string \<Rightarrow> exn" where
  "admission_conflict m \<equiv> Fail ''admission-binding-conflict'' m False"

section \<open>Entrypoints\<close>

text \<open>\<open>list(v)\<close>: the items of a list, the keys of a dictionary, the characters of a string.\<close>

definition py_list :: "pyval \<Rightarrow> pyval list res" where
  "py_list v =
    (case v of PList xs \<Rightarrow> Inr xs | PDict d \<Rightarrow> Inr (map PStr (keys d)) | PStr s \<Rightarrow> Inr (map (\<lambda>c. PStr [c]) s)
     | _ \<Rightarrow> Inl (Crash ''TypeError''))"

definition entry_json :: "pyval \<Rightarrow> pyval \<Rightarrow> pyval \<Rightarrow> pyval \<Rightarrow> pyval list \<Rightarrow> pyval" where
  "entry_json i kind label route triggers = PDict
    [(''id'', i), (''kind'', kind), (''label'', label), (''initial_route'', route), (''triggers'', PList triggers)]"

definition binding_error :: "string \<Rightarrow> int \<Rightarrow> string \<Rightarrow> exn" where
  "binding_error context i what = admission_conflict (indexed context i @ what)"

text \<open>The label's UTF-8 length; a lone surrogate cannot be encoded.\<close>

definition label_bad :: "pyval \<Rightarrow> bool res" where
  "label_bad v =
    (case v of
       PStr s \<Rightarrow> if s = [] then Inr True else if has_surrogate s then Inl (Crash ''UnicodeEncodeError'') else Inr (80 < length s)
     | _ \<Rightarrow> Inr True)"

definition triggers_of :: "pyval dict \<Rightarrow> pyval list res" where
  "triggers_of d =
    (if dget d ''kind'' = PStr ''service''
     then (if has ''triggers'' d then py_list (dget d ''triggers'') else Inr [PStr ''manual'']) else Inr [])"

definition triggers_bad :: "pyval list \<Rightarrow> bool" where
  "triggers_bad ts \<longleftrightarrow> ts = [] \<or> ts \<noteq> map PStr (filter (\<lambda>t. PStr t \<in> set ts) trigger_order)"

definition entry_binding :: "string \<Rightarrow> int \<Rightarrow> string list \<Rightarrow> pyval \<Rightarrow> pyval res" where
  "entry_binding context i seen item =
    (case item of
       PDict d \<Rightarrow>
         bnd (refuse [holds (\<not> fields_are ([''id'', ''kind'', ''label'', ''initial_route'']
             @ (if dget d ''kind'' = PStr ''service'' \<and> has ''triggers'' d then [''triggers''] else [])) d)]
           (binding_error context i '' fields changed'')) (\<lambda>_.
         bnd (refuse [holds (\<not> pstr_such app_identifier_shape (dget d ''id'')),
                      holds (in_texts seen (dget d ''id'')),
                      bnd (member_of [''launcher-ui'', ''service'', ''settings''] (dget d ''kind'')) (\<lambda>b. Inr (\<not> b)),
                      label_bad (dget d ''label'')]
           (binding_error context i '' identity changed'')) (\<lambda>_.
         let launcher = dget d ''kind'' = PStr ''launcher-ui''; route = dget d ''initial_route'' in
         bnd (refuse [holds (if launcher then \<not> pstr_such app_identifier_shape route else route \<noteq> PNone)]
           (binding_error context i '' route changed'')) (\<lambda>_.
         bnd (triggers_of d) (\<lambda>ts.
         bnd (refuse [holds (dget d ''kind'' = PStr ''service'' \<and> triggers_bad ts)]
           (binding_error context i '' triggers changed'')) (\<lambda>_.
         Inr (entry_json (dget d ''id'') (dget d ''kind'') (dget d ''label'') route ts))))))
     | _ \<Rightarrow> Inl (binding_error context i '' is not an object''))"

definition text_in :: "pyval \<Rightarrow> string" where
  "text_in v = (case v of PStr s \<Rightarrow> s | _ \<Rightarrow> [])"

fun entry_bindings :: "string \<Rightarrow> int \<Rightarrow> string list \<Rightarrow> pyval list \<Rightarrow> pyval list res" where
  "entry_bindings context i seen [] = Inr []"
| "entry_bindings context i seen (x # xs) =
    bnd (entry_binding context i seen x) (\<lambda>e.
    bnd (entry_bindings context (i + 1)
      ((case x of PDict d \<Rightarrow> text_in (dget d ''id'') | _ \<Rightarrow> []) # seen) xs) (\<lambda>es. Inr (e # es)))"

definition package_entrypoint_binding :: "pyval \<Rightarrow> string \<Rightarrow> pyval list res" where
  "package_entrypoint_binding v context =
    (case v of
       PList xs \<Rightarrow>
         if \<not> (1 \<le> length xs \<and> length xs \<le> 16)
         then Inl (admission_conflict (context @ '' is not a bounded list''))
         else entry_bindings context 0 [] xs
     | _ \<Rightarrow> Inl (admission_conflict (context @ '' is not a bounded list'')))"

abbreviation manifest_mismatch :: "string \<Rightarrow> exn" where
  "manifest_mismatch m \<equiv> Fail ''manifest-binding-mismatch'' m False"

definition manifest_entry :: "string \<Rightarrow> int \<Rightarrow> pyval \<Rightarrow> pyval res" where
  "manifest_entry context i item =
    (case item of
       PDict d \<Rightarrow>
         bnd (if dget d ''kind'' = PStr ''service'' \<and> has ''triggers'' d then py_list (dget d ''triggers'') else Inr []) (\<lambda>ts.
         Inr (entry_json (dget d ''id'') (dget d ''kind'') (dget d ''label'')
           (case (if dget d ''kind'' = PStr ''launcher-ui'' then dget d ''routes'' else PNone) of
              PDict r \<Rightarrow> dget r ''initial'' | _ \<Rightarrow> PNone) ts))
     | _ \<Rightarrow> Inl (manifest_mismatch (indexed context i @ '' is not an object'')))"

definition manifest_entrypoint_binding :: "pyval \<Rightarrow> string \<Rightarrow> pyval list res" where
  "manifest_entrypoint_binding v context =
    (case v of
       PList xs \<Rightarrow>
         if \<not> (1 \<le> length xs \<and> length xs \<le> 16)
         then Inl (manifest_mismatch (context @ '' is not a bounded list''))
         else rmap_from 0 (manifest_entry context) xs
     | _ \<Rightarrow> Inl (manifest_mismatch (context @ '' is not a bounded list'')))"

section \<open>Registry evidence\<close>

definition no_match_fields :: "string list" where
  "no_match_fields =
    [''schema_version'', ''status'', ''route'', ''request_id'', ''need_id'', ''recommendations'', ''refinement'',
     ''retrieval'', ''rejected'', ''codeagent_handoff'']"

definition refinement_ok :: "pyval \<Rightarrow> bool" where
  "refinement_ok v =
    (case v of
       PDict d \<Rightarrow> fields_are [''reason_code'', ''message''] d \<and> text_between 1 128 (dget d ''reason_code'')
         \<and> dget d ''reason_code'' \<noteq> PStr ''registry-unavailable'' \<and> text_between 1 4096 (dget d ''message'')
     | _ \<Rightarrow> False)"

definition list_up_to :: "int \<Rightarrow> pyval \<Rightarrow> bool" where
  "list_up_to n v = (case v of PList xs \<Rightarrow> len xs \<le> n | _ \<Rightarrow> False)"

definition handoff_absent :: "pyval \<Rightarrow> bool" where
  "handoff_absent v =
    (case v of
       PDict d \<Rightarrow> fields_are [''created'', ''permitted'', ''reason''] d \<and> dget d ''created'' = PBool False
         \<and> dget d ''permitted'' = PBool False \<and> text_between 1 1000 (dget d ''reason'')
     | _ \<Rightarrow> False)"

definition no_match_ok :: "string \<Rightarrow> pyval dict \<Rightarrow> pyval dict \<Rightarrow> bool" where
  "no_match_ok expected_id registry need \<longleftrightarrow>
    set no_match_fields \<subseteq> set (keys registry)
    \<and> set (keys registry) \<subseteq> set (''considered'' # no_match_fields)
    \<and> dget registry ''schema_version'' = PStr ''vibapp.registry-route.experimental.2026-08-24.1''
    \<and> dget registry ''status'' = PStr ''experimental-product-hold''
    \<and> dget registry ''request_id'' = PStr expected_id
    \<and> pstr_such identifier_shape (dget need ''need_id'')
    \<and> dget registry ''need_id'' = dget need ''need_id''
    \<and> dget registry ''route'' = PStr ''refinement''
    \<and> dget registry ''recommendations'' = PList []
    \<and> refinement_ok (dget registry ''refinement'')
    \<and> is_pdict (dget registry ''retrieval'')
    \<and> list_up_to 50 (dget registry ''rejected'')
    \<and> (has ''considered'' registry \<longrightarrow> list_up_to 20 (dget registry ''considered''))
    \<and> handoff_absent (dget registry ''codeagent_handoff'')"

definition no_match_message :: string where
  "no_match_message =
    ''development requires an authoritative Registry refinement bound to the exact NeedSpec digest, with no recommendations or prior handoff''"

definition validate_registry_no_match :: "dx \<Rightarrow> pyval \<Rightarrow> pyval \<Rightarrow> unit res" where
  "validate_registry_no_match dx registry need =
    (case (registry, need) of
       (PDict r, PDict n) \<Rightarrow>
         bnd (strict_bytes need) (\<lambda>b.
         if no_match_ok (''registry.'' @ take 24 (dx_sha dx b)) r n then Inr ()
         else fail ''registry-no-match-required'' no_match_message)
     | _ \<Rightarrow> fail ''registry-evidence-invalid'' ''Registry evidence must be an object'')"

section \<open>The replayed task\<close>

text \<open>\<open>try: ... except Exception as error: raise DeliveryError(...) from error\<close>.\<close>

definition rewrap :: "(exn \<Rightarrow> exn) \<Rightarrow> 'a res \<Rightarrow> 'a res" where
  "rewrap f r = (case r of Inl e \<Rightarrow> Inl (f e) | Inr x \<Rightarrow> Inr x)"

definition exn_text :: "exn \<Rightarrow> string" where
  "exn_text e = (case e of Fail c m r \<Rightarrow> m | Crash k \<Rightarrow> k)"

definition schema_conflict :: "exn \<Rightarrow> exn" where
  "schema_conflict e =
    admission_conflict (''durable CodeAgent task no longer satisfies its frozen schema: '' @ py_take 2048 (exn_text e))"

definition consent_bad :: "dx \<Rightarrow> pyval dict \<Rightarrow> pyval dict \<Rightarrow> pyval dict \<Rightarrow> pyval dict \<Rightarrow> pyval dict \<Rightarrow> string \<Rightarrow> string
    \<Rightarrow> string \<Rightarrow> bool res list" where
  "consent_bad dx task consent need attempt identity need_digest digest instructions =
    [holds (dget task ''need_spec_digest_sha256'' \<noteq> PStr need_digest),
     holds (dget task ''immutable_task_digest_sha256'' \<noteq> PStr digest),
     holds (dget consent ''payload_digest_sha256'' \<noteq> PStr digest),
     holds (dget consent ''contract_digest_sha256'' \<noteq> PStr (dx_contract dx)),
     holds (dget consent ''instructions_digest_sha256'' \<noteq> PStr instructions),
     holds (dget consent ''policy_version'' \<noteq> PStr (dx_policy dx)),
     holds (\<not> same dx (dget consent ''uploaded_data_classes'') (PList (dx_classes dx))),
     holds (dget consent ''decision'' \<noteq> PStr ''granted''),
     holds (dget consent ''single_use'' \<noteq> PBool True),
     holds (\<not> same dx (dget consent ''job_id'') (dget task ''job_id'')),
     holds (\<not> same dx (dget consent ''attempt_id'') (dget attempt ''attempt_id'')),
     holds (\<not> same dx (dget consent ''provider'') (dget task ''provider'')),
     holds (\<not> same dx (dget consent ''model'') (dget task ''model'')),
     holds (\<not> same dx (dget consent ''provider_execution_identity_sha256'') (dget identity ''identity_sha256'')),
     holds (\<not> same dx (dget consent ''subject'') (dget need ''owner'')),
     holds (\<not> same dx (dget task ''need_spec_current_revision'') (dget need ''revision'')),
     holds (dget task ''need_spec_complete'' \<noteq> PBool True),
     holds (dget task ''remote_processing_consent'' \<noteq> PBool True),
     bnd (member_of (keys task_provider_to_adapter) (dget task ''provider'')) (\<lambda>b. Inr (\<not> b))]"

definition validate_replay_task :: "dx \<Rightarrow> pyval dict \<Rightarrow> unit res" where
  "validate_replay_task dx task =
    bnd (rewrap schema_conflict (bnd (dx_schema dx task) (\<lambda>_. bnd (dx_task_digest dx task) (\<lambda>digest.
        bnd (dx_instructions dx (dget task ''provider'') task) (\<lambda>instructions. Inr (digest, instructions))))))
      (\<lambda>(digest, instructions).
    case (dget task ''consent'', dget task ''need_spec'', dget task ''execution_attempt'',
        dget task ''provider_execution_identity'') of
      (PDict consent, PDict need, PDict attempt, PDict identity) \<Rightarrow>
        bnd (strict_bytes (PDict need)) (\<lambda>nb.
        refuse (consent_bad dx task consent need attempt identity (dx_sha dx nb) digest instructions)
          (admission_conflict ''durable task, NeedSpec, immutable provider request, and consent no longer match''))
    | _ \<Rightarrow> Inl (admission_conflict ''durable task lost its attempt, identity, consent, or NeedSpec binding''))"

text \<open>The record of an attempt against its two input documents.\<close>

definition inputs_bad :: "dx \<Rightarrow> pyval dict \<Rightarrow> pyval dict \<Rightarrow> pyval dict \<Rightarrow> string \<Rightarrow> string \<Rightarrow> bool res list" where
  "inputs_bad dx d task registry task_sha registry_sha =
    (let sub = (\<lambda>field key own. bnd (dsub task field) (\<lambda>s. Inr (\<not> same dx (dget d own) (dget s key)))) in
     [holds (dget d ''canonical_task_sha256'' \<noteq> PStr task_sha),
      holds (dget d ''registry_evidence_sha256'' \<noteq> PStr registry_sha),
      differ dx d task ''immutable_task_digest_sha256'',
      sub ''execution_attempt'' ''attempt_id'' ''attempt_id'',
      sub ''execution_attempt'' ''ordinal'' ''attempt_number'',
      sub ''need_spec'' ''need_id'' ''need_id'',
      holds (\<not> same dx (dget d ''need_spec_revision'') (dget task ''need_spec_current_revision'')),
      differ dx d task ''job_id'',
      sub ''consent'' ''consent_id'' ''consent_id'',
      sub ''provider_execution_identity'' ''identity_sha256'' ''provider_execution_identity_sha256'',
      holds (\<not> same dx (dget d ''registry_request_id'') (dget registry ''request_id''))])"

definition expected_bytes :: "pyval option \<Rightarrow> pyval \<Rightarrow> string \<Rightarrow> unit res" where
  "expected_bytes expected v m =
    (case expected of
       None \<Rightarrow> Inr ()
     | Some e \<Rightarrow> bnd (bytes_differ e v) (\<lambda>b. if b then Inl (admission_conflict m) else Inr ()))"

text \<open>
  \<open>_validate_attempt_inputs\<close>, given the two documents it loads (\<open>None\<close> for a missing file). The need
  specification is indexed before its type is known.
\<close>

definition file_of :: "pyval dict option \<Rightarrow> pyval dict res" where
  "file_of f = (case f of None \<Rightarrow> Inl (Crash ''FileNotFoundError'') | Some d \<Rightarrow> Inr d)"

definition validate_attempt_inputs :: "dx \<Rightarrow> pyval dict option \<Rightarrow> pyval dict option \<Rightarrow> pyval dict
    \<Rightarrow> pyval option \<Rightarrow> pyval option \<Rightarrow> (pyval dict \<times> pyval dict) res" where
  "validate_attempt_inputs dx task_file registry_file d expected_task expected_registry =
    bnd (file_of task_file) (\<lambda>task.
    bnd (file_of registry_file) (\<lambda>registry.
    bnd (validate_replay_task dx task) (\<lambda>_.
    bnd (ditem task ''need_spec'') (\<lambda>need.
    bnd (validate_registry_no_match dx (PDict registry) need) (\<lambda>_.
    bnd (strict_bytes (PDict task)) (\<lambda>tb.
    bnd (strict_bytes (PDict registry)) (\<lambda>rb.
    bnd (refuse (inputs_bad dx d task registry (dx_sha dx tb) (dx_sha dx rb))
      (admission_conflict ''durable attempt inputs no longer match the admitted task and Registry evidence'')) (\<lambda>_.
    bnd (expected_bytes expected_task (PDict task)
      ''an existing task ID is bound to different immutable task bytes'') (\<lambda>_.
    bnd (expected_bytes expected_registry (PDict registry)
      ''an existing task ID is bound to different Registry no-match evidence'') (\<lambda>_.
    Inr (task, registry)))))))))))"

end
