(* ===== verification/DelivChain.thy ===== *)
theory DelivChain
  imports DelivBind
begin

text \<open>
  The chain of custody behind a delivered app: the Builder's quarantine receipt, the manifest in
  each of the three places it is stored, the Verifier's candidate and the private AppStore record,
  and the executor's receipt of a CodeAgent run in Docker.
\<close>

section \<open>The Builder's receipt\<close>

definition receipt_fields :: "string list" where
  "receipt_fields =
    [''schema_version'', ''document_type'', ''state'', ''scope'', ''job_id'', ''need_spec_digest_sha256'',
     ''source_tree_sha256'', ''required_capabilities'', ''package_entrypoints'', ''source_directory'',
     ''package_directory'', ''package_digest_sha256'', ''package_files'', ''component_sha256'',
     ''manifest_sha256'', ''build_log_sha256'', ''builder'', ''limits'', ''terminal_outcome'', ''authority'',
     ''created_at_utc'']"

abbreviation receipt_invalid :: "string \<Rightarrow> exn" where
  "receipt_invalid m \<equiv> Fail ''builder-receipt-invalid'' m False"

definition text_dict :: "(string \<times> string) list \<Rightarrow> pyval" where
  "text_dict d = PDict (map (\<lambda>(k, s). (k, PStr s)) d)"

definition texts_are :: "pyval dict \<Rightarrow> (string \<times> string) list \<Rightarrow> bool" where
  "texts_are d kvs \<longleftrightarrow> list_all (\<lambda>(k, s). dget d k = PStr s) kvs"

definition receipt_texts :: "(string \<times> string) list" where
  "receipt_texts =
    [(''schema_version'', ''vibapp.builder-quarantine.experimental-v2''),
     (''document_type'', ''builder-quarantine-receipt''), (''state'', ''quarantined-awaiting-verifier''),
     (''scope'', ''local-product-prototype'')]"

definition builder_authority :: pyval where
  "builder_authority = text_dict
    [(''builder'', ''quarantine-only''), (''verify'', ''independent-verifier''), (''install'', ''none''),
     (''publish'', ''none'')]"

definition receipt_bad :: "dx \<Rightarrow> pyval dict \<Rightarrow> pyval dict \<Rightarrow> pyval dict \<Rightarrow> pyval list \<Rightarrow> bool res list" where
  "receipt_bad dx receipt task handoff expected =
    [differ dx handoff task ''package_intent'', differ dx handoff task ''target'',
     holds (\<not> texts_are receipt receipt_texts),
     differ dx receipt task ''job_id'', differ dx receipt task ''need_spec_digest_sha256'',
     differ dx receipt handoff ''source_tree_sha256'',
     bnd (dsub task ''target'') (\<lambda>t. differ dx receipt t ''required_capabilities''),
     holds (\<not> same dx (dget receipt ''package_entrypoints'') (PList expected)),
     holds (\<not> texts_are receipt [(''source_directory'', ''source''), (''package_directory'', ''package''),
       (''terminal_outcome'', ''build-output-untrusted'')]),
     holds (\<not> same dx (dget receipt ''authority'') builder_authority)]"

text \<open>The entrypoints the user consented to, as the task's package intent has them.\<close>

definition consented_entrypoints :: "pyval dict \<Rightarrow> pyval list res" where
  "consented_entrypoints task = bnd (dsub task ''package_intent'') (\<lambda>p.
    package_entrypoint_binding (dget p ''entrypoints'') ''task.package_intent.entrypoints'')"

definition validate_receipt_binding :: "dx \<Rightarrow> pyval dict \<Rightarrow> pyval dict \<Rightarrow> pyval dict \<Rightarrow> pyval list res" where
  "validate_receipt_binding dx receipt task handoff =
    bnd (consented_entrypoints task) (\<lambda>expected.
    if \<not> fields_are receipt_fields receipt \<and> \<not> fields_are (''presentation'' # receipt_fields) receipt
    then Inl (receipt_invalid ''Builder receipt is not the strict entrypoint-bound v2 record'')
    else bnd (refuse (receipt_bad dx receipt task handoff expected)
      (receipt_invalid ''Builder receipt changed the exact task/handoff entrypoints, triggers, or authority''))
      (\<lambda>_. Inr expected))"

section \<open>The manifest\<close>

definition row_get :: "string \<Rightarrow> pyval \<Rightarrow> pyval" where
  "row_get k v = (case v of PDict d \<Rightarrow> dget d k | _ \<Rightarrow> PNone)"

definition local_publisher :: pyval where
  "local_publisher = text_dict [(''id'', ''ai.vibapp.local''), (''display_name'', ''VibApp Local Builder'')]"

definition manifest_head_bad :: "dx \<Rightarrow> pyval dict \<Rightarrow> pyval dict \<Rightarrow> pyval dict \<Rightarrow> pyval dict \<Rightarrow> pyval list \<Rightarrow> bool" where
  "manifest_head_bad dx manifest task handoff receipt expected \<longleftrightarrow>
    \<not> same dx (dget handoff ''package_intent'') (dget task ''package_intent'')
    \<or> \<not> same dx (dget handoff ''target'') (dget task ''target'')
    \<or> \<not> same dx (dget receipt ''package_entrypoints'') (PList expected)
    \<or> \<not> texts_are manifest [(''schema_version'', ''vibapp.manifest.experimental-v0.0.1''),
        (''package_format'', ''vibapp.package.experimental-v0'')]
    \<or> \<not> is_pdict (dget manifest ''app'') \<or> \<not> is_pdict (dget manifest ''runtime'')
    \<or> \<not> is_plist (dget manifest ''capabilities'') \<or> \<not> is_plist (dget manifest ''entrypoints'')"

definition app_differs :: "dx \<Rightarrow> pyval dict \<Rightarrow> pyval dict \<Rightarrow> pyval dict \<Rightarrow> bool" where
  "app_differs dx app package target \<longleftrightarrow>
    list_ex (\<lambda>(k, v). \<not> same dx (dget app k) v)
      [(''id'', dget package ''app_id''), (''version'', dget package ''version''), (''kind'', dget target ''app_kind''),
       (''display_name'', dget package ''display_name''), (''description'', dget package ''description'')]"

definition runtime_differs :: "dx \<Rightarrow> pyval dict \<Rightarrow> pyval dict \<Rightarrow> bool" where
  "runtime_differs dx runtime target \<longleftrightarrow>
    list_ex (\<lambda>(k, l). \<not> same dx (dget runtime k) (dget target l))
      [(''contract'', ''contract''), (''wasi'', ''wasi''), (''world'', ''wit_world''),
       (''required_imports'', ''required_imports'')]
    \<or> (case dget runtime ''profiles'' of
         PList rows \<Rightarrow> \<not> same dx (PList (map (row_get ''profile'') rows)) (dget target ''profiles'')
       | _ \<Rightarrow> True)"

text \<open>One manifest entrypoint against the consented one; each kind has its own error.\<close>

definition route_json :: "pyval \<Rightarrow> pyval" where
  "route_json r = PDict [(''initial'', r), (''allowed'', PList [r])]"

definition row_check :: "dx \<Rightarrow> string \<Rightarrow> pyval \<Rightarrow> pyval \<times> pyval \<Rightarrow> unit res" where
  "row_check dx context profiles re =
    (case re of (row, e) \<Rightarrow>
      (let kind = row_get ''kind'' e in
       if \<not> same dx (row_get ''profiles'' row) profiles
       then Inl (manifest_mismatch (context @ '' entrypoint profiles changed''))
       else if kind = PStr ''launcher-ui''
         \<and> (\<not> same dx (row_get ''routes'' row) (route_json (row_get ''initial_route'' e))
            \<or> row_get ''restoration'' row \<noteq> PStr ''route-only'')
       then Inl (manifest_mismatch (context @ '' launcher route authority expanded''))
       else if kind = PStr ''service''
         \<and> (\<not> same dx (row_get ''triggers'' row) (row_get ''triggers'' e)
            \<or> \<not> same dx (row_get ''health_check_interval_seconds'' row) (PInt 60))
       then Inl (manifest_mismatch (context @ '' service lifecycle changed''))
       else if kind = PStr ''settings'' \<and> row_get ''schema_export'' row \<noteq> PStr ''get-settings-schema''
       then Inl (manifest_mismatch (context @ '' settings export changed''))
       else Inr ()))"

text \<open>
  The set of the required interfaces against the consented one. A set of unhashable values raises;
  so does a collection that is not one.
\<close>

fun hashable :: "pyval \<Rightarrow> bool" where
  "hashable (PList _) = False"
| "hashable (PDict _) = False"
| "hashable _ = True"

definition py_set :: "pyval list \<Rightarrow> pyval list res" where
  "py_set xs = (if list_all hashable xs then Inr xs else Inl (Crash ''TypeError''))"

definition same_set :: "dx \<Rightarrow> pyval list \<Rightarrow> pyval list \<Rightarrow> bool" where
  "same_set dx xs ys \<longleftrightarrow>
    list_all (\<lambda>x. list_ex (same dx x) ys) xs \<and> list_all (\<lambda>y. list_ex (\<lambda>x. same dx x y) xs) ys"

definition capabilities_bad :: "dx \<Rightarrow> pyval list \<Rightarrow> pyval dict \<Rightarrow> bool res" where
  "capabilities_bad dx rows target =
    bnd (py_set (map (row_get ''interface'') (filter (\<lambda>r. row_get ''necessity'' r = PStr ''required'') rows))) (\<lambda>required.
    if \<not> same dx (PList (map (row_get ''interface'') rows)) (dget target ''required_imports'') then Inr True
    else bnd (if has ''required_capabilities'' target then py_list (dget target ''required_capabilities'') else Inr [])
      (\<lambda>wanted. bnd (py_set wanted) (\<lambda>ws. Inr (\<not> same_set dx required ws))))"

definition source_differs :: "pyval dict \<Rightarrow> pyval dict \<Rightarrow> bool" where
  "source_differs manifest handoff =
    (case (dget manifest ''source'', dget handoff ''source_tree_sha256'') of
       (PDict source, PStr tree) \<Rightarrow> dget source ''revision'' \<noteq> PStr (''codeagent-'' @ take 24 tree)
     | _ \<Rightarrow> True)"

definition manifest_ends :: "dx \<Rightarrow> string \<Rightarrow> pyval dict \<Rightarrow> pyval dict \<Rightarrow> pyval list \<Rightarrow> pyval dict \<Rightarrow> unit res" where
  "manifest_ends dx context manifest target rows handoff =
    bnd (capabilities_bad dx rows target) (\<lambda>bad.
    if bad then Inl (manifest_mismatch (context @ '' capability necessity differs from consent''))
    else if source_differs manifest handoff
    then Inl (manifest_mismatch (context @ '' source provenance differs from the handoff''))
    else Inr ())"

definition manifest_body :: "dx \<Rightarrow> string \<Rightarrow> pyval dict \<Rightarrow> pyval dict \<Rightarrow> pyval dict \<Rightarrow> pyval list \<Rightarrow> pyval dict
    \<Rightarrow> unit res" where
  "manifest_body dx context manifest package target expected handoff =
    (case (dget manifest ''app'', dget manifest ''runtime'', dget manifest ''capabilities'', dget manifest ''entrypoints'') of
       (PDict app, PDict runtime, PList rows, PList entries) \<Rightarrow>
         if app_differs dx app package target
         then Inl (manifest_mismatch (context @ '' app identity differs from the task''))
         else if \<not> same dx (dget app ''publisher'') local_publisher
         then Inl (manifest_mismatch (context @ '' changed the local Builder publisher''))
         else if runtime_differs dx runtime target
         then Inl (manifest_mismatch (context @ '' runtime target differs from the task''))
         else bnd (manifest_entrypoint_binding (PList entries) (context @ ''.entrypoints'')) (\<lambda>projected.
         if \<not> same dx (PList projected) (PList expected)
         then Inl (manifest_mismatch (context @ '' entrypoints or lifecycle triggers differ from the task''))
         else bnd (each (row_check dx context (dget target ''profiles'')) (zip entries expected)) (\<lambda>_.
         manifest_ends dx context manifest target rows handoff))
     | _ \<Rightarrow> Inl (Crash ''unreachable''))"

definition validate_manifest_binding :: "dx \<Rightarrow> string \<Rightarrow> pyval dict \<Rightarrow> pyval dict \<Rightarrow> pyval dict \<Rightarrow> pyval dict
    \<Rightarrow> unit res" where
  "validate_manifest_binding dx context manifest task handoff receipt =
    (case (dget task ''package_intent'', dget task ''target'') of
       (PDict package, PDict target) \<Rightarrow>
         bnd (package_entrypoint_binding (dget package ''entrypoints'') ''task.package_intent.entrypoints'') (\<lambda>expected.
         if manifest_head_bad dx manifest task handoff receipt expected
         then Inl (manifest_mismatch (context @ '' is not bound to the exact task/handoff record''))
         else manifest_body dx context manifest package target expected handoff)
     | _ \<Rightarrow> Inl (manifest_mismatch (context @ '' lost its task package target'')))"

text \<open>A stored document: the digest of its bytes and its content.\<close>

type_synonym stored = "string \<times> pyval dict"

definition load_bound_manifest :: "dx \<Rightarrow> string \<Rightarrow> stored res \<Rightarrow> pyval \<Rightarrow> pyval dict \<Rightarrow> pyval dict \<Rightarrow> pyval dict
    \<Rightarrow> pyval dict res" where
  "load_bound_manifest dx context file expected task handoff receipt =
    (if \<not> pstr_such hex64 expected then Inl (manifest_mismatch (context @ '' has no valid manifest digest''))
     else bnd file (\<lambda>(digest, manifest).
       if PStr digest \<noteq> expected then Inl (manifest_mismatch (context @ '' bytes changed''))
       else bnd (validate_manifest_binding dx context manifest task handoff receipt) (\<lambda>_. Inr manifest)))"

section \<open>Candidate and AppStore record\<close>

definition candidate_texts :: "(string \<times> string) list" where
  "candidate_texts =
    [(''schema_version'', ''vibapp.builder-candidate.experimental-v1''),
     (''document_type'', ''verifier-promoted-candidate''), (''state'', ''candidate-ready''),
     (''package_directory'', ''package'')]"

definition no_publish :: pyval where
  "no_publish = text_dict [(''install'', ''daemon''), (''publish'', ''none'')]"

definition candidate_bad :: "dx \<Rightarrow> pyval dict \<Rightarrow> pyval dict \<Rightarrow> string \<Rightarrow> bool res list" where
  "candidate_bad dx candidate receipt receipt_sha =
    (let sub = (\<lambda>k l v. bnd (dsub candidate k) (\<lambda>s. Inr (\<not> same dx (dget s l) v))) in
     [holds (\<not> texts_are candidate candidate_texts),
      differ dx candidate receipt ''job_id'', differ dx candidate receipt ''source_tree_sha256'',
      differ dx candidate receipt ''package_digest_sha256'',
      sub ''component'' ''path'' (PStr ''component.wasm''),
      sub ''component'' ''sha256'' (dget receipt ''component_sha256''),
      sub ''manifest'' ''path'' (PStr ''manifest.json''),
      sub ''manifest'' ''sha256'' (dget receipt ''manifest_sha256''),
      holds (dget candidate ''quarantine_receipt_sha256'' \<noteq> PStr receipt_sha),
      sub ''verification'' ''authority'' (PStr ''independent-verifier''),
      holds (\<not> same dx (dget candidate ''authority'') no_publish)])"

definition consume_candidate :: "dx \<Rightarrow> pyval dict \<Rightarrow> pyval dict \<Rightarrow> string \<Rightarrow> pyval dict res" where
  "consume_candidate dx candidate receipt receipt_sha =
    bnd (refuse (candidate_bad dx candidate receipt receipt_sha)
      (Fail ''candidate-digest-mismatch'' ''verifier candidate does not bind the exact quarantine receipt'' False))
      (\<lambda>_. Inr candidate)"

definition runtime_projection :: "pyval dict \<Rightarrow> pyval dict \<Rightarrow> pyval" where
  "runtime_projection manifest runtime = PDict
    [(''contract'', dget runtime ''contract''), (''wasi'', dget runtime ''wasi''), (''world'', dget runtime ''world''),
     (''profiles'', dget runtime ''profiles''), (''platforms'', dget runtime ''platforms''),
     (''entrypoints'', dget manifest ''entrypoints''), (''capabilities'', dget manifest ''capabilities'')]"

definition unpublished :: pyval where
  "unpublished = text_dict [(''state'', ''not-published''), (''authority'', ''none'')]"

definition appstore_bad :: "dx \<Rightarrow> pyval dict \<Rightarrow> pyval dict \<Rightarrow> pyval dict \<Rightarrow> string \<Rightarrow> pyval dict \<Rightarrow> string \<Rightarrow> pyval dict
    \<Rightarrow> pyval dict \<Rightarrow> bool res list" where
  "appstore_bad dx appstore digests receipt receipt_sha candidate candidate_sha manifest runtime =
    (let dig = (\<lambda>k v. holds (\<not> same dx (dget digests k) v));
         sub = (\<lambda>k field. bnd (dsub candidate field) (\<lambda>s. Inr (\<not> same dx (dget digests k) (dget s ''sha256'')))) in
     [holds (\<not> texts_are appstore [(''schema_version'', ''vibapp.local-appstore-record.experimental-v1''),
        (''state'', ''private''), (''visibility'', ''private'')]),
      holds (\<not> same dx (dget appstore ''publication'') unpublished),
      holds (\<not> same dx (dget appstore ''authority'') no_publish),
      dig ''package_sha256'' (dget receipt ''package_digest_sha256''),
      dig ''package_sha256'' (dget candidate ''package_digest_sha256''),
      dig ''component_sha256'' (dget receipt ''component_sha256''),
      sub ''component_sha256'' ''component'',
      dig ''manifest_sha256'' (dget receipt ''manifest_sha256''),
      sub ''manifest_sha256'' ''manifest'',
      dig ''source_tree_sha256'' (dget receipt ''source_tree_sha256''),
      dig ''source_tree_sha256'' (dget candidate ''source_tree_sha256''),
      dig ''quarantine_receipt_sha256'' (PStr receipt_sha),
      dig ''candidate_record_sha256'' (PStr candidate_sha),
      differ dx appstore manifest ''app'',
      holds (\<not> same dx (dget appstore ''runtime'') (runtime_projection manifest runtime)),
      holds (\<not> same dx (dget appstore ''app_state'') (dget manifest ''state''))])"

definition validate_appstore_record :: "dx \<Rightarrow> pyval dict \<Rightarrow> pyval dict \<Rightarrow> string \<Rightarrow> pyval dict \<Rightarrow> string \<Rightarrow> pyval dict
    \<Rightarrow> unit res" where
  "validate_appstore_record dx appstore receipt receipt_sha candidate candidate_sha manifest =
    bnd (dsub appstore ''digests'') (\<lambda>digests.
    bnd (dsub manifest ''runtime'') (\<lambda>runtime.
    refuse (appstore_bad dx appstore digests receipt receipt_sha candidate candidate_sha manifest runtime)
      (Fail ''appstore-digest-mismatch'' ''private AppStore record changed an authoritative digest'' False)))"

section \<open>The Docker receipt\<close>

definition adapter_of :: "pyval \<Rightarrow> pyval res" where
  "adapter_of v =
    (case v of
       PStr s \<Rightarrow> (case aget task_provider_to_adapter s of None \<Rightarrow> Inl (Crash ''KeyError'') | Some a \<Rightarrow> Inr (PStr a))
     | PList _ \<Rightarrow> Inl (Crash ''TypeError'') | PDict _ \<Rightarrow> Inl (Crash ''TypeError'') | _ \<Rightarrow> Inl (Crash ''KeyError''))"

definition docker_expected :: "pyval dict \<Rightarrow> pyval dict \<Rightarrow> pyval dict \<Rightarrow> pyval dict res" where
  "docker_expected execution task attempt =
    bnd (ditem task ''job_id'') (\<lambda>job. bnd (ditem attempt ''attempt_id'') (\<lambda>attempt_id.
    bnd (ditem task ''provider'') (\<lambda>provider. bnd (adapter_of provider) (\<lambda>adapter.
    bnd (ditem task ''model'') (\<lambda>model. bnd (ditem task ''immutable_task_digest_sha256'') (\<lambda>digest.
    bnd (ditems task ''provider_execution_identity'') (\<lambda>identity. bnd (ditem identity ''identity_sha256'') (\<lambda>identity_sha.
    bnd (ditems task ''consent'') (\<lambda>consent. bnd (ditem consent ''consent_id'') (\<lambda>consent_id.
    Inr
      [(''schema_version'', PStr ''codeagent-launcher-receipt.experimental-v0''), (''executor_kind'', PStr ''docker''),
       (''job_id'', job), (''attempt_id'', attempt_id), (''provider_id'', adapter), (''model'', model),
       (''task_digest_sha256'', digest), (''provider_profile_digest_sha256'', identity_sha),
       (''idempotency_key'', consent_id), (''image_digest_sha256'', dget execution ''runner_identity_sha256''),
       (''network_policy_digest_sha256'', dget execution ''isolation_policy_sha256''),
       (''backend_execution_id'', dget execution ''runner_id'')]))))))))))"

definition validate_docker_receipt :: "dx \<Rightarrow> pyval dict \<Rightarrow> pyval dict \<Rightarrow> pyval dict \<Rightarrow> pyval dict \<Rightarrow> unit res" where
  "validate_docker_receipt dx execution status_doc task attempt =
    (if dget execution ''mode'' \<noteq> PStr ''docker-local-explicit-opt-in'' then Inr ()
     else bnd (docker_expected execution task attempt) (\<lambda>expected.
       refuse
         [holds (case dget status_doc ''container_receipt'' of
            PDict r \<Rightarrow> dget r ''cleanup_confirmed'' \<noteq> PBool True \<or> dget r ''whole_job_quiescent'' \<noteq> PBool True
              \<or> list_ex (\<lambda>(k, v). \<not> same dx (dget r k) v) expected
          | _ \<Rightarrow> True),
          bnd (strict_bytes (dget status_doc ''container_receipt'')) (\<lambda>b.
            Inr (dget execution ''receipt_digest_sha256'' \<noteq> PStr (dx_sha dx b)))]
         (Fail ''handoff-binding-mismatch'' ''retained Docker receipt is not bound and quiescent'' False)))"

end
