(* ===== verification/DelivStore.thy ===== *)
theory DelivStore
  imports DelivChain
begin

text \<open>
  The delivery controller's durable state and the operations that change it: the index of a task
  rebuilt from its attempts, the event log with the attempt record, and the classified failure.

  A store maps task identifiers to their directory: \<open>task.json\<close> and, per attempt, \<open>attempt.json\<close>, the
  two input documents and the lines of \<open>events.jsonl\<close>. An operation returns the store it leaves also
  when it raises, since the code writes several files one after the other.
\<close>

record attempt_files =
  af_record :: "pyval dict option"
  af_task :: "pyval dict option"
  af_registry :: "pyval dict option"
  af_events :: "pyval list"

record task_files =
  tf_record :: "pyval dict option"
  tf_attempts :: "attempt_files dict"

type_synonym store = "task_files dict"
type_synonym 'a store_op = "store \<Rightarrow> store \<times> 'a res"

definition sbnd :: "'a store_op \<Rightarrow> ('a \<Rightarrow> 'b store_op) \<Rightarrow> 'b store_op" where
  "sbnd m f s = (case m s of (s', Inl e) \<Rightarrow> (s', Inl e) | (s', Inr x) \<Rightarrow> f x s')"

definition slift :: "'a res \<Rightarrow> 'a store_op" where
  "slift r s = (s, r)"

definition sread :: "(store \<Rightarrow> 'a res) \<Rightarrow> 'a store_op" where
  "sread f s = (s, f s)"

definition empty_attempt :: attempt_files where
  "empty_attempt = \<lparr>af_record = None, af_task = None, af_registry = None, af_events = []\<rparr>"

definition empty_task :: task_files where
  "empty_task = \<lparr>tf_record = None, tf_attempts = []\<rparr>"

definition task_dir :: "store \<Rightarrow> pyval \<Rightarrow> (string \<times> task_files) res" where
  "task_dir s v =
    (case v of
       PStr t \<Rightarrow>
         if \<not> task_id_shape t then fail ''invalid-task-id'' ''delivery task ID is invalid''
         else (case aget s t of
             None \<Rightarrow> fail ''task-not-found'' (''delivery task does not exist: '' @ t)
           | Some tf \<Rightarrow> Inr (t, tf))
     | _ \<Rightarrow> fail ''invalid-task-id'' ''delivery task ID is invalid'')"

text \<open>\<open>_load_json(attempts / id / "attempt.json")\<close> with the check of the record.\<close>

definition attempt_of :: "task_files \<Rightarrow> string \<Rightarrow> attempt_files" where
  "attempt_of tf a = (case aget (tf_attempts tf) a of None \<Rightarrow> empty_attempt | Some af \<Rightarrow> af)"

definition load_attempt :: "task_files \<Rightarrow> string \<Rightarrow> pyval dict res" where
  "load_attempt tf a = bnd (file_of (af_record (attempt_of tf a))) validate_attempt_record"

section \<open>The index of a task\<close>

definition pad4 :: "int \<Rightarrow> string" where
  "pad4 i = replicate (4 - length (dec i)) (CHR ''0'') @ dec i"

definition ordinal_text :: "string \<Rightarrow> string" where
  "ordinal_text attempt_id = take 4 (drop 8 attempt_id)"

definition shared_fields :: "string list" where
  "shared_fields =
    [''need_id'', ''need_spec_revision'', ''job_id'', ''immutable_task_digest_sha256'',
     ''provider_execution_identity_sha256'']"

definition bound_to_task :: "pyval dict \<Rightarrow> string \<Rightarrow> pyval dict \<Rightarrow> bool" where
  "bound_to_task r name a \<longleftrightarrow>
    dget a ''task_id'' = dget r ''task_id'' \<and> dget a ''attempt_id'' = PStr name
    \<and> list_all (\<lambda>k. dget a k = dget r k) shared_fields"

text \<open>The attempts on disk: a directory without \<open>attempt.json\<close> is skipped.\<close>

fun observe :: "pyval dict \<Rightarrow> attempt_files dict \<Rightarrow> (int \<times> string \<times> pyval dict) list res" where
  "observe r [] = Inr []"
| "observe r ((name, af) # rest) =
    (case af_record af of
       None \<Rightarrow> observe r rest
     | Some d \<Rightarrow>
         bnd (validate_attempt_record d) (\<lambda>a.
         if \<not> bound_to_task r name a then Inl (integrity_error ''attempt index binding is malformed'')
         else bnd (observe r rest) (\<lambda>os. Inr ((int_of (dget a ''attempt_number''), name, a) # os))))"

definition lineage_ok :: "(int \<times> string \<times> pyval dict) list \<Rightarrow> bool" where
  "lineage_ok os \<longleftrightarrow>
    list_all (\<lambda>i. case os ! i of (_, name, a) \<Rightarrow>
        ordinal_text name = pad4 (int i + 1)
        \<and> dget a ''retry_of_attempt_id'' = (if i = 0 then PNone else PStr (fst (snd (os ! (i - 1))))))
      [0..<length os]"

definition index_record :: "pyval dict \<Rightarrow> string list \<Rightarrow> pyval dict" where
  "index_record r names =
    (if dget r ''attempt_ids'' = PList (map PStr names) then r
     else aput ''current_attempt_id'' (if names = [] then PNone else PStr (last names))
       (aput ''attempt_ids'' (PList (map PStr names)) (aput ''attempt_count'' (PInt (len names)) r)))"

definition task_record :: "task_files \<Rightarrow> pyval dict res" where
  "task_record tf =
    bnd (file_of (tf_record tf)) (\<lambda>d.
    bnd (validate_task_record d) (\<lambda>r.
    bnd (observe r (tf_attempts tf)) (\<lambda>found.
    let os = sort_key fst found; names = map (fst \<circ> snd) os in
    if \<not> distinct (map fst os)
    then Inl (integrity_error ''delivery task has duplicate attempt numbers'')
    else if map fst os \<noteq> [1..len os]
    then Inl (integrity_error ''delivery task attempt ordinals are not contiguous'')
    else if \<not> distinct (map (\<lambda>(_, _, a). dget a ''consent_id'') os)
    then Inl (integrity_error ''delivery task reuses a single-use consent'')
    else if \<not> lineage_ok os
    then Inl (integrity_error ''delivery task retry lineage does not match its execution attempts'')
    else Inr (index_record r names))))"

section \<open>Writing\<close>

text \<open>\<open>_write_json\<close>: the size of the canonical text, and the exclusive creation.\<close>

definition write_check :: "bool \<Rightarrow> pyval dict option \<Rightarrow> pyval dict \<Rightarrow> unit res" where
  "write_check exclusive old d =
    bnd (strict_bytes (PDict d)) (\<lambda>b.
    if max_document_bytes < len b + 1 then fail ''record-limit'' ''durable record exceeds 512 KiB''
    else if exclusive \<and> old \<noteq> None then Inl (Crash ''FileExistsError'')
    else Inr ())"

definition update_task :: "string \<Rightarrow> (task_files \<Rightarrow> task_files) \<Rightarrow> store \<Rightarrow> store" where
  "update_task t f s = aput t (f (case aget s t of None \<Rightarrow> empty_task | Some tf \<Rightarrow> tf)) s"

definition update_attempt :: "string \<Rightarrow> string \<Rightarrow> (attempt_files \<Rightarrow> attempt_files) \<Rightarrow> store \<Rightarrow> store" where
  "update_attempt t a f s = update_task t (\<lambda>tf. tf\<lparr>tf_attempts := aput a (f (attempt_of tf a)) (tf_attempts tf)\<rparr>) s"

definition files_at :: "store \<Rightarrow> string \<Rightarrow> string \<Rightarrow> attempt_files" where
  "files_at s t a = (case aget s t of None \<Rightarrow> empty_attempt | Some tf \<Rightarrow> attempt_of tf a)"

definition write_doc :: "bool \<Rightarrow> (attempt_files \<Rightarrow> pyval dict option)
    \<Rightarrow> (pyval dict \<Rightarrow> attempt_files \<Rightarrow> attempt_files) \<Rightarrow> string \<Rightarrow> string \<Rightarrow> pyval dict \<Rightarrow> unit store_op" where
  "write_doc exclusive old put t a d s =
    (case write_check exclusive (old (files_at s t a)) d of
       Inl e \<Rightarrow> (s, Inl e)
     | Inr _ \<Rightarrow> (update_attempt t a (put d) s, Inr ()))"

definition write_record :: "bool \<Rightarrow> string \<Rightarrow> string \<Rightarrow> pyval dict \<Rightarrow> unit store_op" where
  "write_record exclusive = write_doc exclusive af_record (\<lambda>d af. af\<lparr>af_record := Some d\<rparr>)"

definition write_task_json :: "bool \<Rightarrow> string \<Rightarrow> pyval dict \<Rightarrow> unit store_op" where
  "write_task_json exclusive t d s =
    (case write_check exclusive (case aget s t of None \<Rightarrow> None | Some tf \<Rightarrow> tf_record tf) d of
       Inl e \<Rightarrow> (s, Inl e)
     | Inr _ \<Rightarrow> (update_task t (\<lambda>tf. tf\<lparr>tf_record := Some d\<rparr>) s, Inr ()))"

definition make_dirs :: "string \<Rightarrow> unit store_op" where
  "make_dirs t s = (update_task t (\<lambda>tf. tf) s, Inr ())"

section \<open>Events and transitions\<close>

definition line_bytes :: "pyval \<Rightarrow> int" where
  "line_bytes e = len (json_enc e) + 1"

definition log_bytes :: "pyval list \<Rightarrow> int" where
  "log_bytes es = sum_list (map line_bytes es)"

definition event_limit :: "string \<Rightarrow> 'a res" where
  "event_limit m = fail ''event-limit'' m"

definition sequences_ok :: "dx \<Rightarrow> pyval list \<Rightarrow> bool" where
  "sequences_ok dx es \<longleftrightarrow>
    list_all (\<lambda>i. case es ! i of PDict d \<Rightarrow> same dx (dget d ''sequence'') (PInt (int i + 1)) | _ \<Rightarrow> False)
      [0..<length es]"

definition durable_count :: "dx \<Rightarrow> pyval list \<Rightarrow> int res" where
  "durable_count dx es =
    (if max_event_log_bytes < log_bytes es then event_limit ''delivery event log exceeds 1 MiB''
     else if \<not> sequences_ok dx es then Inl (integrity_error ''delivery event sequence is not contiguous'')
     else Inr (len es))"

definition delivery_event :: "int \<Rightarrow> string \<Rightarrow> string \<Rightarrow> int \<Rightarrow> pyval \<Rightarrow> string \<Rightarrow> pyval" where
  "delivery_event n stage status progress error at = PDict
    [(''schema_version'', PStr event_version), (''sequence'', PInt n), (''event'', PStr stage),
     (''status'', PStr status), (''progress_percent'', PInt progress), (''error'', error), (''at_utc'', PStr at)]"

definition aput_all :: "pyval dict \<Rightarrow> pyval dict \<Rightarrow> pyval dict" where
  "aput_all kvs d = foldl (\<lambda>acc (k, v). aput k v acc) d kvs"

definition moved_record :: "pyval dict \<Rightarrow> int \<Rightarrow> string \<Rightarrow> string \<Rightarrow> int \<Rightarrow> pyval \<Rightarrow> pyval dict \<Rightarrow> string \<Rightarrow> pyval dict" where
  "moved_record d n stage status progress error outputs at =
    aput_all
      [(''stage'', PStr stage), (''status'', PStr status), (''progress_percent'', PInt progress), (''error'', error),
       (''outputs'', PDict (aput_all outputs (case dget d ''outputs'' of PDict o1 \<Rightarrow> o1 | _ \<Rightarrow> []))),
       (''event_count'', PInt n), (''updated_at_utc'', PStr at)] d"

text \<open>\<open>_transition\<close>: the event is appended before the record is replaced.\<close>

definition transition :: "dx \<Rightarrow> string \<Rightarrow> string \<Rightarrow> string \<Rightarrow> string \<Rightarrow> string \<Rightarrow> int \<Rightarrow> pyval \<Rightarrow> pyval dict
    \<Rightarrow> pyval dict store_op" where
  "transition dx at t a stage status progress error outputs =
    sbnd (sread (\<lambda>s. bnd (file_of (af_record (files_at s t a))) validate_attempt_record)) (\<lambda>d.
    sbnd (sread (\<lambda>s. durable_count dx (af_events (files_at s t a)))) (\<lambda>n.
    let event = delivery_event (n + 1) stage status progress error at in
    sbnd (slift (bnd (strict_bytes event) (\<lambda>b.
      if max_event_bytes < len b + 1 then event_limit ''delivery event exceeds 16 KiB'' else Inr ()))) (\<lambda>_.
    sbnd (sread (\<lambda>s. if max_event_log_bytes < log_bytes (af_events (files_at s t a)) + line_bytes event
      then event_limit ''delivery event log exceeds 1 MiB'' else Inr ())) (\<lambda>_.
    sbnd (\<lambda>s. (update_attempt t a (\<lambda>af. af\<lparr>af_events := af_events af @ [event]\<rparr>) s, Inr ())) (\<lambda>_.
    let d' = moved_record d (n + 1) stage status progress error outputs at in
    sbnd (write_record False t a d') (\<lambda>_. slift (Inr d')))))))"

section \<open>Failures\<close>

definition exn_code_of :: "exn \<Rightarrow> string" where
  "exn_code_of e = (case e of Fail c m r \<Rightarrow> c | Crash k \<Rightarrow> ''internal'')"

definition failure_detail :: "exn \<Rightarrow> string" where
  "failure_detail e = py_take 4096 (filter (\<lambda>c. c \<noteq> CHR 0x00) (exn_text e))"

definition failure_json :: "string \<Rightarrow> exn \<Rightarrow> pyval" where
  "failure_json stage e =
    (case failure_retry_policy (exn_code_of e) of (retry, action) \<Rightarrow> PDict
      [(''stage'', PStr stage), (''code'', PStr (exn_code_of e)), (''message'', PStr (failure_detail e)),
       (''retryable_with_new_attempt'', PBool retry), (''same_task_retry_allowed'', PBool retry),
       (''recovery_action'', PStr action),
       (''same_task_retry_requirements'', strs
         [''same-need-spec-id-and-revision'', ''same-job-id'', ''same-immutable-task-digest'',
          ''same-provider-execution-identity'', ''next-execution-attempt-ordinal'', ''new-attempt-id'',
          ''new-single-use-consent-bound-to-attempt'', ''same-registry-no-match-evidence'']),
       (''edited_need_creates_new_task'', PBool True),
       (''edit_retry_requirements'', strs
         [''new-delivery-task'', ''newer-need-spec-revision'', ''new-job-id'', ''new-immutable-task-digest'',
          ''execution-attempt-ordinal-1'', ''new-single-use-consent''])])"

definition record_failure :: "dx \<Rightarrow> string \<Rightarrow> string \<Rightarrow> string \<Rightarrow> string \<Rightarrow> exn \<Rightarrow> pyval dict \<Rightarrow> pyval dict store_op" where
  "record_failure dx at t a stage e outputs =
    transition dx at t a (stage @ ''-failed'') ''failed'' 0 (failure_json stage e) outputs"

end
