(* ===== verification/DelivAdmit.thy ===== *)
theory DelivAdmit
  imports DelivStore
begin

text \<open>
  Admission of a development task (\<open>DeliveryController.submit\<close>): a first attempt, the replacement of a
  failed task by an edited need, a retry of the same task, and the writes that follow.

  \<open>now i\<close> is the time the i-th reading of the clock during the call returns.
\<close>

section \<open>The submitted task\<close>

record admission =
  am_task :: "pyval dict"
  am_registry :: pyval
  am_need :: string
  am_digest :: string
  am_attempt :: string
  am_ordinal :: int
  am_identity :: string
  am_consent :: "pyval dict"

definition attempt_conflict :: exn where
  "attempt_conflict = Fail ''attempt-binding-conflict''
    ''task v3 execution attempt, consent, and provider identity are not exact'' False"

definition admission_parts :: "pyval dict \<Rightarrow> pyval \<Rightarrow> string \<Rightarrow> string \<Rightarrow> admission res" where
  "admission_parts task registry need digest =
    (case (dget task ''execution_attempt'', dget task ''provider_execution_identity'', dget task ''consent'') of
       (PDict x, PDict p, PDict c) \<Rightarrow>
         if pstr_such attempt_id_shape (dget x ''attempt_id'') \<and> exact_int (dget x ''ordinal'')
            \<and> pstr_such hex64 (dget p ''identity_sha256'')
            \<and> dget c ''attempt_id'' = dget x ''attempt_id''
            \<and> dget c ''provider_execution_identity_sha256'' = dget p ''identity_sha256''
         then Inr \<lparr>am_task = task, am_registry = registry, am_need = need, am_digest = digest,
           am_attempt = text_in (dget x ''attempt_id''), am_ordinal = int_of (dget x ''ordinal''),
           am_identity = text_in (dget p ''identity_sha256''), am_consent = c\<rparr>
         else Inl attempt_conflict
     | _ \<Rightarrow> Inl attempt_conflict)"

definition task_invalid :: "string \<Rightarrow> exn" where
  "task_invalid m = Fail ''task-invalid'' m False"

definition checked_text :: "(string \<Rightarrow> bool) \<Rightarrow> pyval \<Rightarrow> exn \<Rightarrow> string res" where
  "checked_text P v e = (if pstr_such P v then Inr (text_in v) else Inl e)"

definition admission_of :: "dx \<Rightarrow> pyval \<Rightarrow> pyval \<Rightarrow> admission res" where
  "admission_of dx submitted registry =
    bnd (dx_validate dx submitted) (\<lambda>task.
    bnd (ditem task ''need_spec'') (\<lambda>need_spec.
    bnd (validate_registry_no_match dx registry need_spec) (\<lambda>_.
    bnd (ditem task ''immutable_task_digest_sha256'') (\<lambda>dv.
    bnd (checked_text hex64 dv (task_invalid ''immutable task digest is invalid'')) (\<lambda>digest.
    bnd (bnd (need_dict need_spec) (\<lambda>n. ditem n ''need_id'')) (\<lambda>nv.
    bnd (checked_text identifier_shape nv (task_invalid ''NeedSpec ID is invalid'')) (\<lambda>need.
    admission_parts task registry need digest)))))))"

definition computed_task_id :: "dx \<Rightarrow> admission \<Rightarrow> string" where
  "computed_task_id dx am = ''development-'' @ take 32 (dx_sha dx (am_need am @ '':'' @ am_digest am))"

section \<open>The three ways in\<close>

text \<open>What the first half of the call finds: the attempt exists already, or goes on, with a retry's predecessor.\<close>

datatype route = Existing "pyval dict" | Proceed "pyval dict" "(string \<times> pyval dict) option"

definition count_of :: "pyval dict \<Rightarrow> int" where
  "count_of r = int_of (dget r ''attempt_count'')"

definition ids_of :: "pyval dict \<Rightarrow> string list" where
  "ids_of r = (case dget r ''attempt_ids'' of PList xs \<Rightarrow> map text_in xs | _ \<Rightarrow> [])"

text \<open>The record of a task against the submitted task: need, revision, job, digest and identity.\<close>

definition record_differs :: "dx \<Rightarrow> pyval dict \<Rightarrow> admission \<Rightarrow> bool res list" where
  "record_differs dx r am =
    [holds (dget r ''need_id'' \<noteq> PStr (am_need am)),
     bnd (ditem (am_task am) ''need_spec_current_revision'') (\<lambda>v. Inr (\<not> same dx (dget r ''need_spec_revision'') v)),
     bnd (ditem (am_task am) ''job_id'') (\<lambda>v. Inr (\<not> same dx (dget r ''job_id'') v)),
     holds (dget r ''immutable_task_digest_sha256'' \<noteq> PStr (am_digest am)),
     holds (dget r ''provider_execution_identity_sha256'' \<noteq> PStr (am_identity am))]"

text \<open>\<open>any(...["consent_id"] == consent["consent_id"] ...)\<close> over the attempts, loading each until one matches.\<close>

definition consent_used :: "dx \<Rightarrow> task_files \<Rightarrow> pyval dict \<Rightarrow> string list \<Rightarrow> bool res" where
  "consent_used dx tf c names =
    any_res (map (\<lambda>a. bnd (load_attempt tf a) (\<lambda>d. Inr (same dx (dget d ''consent_id'') (dget c ''consent_id'')))) names)"

definition first_again :: "dx \<Rightarrow> task_files \<Rightarrow> admission \<Rightarrow> pyval \<Rightarrow> route res" where
  "first_again dx tf am edited =
    bnd (task_record tf) (\<lambda>r.
    if am_attempt am \<in> set (ids_of r)
    then bnd (load_attempt tf (am_attempt am)) (\<lambda>d.
      bnd (validate_attempt_inputs dx (af_task (attempt_of tf (am_attempt am))) (af_registry (attempt_of tf (am_attempt am)))
        d (Some (PDict (am_task am))) (Some (am_registry am))) (\<lambda>_. Inr (Existing d)))
    else if count_of r = 0
    then bnd (refuse (record_differs dx r am @ [holds (dget r ''supersedes_task_id'' \<noteq> edited),
        holds (am_ordinal am \<noteq> 1)])
      (admission_conflict ''interrupted task admission is bound to different immutable inputs''))
      (\<lambda>_. Inr (Proceed r None))
    else fail ''retry-intent-required''
      ''a new execution attempt for the same immutable task requires retry_task_id'')"

definition at_most :: "dx \<Rightarrow> pyval \<Rightarrow> pyval \<Rightarrow> bool res" where
  "at_most dx v w =
    (case (v, w) of
       (PInt i, PInt j) \<Rightarrow> Inr (i \<le> j)
     | (PBool b, PInt j) \<Rightarrow> Inr ((if b then 1 else 0) \<le> j)
     | (PFloat x, PInt j) \<Rightarrow> Inr (dx_float_le dx x j)
     | _ \<Rightarrow> Inl (Crash ''TypeError''))"

definition edited_bad :: "dx \<Rightarrow> task_files \<Rightarrow> pyval dict \<Rightarrow> admission \<Rightarrow> bool res list" where
  "edited_bad dx tf r am =
    [holds (dget r ''need_id'' \<noteq> PStr (am_need am)),
     bnd (ditem (am_task am) ''need_spec_current_revision'') (\<lambda>v. at_most dx v (dget r ''need_spec_revision'')),
     bnd (ditem (am_task am) ''job_id'') (\<lambda>v. Inr (same dx v (dget r ''job_id''))),
     holds (PStr (am_digest am) = dget r ''immutable_task_digest_sha256''),
     consent_used dx tf (am_consent am) (ids_of r)]"

definition edited_check :: "dx \<Rightarrow> store \<Rightarrow> pyval \<Rightarrow> admission \<Rightarrow> unit res" where
  "edited_check dx s edited am =
    bnd (task_dir s edited) (\<lambda>(_, tf).
    bnd (task_record tf) (\<lambda>r.
    case dget r ''current_attempt_id'' of
      PStr a \<Rightarrow>
        bnd (load_attempt tf a) (\<lambda>prior.
        if dget prior ''status'' \<noteq> PStr ''failed''
        then fail ''edited-task-not-allowed'' ''only a failed delivery task can be replaced by an edited NeedSpec''
        else refuse (edited_bad dx tf r am) (Fail ''edited-task-revision-required''
          ''edited NeedSpec replacement requires the same NeedSpec ID, a newer revision, new job, new immutable request, and new consent'' False))
    | _ \<Rightarrow> fail ''edited-task-binding-conflict'' ''the replaced delivery task has no prior attempt''))"

definition fresh_task :: "admission \<Rightarrow> string \<Rightarrow> pyval \<Rightarrow> pyval \<Rightarrow> pyval \<Rightarrow> (nat \<Rightarrow> string) \<Rightarrow> pyval dict" where
  "fresh_task am t revision job edited now =
    [(''schema_version'', PStr task_version), (''document_type'', PStr ''delivery-task''), (''task_id'', PStr t),
     (''need_id'', PStr (am_need am)), (''need_spec_revision'', revision), (''job_id'', job),
     (''immutable_task_digest_sha256'', PStr (am_digest am)),
     (''provider_execution_identity_sha256'', PStr (am_identity am)), (''supersedes_task_id'', edited),
     (''attempt_count'', PInt 0), (''current_attempt_id'', PNone), (''attempt_ids'', PList []),
     (''created_at_utc'', PStr (now 0)), (''updated_at_utc'', PStr (now 1))]"

definition first_new :: "dx \<Rightarrow> string \<Rightarrow> admission \<Rightarrow> pyval \<Rightarrow> (nat \<Rightarrow> string) \<Rightarrow> route store_op" where
  "first_new dx t am edited now =
    (if am_ordinal am \<noteq> 1
     then slift (fail ''attempt-sequence-conflict''
       ''a new immutable delivery task must begin at execution attempt ordinal 1'')
     else sbnd (sread (\<lambda>s. if edited = PNone then Inr () else edited_check dx s edited am)) (\<lambda>_.
       sbnd (make_dirs t) (\<lambda>_.
       sbnd (slift (bnd (ditem (am_task am) ''need_spec_current_revision'') (\<lambda>v.
         bnd (ditem (am_task am) ''job_id'') (\<lambda>j. Inr (v, j))))) (\<lambda>(revision, job).
       let r = fresh_task am t revision job edited now in
       sbnd (write_task_json True t r) (\<lambda>_. slift (Inr (Proceed r None)))))))"

definition retry_bad :: "dx \<Rightarrow> admission \<Rightarrow> pyval dict \<Rightarrow> bool res list" where
  "retry_bad dx am previous =
    (let both = (\<lambda>k. bnd (ditem (am_task am) k) (\<lambda>v. bnd (ditem previous k) (\<lambda>w. Inr (\<not> same dx v w)))) in
     [both ''job_id'',
      bnd (ditem previous ''immutable_task_digest_sha256'') (\<lambda>w. Inr (w \<noteq> PStr (am_digest am))),
      bnd (ditems previous ''provider_execution_identity'') (\<lambda>p. bnd (ditem p ''identity_sha256'') (\<lambda>w.
        Inr (w \<noteq> PStr (am_identity am)))),
      both ''need_spec_current_revision'',
      bnd (ditem (am_task am) ''need_spec'') (\<lambda>v. bnd (strict_bytes v) (\<lambda>a.
        bnd (ditem previous ''need_spec'') (\<lambda>w. bnd (strict_bytes w) (\<lambda>b. Inr (a \<noteq> b)))))])"

definition retry_conflict :: "string \<Rightarrow> exn" where
  "retry_conflict m = Fail ''retry-binding-conflict'' m False"

text \<open>The prior failure must be classified as transient.\<close>

definition retry_allowed :: "pyval dict \<Rightarrow> unit res" where
  "retry_allowed previous =
    (if dget previous ''status'' \<noteq> PStr ''failed''
     then fail ''retry-not-allowed'' ''only a failed attempt can be retried''
     else bnd (dsub previous ''error'') (\<lambda>e.
       if dget e ''same_task_retry_allowed'' \<noteq> PBool True
       then fail ''retry-not-transient'' ''the prior failure is not classified for same immutable-task retry''
       else Inr ()))"

definition retry_route :: "dx \<Rightarrow> store \<Rightarrow> pyval \<Rightarrow> admission \<Rightarrow> route res" where
  "retry_route dx s retry am =
    (if retry \<noteq> PStr (computed_task_id dx am)
     then Inl (retry_conflict ''same-task retry changed the immutable delivery task identity'')
     else bnd (task_dir s retry) (\<lambda>(_, tf).
       bnd (task_record tf) (\<lambda>r.
       bnd (refuse (record_differs dx r am)
         (retry_conflict ''same-task retry changed the NeedSpec, job, immutable request, or provider identity'')) (\<lambda>_.
       case dget r ''current_attempt_id'' of
         PStr a \<Rightarrow>
           bnd (load_attempt tf a) (\<lambda>previous.
           bnd (retry_allowed previous) (\<lambda>_.
           bnd (file_of (af_task (attempt_of tf a))) (\<lambda>previous_task.
           bnd (refuse (retry_bad dx am previous_task)
             (retry_conflict ''same-task retry must preserve the exact immutable request and NeedSpec'')) (\<lambda>_.
           bnd (refuse [holds (am_ordinal am \<noteq> count_of r + 1), holds (am_attempt am \<in> set (ids_of r)),
               consent_used dx tf (am_consent am) (ids_of r)]
             (Fail ''retry-attempt-required'' ''same-task retry requires the next execution ordinal, a new attempt ID, and a new single-use consent'' False)) (\<lambda>_.
           Inr (Proceed r (Some (a, previous))))))))
       | _ \<Rightarrow> Inl (retry_conflict ''delivery task has no prior attempt'')))))"

section \<open>The writes\<close>

definition same_evidence :: "dx \<Rightarrow> store \<Rightarrow> string \<Rightarrow> admission \<Rightarrow> (string \<times> pyval dict) option \<Rightarrow> unit res" where
  "same_evidence dx s t am prior =
    (case prior of
       None \<Rightarrow> Inr ()
     | Some (a, previous) \<Rightarrow>
         bnd (validate_attempt_inputs dx (af_task (files_at s t a)) (af_registry (files_at s t a)) previous None None)
           (\<lambda>(_, registry).
         bnd (bytes_differ (PDict registry) (am_registry am)) (\<lambda>b.
         if b then Inl (retry_conflict ''same-task retry cannot substitute different Registry no-match evidence'')
         else Inr ())))"

definition queued_record :: "dx \<Rightarrow> string \<Rightarrow> admission \<Rightarrow> int \<Rightarrow> pyval \<Rightarrow> string \<Rightarrow> pyval dict res" where
  "queued_record dx t am number retry_of at =
    bnd (ditems (am_task am) ''package_intent'') (\<lambda>package. bnd (ditem package ''display_name'') (\<lambda>title.
    bnd (ditem (am_task am) ''need_spec_current_revision'') (\<lambda>revision.
    bnd (ditem (am_task am) ''job_id'') (\<lambda>job. bnd (ditem (am_consent am) ''consent_id'') (\<lambda>consent.
    bnd (need_dict (am_registry am)) (\<lambda>registry. bnd (ditem registry ''request_id'') (\<lambda>request.
    bnd (strict_bytes (am_registry am)) (\<lambda>rb. bnd (strict_bytes (PDict (am_task am))) (\<lambda>tb.
    Inr
      [(''schema_version'', PStr attempt_version), (''document_type'', PStr ''delivery-attempt''), (''task_id'', PStr t),
       (''attempt_id'', PStr (am_attempt am)), (''attempt_number'', PInt number), (''retry_of_attempt_id'', retry_of),
       (''need_id'', PStr (am_need am)), (''title'', title), (''need_spec_revision'', revision), (''job_id'', job),
       (''consent_id'', consent), (''provider_execution_identity_sha256'', PStr (am_identity am)),
       (''registry_request_id'', request), (''registry_evidence_sha256'', PStr (dx_sha dx rb)),
       (''canonical_task_sha256'', PStr (dx_sha dx tb)), (''immutable_task_digest_sha256'', PStr (am_digest am)),
       (''status'', PStr ''queued''), (''stage'', PStr ''confirmed-registry-no-match''), (''progress_percent'', PInt 5),
       (''error'', PNone), (''outputs'', PDict []), (''event_count'', PInt 0), (''created_at_utc'', PStr at),
       (''updated_at_utc'', PStr at)])))))))))"

definition write_input :: "string \<Rightarrow> string \<Rightarrow> pyval dict \<Rightarrow> unit store_op" where
  "write_input = write_doc True af_task (\<lambda>d af. af\<lparr>af_task := Some d\<rparr>)"

definition write_evidence :: "string \<Rightarrow> string \<Rightarrow> pyval dict \<Rightarrow> unit store_op" where
  "write_evidence = write_doc True af_registry (\<lambda>d af. af\<lparr>af_registry := Some d\<rparr>)"

definition admitted_task :: "pyval dict \<Rightarrow> int \<Rightarrow> string \<Rightarrow> string \<Rightarrow> pyval dict" where
  "admitted_task r number a at = aput_all
    [(''attempt_count'', PInt number), (''current_attempt_id'', PStr a),
     (''attempt_ids'', PList (map PStr (ids_of r @ [a]))), (''updated_at_utc'', PStr at)] r"

definition admit :: "dx \<Rightarrow> (nat \<Rightarrow> string) \<Rightarrow> string \<Rightarrow> admission \<Rightarrow> pyval dict \<Rightarrow> (string \<times> pyval dict) option
    \<Rightarrow> pyval dict store_op" where
  "admit dx now t am r prior =
    (let a = am_attempt am; number = count_of r + 1 in
     if attempt_cap \<le> count_of r then slift (fail ''attempt-limit'' (''delivery task reached '' @ dec attempt_cap @ '' attempts''))
     else if am_ordinal am \<noteq> number \<or> ordinal_text a \<noteq> pad4 number
     then slift (fail ''attempt-sequence-conflict''
       ''execution attempt ID and ordinal must equal the controller's next attempt'')
     else
       sbnd (sread (\<lambda>s. same_evidence dx s t am prior)) (\<lambda>_.
       sbnd (write_input t a (am_task am)) (\<lambda>_.
       sbnd (slift (need_dict (am_registry am))) (\<lambda>registry.
       sbnd (write_evidence t a registry) (\<lambda>_.
       sbnd (slift (queued_record dx t am number (case prior of None \<Rightarrow> PNone | Some (p, _) \<Rightarrow> PStr p) (now 2))) (\<lambda>d.
       sbnd (write_record True t a d) (\<lambda>_.
       sbnd (transition dx (now 3) t a ''attempt-admitted'' ''queued'' 5 PNone []) (\<lambda>d'.
       sbnd (write_task_json False t (admitted_task r number a (now 4))) (\<lambda>_. slift (Inr d'))))))))))"

definition deliver_submit :: "dx \<Rightarrow> (nat \<Rightarrow> string) \<Rightarrow> pyval \<Rightarrow> pyval \<Rightarrow> bool \<Rightarrow> pyval \<Rightarrow> pyval \<Rightarrow> pyval dict store_op" where
  "deliver_submit dx now submitted registry explicit retry edited =
    (if \<not> explicit then slift (fail ''explicit-submit-required'' ''the user must explicitly submit the task'')
     else if retry \<noteq> PNone \<and> edited \<noteq> PNone
     then slift (fail ''retry-mode-conflict''
       ''same-task retry and edited-NeedSpec replacement are distinct operations'')
     else sbnd (slift (admission_of dx submitted registry)) (\<lambda>am.
       let t = (if retry = PNone \<or> retry = PStr [] then computed_task_id dx am else text_in retry) in
       sbnd (if retry \<noteq> PNone then sread (\<lambda>s. retry_route dx s (if retry = PStr [] then PStr t else retry) am)
             else (\<lambda>s. case aget s t of
               Some tf \<Rightarrow> (s, first_again dx tf am edited)
             | None \<Rightarrow> first_new dx t am edited now s)) (\<lambda>route.
       case route of
         Existing d \<Rightarrow> slift (Inr d)
       | Proceed r prior \<Rightarrow> admit dx now t am r prior)))"

end
