(* ===== verification/DelivResume.thy ===== *)
theory DelivResume
  imports DelivAdmit
begin

text \<open>
  Resuming a failed attempt at its retained source (\<open>run_attempt\<close> with \<open>resume_source_handoff\<close>): the
  checks before the attempt is reopened (\<open>_validate_resumable_source\<close>), and keeping the evidence of a
  failed Builder job out of the way of the next one (\<open>_preserve_failed_builder_job\<close>).

  \<open>resume_env\<close> is what these find outside the store: the desktop worker's status, the CodeAgent's
  status, the handoff and the Builder's failed job. A path is the one relative to the controller's root.
\<close>

section \<open>Paths of outputs\<close>

text \<open>\<open>_output_path\<close>: a relative path without empty, \<open>.\<close> or \<open>..\<close> parts.\<close>

fun split_on :: "char \<Rightarrow> string \<Rightarrow> string \<Rightarrow> string list" where
  "split_on x acc [] = [acc]"
| "split_on x acc (c # s) = (if c = x then acc # split_on x [] s else split_on x (acc @ [c]) s)"

definition output_path_ok :: "pyval \<Rightarrow> bool" where
  "output_path_ok v = pstr_such (\<lambda>s.
    1 \<le> py_len s \<and> py_len s \<le> 1024 \<and> CHR 0x5C \<notin> set s \<and> \<not> starts_with s ''/''
    \<and> list_all (\<lambda>p. p \<notin> {'''', ''.'', ''..''}) (split_on (CHR ''/'') [] s)) v"

definition output_path :: "pyval \<Rightarrow> string \<Rightarrow> string res" where
  "output_path v context =
    (if output_path_ok v then Inr (text_in v)
     else Inl (integrity_error (context @ '' path is invalid'')))"

definition bound_path :: "pyval \<Rightarrow> string \<Rightarrow> string \<Rightarrow> unit res" where
  "bound_path v expected context =
    (if v \<noteq> PStr expected then Inl (integrity_error (context @ '' is not bound to this delivery attempt''))
     else bnd (output_path v context) (\<lambda>_. Inr ()))"

definition request_flags :: "string list" where
  "request_flags = [''provider_process_started'', ''external_request_attempted'', ''external_request_observed'']"

definition output_pairs :: "(string \<times> string) list" where
  "output_pairs =
    [(''codeagent_provider_id'', ''provider_id''), (''codeagent_model'', ''model''),
     (''external_request_attempted'', ''external_request_attempted''),
     (''external_request_observed'', ''external_request_observed''), (''gateway_request_id'', ''gateway_request_id'')]"

section \<open>The retained source\<close>

record resume_env =
  re_text :: "pyval \<Rightarrow> string"
  re_worker :: "pyval dict res option"
  re_status :: "pyval dict option"
  re_handoff_path :: "string \<Rightarrow> string"
  re_direct :: bool
  re_handoff_sha :: "string res"
  re_handoff :: "pyval dict res"
  re_busy :: bool
  re_job :: "pyval dict res option"
  re_history :: string
  re_taken :: "string \<Rightarrow> bool"

definition resume_error :: "string \<Rightarrow> exn" where
  "resume_error m = Fail ''source-resume-not-allowed'' m False"

definition unready_error :: "string \<Rightarrow> exn" where
  "unready_error m = Fail ''source-resume-not-ready'' m False"

text \<open>
  \<open>"cancel" in str(v).lower()\<close>. No character outside ASCII has one of these letters as its lower case,
  so that lowering the letters of ASCII decides it; a missing value is \<open>""\<close> in the code and \<open>None\<close> here,
  and neither text holds the word.
\<close>

definition mentions_cancel :: "resume_env \<Rightarrow> pyval \<Rightarrow> bool" where
  "mentions_cancel re v =
    infixb ''cancel'' (map lower_char (case v of PStr s \<Rightarrow> s | PNone \<Rightarrow> ''None'' | _ \<Rightarrow> re_text re v))"

definition resume_bad :: "dx \<Rightarrow> resume_env \<Rightarrow> pyval dict \<Rightarrow> pyval dict \<Rightarrow> bool" where
  "resume_bad dx re d index \<longleftrightarrow>
    dget d ''status'' \<noteq> PStr ''failed''
    \<or> \<not> same dx (dget d ''attempt_id'') (dget index ''current_attempt_id'')
    \<or> mentions_cancel re (dget d ''stage'')
    \<or> mentions_cancel re (case dget d ''error'' of PDict e \<Rightarrow> dget e ''code'' | _ \<Rightarrow> PNone)"

definition worker_bad :: "dx \<Rightarrow> resume_env \<Rightarrow> pyval dict \<Rightarrow> pyval dict \<Rightarrow> pyval dict \<Rightarrow> bool res list" where
  "worker_bad dx re d task worker =
    [holds (dget worker ''schema_version'' \<noteq> PStr ''vibapp.desktop-delivery-worker.experimental-v2''),
     differ dx worker d ''task_id'', differ dx worker d ''attempt_id'',
     bnd (ditem task ''immutable_task_digest_sha256'') (\<lambda>v.
       Inr (\<not> same dx (dget worker ''immutable_task_digest_sha256'') v)),
     holds (dget worker ''terminal'' \<noteq> PBool True),
     holds (dget worker ''cleanup_confirmed'' \<noteq> PBool True),
     holds (mentions_cancel re (dget worker ''status'')),
     holds (dget worker ''owner_cancellation_reason'' \<noteq> PNone)]"

definition check_worker :: "dx \<Rightarrow> resume_env \<Rightarrow> pyval dict \<Rightarrow> pyval dict \<Rightarrow> unit res" where
  "check_worker dx re d task =
    (case re_worker re of
       None \<Rightarrow> Inr ()
     | Some r \<Rightarrow> bnd r (\<lambda>worker. refuse (worker_bad dx re d task worker)
         (resume_error ''delivery worker is active, cancelled, unbound, or has unconfirmed cleanup'')))"

definition retained_status :: "pyval dict \<Rightarrow> pyval dict res" where
  "retained_status task =
    bnd (ditem task ''job_id'') (\<lambda>job. bnd (ditems task ''need_spec'') (\<lambda>need. bnd (ditem need ''need_id'') (\<lambda>need_id.
    bnd (ditem task ''need_spec_current_revision'') (\<lambda>revision.
    bnd (ditem task ''immutable_task_digest_sha256'') (\<lambda>digest.
    bnd (ditems task ''consent'') (\<lambda>consent. bnd (ditem consent ''consent_id'') (\<lambda>consent_id.
    bnd (ditems task ''provider_execution_identity'') (\<lambda>identity. bnd (ditem identity ''identity_sha256'') (\<lambda>identity_sha.
    bnd (ditem task ''provider'') (\<lambda>provider. bnd (adapter_of provider) (\<lambda>adapter. bnd (ditem task ''model'') (\<lambda>model.
    Inr
      [(''schema_version'', PStr ''vibapp.codeagent-adapter-status.experimental-v2''),
       (''adapter'', PStr ''local-codeagent-adapter''), (''status'', PStr ''source-ready''),
       (''current_stage'', PStr ''awaiting-separate-builder''), (''error'', PNone), (''job_id'', job),
       (''need_id'', need_id), (''need_spec_revision'', revision), (''immutable_task_digest_sha256'', digest),
       (''consent_id'', consent_id), (''consent_consumed'', PBool True),
       (''provider_execution_identity_sha256'', identity_sha), (''provider_id'', adapter),
       (''task_provider'', provider), (''model'', model), (''identity_observed'', PBool True),
       (''execution_available'', PBool True), (''builder_invoked'', PBool False), (''verifier_invoked'', PBool False),
       (''installation_performed'', PBool False), (''publication_performed'', PBool False)]))))))))))))"

definition retained_status_bad :: "dx \<Rightarrow> pyval dict \<Rightarrow> pyval dict \<Rightarrow> pyval \<Rightarrow> pyval \<Rightarrow> bool" where
  "retained_status_bad dx expected st provider model \<longleftrightarrow>
    list_ex (\<lambda>(k, v). \<not> same dx (dget st k) v \<or> is_pbool v \<and> \<not> is_pbool (dget st k)) expected
    \<or> \<not> same dx (dget st ''provider_id'') provider \<or> \<not> same dx (dget st ''model'') model
    \<or> \<not> list_all (\<lambda>k. is_pbool (dget st k)) request_flags"

definition retained_handoff_path :: "resume_env \<Rightarrow> pyval \<Rightarrow> string" where
  "retained_handoff_path re job =
    ''runs/'' @ (case job of PStr s \<Rightarrow> s | _ \<Rightarrow> re_text re job) @ ''/handoff.json''"

definition retained_handoff_bad :: "dx \<Rightarrow> pyval dict \<Rightarrow> pyval dict \<Rightarrow> pyval dict \<Rightarrow> pyval dict \<Rightarrow> pyval \<Rightarrow> bool res list" where
  "retained_handoff_bad dx handoff execution task st adapter =
    map (differ dx handoff task) [''job_id'', ''need_spec_digest_sha256'', ''package_intent'', ''target'']
    @ [holds (\<not> same dx (dget execution ''provider_id'') adapter),
       bnd (ditems task ''provider_execution_identity'') (\<lambda>i. bnd (ditems i ''runtime'') (\<lambda>r.
         bnd (ditem r ''executable_sha256'') (\<lambda>v. Inr (\<not> same dx (dget execution ''executable_sha256'') v))))]
    @ map (differ dx execution st) [''external_request_attempted'', ''external_request_observed'', ''gateway_request_id'']"

definition check_retained_handoff :: "dx \<Rightarrow> resume_env \<Rightarrow> pyval dict \<Rightarrow> pyval dict \<Rightarrow> pyval dict \<Rightarrow> pyval dict \<Rightarrow> pyval
    \<Rightarrow> unit res" where
  "check_retained_handoff dx re d task st outputs adapter =
    bnd (ditem task ''job_id'') (\<lambda>job.
    let relative = retained_handoff_path re job in
    bnd (bound_path (dget outputs ''source_handoff_path'') (re_handoff_path re relative) ''retained CodeAgent handoff'') (\<lambda>_.
    if \<not> re_direct re
    then Inl (Fail ''path-escape'' ''retained CodeAgent handoff canonical path was redirected'' False)
    else bnd (re_handoff_sha re) (\<lambda>sha.
    if dget st ''handoff_relative_path'' \<noteq> PStr relative \<or> dget st ''handoff_sha256'' \<noteq> PStr sha
      \<or> dget outputs ''source_handoff_sha256'' \<noteq> PStr sha
    then Inl (Fail ''handoff-digest-mismatch'' ''retained source handoff changed'' False)
    else bnd (re_handoff re) (\<lambda>handoff. bnd (ditems handoff ''provider_execution'') (\<lambda>execution.
      bnd (refuse (retained_handoff_bad dx handoff execution task st adapter) (Fail ''handoff-binding-mismatch''
        ''retained source differs from the immutable task or provider execution'' False)) (\<lambda>_.
      validate_docker_receipt dx execution st task d))))))"

text \<open>\<open>_validate_resumable_source\<close>, given the attempt's record, the index and the two input documents.\<close>

definition validate_resumable_source :: "dx \<Rightarrow> resume_env \<Rightarrow> pyval \<Rightarrow> pyval \<Rightarrow> pyval dict \<Rightarrow> pyval dict
    \<Rightarrow> pyval dict option \<Rightarrow> pyval dict option \<Rightarrow> unit res" where
  "validate_resumable_source dx re provider model d index task_file registry_file =
    (if resume_bad dx re d index
     then Inl (resume_error ''only the current failed, non-cancelled attempt can resume its retained source'')
     else bnd (validate_attempt_inputs dx task_file registry_file d None None) (\<lambda>(task, _).
       bnd (check_worker dx re d task) (\<lambda>_.
       case re_status re of
         None \<Rightarrow> Inl (unready_error ''retained source-ready CodeAgent status is required'')
       | Some st \<Rightarrow>
           bnd (retained_status task) (\<lambda>expected.
           if retained_status_bad dx expected st provider model
           then Inl (unready_error ''retained CodeAgent status is not bound to the exact admitted task'')
           else (case dget d ''outputs'' of
               PDict outputs \<Rightarrow>
                 if list_ex (\<lambda>(o1, k). \<not> has o1 outputs \<or> \<not> same dx (dget outputs o1) (dget st k)) output_pairs
                 then Inl (Fail ''codeagent-output-binding-mismatch''
                   ''retained outputs differ from the exact CodeAgent status'' False)
                 else check_retained_handoff dx re d task st outputs (dget expected ''provider_id'')
             | _ \<Rightarrow> Inl (Crash ''TypeError''))))))"

section \<open>The failed Builder job\<close>

definition pad6 :: "int \<Rightarrow> string" where
  "pad6 n = replicate (6 - length (dec n)) (CHR ''0'') @ dec n"

definition job_bad :: "dx \<Rightarrow> pyval dict \<Rightarrow> pyval dict \<Rightarrow> pyval dict \<Rightarrow> bool res list" where
  "job_bad dx job task handoff =
    [holds (dget job ''schema_version'' \<noteq> PStr ''vibapp.builder-job.experimental-v1''),
     holds (dget job ''state'' \<noteq> PStr ''failed''),
     bnd (ditem task ''job_id'') (\<lambda>v. Inr (\<not> same dx (dget job ''job_id'') v)),
     bnd (ditem handoff ''source_tree_sha256'') (\<lambda>v. Inr (\<not> same dx (dget job ''source_tree_sha256'') v))]"

text \<open>Where the job is moved to: the event count of the attempt's record makes the name new each time.\<close>

definition preserved_path :: "resume_env \<Rightarrow> pyval dict \<Rightarrow> pyval dict \<Rightarrow> string res" where
  "preserved_path re task d =
    bnd (ditem task ''job_id'') (\<lambda>job. bnd (ditem d ''event_count'') (\<lambda>n.
    case n of
      PInt i \<Rightarrow> Inr (re_history re @ ''/'' @ (case job of PStr s \<Rightarrow> s | _ \<Rightarrow> re_text re job) @ ''-'' @ pad6 i)
    | _ \<Rightarrow> Inl (Crash ''ValueError'')))"

definition preserve_failed_builder_job :: "dx \<Rightarrow> resume_env \<Rightarrow> string \<Rightarrow> string \<Rightarrow> string \<Rightarrow> pyval dict \<Rightarrow> pyval dict
    \<Rightarrow> unit store_op" where
  "preserve_failed_builder_job dx re at t a task handoff =
    (case re_job re of
       None \<Rightarrow> slift (Inr ())
     | Some job_file \<Rightarrow>
         if re_busy re then slift (fail ''attempt-active'' ''Builder is still using this attempt'')
         else sbnd (slift (bnd job_file (\<lambda>job. refuse (job_bad dx job task handoff)
             (resume_error ''existing Builder job is not a bound terminal failure'')))) (\<lambda>_.
           sbnd (sread (\<lambda>s. bnd (file_of (af_record (files_at s t a))) (preserved_path re task))) (\<lambda>path.
           if re_taken re path
           then slift (Inl (resume_error ''failed Builder evidence destination already exists''))
           else sbnd (transition dx at t a ''builder-failure-preserved'' ''running'' 45 PNone
               [(''builder_previous_failure_path'', PStr path)]) (\<lambda>_. slift (Inr ())))))"

end
