(* ===== verification/DelivRun.thy ===== *)
theory DelivRun
  imports DelivResume
begin

text \<open>
  One run of an attempt (\<open>DeliveryController._run_attempt_under_budget\<close>): authoring by the CodeAgent,
  the build, the verification, the ingestion into the private AppStore, and the failure each phase
  records.

  \<open>run_env\<close> is what the run meets outside the store: the answers of the CodeAgent, the Builder, the
  Verifier, the readiness check and the AppStore, the files they leave (a \<open>stored\<close> document is the
  digest of its bytes and its content), the observed cancellations and the clock. A run is started
  with the lease and the lock of the attempt held, unless \<open>rn_locked\<close> says another worker holds it.
  \<open>rn_resume\<close> is there when the run is asked to resume the retained source of a failed attempt.
\<close>

record run_env =
  rn_at :: "nat \<Rightarrow> string"
  rn_cancelled :: "nat \<Rightarrow> bool"
  rn_locked :: bool
  rn_provider :: pyval
  rn_model :: pyval
  rn_status :: "pyval dict option"
  rn_recover :: "unit res"
  rn_preflight :: "(string \<times> exn) option"
  rn_agent :: "pyval dict res"
  rn_status_left :: bool
  rn_handoff_at :: "string \<Rightarrow> (bool \<times> string \<times> string) res"
  rn_handoff :: "pyval dict res"
  rn_receipt :: "stored option"
  rn_build :: "stored res"
  rn_receipt_path :: string
  rn_quarantine_manifest :: "stored res"
  rn_candidate :: "stored option"
  rn_promote :: "stored res"
  rn_candidate_path :: string
  rn_candidate_manifest :: "stored res"
  rn_readiness :: "pyval dict res"
  rn_candidate_now :: "string res"
  rn_ingest :: "(pyval dict \<times> pyval) res"
  rn_receipt_now :: "string res"
  rn_candidate_after :: "string res"
  rn_appstore_manifest :: "stored res"
  rn_resume :: "resume_env option"

text \<open>A phase: its failure is recorded and ends the run; its result goes on to the next phase.\<close>

definition phase :: "dx \<Rightarrow> run_env \<Rightarrow> string \<Rightarrow> string \<Rightarrow> nat \<Rightarrow> string \<Rightarrow> 'a store_op
    \<Rightarrow> ('a \<Rightarrow> pyval dict store_op) \<Rightarrow> pyval dict store_op" where
  "phase dx rn t a i stage m k s =
    (case m s of
       (s', Inr x) \<Rightarrow> k x s'
     | (s', Inl e) \<Rightarrow> record_failure dx (rn_at rn i) t a stage e [] s')"

definition check_cancellation :: "run_env \<Rightarrow> nat \<Rightarrow> unit store_op" where
  "check_cancellation rn i = slift
    (if rn_cancelled rn i then fail ''provider-cancelled'' ''delivery attempt was cancelled'' else Inr ())"

definition moving :: "dx \<Rightarrow> run_env \<Rightarrow> string \<Rightarrow> string \<Rightarrow> nat \<Rightarrow> string \<Rightarrow> string \<Rightarrow> int \<Rightarrow> pyval dict \<Rightarrow> pyval dict store_op" where
  "moving dx rn t a i stage status progress outputs =
    transition dx (rn_at rn i) t a stage status progress PNone outputs"

section \<open>The CodeAgent\<close>

definition agent_bad :: "dx \<Rightarrow> run_env \<Rightarrow> pyval dict \<Rightarrow> pyval dict \<Rightarrow> bool res list" where
  "agent_bad dx rn st task =
    (let sub = (\<lambda>own field k. bnd (dsub task field) (\<lambda>s. Inr (\<not> same dx (dget st own) (dget s k)))) in
     [holds (dget st ''status'' \<noteq> PStr ''source-ready''),
      differ dx st task ''job_id'',
      sub ''need_id'' ''need_spec'' ''need_id'',
      holds (\<not> same dx (dget st ''need_spec_revision'') (dget task ''need_spec_current_revision'')),
      differ dx st task ''immutable_task_digest_sha256'',
      sub ''consent_id'' ''consent'' ''consent_id'',
      sub ''provider_execution_identity_sha256'' ''provider_execution_identity'' ''identity_sha256'',
      holds (dget st ''identity_observed'' \<noteq> PBool True),
      holds (dget st ''execution_available'' \<noteq> PBool True),
      holds (\<not> same dx (dget st ''provider_id'') (rn_provider rn)),
      holds (\<not> same dx (dget st ''model'') (rn_model rn)),
      holds (\<not> is_pbool (dget st ''external_request_attempted'')),
      holds (\<not> is_pbool (dget st ''external_request_observed''))])"

definition agent_error :: "string \<Rightarrow> string \<Rightarrow> exn" where
  "agent_error c m = Fail c m False"

text \<open>The CodeAgent's status: one that is already there, or the result of running it now.\<close>

datatype 'a run_step = Ended "pyval dict" | Going 'a

definition no_request_outputs :: "pyval dict" where
  "no_request_outputs =
    [(''provider_process_started'', PBool False), (''external_request_attempted'', PBool False),
     (''external_request_observed'', PBool False), (''source_executed'', PBool False)]"

definition agent_status :: "dx \<Rightarrow> run_env \<Rightarrow> string \<Rightarrow> string \<Rightarrow> bool \<Rightarrow> pyval dict run_step store_op" where
  "agent_status dx rn t a resume =
    (case rn_status rn of
       Some st \<Rightarrow>
         if dget st ''status'' = PStr ''source-ready'' then slift (Inr (Going st))
         else sbnd (slift (if resume then Inr () else rn_recover rn)) (\<lambda>_. slift (Inl (agent_error ''codeagent-interrupted''
           ''CodeAgent has no restart-safe source-ready handoff; submit a new same-task execution attempt with fresh attempt-bound consent'')))
     | None \<Rightarrow>
         if resume then slift (Inl (agent_error ''source-resume-not-ready''
           ''retained CodeAgent status disappeared; recovery never invokes a provider''))
         else (case rn_preflight rn of
             Some (stage, e) \<Rightarrow>
               sbnd (record_failure dx (rn_at rn 1) t a stage e no_request_outputs) (\<lambda>d. slift (Inr (Ended d)))
           | None \<Rightarrow>
               sbnd (moving dx rn t a 1 ''codeagent-running'' ''running'' 20 []) (\<lambda>_.
               sbnd (slift (rn_agent rn)) (\<lambda>st. slift (Inr (Going st))))))"

definition handoff_outputs :: "pyval dict \<Rightarrow> string \<Rightarrow> string \<Rightarrow> pyval dict" where
  "handoff_outputs st path sha =
    [(''source_handoff_path'', PStr path), (''source_handoff_sha256'', PStr sha),
     (''codeagent_provider_id'', dget st ''provider_id''), (''codeagent_model'', dget st ''model''),
     (''external_request_attempted'', dget st ''external_request_attempted''),
     (''external_request_observed'', dget st ''external_request_observed''),
     (''gateway_request_id'', dget st ''gateway_request_id'')]"

definition agent_handoff :: "run_env \<Rightarrow> pyval dict \<Rightarrow> (string \<times> string) res" where
  "agent_handoff rn st =
    (case dget st ''handoff_relative_path'' of
       PStr p \<Rightarrow>
         bnd (rn_handoff_at rn p) (\<lambda>(inside, path, sha).
         if \<not> inside then Inl (agent_error ''path-escape'' ''CodeAgent handoff escaped its output root'')
         else if dget st ''handoff_sha256'' \<noteq> PStr sha
         then Inl (agent_error ''handoff-digest-mismatch'' ''CodeAgent handoff digest changed'')
         else Inr (path, sha))
     | _ \<Rightarrow> Inl (agent_error ''handoff-missing'' ''CodeAgent did not return a source handoff''))"

definition agent_phase :: "dx \<Rightarrow> run_env \<Rightarrow> string \<Rightarrow> string \<Rightarrow> bool \<Rightarrow> pyval dict \<Rightarrow> unit run_step store_op" where
  "agent_phase dx rn t a resume task =
    sbnd (check_cancellation rn 0) (\<lambda>_.
    sbnd (agent_status dx rn t a resume) (\<lambda>r.
    case r of
      Ended d \<Rightarrow> slift (Inr (Ended d))
    | Going st \<Rightarrow>
        sbnd (check_cancellation rn 1) (\<lambda>_.
        sbnd (slift (refuse (agent_bad dx rn st task) (agent_error ''codeagent-status-invalid''
          ''CodeAgent terminal status is not bound to the configured provider/model''))) (\<lambda>_.
        sbnd (slift (agent_handoff rn st)) (\<lambda>(path, sha).
        sbnd (moving dx rn t a 2 ''source-ready'' ''running'' 45 (handoff_outputs st path sha)) (\<lambda>_.
        slift (Inr (Going ()))))))))"

text \<open>A host without capacity leaves the attempt queued, if the CodeAgent has written nothing.\<close>

definition agent_failed :: "dx \<Rightarrow> run_env \<Rightarrow> string \<Rightarrow> string \<Rightarrow> exn \<Rightarrow> pyval dict store_op" where
  "agent_failed dx rn t a e =
    (if exn_code_of e = ''local-capacity-busy'' \<and> \<not> rn_status_left rn
     then sbnd (moving dx rn t a 3 ''awaiting-author-capacity'' ''queued'' 5 [])
       (\<lambda>_. slift (fail ''local-capacity-busy'' ''host author capacity is occupied''))
     else record_failure dx (rn_at rn 3) t a ''codeagent'' e [])"

definition handoff_phase :: "dx \<Rightarrow> run_env \<Rightarrow> pyval dict \<Rightarrow> pyval dict res" where
  "handoff_phase dx rn task =
    bnd (rn_handoff rn) (\<lambda>h.
    bnd (refuse (map (differ dx h task) [''job_id'', ''need_spec_digest_sha256'', ''package_intent'', ''target''])
      (agent_error ''handoff-binding-mismatch'' ''CodeAgent handoff differs from the immutable task'')) (\<lambda>_. Inr h))"

section \<open>Builder and Verifier\<close>

definition preserved_job :: "dx \<Rightarrow> run_env \<Rightarrow> string \<Rightarrow> string \<Rightarrow> pyval dict \<Rightarrow> pyval dict \<Rightarrow> unit store_op" where
  "preserved_job dx rn t a task handoff =
    (case rn_resume rn of
       None \<Rightarrow> slift (Inr ())
     | Some re \<Rightarrow> preserve_failed_builder_job dx re (rn_at rn 15) t a task handoff)"

definition built_receipt :: "dx \<Rightarrow> run_env \<Rightarrow> string \<Rightarrow> string \<Rightarrow> pyval dict \<Rightarrow> pyval dict \<Rightarrow> stored store_op" where
  "built_receipt dx rn t a task handoff =
    (case rn_receipt rn of
       Some r \<Rightarrow> slift (Inr r)
     | None \<Rightarrow> sbnd (preserved_job dx rn t a task handoff) (\<lambda>_. sbnd (moving dx rn t a 5 ''builder-running'' ''running'' 55 []) (\<lambda>_.
         slift (rn_build rn))))"

definition quarantine_outputs :: "run_env \<Rightarrow> pyval dict \<Rightarrow> string \<Rightarrow> pyval dict" where
  "quarantine_outputs rn receipt sha =
    [(''builder_receipt_path'', PStr (rn_receipt_path rn)), (''builder_receipt_sha256'', PStr sha),
     (''package_digest_sha256'', dget receipt ''package_digest_sha256''),
     (''component_sha256'', dget receipt ''component_sha256''), (''manifest_sha256'', dget receipt ''manifest_sha256'')]"

definition builder_phase :: "dx \<Rightarrow> run_env \<Rightarrow> string \<Rightarrow> string \<Rightarrow> pyval dict \<Rightarrow> pyval dict \<Rightarrow> (stored \<times> pyval dict) store_op" where
  "builder_phase dx rn t a task handoff =
    sbnd (check_cancellation rn 2) (\<lambda>_.
    sbnd (built_receipt dx rn t a task handoff) (\<lambda>(sha, receipt).
    sbnd (check_cancellation rn 3) (\<lambda>_.
    sbnd (slift (validate_receipt_binding dx receipt task handoff)) (\<lambda>_.
    sbnd (slift (load_bound_manifest dx ''Builder quarantine manifest'' (rn_quarantine_manifest rn)
      (dget receipt ''manifest_sha256'') task handoff receipt)) (\<lambda>manifest.
    sbnd (moving dx rn t a 6 ''quarantined-awaiting-verifier'' ''running'' 68 (quarantine_outputs rn receipt sha)) (\<lambda>_.
    slift (Inr ((sha, receipt), manifest))))))))"

definition promoted_candidate :: "dx \<Rightarrow> run_env \<Rightarrow> string \<Rightarrow> string \<Rightarrow> stored store_op" where
  "promoted_candidate dx rn t a =
    (case rn_candidate rn of
       Some c \<Rightarrow> slift (Inr c)
     | None \<Rightarrow> sbnd (moving dx rn t a 8 ''verifier-running'' ''running'' 75 []) (\<lambda>_. slift (rn_promote rn)))"

definition same_manifest :: "string \<Rightarrow> pyval dict \<Rightarrow> pyval dict \<Rightarrow> unit res" where
  "same_manifest m x y = bnd (bytes_differ (PDict x) (PDict y)) (\<lambda>b. if b then Inl (manifest_mismatch m) else Inr ())"

definition verifier_phase :: "dx \<Rightarrow> run_env \<Rightarrow> string \<Rightarrow> string \<Rightarrow> pyval dict \<Rightarrow> pyval dict \<Rightarrow> stored \<Rightarrow> pyval dict
    \<Rightarrow> (stored \<times> pyval dict) store_op" where
  "verifier_phase dx rn t a task handoff receipt quarantine =
    sbnd (check_cancellation rn 4) (\<lambda>_.
    sbnd (promoted_candidate dx rn t a) (\<lambda>(sha, candidate).
    sbnd (check_cancellation rn 5) (\<lambda>_.
    sbnd (slift (consume_candidate dx candidate (snd receipt) (fst receipt))) (\<lambda>_.
    sbnd (slift (bnd (dsub candidate ''manifest'') (\<lambda>m. load_bound_manifest dx ''Verifier candidate manifest''
      (rn_candidate_manifest rn) (dget m ''sha256'') task handoff (snd receipt)))) (\<lambda>manifest.
    sbnd (slift (same_manifest ''Verifier candidate manifest differs from the Builder quarantine manifest''
      manifest quarantine)) (\<lambda>_.
    sbnd (moving dx rn t a 9 ''candidate-ready'' ''running'' 88
      [(''candidate_path'', PStr (rn_candidate_path rn)), (''candidate_record_sha256'', PStr sha)]) (\<lambda>_.
    slift (Inr ((sha, candidate), manifest)))))))))"

section \<open>Readiness and the AppStore\<close>

definition readiness_error :: "string \<Rightarrow> exn" where
  "readiness_error m = Fail ''runtime-readiness-failed'' (py_take 512 m) False"

definition readiness_ok :: "pyval dict \<Rightarrow> pyval \<Rightarrow> bool" where
  "readiness_ok r app_kind \<longleftrightarrow>
    in_texts [''PASS'', ''not-applicable''] (dget r ''status'')
    \<and> (app_kind = PStr ''ui'' \<longrightarrow> dget r ''status'' = PStr ''PASS'')
    \<and> dget r ''business_function_acceptance'' = PBool False
    \<and> (dget r ''status'' = PStr ''PASS'' \<longrightarrow> dget r ''cleanup_confirmed'' = PBool True)"

definition check_runtime_readiness :: "run_env \<Rightarrow> pyval dict \<Rightarrow> string \<Rightarrow> pyval dict res" where
  "check_runtime_readiness rn manifest candidate_sha =
    rewrap (\<lambda>e. readiness_error (exn_text e))
      (bnd (rn_readiness rn) (\<lambda>r.
       bnd (bnd (ditems manifest ''app'') (\<lambda>app. ditem app ''kind'')) (\<lambda>kind.
       if \<not> readiness_ok r kind
       then Inl (readiness_error ''UI candidate did not pass bounded first-surface readiness'')
       else bnd (rn_candidate_now rn) (\<lambda>sha.
         if sha \<noteq> candidate_sha then Inl (readiness_error ''candidate changed after runtime readiness'')
         else Inr r))))"

definition ready_outputs :: "pyval \<Rightarrow> pyval dict \<Rightarrow> pyval dict \<Rightarrow> pyval dict res" where
  "ready_outputs created readiness appstore =
    bnd (ditems appstore ''paths'') (\<lambda>paths. bnd (ditem paths ''candidate'') (\<lambda>path.
    bnd (ditems appstore ''app'') (\<lambda>app. bnd (ditem app ''id'') (\<lambda>i. bnd (ditem app ''version'') (\<lambda>v.
    Inr
      [(''appstore_created'', created), (''runtime_readiness'', PDict readiness), (''appstore_candidate_path'', path),
       (''app_id'', i), (''app_version'', v), (''publication_performed'', PBool False),
       (''digest_equality_proven'', PBool True), (''task_handoff_manifest_binding_proven'', PBool True)])))))"

definition appstore_phase :: "dx \<Rightarrow> run_env \<Rightarrow> string \<Rightarrow> string \<Rightarrow> pyval dict \<Rightarrow> pyval dict \<Rightarrow> stored \<Rightarrow> stored \<Rightarrow> pyval dict
    \<Rightarrow> pyval dict store_op" where
  "appstore_phase dx rn t a task handoff receipt candidate manifest =
    sbnd (check_cancellation rn 6) (\<lambda>_.
    sbnd (slift (check_runtime_readiness rn manifest (fst candidate))) (\<lambda>readiness.
    sbnd (check_cancellation rn 7) (\<lambda>_.
    sbnd (moving dx rn t a 11 ''appstore-ingesting'' ''running'' 94 []) (\<lambda>_.
    sbnd (slift (rn_ingest rn)) (\<lambda>(appstore, created).
    sbnd (slift (rn_receipt_now rn)) (\<lambda>receipt_sha.
    sbnd (slift (rn_candidate_after rn)) (\<lambda>candidate_sha.
    sbnd (slift (bnd (dsub appstore ''digests'') (\<lambda>g. load_bound_manifest dx ''private AppStore manifest''
      (rn_appstore_manifest rn) (dget g ''manifest_sha256'') task handoff (snd receipt)))) (\<lambda>stored_manifest.
    sbnd (slift (same_manifest ''private AppStore manifest differs from the verified candidate manifest''
      stored_manifest manifest)) (\<lambda>_.
    sbnd (slift (validate_appstore_record dx appstore (snd receipt) receipt_sha (snd candidate) candidate_sha
      stored_manifest)) (\<lambda>_.
    sbnd (slift (ready_outputs created readiness appstore)) (\<lambda>outputs.
    moving dx rn t a 12 ''private-appstore-ready'' ''private-appstore-ready'' 100 outputs)))))))))))"

section \<open>The run\<close>

definition delivery_phases :: "dx \<Rightarrow> run_env \<Rightarrow> string \<Rightarrow> string \<Rightarrow> pyval dict \<Rightarrow> pyval dict store_op" where
  "delivery_phases dx rn t a task =
    phase dx rn t a 4 ''codeagent'' (slift (handoff_phase dx rn task)) (\<lambda>handoff.
    phase dx rn t a 7 ''builder'' (builder_phase dx rn t a task handoff) (\<lambda>(receipt, quarantine).
    phase dx rn t a 10 ''verifier'' (verifier_phase dx rn t a task handoff receipt quarantine) (\<lambda>(candidate, manifest).
    phase dx rn t a 13 ''appstore'' (appstore_phase dx rn t a task handoff receipt candidate manifest)
      (\<lambda>d. slift (Inr d)))))"

definition active_run :: "dx \<Rightarrow> run_env \<Rightarrow> string \<Rightarrow> string \<Rightarrow> pyval dict \<Rightarrow> pyval dict store_op" where
  "active_run dx rn t a task s =
    (case agent_phase dx rn t a (rn_resume rn \<noteq> None) task s of
       (s', Inl e) \<Rightarrow> agent_failed dx rn t a e s'
     | (s', Inr (Ended d)) \<Rightarrow> (s', Inr d)
     | (s', Inr (Going _)) \<Rightarrow> delivery_phases dx rn t a task s')"

text \<open>
  \<open>revalidate\<close> is the audit of an attempt that is already in the private AppStore (theory DelivAudit has
  the code's).
\<close>

definition attempt_to_run :: "pyval dict \<Rightarrow> pyval \<Rightarrow> string res" where
  "attempt_to_run r chosen =
    (case (if chosen = PNone \<or> chosen = PStr [] then dget r ''current_attempt_id'' else chosen) of
       PStr a \<Rightarrow> if a \<in> set (ids_of r) then Inr a
         else fail ''attempt-not-found'' ''delivery attempt is not part of this task''
     | _ \<Rightarrow> fail ''attempt-not-found'' ''delivery attempt is not part of this task'')"

text \<open>A resumed run reopens the record of its failed attempt, once the retained source has been checked.\<close>

definition reopen :: "dx \<Rightarrow> run_env \<Rightarrow> resume_env \<Rightarrow> string \<Rightarrow> string \<Rightarrow> pyval dict \<Rightarrow> pyval dict \<Rightarrow> pyval dict store_op" where
  "reopen dx rn re t a index current =
    sbnd (sread (\<lambda>s. validate_resumable_source dx re (rn_provider rn) (rn_model rn) current index
      (af_task (files_at s t a)) (af_registry (files_at s t a)))) (\<lambda>_.
    moving dx rn t a 14 ''source-handoff-resumed'' ''running'' 45 [])"

definition attempt_inputs :: "dx \<Rightarrow> string \<Rightarrow> string \<Rightarrow> pyval dict \<Rightarrow> pyval dict store_op" where
  "attempt_inputs dx t a current =
    sread (\<lambda>s. bnd (validate_attempt_inputs dx (af_task (files_at s t a)) (af_registry (files_at s t a)) current None None)
      (\<lambda>(task, _). Inr task))"

definition run_current :: "dx \<Rightarrow> (string \<Rightarrow> string \<Rightarrow> pyval dict \<Rightarrow> store \<Rightarrow> pyval dict res) \<Rightarrow> run_env \<Rightarrow> string \<Rightarrow> string
    \<Rightarrow> pyval dict \<Rightarrow> pyval dict \<Rightarrow> pyval dict store_op" where
  "run_current dx revalidate rn t a index current =
    (case rn_resume rn of
       Some re \<Rightarrow> sbnd (reopen dx rn re t a index current) (\<lambda>_.
         sbnd (attempt_inputs dx t a current) (active_run dx rn t a))
     | None \<Rightarrow>
         if dget current ''status'' = PStr ''private-appstore-ready'' then sread (revalidate t a current)
         else sbnd (attempt_inputs dx t a current) (\<lambda>task.
           if dget current ''status'' = PStr ''failed'' then slift (Inr current)
           else active_run dx rn t a task))"

definition run_attempt :: "dx \<Rightarrow> (string \<Rightarrow> string \<Rightarrow> pyval dict \<Rightarrow> store \<Rightarrow> pyval dict res) \<Rightarrow> run_env \<Rightarrow> pyval \<Rightarrow> pyval
    \<Rightarrow> pyval dict store_op" where
  "run_attempt dx revalidate rn task_id chosen =
    sbnd (sread (\<lambda>s. bnd (task_dir s task_id) (\<lambda>(t, tf). bnd (task_record tf) (\<lambda>r.
      bnd (attempt_to_run r chosen) (\<lambda>a. Inr (t, a, r)))))) (\<lambda>(t, a, r).
    if rn_locked rn then slift (fail ''attempt-active'' ''another worker is running this attempt'')
    else sbnd (sread (\<lambda>s. bnd (file_of (af_record (files_at s t a))) validate_attempt_record))
      (run_current dx revalidate rn t a r))"

end
