(* ===== verification/DelivDiag.thy ===== *)
theory DelivDiag
  imports DelivData
begin

text \<open>
  The diagnostics of a CodeAgent execution that the delivery controller shows: read from two files
  the executor leaves, checked field by field, and copied into a bounded summary.

  The two checks of \<open>codeagent-launcher/docker_executor.py\<close> it calls are parameters (a \<open>DockerError\<close>
  is a \<open>Fail\<close>), and so is the reading of a file: whether it exists, and its content.
\<close>

record diag_env =
  dg_file :: "string \<Rightarrow> bool \<times> pyval"
  dg_budget :: "pyval \<Rightarrow> pyval \<Rightarrow> pyval res"
  dg_failure :: "pyval \<Rightarrow> pyval res"
  dg_delay_ok :: "string \<Rightarrow> bool"

definition diagnostic_failure_codes :: "string list" where
  "diagnostic_failure_codes =
    [''provider-upstream-unavailable'', ''provider-rate-limited'', ''provider-authentication-failed'',
     ''provider-upstream-rejected'', ''provider-timeout'', ''provider-network-error'',
     ''provider-cancelled'', ''provider-request-budget-exhausted'', ''provider-request-limit'',
     ''provider-response-limit'', ''provider-output-invalid'', ''provider-output-limit'',
     ''provider-protocol-invalid'', ''provider-upstream-protocol-invalid'', ''provider-failed'',
     ''provider-container-failed'', ''docker-cleanup-unconfirmed'', ''docker-execution-failed'']"

definition diagnostic_phases :: "string list" where
  "diagnostic_phases =
    [''validate'', ''connect'', ''send-request'', ''response-headers'', ''http-rejected'', ''response-body'',
     ''complete'']"

text \<open>The presence bit is set for anything but a missing file, so for ids that name no path too.\<close>

definition read_execution_diagnostic :: "diag_env \<Rightarrow> pyval \<Rightarrow> pyval \<Rightarrow> string \<Rightarrow> bool \<times> pyval" where
  "read_execution_diagnostic e task attempt name =
    (if \<not> pstr_such task_id_shape task \<or> \<not> pstr_such attempt_id_shape attempt
        \<or> name \<notin> {''docker-progress.json'', ''docker-terminal.json''}
     then (True, PNone)
     else (case dg_file e name of (present, v) \<Rightarrow> (present, if present \<and> is_pdict v then v else PNone)))"

text \<open>The counters: an integer within its bound that is not larger than the model requests allow.\<close>

definition counter_bad :: "bool \<Rightarrow> pyval dict \<Rightarrow> string \<times> int \<Rightarrow> bool" where
  "counter_bad terminal v km =
    (case km of (k, m) \<Rightarrow> has k v \<and>
      (\<not> pint_within 0 m (dget v k)
       \<or> int_of (dget v ''model_requests'') + (if terminal \<and> k = ''logical_model_requests'' then 1 else 0)
          < int_of (dget v k)))"

definition counters :: "(string \<times> int) list" where
  "counters = [(''logical_model_requests'', 64), (''model_retries'', 8)]"

definition copy_present :: "pyval dict \<Rightarrow> string list \<Rightarrow> pyval dict \<Rightarrow> pyval dict" where
  "copy_present v ks result = foldl (\<lambda>r k. if has k v then aput k (dget v k) r else r) result ks"

text \<open>An optional field: a failed check leaves it out.\<close>

definition put_checked :: "string \<Rightarrow> pyval res \<Rightarrow> pyval dict \<Rightarrow> pyval dict res" where
  "put_checked k r result =
    (case r of Inr v \<Rightarrow> Inr (aput k v result) | Inl (Fail _ _ _) \<Rightarrow> Inr result | Inl (Crash c) \<Rightarrow> Inl (Crash c))"

definition ledger_bad :: "bool \<Rightarrow> pyval dict \<Rightarrow> bool" where
  "ledger_bad terminal result \<longleftrightarrow>
    has ''logical_model_requests'' result \<and> has ''model_retries'' result
    \<and> (let diff = int_of (dget result ''logical_model_requests'') + int_of (dget result ''model_retries'')
                    - int_of (dget result ''model_requests'')
       in diff \<noteq> 0 \<and> \<not> (terminal \<and> diff = 1))"

definition delay_ok :: "diag_env \<Rightarrow> pyval \<Rightarrow> bool" where
  "delay_ok e v = (case v of PInt i \<Rightarrow> 0 \<le> i \<and> i \<le> 30 | PFloat s \<Rightarrow> dg_delay_ok e s | _ \<Rightarrow> False)"

definition retry_ok :: "diag_env \<Rightarrow> pyval dict \<Rightarrow> pyval \<Rightarrow> bool" where
  "retry_ok e result retry =
    (case retry of
       PDict r \<Rightarrow>
         fields_are [''attempt'', ''max_attempts'', ''http_status'', ''delay_seconds'', ''reason''] r
         \<and> pint_within 2 3 (dget r ''attempt'')
         \<and> dget r ''max_attempts'' = PInt 3
         \<and> dget r ''http_status'' \<in> {PInt 429, PInt 502, PInt 503, PInt 504}
         \<and> delay_ok e (dget r ''delay_seconds'')
         \<and> dget r ''reason'' = PStr (if dget r ''http_status'' = PInt 429
             then ''provider-rate-limited'' else ''provider-upstream-unavailable'')
         \<and> has ''logical_model_requests'' result \<and> has ''model_retries'' result
         \<and> int_of (dget result ''model_requests'') \<le> 48
     | _ \<Rightarrow> False)"

definition safe_request :: "pyval dict \<Rightarrow> pyval dict" where
  "safe_request r =
    (let a = foldl (\<lambda>acc (k, m). if pint_within 0 m (dget r k) then aput k (dget r k) acc else acc) []
               [(''ordinal'', 64), (''bytes'', 8 * 1024 * 1024), (''connect_attempts'', 2)];
         b = (if in_texts diagnostic_phases (dget r ''phase'') then aput ''phase'' (dget r ''phase'') a else a)
     in if in_texts [''timeout'', ''http-framing'', ''connection''] (dget r ''transport_error'')
        then aput ''transport_error'' (dget r ''transport_error'') b else b)"

text \<open>The part of the summary that only a terminal file has.\<close>

definition terminal_part :: "diag_env \<Rightarrow> pyval dict \<Rightarrow> string \<Rightarrow> pyval dict \<Rightarrow> pyval dict res" where
  "terminal_part e v state result =
    (let ended = state \<in> {''failed'', ''cancelled''};
         r1 = (if ended \<and> in_texts diagnostic_failure_codes (dget v ''failure_code'')
               then aput ''failure_code'' (dget v ''failure_code'') result else result)
     in bnd (if ended \<and> has ''failure_diagnostic'' v
             then put_checked ''failure_diagnostic'' (dg_failure e (dget v ''failure_diagnostic'')) r1
             else Inr r1) (\<lambda>r2.
        let r3 = (if pint_within 100 599 (dget v ''upstream_status'')
                  then aput ''upstream_status'' (dget v ''upstream_status'') r2 else r2)
        in Inr (case dget v ''upstream_request'' of
             PDict q \<Rightarrow> if safe_request q = [] then r3 else aput ''upstream_request'' (PDict (safe_request q)) r3
           | _ \<Rightarrow> r3)))"

definition summary_states :: "bool \<Rightarrow> string list" where
  "summary_states terminal =
    (if terminal then [''succeeded'', ''failed'', ''cancelled'']
     else [''authoring'', ''compiler-feedback'', ''model-retry''])"

definition diagnostic_summary :: "diag_env \<Rightarrow> pyval dict \<Rightarrow> bool \<Rightarrow> pyval dict \<Rightarrow> pyval dict option res" where
  "diagnostic_summary e attempt terminal v =
    (case dget v ''state'' of
       PStr state \<Rightarrow>
         if state \<notin> set (summary_states terminal) \<or> \<not> pint_within 0 64 (dget v ''model_requests'')
            \<or> \<not> pint_within 0 3 (dget v ''compiler_checks'')
         then Inr None
         else bnd (
           let start = [(''state'', PStr state), (''model_requests'', dget v ''model_requests''),
                        (''compiler_checks'', dget v ''compiler_checks'')]
           in if has ''model_request_budget'' v
              then put_checked ''model_request_budget''
                (dg_budget e (dget v ''model_request_budget'') (dget v ''model_requests'')) start
              else Inr start) (\<lambda>r1.
         if list_ex (counter_bad terminal v) counters then Inr None
         else
           (let r2 = copy_present v (map fst counters) r1;
                r3 = (if state = ''model-retry'' then aput ''retry'' (dget v ''retry'') r2 else r2)
            in if ledger_bad terminal r2 then Inr None
               else if state = ''model-retry'' \<and> \<not> retry_ok e r2 (dget v ''retry'') then Inr None
               else if \<not> terminal then Inr (Some r3)
               else if dget attempt ''status'' = PStr ''private-appstore-ready'' \<and> state \<noteq> ''succeeded'' then Inr None
               else bnd (terminal_part e v state r3) (\<lambda>r. Inr (Some r))))
     | _ \<Rightarrow> Inr None)"

definition codeagent_diagnostics :: "diag_env \<Rightarrow> pyval dict \<Rightarrow> pyval dict option res" where
  "codeagent_diagnostics e attempt =
    (let read = read_execution_diagnostic e (dget attempt ''task_id'') (dget attempt ''attempt_id'') in
     case read ''docker-terminal.json'' of (terminal, content) \<Rightarrow>
       if \<not> terminal \<and> (dget attempt ''status'' \<noteq> PStr ''running'' \<or> dget attempt ''stage'' \<noteq> PStr ''codeagent-running'')
       then Inr None
       else (case (if terminal then content else snd (read ''docker-progress.json'')) of
           PDict v \<Rightarrow> diagnostic_summary e attempt terminal v
         | _ \<Rightarrow> Inr None))"

end
