(* ===== verification/DelivAudit.thy ===== *)
theory DelivAudit
  imports DelivRun DelivDiag
begin

text \<open>
  The audit of an attempt that is in the private AppStore (\<open>_revalidate_private_ready\<close>): every
  document of the delivery is read again and must still name the same task, source, package and
  record. It reads only. The file contents, and what \<open>validate_handoff\<close> and the AppStore's \<open>detail\<close>
  return, are the fields of \<open>audit_env\<close>; a path is the one relative to the controller's root.
\<close>

record audit_env =
  au_status :: "pyval dict option"
  au_handoff :: "string \<Rightarrow> (bool \<times> string \<times> stored) res"
  au_validated :: "pyval dict res"
  au_receipt_path :: string
  au_receipt :: "stored res"
  au_quarantine :: "stored res"
  au_candidate_path :: "string \<Rightarrow> string"
  au_candidate :: "stored res"
  au_candidate_manifest :: "stored res"
  au_detail :: "pyval dict res"
  au_appstore_manifest :: "stored res"

definition audit_error :: "string \<Rightarrow> string \<Rightarrow> exn" where
  "audit_error c m = Fail c m False"

section \<open>The CodeAgent's status and outputs\<close>

definition expected_status :: "pyval dict \<Rightarrow> pyval \<Rightarrow> pyval dict res" where
  "expected_status task provider_id =
    bnd (dsub task ''need_spec'') (\<lambda>need. bnd (dsub task ''consent'') (\<lambda>consent.
    bnd (dsub task ''provider_execution_identity'') (\<lambda>identity.
    Inr
      [(''schema_version'', PStr ''vibapp.codeagent-adapter-status.experimental-v2''), (''job_id'', dget task ''job_id''),
       (''need_id'', dget need ''need_id''), (''need_spec_revision'', dget task ''need_spec_current_revision''),
       (''immutable_task_digest_sha256'', dget task ''immutable_task_digest_sha256''),
       (''consent_id'', dget consent ''consent_id''),
       (''provider_execution_identity_sha256'', dget identity ''identity_sha256''),
       (''identity_observed'', PBool True), (''execution_available'', PBool True), (''provider_id'', provider_id),
       (''task_provider'', dget task ''provider''), (''model'', dget task ''model''),
       (''adapter'', PStr ''local-codeagent-adapter''), (''status'', PStr ''source-ready''),
       (''current_stage'', PStr ''awaiting-separate-builder''), (''consent_consumed'', PBool True),
       (''builder_invoked'', PBool False), (''verifier_invoked'', PBool False),
       (''installation_performed'', PBool False), (''publication_performed'', PBool False)])))"

definition audit_status :: "dx \<Rightarrow> pyval dict \<Rightarrow> pyval \<Rightarrow> pyval dict \<Rightarrow> pyval dict \<Rightarrow> unit res" where
  "audit_status dx task provider_id outputs st =
    bnd (expected_status task provider_id) (\<lambda>expected.
    if list_ex (\<lambda>(k, v). \<not> same dx (dget st k) v) expected \<or> \<not> list_all (\<lambda>k. is_pbool (dget st k)) request_flags
    then Inl (audit_error ''codeagent-status-invalid''
      ''terminal CodeAgent status is not bound to the immutable task and authority boundary'')
    else if list_ex (\<lambda>(o1, k). \<not> same dx (dget outputs o1) (dget st k)) output_pairs
    then Inl (audit_error ''codeagent-output-binding-mismatch''
      ''terminal outputs do not match the immutable CodeAgent status'')
    else Inr ())"

section \<open>The source handoff\<close>

definition audit_handoff_file :: "audit_env \<Rightarrow> pyval dict \<Rightarrow> pyval dict \<Rightarrow> pyval dict res" where
  "audit_handoff_file au outputs st =
    bnd (output_path (dget outputs ''source_handoff_path'') ''CodeAgent handoff'') (\<lambda>p.
    bnd (au_handoff au p) (\<lambda>(inside, relative, sha, content).
    if \<not> inside
    then Inl (audit_error ''path-escape'' ''terminal CodeAgent handoff escaped its output root'')
    else if dget outputs ''source_handoff_sha256'' \<noteq> PStr sha \<or> dget st ''handoff_sha256'' \<noteq> PStr sha
      \<or> dget st ''handoff_relative_path'' \<noteq> PStr relative
    then Inl (audit_error ''handoff-digest-mismatch'' ''terminal CodeAgent handoff changed'')
    else bnd (case au_validated au of
           Inl (Fail c m r) \<Rightarrow> Inl (audit_error ''handoff-binding-mismatch''
             (''terminal source handoff/source tree no longer validates: '' @ py_take 2048 m))
         | x \<Rightarrow> x) (\<lambda>validated.
      bnd (bytes_differ (PDict validated) (PDict content)) (\<lambda>b.
      if b then Inl (audit_error ''handoff-binding-mismatch''
        ''terminal source handoff parser changed its durable meaning'')
      else Inr content))))"

definition handoff_texts :: "(string \<times> string) list" where
  "handoff_texts =
    [(''schema_version'', ''vibapp.codeagent-source-handoff.experimental-v2''),
     (''document_type'', ''codeagent-source-handoff''), (''status'', ''untrusted-source-awaiting-builder'')]"

definition handoff_authority :: pyval where
  "handoff_authority = text_dict
    [(''compile'', ''separate-builder''), (''verify'', ''separate-verifier''), (''install'', ''none''),
     (''publish'', ''none'')]"

definition direct_mode :: string where "direct_mode = ''direct-local-explicit-opt-in''"
definition docker_mode :: string where "docker_mode = ''docker-local-explicit-opt-in''"

definition isolation_fields :: "string list" where
  "isolation_fields =
    [''isolation_policy_version'', ''runner_id'', ''runner_identity_sha256'', ''isolation_policy_sha256'',
     ''receipt_digest_sha256'']"

definition handoff_bad :: "dx \<Rightarrow> pyval dict \<Rightarrow> pyval dict \<Rightarrow> pyval dict \<Rightarrow> pyval dict \<Rightarrow> pyval \<Rightarrow> bool res list" where
  "handoff_bad dx handoff execution task st provider_id =
    (let mode = dget execution ''mode''; docker = (mode = PStr docker_mode); direct = (mode = PStr direct_mode) in
     [holds (\<not> texts_are handoff handoff_texts),
      differ dx handoff task ''job_id'', differ dx handoff task ''need_spec_digest_sha256'',
      differ dx handoff task ''package_intent'', differ dx handoff task ''target'',
      holds (dget handoff ''source_directory'' \<noteq> PStr ''source''),
      holds (\<not> same dx (dget handoff ''authority'') handoff_authority),
      bnd (member_of [direct_mode, docker_mode] mode) (\<lambda>b. Inr (\<not> b)),
      holds (dget execution ''adapter'' \<noteq> PStr (if docker then ''docker-codeagent-launcher'' else ''local-codeagent-adapter'')),
      holds (\<not> same dx (dget execution ''provider_id'') provider_id),
      bnd (dsub task ''provider_execution_identity'') (\<lambda>i. bnd (dsub i ''runtime'') (\<lambda>r.
        Inr (\<not> same dx (dget execution ''executable_sha256'') (dget r ''executable_sha256'')))),
      holds (dget execution ''external_request_attempted'' \<noteq> PBool True),
      holds (dget execution ''external_request_observed'' \<noteq> PBool docker),
      holds (direct \<and> dget execution ''gateway_request_id'' \<noteq> PNone),
      holds (\<not> pstr_such hex64 (dget execution ''executable_sha256'')),
      holds (direct \<and> list_ex (\<lambda>k. dget execution k \<noteq> PNone) isolation_fields),
      differ dx execution st ''external_request_attempted'', differ dx execution st ''external_request_observed'',
      differ dx execution st ''gateway_request_id''])"

definition audit_handoff :: "dx \<Rightarrow> pyval dict \<Rightarrow> pyval dict \<Rightarrow> pyval dict \<Rightarrow> pyval \<Rightarrow> pyval dict \<Rightarrow> unit res" where
  "audit_handoff dx handoff task st provider_id attempt =
    bnd (dsub handoff ''provider_execution'') (\<lambda>execution.
    bnd (refuse (handoff_bad dx handoff execution task st provider_id) (audit_error ''handoff-binding-mismatch''
      ''terminal source handoff is not bound to the exact CodeAgent task and execution'')) (\<lambda>_.
    validate_docker_receipt dx execution st task attempt))"

section \<open>Receipt, candidate and record\<close>

definition audit_receipt :: "dx \<Rightarrow> audit_env \<Rightarrow> pyval dict \<Rightarrow> pyval dict \<Rightarrow> pyval dict \<Rightarrow> (stored \<times> pyval dict) res" where
  "audit_receipt dx au outputs task handoff =
    bnd (bound_path (dget outputs ''builder_receipt_path'') (au_receipt_path au) ''Builder receipt'') (\<lambda>_.
    bnd (au_receipt au) (\<lambda>(sha, receipt).
    bnd (validate_receipt_binding dx receipt task handoff) (\<lambda>_.
    if dget outputs ''builder_receipt_sha256'' \<noteq> PStr sha
      \<or> list_ex (\<lambda>k. \<not> same dx (dget receipt k) (dget outputs k))
          [''package_digest_sha256'', ''component_sha256'', ''manifest_sha256'']
    then Inl (receipt_invalid ''terminal Builder receipt is not bound to the exact source handoff'')
    else bnd (load_bound_manifest dx ''Builder quarantine manifest'' (au_quarantine au)
        (dget receipt ''manifest_sha256'') task handoff receipt) (\<lambda>manifest.
      Inr ((sha, receipt), manifest)))))"

definition audit_candidate :: "dx \<Rightarrow> audit_env \<Rightarrow> pyval dict \<Rightarrow> pyval dict \<Rightarrow> pyval dict \<Rightarrow> stored \<Rightarrow> pyval dict
    \<Rightarrow> (stored \<times> pyval dict) res" where
  "audit_candidate dx au outputs task handoff receipt quarantine =
    (if \<not> pstr_such hex64 (dget (snd receipt) ''package_digest_sha256'')
     then Inl (audit_error ''appstore-digest-mismatch'' ''terminal package digest is invalid'')
     else
       bnd (bound_path (dget outputs ''candidate_path'')
         (au_candidate_path au (text_in (dget (snd receipt) ''package_digest_sha256''))) ''Verifier candidate'') (\<lambda>_.
       bnd (au_candidate au) (\<lambda>(sha, candidate).
       bnd (consume_candidate dx candidate (snd receipt) (fst receipt)) (\<lambda>_.
       if dget outputs ''candidate_record_sha256'' \<noteq> PStr sha
       then Inl (audit_error ''candidate-digest-mismatch'' ''terminal Verifier candidate changed'')
       else bnd (bnd (dsub candidate ''manifest'') (\<lambda>m. load_bound_manifest dx ''Verifier candidate manifest''
             (au_candidate_manifest au) (dget m ''sha256'') task handoff (snd receipt))) (\<lambda>manifest.
         bnd (same_manifest ''Verifier candidate manifest differs from the Builder quarantine manifest''
           manifest quarantine) (\<lambda>_. Inr ((sha, candidate), manifest)))))))"

definition record_bad :: "dx \<Rightarrow> pyval dict \<Rightarrow> pyval dict \<Rightarrow> bool res list" where
  "record_bad dx outputs appstore =
    (let sub = (\<lambda>own field k. bnd (dsub appstore field) (\<lambda>s. Inr (\<not> same dx (dget outputs own) (dget s k)))) in
     [sub ''appstore_candidate_path'' ''paths'' ''candidate'', sub ''app_id'' ''app'' ''id'',
      sub ''app_version'' ''app'' ''version'', holds (dget outputs ''publication_performed'' \<noteq> PBool False),
      holds (dget outputs ''digest_equality_proven'' \<noteq> PBool True),
      holds (dget outputs ''task_handoff_manifest_binding_proven'' \<noteq> PBool True)])"

definition audit_record :: "dx \<Rightarrow> audit_env \<Rightarrow> pyval dict \<Rightarrow> pyval dict \<Rightarrow> pyval dict \<Rightarrow> stored \<Rightarrow> stored \<Rightarrow> pyval dict
    \<Rightarrow> unit res" where
  "audit_record dx au outputs task handoff receipt candidate manifest =
    bnd (au_detail au) (\<lambda>detail.
    bnd (dsub detail ''record'') (\<lambda>appstore.
    bnd (bnd (dsub appstore ''digests'') (\<lambda>g. load_bound_manifest dx ''private AppStore manifest''
      (au_appstore_manifest au) (dget g ''manifest_sha256'') task handoff (snd receipt))) (\<lambda>stored_manifest.
    bnd (same_manifest ''private AppStore manifest differs from the verified candidate manifest''
      stored_manifest manifest) (\<lambda>_.
    bnd (validate_appstore_record dx appstore (snd receipt) (fst receipt) (snd candidate) (fst candidate)
      stored_manifest) (\<lambda>_.
    refuse (record_bad dx outputs appstore) (audit_error ''appstore-record-mismatch''
      ''terminal outputs do not identify the exact private AppStore record''))))))"

definition expected_adapter :: "pyval dict \<Rightarrow> pyval res" where
  "expected_adapter task =
    (case adapter_of (dget task ''provider'') of
       Inr v \<Rightarrow> Inr v
     | Inl e \<Rightarrow> if e = Crash ''KeyError''
         then Inl (audit_error ''codeagent-status-invalid'' ''task provider has no accepted adapter binding'')
         else Inl e)"

definition revalidate_private_ready :: "dx \<Rightarrow> audit_env \<Rightarrow> string \<Rightarrow> string \<Rightarrow> pyval dict \<Rightarrow> store \<Rightarrow> pyval dict res" where
  "revalidate_private_ready dx au t a attempt s =
    bnd (validate_attempt_inputs dx (af_task (files_at s t a)) (af_registry (files_at s t a)) attempt None None)
      (\<lambda>(task, _).
    bnd (expected_adapter task) (\<lambda>provider_id.
    bnd (dsub attempt ''outputs'') (\<lambda>outputs.
    bnd (file_of (au_status au)) (\<lambda>st.
    bnd (audit_status dx task provider_id outputs st) (\<lambda>_.
    bnd (audit_handoff_file au outputs st) (\<lambda>handoff.
    bnd (audit_handoff dx handoff task st provider_id attempt) (\<lambda>_.
    bnd (audit_receipt dx au outputs task handoff) (\<lambda>(receipt, quarantine).
    bnd (audit_candidate dx au outputs task handoff receipt quarantine) (\<lambda>(candidate, manifest).
    bnd (audit_record dx au outputs task handoff receipt candidate manifest) (\<lambda>_. Inr attempt))))))))))"

definition revalidate_attempt :: "dx \<Rightarrow> audit_env \<Rightarrow> pyval \<Rightarrow> string \<Rightarrow> store \<Rightarrow> pyval dict res" where
  "revalidate_attempt dx au task_id a s =
    bnd (task_dir s task_id) (\<lambda>(t, tf). bnd (task_record tf) (\<lambda>r.
    if a \<notin> set (ids_of r) then fail ''attempt-not-found'' ''delivery attempt is not part of this task''
    else bnd (load_attempt tf a) (\<lambda>attempt.
      if dget attempt ''status'' \<noteq> PStr ''private-appstore-ready''
      then fail ''live-chain-incomplete'' ''delivery attempt is not private-AppStore-ready''
      else revalidate_private_ready dx au t a attempt s)))"

section \<open>Status and history\<close>

definition with_diagnostics :: "diag_env \<Rightarrow> pyval dict \<Rightarrow> pyval dict res" where
  "with_diagnostics dg attempt =
    bnd (codeagent_diagnostics dg attempt) (\<lambda>x.
    Inr (case x of None \<Rightarrow> attempt | Some d \<Rightarrow> aput ''codeagent_diagnostics'' (PDict d) attempt))"

definition delivery_status :: "diag_env \<Rightarrow> pyval \<Rightarrow> store \<Rightarrow> pyval dict res" where
  "delivery_status dg task_id s =
    bnd (task_dir s task_id) (\<lambda>(t, tf). bnd (task_record tf) (\<lambda>r.
    case dget r ''current_attempt_id'' of
      PStr a \<Rightarrow> bnd (load_attempt tf a) (\<lambda>d. bnd (with_diagnostics dg d) (\<lambda>d'.
        Inr [(''task'', PDict r), (''attempt'', PDict d')]))
    | _ \<Rightarrow> Inr [(''task'', PDict r), (''attempt'', PNone)]))"

definition delivery_history :: "(string \<Rightarrow> diag_env) \<Rightarrow> pyval \<Rightarrow> store \<Rightarrow> pyval dict res" where
  "delivery_history dg task_id s =
    bnd (task_dir s task_id) (\<lambda>(t, tf). bnd (task_record tf) (\<lambda>r.
    bnd (rmap (load_attempt tf) (ids_of r)) (\<lambda>ds.
    bnd (rmap (\<lambda>d. with_diagnostics (dg (text_in (dget d ''attempt_id''))) d) ds) (\<lambda>ds'.
    Inr [(''schema_version'', PStr delivery_schema), (''task'', PDict r), (''attempts'', PList (map PDict ds'))]))))"

end
