(* ===== verification/DelivFrame.thy ===== *)
theory DelivFrame
  imports DelivAudit "HOL-Library.Sublist"
begin

text \<open>
  What no operation of the delivery controller undoes: the input documents of an attempt, the fields
  it was admitted with, its event log and, once it has ended, its record. The operations are
  composed with \<open>sbnd\<close>, and \<open>triple\<close> is the rule system for such compositions: every state on the
  way is related to the one before by an order, whatever is raised.
\<close>

section \<open>Triples over store operations\<close>

definition triple :: "(store \<Rightarrow> store \<Rightarrow> bool) \<Rightarrow> (store \<Rightarrow> bool) \<Rightarrow> 'a store_op \<Rightarrow> ('a \<Rightarrow> store \<Rightarrow> bool)
    \<Rightarrow> (store \<Rightarrow> bool) \<Rightarrow> bool" where
  "triple R P m Q E \<longleftrightarrow>
    (\<forall>s. P s \<longrightarrow> R s (fst (m s)) \<and> (case m s of (s', Inl e) \<Rightarrow> E s' | (s', Inr x) \<Rightarrow> Q x s'))"

locale store_order =
  fixes R :: "store \<Rightarrow> store \<Rightarrow> bool"
  assumes R_refl: "R s s" and R_trans: "R s t \<Longrightarrow> R t u \<Longrightarrow> R s u"
begin

lemma bind:
  assumes "triple R P m Q E" and "\<And>x. triple R (Q x) (f x) Q' E"
  shows "triple R P (sbnd m f) Q' E"
proof (unfold triple_def, intro allI impI)
  fix s assume P: "P s"
  obtain s' r where m: "m s = (s', r)" by force
  show "R s (fst (sbnd m f s)) \<and> (case sbnd m f s of (s', Inl e) \<Rightarrow> E s' | (s', Inr x) \<Rightarrow> Q' x s')"
  proof (cases r)
    case (Inl e)
    then show ?thesis using assms(1) P m by (auto simp: triple_def sbnd_def)
  next
    case (Inr x)
    then have "R s s'" and "Q x s'" using assms(1) P m by (auto simp: triple_def)
    then show ?thesis using assms(2) [of x] Inr m
      by (auto simp: triple_def sbnd_def intro: R_trans [of s s'])
  qed
qed

lemma lift: "(\<And>x s. r = Inr x \<Longrightarrow> P s \<Longrightarrow> Q x s) \<Longrightarrow> (\<And>s. P s \<Longrightarrow> E s) \<Longrightarrow> triple R P (slift r) Q E"
  by (auto simp: triple_def slift_def R_refl split: sum.split)

lemma ret: "(\<And>s. P s \<Longrightarrow> Q x s) \<Longrightarrow> triple R P (slift (Inr x)) Q E"
  by (auto simp: triple_def slift_def R_refl)

lemma read: "(\<And>x s. f s = Inr x \<Longrightarrow> P s \<Longrightarrow> Q x s) \<Longrightarrow> (\<And>s. P s \<Longrightarrow> E s) \<Longrightarrow> triple R P (sread f) Q E"
  by (auto simp: triple_def sread_def R_refl split: sum.split)

lemma weaken:
  assumes "triple R P' m Q' E'" and "\<And>s. P s \<Longrightarrow> P' s" and "\<And>x s. Q' x s \<Longrightarrow> Q x s" and "\<And>s. E' s \<Longrightarrow> E s"
  shows "triple R P m Q E"
  using assms unfolding triple_def by (fastforce split: prod.splits sum.splits)

lemma handle:
  assumes "triple R P m Q E" and "\<And>x. triple R (Q x) (k x) Q' E'" and "\<And>e. triple R E (h e) Q' E'"
  shows "triple R P (\<lambda>s. case m s of (s', Inr x) \<Rightarrow> k x s' | (s', Inl e) \<Rightarrow> h e s') Q' E'"
proof (unfold triple_def, intro allI impI)
  fix s assume P: "P s"
  obtain s' r where m: "m s = (s', r)" by force
  let ?n = "case m s of (s', Inr x) \<Rightarrow> k x s' | (s', Inl e) \<Rightarrow> h e s'"
  show "R s (fst ?n) \<and> (case ?n of (s', Inl e) \<Rightarrow> E' s' | (s', Inr x) \<Rightarrow> Q' x s')"
  proof (cases r)
    case (Inl e)
    then have "R s s'" and "E s'" using assms(1) P m by (auto simp: triple_def)
    then show ?thesis using assms(3) [of e] Inl m by (auto simp: triple_def intro: R_trans [of s s'])
  next
    case (Inr x)
    then have "R s s'" and "Q x s'" using assms(1) P m by (auto simp: triple_def)
    then show ?thesis using assms(2) [of x] Inr m by (auto simp: triple_def intro: R_trans [of s s'])
  qed
qed

lemma order: "triple R P m Q E \<Longrightarrow> P s \<Longrightarrow> R s (fst (m s))"
  by (simp add: triple_def)

lemma stable:
  assumes "triple R P m Q E" and "\<And>s s'. R s s' \<Longrightarrow> I s \<Longrightarrow> I s'"
  shows "triple R (\<lambda>s. P s \<and> I s) m (\<lambda>x s. Q x s \<and> I s) (\<lambda>s. E s \<and> I s)"
  using assms unfolding triple_def by (fastforce split: prod.splits sum.splits)

lemma cond: "(b \<Longrightarrow> triple R P m Q E) \<Longrightarrow> (\<not> b \<Longrightarrow> triple R P n Q E) \<Longrightarrow> triple R P (if b then m else n) Q E"
  by simp

end

section \<open>Lookups after updates\<close>

lemma files_update_attempt [dict_simps]:
  "files_at (update_attempt t a f s) t' a' =
    (if t' = t \<and> a' = a then f (files_at s t a) else files_at s t' a')"
  by (auto simp: files_at_def update_attempt_def update_task_def attempt_of_def dict_simps empty_task_def
      split: option.splits)

lemma files_update_task [dict_simps]:
  "(\<And>tf. tf_attempts (f tf) = tf_attempts tf) \<Longrightarrow> files_at (update_task t f s) t' a' = files_at s t' a'"
  by (auto simp: files_at_def update_task_def attempt_of_def dict_simps empty_task_def empty_attempt_def
      split: option.splits)

definition record_at :: "store \<Rightarrow> string \<Rightarrow> pyval dict option" where
  "record_at s t = (case aget s t of None \<Rightarrow> None | Some tf \<Rightarrow> tf_record tf)"

lemma record_update_attempt [dict_simps]: "record_at (update_attempt t a f s) t' = record_at s t'"
  by (auto simp: record_at_def update_attempt_def update_task_def dict_simps empty_task_def split: option.splits)

lemma record_update_task [dict_simps]:
  "record_at (update_task t f s) t' =
    (if t' = t then tf_record (f (case aget s t of None \<Rightarrow> empty_task | Some tf \<Rightarrow> tf)) else record_at s t')"
  by (auto simp: record_at_def update_task_def dict_simps)

section \<open>The order\<close>

definition ended :: "pyval dict \<Rightarrow> bool" where
  "ended d \<longleftrightarrow> in_texts terminal_statuses (dget d ''status'')"

definition admitted_fields :: "string list" where
  "admitted_fields =
    [''schema_version'', ''document_type'', ''task_id'', ''attempt_id'', ''attempt_number'', ''retry_of_attempt_id'',
     ''need_id'', ''title'', ''need_spec_revision'', ''job_id'', ''consent_id'', ''provider_execution_identity_sha256'',
     ''registry_request_id'', ''registry_evidence_sha256'', ''canonical_task_sha256'',
     ''immutable_task_digest_sha256'', ''created_at_utc'']"

definition fixed_fields :: "string list" where
  "fixed_fields =
    [''schema_version'', ''document_type'', ''task_id'', ''need_id'', ''need_spec_revision'', ''job_id'',
     ''immutable_task_digest_sha256'', ''provider_execution_identity_sha256'', ''supersedes_task_id'',
     ''created_at_utc'']"

definition agree :: "string list \<Rightarrow> pyval dict \<Rightarrow> pyval dict \<Rightarrow> bool" where
  "agree ks d d' \<longleftrightarrow> list_all (\<lambda>k. dget d' k = dget d k) ks"

definition kept :: "('a \<Rightarrow> 'a \<Rightarrow> bool) \<Rightarrow> 'a option \<Rightarrow> 'a option \<Rightarrow> bool" where
  "kept r x x' = (case x of None \<Rightarrow> True | Some d \<Rightarrow> (case x' of None \<Rightarrow> False | Some d' \<Rightarrow> r d d'))"

definition attempt_le :: "attempt_files \<Rightarrow> attempt_files \<Rightarrow> bool" where
  "attempt_le af af' \<longleftrightarrow>
    kept (=) (af_task af) (af_task af') \<and> kept (=) (af_registry af) (af_registry af')
    \<and> prefix (af_events af) (af_events af')
    \<and> kept (\<lambda>d d'. agree admitted_fields d d' \<and> (ended d \<longrightarrow> d' = d \<and> af_events af' = af_events af))
        (af_record af) (af_record af')"

definition event_log_ok :: "dx \<Rightarrow> attempt_files \<Rightarrow> bool" where
  "event_log_ok dx af \<longleftrightarrow>
    sequences_ok dx (af_events af) \<and> log_bytes (af_events af) \<le> max_event_log_bytes
    \<and> (case af_record af of None \<Rightarrow> True | Some d \<Rightarrow> pint_within 0 (len (af_events af)) (dget d ''event_count''))"

definition logs_ok :: "dx \<Rightarrow> store \<Rightarrow> bool" where
  "logs_ok dx s \<longleftrightarrow> (\<forall>t a. event_log_ok dx (files_at s t a))"

definition delivery_le :: "store \<Rightarrow> store \<Rightarrow> bool" where
  "delivery_le s s' \<longleftrightarrow>
    (\<forall>t a. attempt_le (files_at s t a) (files_at s' t a))
    \<and> (\<forall>t. kept (agree fixed_fields) (record_at s t) (record_at s' t))"

definition sound_step :: "dx \<Rightarrow> store \<Rightarrow> store \<Rightarrow> bool" where
  "sound_step dx s s' \<longleftrightarrow> delivery_le s s' \<and> (logs_ok dx s \<longrightarrow> logs_ok dx s')"

lemma agree_refl [simp]: "agree ks d d"
  by (simp add: agree_def list_all_iff)

lemma agree_trans: "agree ks a b \<Longrightarrow> agree ks b c \<Longrightarrow> agree ks a c"
  by (simp add: agree_def list_all_iff)

lemma kept_refl: "(\<And>d. r d d) \<Longrightarrow> kept r x x"
  by (simp add: kept_def split: option.split)

lemma kept_trans:
  assumes "kept r x y" and "kept r y z" and "\<And>a b c. r a b \<Longrightarrow> r b c \<Longrightarrow> r a c"
  shows "kept r x z"
  using assms by (auto simp: kept_def split: option.splits)

lemma kept_eq_refl [simp]: "kept (=) x x" "kept (agree ks) x x" "kept r None y"
  by (simp_all add: kept_def split: option.split)

lemma kept_Some [simp]: "kept r (Some d) (Some d') = r d d'" "\<not> kept r (Some d) None"
  by (simp_all add: kept_def)

lemma attempt_le_refl [simp]: "attempt_le af af"
  by (auto simp: attempt_le_def intro: kept_refl)

lemma attempt_le_trans: "attempt_le a b \<Longrightarrow> attempt_le b c \<Longrightarrow> attempt_le a c"
  by (auto simp: attempt_le_def kept_def ended_def split: option.splits
      intro: agree_trans prefix_order.trans)

lemma delivery_le_refl [simp]: "delivery_le s s"
  by (simp add: delivery_le_def)

lemma delivery_le_trans: "delivery_le a b \<Longrightarrow> delivery_le b c \<Longrightarrow> delivery_le a c"
  unfolding delivery_le_def by (meson attempt_le_trans kept_trans [where r = "agree fixed_fields"] agree_trans)

interpretation sstep: store_order "sound_step dx" for dx
  by unfold_locales (auto simp: sound_step_def intro: delivery_le_trans)

section \<open>Single writes\<close>

lemma sound_update_attempt:
  assumes "attempt_le (files_at s t a) (f (files_at s t a))"
    and "event_log_ok dx (files_at s t a) \<Longrightarrow> event_log_ok dx (f (files_at s t a))"
  shows "sound_step dx s (update_attempt t a f s)"
  using assms by (auto simp: sound_step_def delivery_le_def logs_ok_def dict_simps)

lemma sound_update_task:
  assumes "\<And>tf. tf_attempts (f tf) = tf_attempts tf"
    and "kept (agree fixed_fields) (record_at s t) (record_at (update_task t f s) t)"
  shows "sound_step dx s (update_task t f s)"
  using assms by (auto simp: sound_step_def delivery_le_def logs_ok_def dict_simps)

text \<open>An attempt is open while its record exists and has not ended.\<close>

definition open_at :: "string \<Rightarrow> string \<Rightarrow> store \<Rightarrow> bool" where
  "open_at t a s \<longleftrightarrow> (case af_record (files_at s t a) of None \<Rightarrow> False | Some d \<Rightarrow> \<not> ended d)"

lemma write_doc_triple:
  assumes "\<And>af. old af = None \<Longrightarrow> attempt_le af (put d af)"
    and "\<And>af. old af = None \<Longrightarrow> event_log_ok dx af \<Longrightarrow> event_log_ok dx (put d af)"
    and "\<And>s. P s \<Longrightarrow> old (files_at s t a) = None \<Longrightarrow> Q (update_attempt t a (put d) s)"
    and "\<And>s. P s \<Longrightarrow> E s"
  shows "triple (sound_step dx) P (write_doc True old put t a d) (\<lambda>_. Q) E"
proof -
  have "write_check True (old (files_at s t a)) d = Inr u \<Longrightarrow> old (files_at s t a) = None" for s u
    by (auto simp: write_check_def split: if_splits elim!: res_elims)
  then show ?thesis
    using assms by (auto simp: triple_def write_doc_def sstep.R_refl split: sum.split intro: sound_update_attempt)
qed

section \<open>Transitions\<close>

lemma validate_attempt_same: "validate_attempt_record d = Inr d' \<Longrightarrow> d' = d"
  by (auto simp: validate_attempt_record_def elim: bnd_InrE)

lemma file_of_Inr: "file_of f = Inr d \<longleftrightarrow> f = Some d"
  by (simp add: file_of_def split: option.split)

abbreviation next_event :: "attempt_files \<Rightarrow> string \<Rightarrow> string \<Rightarrow> int \<Rightarrow> pyval \<Rightarrow> string \<Rightarrow> pyval" where
  "next_event af \<equiv> delivery_event (len (af_events af) + 1)"

abbreviation with_event :: "pyval \<Rightarrow> attempt_files \<Rightarrow> attempt_files" where
  "with_event e af \<equiv> af\<lparr>af_events := af_events af @ [e]\<rparr>"

lemma sbnd_cases:
  assumes "sbnd m f s = (s', r)"
  obtains (stop) e where "m s = (s', Inl e)" and "r = Inl e"
    | (go) s1 x where "m s = (s1, Inr x)" and "f x s1 = (s', r)"
  using assms by (auto simp: sbnd_def split: prod.splits sum.splits)

lemma transition_outcome:
  assumes "transition dx at t a stage status progress err outputs s = (s', r)"
  obtains (refused) e where "s' = s" and "r = Inl e"
  | (logged) d af event e where "af = files_at s t a" and "event = next_event af stage status progress err at"
      and "af_record af = Some d" and "validate_attempt_record d = Inr d" and "sequences_ok dx (af_events af)"
      and "log_bytes (af_events af) + line_bytes event \<le> max_event_log_bytes"
      and "s' = update_attempt t a (with_event event) s" and "r = Inl e"
  | (moved) d d' af event where "af = files_at s t a" and "event = next_event af stage status progress err at"
      and "af_record af = Some d" and "validate_attempt_record d = Inr d" and "sequences_ok dx (af_events af)"
      and "log_bytes (af_events af) + line_bytes event \<le> max_event_log_bytes"
      and "d' = moved_record d (len (af_events af) + 1) stage status progress err outputs at"
      and "s' = update_attempt t a (\<lambda>af. af\<lparr>af_record := Some d'\<rparr>) (update_attempt t a (with_event event) s)"
      and "r = Inr d'"
proof -
  let ?af = "files_at s t a"
  show ?thesis
    using assms unfolding transition_def
  proof (cases rule: sbnd_cases)
    case stop
    then show ?thesis using refused by (auto simp: sread_def)
  next
    case (go s1 d)
    then have rec: "af_record ?af = Some d" "validate_attempt_record d = Inr d" "s1 = s"
      by (auto simp: sread_def file_of_Inr res_simps dest: validate_attempt_same)
    from go(2) show ?thesis
    proof (cases rule: sbnd_cases)
      case stop
      then show ?thesis using refused rec by (auto simp: sread_def)
    next
      case (go s2 n)
      then have seq: "sequences_ok dx (af_events ?af)" "n = len (af_events ?af)" "s2 = s"
        using rec by (auto simp: sread_def durable_count_def event_limit_def split: if_splits)
      let ?ev = "next_event ?af stage status progress err at"
      let ?s1 = "update_attempt t a (with_event ?ev) s"
      let ?d = "moved_record d (len (af_events ?af) + 1) stage status progress err outputs at"
      from go(2) show ?thesis
        unfolding Let_def seq
      proof (cases rule: sbnd_cases)
        case stop
        then show ?thesis using refused by (auto simp: slift_def)
      next
        case (go s3 u)
        then have s3: "s3 = s" by (auto simp: slift_def)
        from go(2) show ?thesis
        proof (cases rule: sbnd_cases)
          case stop
          then show ?thesis using refused s3 by (auto simp: sread_def)
        next
          case (go s4 u')
          then have room: "log_bytes (af_events ?af) + line_bytes ?ev \<le> max_event_log_bytes" and s4: "s4 = s"
            using s3 by (auto simp: sread_def event_limit_def split: if_splits)
          have "write_record False t a ?d ?s1 = (?s1, Inl e)
              \<or> write_record False t a ?d ?s1 = (update_attempt t a (\<lambda>af. af\<lparr>af_record := Some ?d\<rparr>) ?s1, Inr ())"
            if "write_check False (af_record (files_at ?s1 t a)) ?d = Inl e
              \<or> write_check False (af_record (files_at ?s1 t a)) ?d = Inr ()" for e
            using that by (auto simp: write_record_def write_doc_def)
          moreover obtain e where "write_check False (af_record (files_at ?s1 t a)) ?d = Inl e
              \<or> write_check False (af_record (files_at ?s1 t a)) ?d = Inr ()"
            by (cases "write_check False (af_record (files_at ?s1 t a)) ?d") auto
          ultimately consider e where "write_record False t a ?d ?s1 = (?s1, Inl e)"
            | "write_record False t a ?d ?s1 = (update_attempt t a (\<lambda>af. af\<lparr>af_record := Some ?d\<rparr>) ?s1, Inr ())"
            by blast
          then show ?thesis
          proof cases
            case 1
            then have "s' = ?s1" and "r = Inl e"
              using go(2) s4 by (auto simp: sbnd_def)
            then show ?thesis using logged [OF refl refl rec(1,2) seq(1) room] by blast
          next
            case 2
            then have "s' = update_attempt t a (\<lambda>af. af\<lparr>af_record := Some ?d\<rparr>) ?s1" and "r = Inr ?d"
              using go(2) s4 by (auto simp: sbnd_def slift_def)
            then show ?thesis using moved [OF refl refl rec(1,2) seq(1) room refl] by blast
          qed
        qed
      qed
    qed
  qed
qed

lemma sequences_ok_snoc:
  "sequences_ok dx es \<Longrightarrow> sequences_ok dx (es @ [delivery_event (len es + 1) stage status progress err at])"
  by (auto simp: sequences_ok_def list_all_iff nth_append delivery_event_def dget_def)

lemma log_bytes_snoc [simp]: "log_bytes (es @ [e]) = log_bytes es + line_bytes e"
  by (simp add: log_bytes_def)

lemma dget_update [dict_simps]: "dget (aput k v d) k' = (if k' = k then v else dget d k')"
  by (simp add: dget_def dict_simps)

definition moved_fields :: "string list" where
  "moved_fields =
    [''stage'', ''status'', ''progress_percent'', ''error'', ''outputs'', ''event_count'', ''updated_at_utc'']"

lemma dget_moved:
  "k \<notin> set moved_fields \<Longrightarrow> dget (moved_record d n stage status progress err outputs at) k = dget d k"
  by (simp add: moved_record_def aput_all_def dict_simps moved_fields_def)

lemma dget_moved_fields:
  "dget (moved_record d n stage status progress err outputs at) ''status'' = PStr status"
  "dget (moved_record d n stage status progress err outputs at) ''stage'' = PStr stage"
  "dget (moved_record d n stage status progress err outputs at) ''error'' = err"
  "dget (moved_record d n stage status progress err outputs at) ''event_count'' = PInt n"
  "dget (moved_record d n stage status progress err outputs at) ''progress_percent'' = PInt progress"
  "dget (moved_record d n stage status progress err outputs at) ''updated_at_utc'' = PStr at"
  by (simp_all add: moved_record_def aput_all_def dict_simps)

lemma agree_moved [simp]: "agree admitted_fields d (moved_record d n stage status progress err outputs at)"
  unfolding agree_def list_all_iff by (auto simp: dget_moved admitted_fields_def moved_fields_def)

lemma sound_logged:
  assumes "af = files_at s t a" and "af_record af = Some d" and "\<not> ended d"
    and "sequences_ok dx (af_events af)"
    and "log_bytes (af_events af) + line_bytes (next_event af stage status progress err at) \<le> max_event_log_bytes"
  shows "sound_step dx s (update_attempt t a (with_event (next_event af stage status progress err at)) s)"
proof (rule sound_update_attempt)
  show "attempt_le (files_at s t a) (with_event (next_event af stage status progress err at) (files_at s t a))"
    using assms by (simp add: attempt_le_def)
  show "event_log_ok dx (with_event (next_event af stage status progress err at) (files_at s t a))"
    if "event_log_ok dx (files_at s t a)"
    using assms that by (auto simp: event_log_ok_def sequences_ok_snoc pint_within_iff)
qed

lemma sound_moved:
  assumes "af_record (files_at s t a) = Some d" and "\<not> ended d"
    and "d' = moved_record d n stage status progress err outputs at" and "n = len (af_events (files_at s t a))"
  shows "sound_step dx s (update_attempt t a (\<lambda>af. af\<lparr>af_record := Some d'\<rparr>) s)"
proof (rule sound_update_attempt)
  show "attempt_le (files_at s t a) ((files_at s t a)\<lparr>af_record := Some d'\<rparr>)"
    using assms by (simp add: attempt_le_def)
  show "event_log_ok dx ((files_at s t a)\<lparr>af_record := Some d'\<rparr>)" if "event_log_ok dx (files_at s t a)"
    using assms that by (simp add: event_log_ok_def dget_moved_fields)
qed

text \<open>A transition of an open attempt; the attempt stays open unless the new status is terminal.\<close>

lemma transition_triple:
  "triple (sound_step dx) (open_at t a) (transition dx at t a stage status progress err outputs)
    (\<lambda>_ s. status \<notin> set terminal_statuses \<longrightarrow> open_at t a s) (open_at t a)"
proof (unfold triple_def, intro allI impI)
  fix s assume op: "open_at t a s"
  obtain s' r where tr: "transition dx at t a stage status progress err outputs s = (s', r)" by force
  have "sound_step dx s s' \<and> (case r of Inl e \<Rightarrow> open_at t a s'
    | Inr x \<Rightarrow> status \<notin> set terminal_statuses \<longrightarrow> open_at t a s')"
    using tr
  proof (cases rule: transition_outcome)
    case refused
    then show ?thesis using op by (simp add: sstep.R_refl)
  next
    case logged
    then show ?thesis
      using op sound_logged [of _ s t a] by (auto simp: open_at_def dict_simps)
  next
    case (moved d d' af event)
    let ?s1 = "update_attempt t a (with_event event) s"
    have nt: "\<not> ended d" using op moved by (simp add: open_at_def)
    have "sound_step dx s ?s1"
      using sound_logged [OF moved(1,3) nt moved(5) moved(6) [unfolded moved(2)]] moved(2) by simp
    moreover have "sound_step dx ?s1 s'"
      unfolding moved(8)
      by (rule sound_moved [OF _ nt moved(7)]) (use moved in \<open>simp_all add: dict_simps\<close>)
    ultimately show ?thesis
      using moved by (auto simp: open_at_def dict_simps ended_def in_texts_def dget_moved_fields
          intro: sstep.R_trans)
  qed
  then show "sound_step dx s (fst (transition dx at t a stage status progress err outputs s))
    \<and> (case transition dx at t a stage status progress err outputs s of (s', Inl e) \<Rightarrow> open_at t a s'
       | (s', Inr x) \<Rightarrow> status \<notin> set terminal_statuses \<longrightarrow> open_at t a s')"
    by (simp add: tr)
qed

section \<open>Reopened attempts\<close>

text \<open>
  A resumed run reopens a failed attempt, so that it does not go up in the order above. In the weaker
  order a record may change until it is \<open>private-appstore-ready\<close>; the rest is as above.
\<close>

definition ready :: "pyval dict \<Rightarrow> bool" where
  "ready d \<longleftrightarrow> dget d ''status'' = PStr ''private-appstore-ready''"

definition attempt_kept :: "attempt_files \<Rightarrow> attempt_files \<Rightarrow> bool" where
  "attempt_kept af af' \<longleftrightarrow>
    kept (=) (af_task af) (af_task af') \<and> kept (=) (af_registry af) (af_registry af')
    \<and> prefix (af_events af) (af_events af')
    \<and> kept (\<lambda>d d'. agree admitted_fields d d' \<and> (ready d \<longrightarrow> d' = d \<and> af_events af' = af_events af))
        (af_record af) (af_record af')"

definition history_le :: "store \<Rightarrow> store \<Rightarrow> bool" where
  "history_le s s' \<longleftrightarrow>
    (\<forall>t a. attempt_kept (files_at s t a) (files_at s' t a))
    \<and> (\<forall>t. kept (agree fixed_fields) (record_at s t) (record_at s' t))"

definition history_step :: "dx \<Rightarrow> store \<Rightarrow> store \<Rightarrow> bool" where
  "history_step dx s s' \<longleftrightarrow> history_le s s' \<and> (logs_ok dx s \<longrightarrow> logs_ok dx s')"

lemma ready_ended: "ready d \<Longrightarrow> ended d"
  by (simp add: ready_def ended_def in_texts_def terminal_statuses_def)

lemma attempt_le_kept: "attempt_le af af' \<Longrightarrow> attempt_kept af af'"
  by (auto simp: attempt_le_def attempt_kept_def kept_def ready_ended split: option.splits)

lemma attempt_kept_trans: "attempt_kept a b \<Longrightarrow> attempt_kept b c \<Longrightarrow> attempt_kept a c"
  by (auto simp: attempt_kept_def kept_def ready_def split: option.splits intro: agree_trans prefix_order.trans)

lemma history_le_trans: "history_le a b \<Longrightarrow> history_le b c \<Longrightarrow> history_le a c"
  unfolding history_le_def by (meson attempt_kept_trans kept_trans [where r = "agree fixed_fields"] agree_trans)

lemma sound_history: "sound_step dx s s' \<Longrightarrow> history_step dx s s'"
  by (auto simp: sound_step_def history_step_def delivery_le_def history_le_def attempt_le_kept)

interpretation hstep: store_order "history_step dx" for dx
  using sound_history [OF sstep.R_refl] by unfold_locales (auto simp: history_step_def intro: history_le_trans)

lemma history_of: "triple (sound_step dx) P m Q E \<Longrightarrow> triple (history_step dx) P m Q E"
  by (auto simp: triple_def intro: sound_history)

lemma history_update_attempt:
  assumes "attempt_kept (files_at s t a) (f (files_at s t a))"
    and "event_log_ok dx (files_at s t a) \<Longrightarrow> event_log_ok dx (f (files_at s t a))"
  shows "history_step dx s (update_attempt t a f s)"
  using assms attempt_le_kept [OF attempt_le_refl]
  by (auto simp: history_step_def history_le_def logs_ok_def dict_simps)

definition changeable_at :: "string \<Rightarrow> string \<Rightarrow> store \<Rightarrow> bool" where
  "changeable_at t a s \<longleftrightarrow> (case af_record (files_at s t a) of None \<Rightarrow> False | Some d \<Rightarrow> \<not> ready d)"

lemma transition_reopens:
  "triple (history_step dx) (changeable_at t a) (transition dx at t a stage status progress err outputs)
    (\<lambda>_ s. status \<notin> set terminal_statuses \<longrightarrow> open_at t a s) (\<lambda>_. True)"
proof (unfold triple_def, intro allI impI)
  fix s assume ch: "changeable_at t a s"
  obtain s' r where tr: "transition dx at t a stage status progress err outputs s = (s', r)" by force
  have logged: "history_step dx s (update_attempt t a (with_event event) s)"
    if "event = next_event (files_at s t a) stage status progress err at" and "sequences_ok dx (af_events (files_at s t a))"
      and "log_bytes (af_events (files_at s t a)) + line_bytes event \<le> max_event_log_bytes" for event
    by (rule history_update_attempt)
      (use ch that in \<open>auto simp: attempt_kept_def changeable_at_def event_log_ok_def sequences_ok_snoc pint_within_iff
        split: option.splits\<close>)
  have "history_step dx s s' \<and> (case r of Inl e \<Rightarrow> True | Inr x \<Rightarrow> status \<notin> set terminal_statuses \<longrightarrow> open_at t a s')"
    using tr
  proof (cases rule: transition_outcome)
    case (moved d d' af event)
    let ?s1 = "update_attempt t a (with_event event) s"
    have "history_step dx ?s1 s'"
      unfolding moved(8)
      by (rule history_update_attempt)
        (use ch moved in \<open>auto simp: attempt_kept_def changeable_at_def event_log_ok_def dict_simps dget_moved_fields\<close>)
    then show ?thesis
      using moved logged by (auto simp: open_at_def dict_simps ended_def in_texts_def dget_moved_fields
          intro: hstep.R_trans)
  qed (use logged in \<open>simp_all add: hstep.R_refl\<close>)
  then show "history_step dx s (fst (transition dx at t a stage status progress err outputs s))
    \<and> (case transition dx at t a stage status progress err outputs s of (s', Inl e) \<Rightarrow> True
       | (s', Inr x) \<Rightarrow> status \<notin> set terminal_statuses \<longrightarrow> open_at t a s')"
    by (simp add: tr split: sum.split)
qed

end
