(* ===== verification/DelivSteps.thy ===== *)
theory DelivSteps
  imports DelivFrame
begin

text \<open>
  Every submission and every run of an attempt is a sound step: it goes up in the order of theory
  DelivFrame and keeps the event logs contiguous and within their bound. A run works on an attempt
  that is open, and leaves it open on every path on which it goes on or raises.
\<close>

section \<open>Runs\<close>

definition run_triple :: "dx \<Rightarrow> string \<Rightarrow> string \<Rightarrow> 'a store_op \<Rightarrow> bool \<Rightarrow> bool" where
  "run_triple dx t a m stays \<longleftrightarrow>
    triple (sound_step dx) (open_at t a) m (\<lambda>_ s. stays \<longrightarrow> open_at t a s) (open_at t a)"

lemma run_bind:
  "run_triple dx t a m True \<Longrightarrow> (\<And>x. run_triple dx t a (f x) b) \<Longrightarrow> run_triple dx t a (sbnd m f) b"
  unfolding run_triple_def by (rule sstep.bind) auto

lemma run_lift: "run_triple dx t a (slift r) b"
  unfolding run_triple_def by (rule sstep.lift) auto

lemma run_pair: "(\<And>x y. run_triple dx t a (f x y) b) \<Longrightarrow> run_triple dx t a (case p of (x, y) \<Rightarrow> f x y) b"
  by (simp split: prod.split)

lemma run_transition:
  "(b \<Longrightarrow> status \<notin> set terminal_statuses)
    \<Longrightarrow> run_triple dx t a (transition dx at t a stage status progress err outputs) b"
  unfolding run_triple_def by (rule sstep.weaken [OF transition_triple]) auto

lemma run_failure: "run_triple dx t a (record_failure dx at t a stage e outputs) False"
  unfolding record_failure_def by (rule run_transition) simp

lemma run_moving: "(b \<Longrightarrow> status \<notin> set terminal_statuses) \<Longrightarrow> run_triple dx t a (moving dx rn t a i stage status n outputs) b"
  unfolding moving_def by (rule run_transition)

lemma run_cond: "(c \<Longrightarrow> run_triple dx t a m b) \<Longrightarrow> (\<not> c \<Longrightarrow> run_triple dx t a n b) \<Longrightarrow> run_triple dx t a (if c then m else n) b"
  by simp

lemma run_case: "(\<And>x. r = Some x \<Longrightarrow> run_triple dx t a (f x) b) \<Longrightarrow> (r = None \<Longrightarrow> run_triple dx t a m b)
    \<Longrightarrow> run_triple dx t a (case r of None \<Rightarrow> m | Some x \<Rightarrow> f x) b"
  by (simp split: option.split)

lemma run_forget: "run_triple dx t a m True \<Longrightarrow> run_triple dx t a m b"
  unfolding run_triple_def by (erule sstep.weaken) simp_all

lemmas run_rules = run_bind run_lift run_pair run_moving run_cond run_case

lemma run_phase_from:
  assumes "run_triple dx t a m b"
    and "\<And>x. triple (sound_step dx) (\<lambda>s. b \<longrightarrow> open_at t a s) (k x) (\<lambda>_ s. False \<longrightarrow> open_at t a s) (open_at t a)"
  shows "run_triple dx t a (phase dx rn t a i stage m k) False"
proof -
  have "phase dx rn t a i stage m k =
      (\<lambda>s. case m s of (s', Inr x) \<Rightarrow> k x s' | (s', Inl e) \<Rightarrow> record_failure dx (rn_at rn i) t a stage e [] s')"
    by (rule ext) (simp add: phase_def)
  then show ?thesis
    using sstep.handle [OF assms(1) [unfolded run_triple_def] assms(2) run_failure [unfolded run_triple_def]]
    by (simp add: run_triple_def)
qed

lemma run_phase:
  "run_triple dx t a m True \<Longrightarrow> (\<And>x. run_triple dx t a (k x) False)
    \<Longrightarrow> run_triple dx t a (phase dx rn t a i stage m k) False"
  by (rule run_phase_from [where b = True]) (simp_all add: run_triple_def)

lemma run_last_phase:
  "run_triple dx t a m False \<Longrightarrow> run_triple dx t a (phase dx rn t a i stage m (\<lambda>d. slift (Inr d))) False"
  by (rule run_phase_from) (simp_all add: sstep.ret)

lemma run_check: "run_triple dx t a (check_cancellation rn i) b"
  unfolding check_cancellation_def by (rule run_lift)

lemma status_facts [simp]:
  "''running'' \<notin> set terminal_statuses" "''queued'' \<notin> set terminal_statuses"
  by (simp_all add: terminal_statuses_def)

lemma agent_status_triple:
  "triple (sound_step dx) (open_at t a) (agent_status dx rn t a resume)
    (\<lambda>x s. (case x of Ended _ \<Rightarrow> False | Going _ \<Rightarrow> True) \<longrightarrow> open_at t a s) (open_at t a)"
proof (cases "rn_status rn = None \<and> \<not> resume \<and> rn_preflight rn \<noteq> None")
  case True
  then obtain stage e where pf: "rn_preflight rn = Some (stage, e)" by auto
  show ?thesis
    unfolding agent_status_def using True pf
    by (auto intro!: sstep.bind [OF run_failure [unfolded run_triple_def]] sstep.ret)
next
  case False
  have "run_triple dx t a (agent_status dx rn t a resume) True"
    unfolding agent_status_def
    by (cases "rn_status rn"; cases resume) (use False in \<open>auto intro!: run_rules\<close>)
  then show ?thesis unfolding run_triple_def by (rule sstep.weaken) auto
qed

lemma agent_phase_triple:
  "triple (sound_step dx) (open_at t a) (agent_phase dx rn t a resume task)
    (\<lambda>x s. (case x of Ended _ \<Rightarrow> False | Going _ \<Rightarrow> True) \<longrightarrow> open_at t a s) (open_at t a)"
  unfolding agent_phase_def
proof (rule sstep.bind)
  show "triple (sound_step dx) (open_at t a) (check_cancellation rn 0) (\<lambda>_ s. True \<longrightarrow> open_at t a s) (open_at t a)"
    using run_check [of dx t a rn 0 True] by (simp add: run_triple_def)
  have going: "run_triple dx t a (sbnd (check_cancellation rn 1) (\<lambda>_.
        sbnd (slift (refuse (agent_bad dx rn st task) e)) (\<lambda>_.
        sbnd (slift (agent_handoff rn st)) (\<lambda>(path, sha).
        sbnd (moving dx rn t a 2 ''source-ready'' ''running'' 45 (handoff_outputs st path sha)) (\<lambda>_.
        slift (Inr (Going ()))))))) True" for st e
    by (intro run_rules run_check) simp
  have rest: "triple (sound_step dx) (\<lambda>s. (case r of Ended _ \<Rightarrow> False | Going _ \<Rightarrow> True) \<longrightarrow> open_at t a s)
      (case r of Ended d \<Rightarrow> slift (Inr (Ended d)) | Going st \<Rightarrow> f st)
      (\<lambda>x s. (case x of Ended _ \<Rightarrow> False | Going _ \<Rightarrow> True) \<longrightarrow> open_at t a s) (open_at t a)"
    if "\<And>st. run_triple dx t a (f st) True" for r f
  proof (cases r)
    case (Going st)
    then show ?thesis using sstep.weaken [OF that [of st, unfolded run_triple_def]] by simp
  qed (simp add: sstep.ret)
  show "triple (sound_step dx) (\<lambda>s. True \<longrightarrow> open_at t a s) (sbnd (agent_status dx rn t a resume) (\<lambda>r.
      case r of
        Ended d \<Rightarrow> slift (Inr (Ended d))
      | Going st \<Rightarrow>
          sbnd (check_cancellation rn 1) (\<lambda>_.
          sbnd (slift (refuse (agent_bad dx rn st task) (agent_error ''codeagent-status-invalid''
            ''CodeAgent terminal status is not bound to the configured provider/model''))) (\<lambda>_.
          sbnd (slift (agent_handoff rn st)) (\<lambda>(path, sha).
          sbnd (moving dx rn t a 2 ''source-ready'' ''running'' 45 (handoff_outputs st path sha)) (\<lambda>_.
          slift (Inr (Going ()))))))))
      (\<lambda>x s. (case x of Ended _ \<Rightarrow> False | Going _ \<Rightarrow> True) \<longrightarrow> open_at t a s) (open_at t a)" for x :: unit
    by (rule sstep.bind [OF _ rest [OF going]]) (simp add: agent_status_triple)
qed

lemma run_read: "run_triple dx t a (sread f) b"
  unfolding run_triple_def by (rule sstep.read) auto

lemma preserve_triple: "run_triple dx t a (preserve_failed_builder_job dx re at t a task handoff) True"
  unfolding preserve_failed_builder_job_def by (intro run_rules run_read run_transition) simp_all

lemma builder_phase_triple: "run_triple dx t a (builder_phase dx rn t a task handoff) True"
  unfolding builder_phase_def built_receipt_def preserved_job_def
  by (intro run_rules run_check preserve_triple) simp_all

lemma verifier_phase_triple: "run_triple dx t a (verifier_phase dx rn t a task handoff receipt manifest) True"
  unfolding verifier_phase_def promoted_candidate_def by (intro run_rules run_check) simp_all

lemma appstore_phase_triple:
  "run_triple dx t a (appstore_phase dx rn t a task handoff receipt candidate manifest) False"
  unfolding appstore_phase_def by (intro run_rules run_check) simp_all

lemma active_run_sound: "run_triple dx t a (active_run dx rn t a task) False"
proof -
  have phases: "run_triple dx t a (delivery_phases dx rn t a task) False"
    unfolding delivery_phases_def
    by (intro run_last_phase run_phase run_pair run_lift builder_phase_triple verifier_phase_triple
        appstore_phase_triple)
  have failed: "run_triple dx t a (agent_failed dx rn t a e) False" for e
    unfolding agent_failed_def by (intro run_cond run_bind [OF run_moving] run_failure run_lift) simp
  have "active_run dx rn t a task = (\<lambda>s. case agent_phase dx rn t a (rn_resume rn \<noteq> None) task s of
      (s', Inr x) \<Rightarrow> (case x of Ended d \<Rightarrow> slift (Inr d) | Going _ \<Rightarrow> delivery_phases dx rn t a task) s'
    | (s', Inl e) \<Rightarrow> agent_failed dx rn t a e s')"
    by (rule ext) (auto simp: active_run_def slift_def split: prod.split sum.split run_step.split)
  moreover have "triple (sound_step dx) (\<lambda>s. (case x of Ended _ \<Rightarrow> False | Going _ \<Rightarrow> True) \<longrightarrow> open_at t a s)
      (case x of Ended d \<Rightarrow> slift (Inr d) | Going _ \<Rightarrow> delivery_phases dx rn t a task)
      (\<lambda>_ s. False \<longrightarrow> open_at t a s) (open_at t a)" for x :: "unit run_step"
    using phases by (cases x) (simp_all add: sstep.ret run_triple_def)
  ultimately show ?thesis
    using sstep.handle [OF agent_phase_triple _ failed [unfolded run_triple_def]]
    by (simp add: run_triple_def)
qed

lemma attempt_inputs_triple:
  "triple (sound_step dx) P (attempt_inputs dx t a current) (\<lambda>_. P) (\<lambda>_. True)"
  unfolding attempt_inputs_def by (rule sstep.read) simp_all

lemma inputs_then_run:
  "triple (sound_step dx) (open_at t a) (sbnd (attempt_inputs dx t a current) (active_run dx rn t a)) (\<lambda>_ _. True) (\<lambda>_. True)"
  by (rule sstep.bind [OF attempt_inputs_triple])
    (auto intro: sstep.weaken [OF active_run_sound [unfolded run_triple_def]])

lemma run_current_sound:
  assumes "rn_resume rn = None"
  shows "triple (sound_step dx) (\<lambda>s. \<not> ended current \<longrightarrow> open_at t a s) (run_current dx revalidate rn t a index current)
    (\<lambda>_ _. True) (\<lambda>_. True)"
proof (cases "ended current")
  case True
  then show ?thesis
    by (auto simp: run_current_def assms ended_def in_texts_def pstr_such_iff terminal_statuses_def
        intro!: sstep.read sstep.ret sstep.bind [OF attempt_inputs_triple])
next
  case False
  then have "dget current ''status'' \<noteq> PStr ''private-appstore-ready''" "dget current ''status'' \<noteq> PStr ''failed''"
    by (auto simp: ended_def in_texts_def terminal_statuses_def)
  then show ?thesis
    using False by (simp add: run_current_def assms inputs_then_run)
qed

lemma reopen_triple:
  "triple (history_step dx) (\<lambda>s. af_record (files_at s t a) = Some current) (reopen dx rn re t a index current)
    (\<lambda>_. open_at t a) (\<lambda>_. True)"
proof -
  have "triple (history_step dx) (changeable_at t a) (moving dx rn t a 14 ''source-handoff-resumed'' ''running'' 45 [])
      (\<lambda>_. open_at t a) (\<lambda>_. True)"
    unfolding moving_def by (rule hstep.weaken [OF transition_reopens]) auto
  then show ?thesis
    unfolding reopen_def
    by (intro hstep.bind [where Q = "\<lambda>_. changeable_at t a"] hstep.read)
      (auto simp: validate_resumable_source_def resume_bad_def changeable_at_def ready_def split: if_splits)
qed

lemma run_current_history:
  "triple (history_step dx) (\<lambda>s. af_record (files_at s t a) = Some current) (run_current dx revalidate rn t a index current)
    (\<lambda>_ _. True) (\<lambda>_. True)"
proof (cases "rn_resume rn")
  case None
  then show ?thesis
    by (rule hstep.weaken [OF history_of [OF run_current_sound]]) (simp_all add: open_at_def)
next
  case (Some re)
  show ?thesis
    unfolding run_current_def Some option.case by (rule hstep.bind [OF reopen_triple history_of [OF inputs_then_run]])
qed

lemma run_attempt_triple:
  assumes "store_order R"
    and "\<And>t a index current. triple R (\<lambda>s. af_record (files_at s t a) = Some current)
      (run_current dx revalidate rn t a index current) (\<lambda>_ _. True) (\<lambda>_. True)"
  shows "R s (fst (run_attempt dx revalidate rn task_id chosen s))"
proof -
  note rules = store_order.bind [OF assms(1)] store_order.read [OF assms(1)] store_order.lift [OF assms(1)]
    store_order.cond [OF assms(1)]
  have read: "triple R (\<lambda>_. True) (sread (\<lambda>s. bnd (file_of (af_record (files_at s t a))) validate_attempt_record))
      (\<lambda>current s. af_record (files_at s t a) = Some current) (\<lambda>_. True)" for t a
    by (rule rules(2)) (auto simp: file_of_Inr res_simps dest!: validate_attempt_same)
  have "triple R (\<lambda>_. True) (run_attempt dx revalidate rn task_id chosen) (\<lambda>_ _. True) (\<lambda>_. True)"
    unfolding run_attempt_def
    by (rule rules(1) [where Q = "\<lambda>_ _. True"]) (auto intro!: rules(2-4) rules(1) [OF read assms(2)])
  then show ?thesis by (rule store_order.order [OF assms(1)]) simp
qed

lemma run_attempt_history: "history_step dx s (fst (run_attempt dx revalidate rn task_id chosen s))"
  by (rule run_attempt_triple [OF hstep.store_order_axioms run_current_history])

lemma run_attempt_sound:
  assumes "rn_resume rn = None"
  shows "sound_step dx s (fst (run_attempt dx revalidate rn task_id chosen s))"
  by (rule run_attempt_triple [OF sstep.store_order_axioms])
    (rule sstep.weaken [OF run_current_sound [OF assms]], simp_all add: open_at_def)

section \<open>Submissions\<close>

definition fixed_at :: "string \<Rightarrow> pyval dict \<Rightarrow> store \<Rightarrow> bool" where
  "fixed_at t r s \<longleftrightarrow> (case record_at s t of None \<Rightarrow> False | Some d \<Rightarrow> agree fixed_fields d r)"

lemma fixed_at_stable: "sound_step dx s s' \<Longrightarrow> fixed_at t r s \<Longrightarrow> fixed_at t r s'"
  by (auto simp: sound_step_def delivery_le_def fixed_at_def kept_def agree_def list_all_iff split: option.splits)

lemma agree_index [simp]: "agree fixed_fields d (index_record d names)"
  by (simp add: agree_def list_all_iff fixed_fields_def index_record_def dict_simps)

lemma task_recordE:
  assumes "task_record tf = Inr r"
  obtains d found os where "tf_record tf = Some d" and "task_record_ok d" and "observe d (tf_attempts tf) = Inr found"
    and "os = sort_key fst found" and "map fst os = [1..len os]"
    and "distinct (map (\<lambda>(_, _, a). dget a ''consent_id'') os)" and "lineage_ok os"
    and "r = index_record d (map (fst \<circ> snd) os)"
proof -
  from assms obtain d where d: "tf_record tf = Some d" "task_record_ok d"
    and rest: "bnd (observe d (tf_attempts tf)) (\<lambda>found.
      let os = sort_key fst found; names = map (fst \<circ> snd) os in
      if \<not> distinct (map fst os)
      then Inl (integrity_error ''delivery task has duplicate attempt numbers'')
      else if map fst os \<noteq> [1..len os]
      then Inl (integrity_error ''delivery task attempt ordinals are not contiguous'')
      else if \<not> distinct (map (\<lambda>(_, _, a). dget a ''consent_id'') os)
      then Inl (integrity_error ''delivery task reuses a single-use consent'')
      else if \<not> lineage_ok os
      then Inl (integrity_error ''delivery task retry lineage does not match its execution attempts'')
      else Inr (index_record d names)) = Inr r"
    by (auto simp: task_record_def file_of_Inr validate_task_record_def elim!: bnd_InrE split: if_splits)
  from rest obtain found where "observe d (tf_attempts tf) = Inr found"
    and "r = index_record d (map (fst \<circ> snd) (sort_key fst found))"
    and "map fst (sort_key fst found) = [1..len (sort_key fst found)]"
    and "distinct (map (\<lambda>(_, _, a). dget a ''consent_id'') (sort_key fst found))"
    and "lineage_ok (sort_key fst found)"
    by (auto simp: Let_def elim!: bnd_InrE split: if_splits)
  then show ?thesis using d that by blast
qed

lemma task_record_fixed: "task_record tf = Inr r \<Longrightarrow> aget s t = Some tf \<Longrightarrow> fixed_at t r s"
  by (erule task_recordE) (simp add: fixed_at_def record_at_def)

lemma write_task_triple:
  assumes "\<And>s. P s \<Longrightarrow> (if exclusive then record_at s t = None \<longrightarrow> True else fixed_at t d s)"
  shows "triple (sound_step dx) P (write_task_json exclusive t d) (\<lambda>_. fixed_at t d) (\<lambda>_. True)"
proof (unfold triple_def, intro allI impI)
  fix s assume P: "P s"
  let ?put = "update_task t (\<lambda>tf. tf\<lparr>tf_record := Some d\<rparr>) s"
  have "sound_step dx s ?put" if "write_check exclusive (record_at s t) d = Inr ()"
  proof (rule sound_update_task)
    have "record_at s t = None \<or> fixed_at t d s"
      using assms [OF P] that by (cases exclusive) (auto simp: write_check_def elim!: res_elims split: if_splits)
    then show "kept (agree fixed_fields) (record_at s t) (record_at ?put t)"
      by (auto simp: dict_simps fixed_at_def kept_def split: option.splits)
  qed simp
  moreover have "fixed_at t d ?put" by (simp add: fixed_at_def dict_simps)
  ultimately show "sound_step dx s (fst (write_task_json exclusive t d s)) \<and>
      (case write_task_json exclusive t d s of (s', Inl e) \<Rightarrow> True | (s', Inr x) \<Rightarrow> fixed_at t d s')"
    by (auto simp: write_task_json_def record_at_def sstep.R_refl split: sum.split option.split)
qed

lemma write_input_triple: "triple (sound_step dx) (fixed_at t r) (write_input t a d) (\<lambda>_. fixed_at t r) (\<lambda>_. True)"
  unfolding write_input_def
  by (rule write_doc_triple) (auto simp: attempt_le_def event_log_ok_def fixed_at_def dict_simps intro: kept_refl
      split: option.splits)

lemma write_evidence_triple:
  "triple (sound_step dx) (fixed_at t r) (write_evidence t a d) (\<lambda>_. fixed_at t r) (\<lambda>_. True)"
  unfolding write_evidence_def
  by (rule write_doc_triple) (auto simp: attempt_le_def event_log_ok_def fixed_at_def dict_simps intro: kept_refl
      split: option.splits)

lemma write_record_triple:
  assumes "dget d ''status'' = PStr ''queued''" and "dget d ''event_count'' = PInt 0"
  shows "triple (sound_step dx) (fixed_at t r) (write_record True t a d)
    (\<lambda>_ s. open_at t a s \<and> fixed_at t r s) (\<lambda>_. True)"
  unfolding write_record_def
  by (rule write_doc_triple)
    (use assms in \<open>auto simp: attempt_le_def event_log_ok_def fixed_at_def open_at_def dict_simps ended_def in_texts_def\<close>)

lemma queued_record_fields:
  "queued_record dx t am n p at = Inr d \<Longrightarrow> dget d ''status'' = PStr ''queued''"
  "queued_record dx t am n p at = Inr d \<Longrightarrow> dget d ''event_count'' = PInt 0"
  by (auto simp: queued_record_def dget_Cons elim!: res_elims)

lemma agree_admitted: "agree fixed_fields d r \<Longrightarrow> agree fixed_fields d (admitted_task r n a at)"
  by (simp add: agree_def list_all_iff fixed_fields_def admitted_task_def aput_all_def dict_simps)

lemma admit_triple: "triple (sound_step dx) (fixed_at t r) (admit dx now t am r prior) (\<lambda>_ _. True) (\<lambda>_. True)"
proof -
  let ?a = "am_attempt am"
  let ?go = "\<lambda>f. triple (sound_step dx) (fixed_at t r) f (\<lambda>_ _. True) (\<lambda>_. True)"
  have last: "triple (sound_step dx) (fixed_at t r) (write_task_json False t (admitted_task r n a at))
      (\<lambda>_ _. True) (\<lambda>_. True)" for n a at
    by (rule sstep.weaken [OF write_task_triple [where P = "fixed_at t r"]])
      (auto simp: fixed_at_def agree_admitted split: option.splits)
  have moved: "triple (sound_step dx) (\<lambda>s. open_at t ?a s \<and> fixed_at t r s)
      (transition dx at t ?a stage ''queued'' n err outputs) (\<lambda>_. fixed_at t r) (\<lambda>_. True)" for at stage n err outputs
    by (rule sstep.weaken [OF sstep.stable [OF transition_triple fixed_at_stable]]) auto
  have queued: "triple (sound_step dx) (fixed_at t r) (slift (queued_record dx t am n p at))
      (\<lambda>d s. fixed_at t r s \<and> dget d ''status'' = PStr ''queued'' \<and> dget d ''event_count'' = PInt 0) (\<lambda>_. True)" for n p at
    by (rule sstep.lift) (auto dest: queued_record_fields)
  have written: "triple (sound_step dx) (\<lambda>s. fixed_at t r s \<and> dget d ''status'' = PStr ''queued'' \<and> dget d ''event_count'' = PInt 0)
      (write_record True t ?a d) (\<lambda>_ s. open_at t ?a s \<and> fixed_at t r s) (\<lambda>_. True)" for d
    using write_record_triple [of d dx t r ?a] by (auto simp: triple_def)
  show ?thesis
    unfolding admit_def Let_def
    by (intro sstep.cond sstep.lift TrueI sstep.bind [OF sstep.read [where Q = "\<lambda>_. fixed_at t r"]]
        sstep.bind [OF write_input_triple] sstep.bind [OF sstep.lift [where Q = "\<lambda>_. fixed_at t r"]]
        sstep.bind [OF write_evidence_triple] sstep.bind [OF queued] sstep.bind [OF written]
        sstep.bind [OF moved] sstep.bind [OF last])
qed

text \<open>What the first half of a submission finds.\<close>

lemma task_dirE:
  assumes "task_dir s v = Inr (t, tf)"
  shows "v = PStr t \<and> task_id_shape t \<and> aget s t = Some tf"
  using assms by (auto simp: task_dir_def split: pyval.splits if_splits option.splits)

lemma retry_routeE:
  assumes "retry_route dx s v am = Inr route"
  obtains tf r a previous where "v = PStr (computed_task_id dx am)" and "aget s (computed_task_id dx am) = Some tf"
    and "task_record tf = Inr r" and "dget r ''current_attempt_id'' = PStr a" and "load_attempt tf a = Inr previous"
    and "retry_allowed previous = Inr ()" and "route = Proceed r (Some (a, previous))"
    and "am_ordinal am = count_of r + 1" and "am_attempt am \<notin> set (ids_of r)"
    and "consent_used dx tf (am_consent am) (ids_of r) = Inr False"
    and "\<forall>c\<in>set (record_differs dx r am). c = Inr False"
proof -
  from assms obtain t tf where v: "v = PStr (computed_task_id dx am)" and dir: "task_dir s v = Inr (t, tf)"
    and rest: "bnd (task_record tf) (\<lambda>r.
       bnd (refuse (record_differs dx r am)
         (retry_conflict ''same-task retry changed the NeedSpec, job, immutable request, or provider identity'')) (\<lambda>_.
       case dget r ''current_attempt_id'' of
         PStr a \<Rightarrow>
           bnd (load_attempt tf a) (\<lambda>previous.
           bnd (retry_allowed previous) (\<lambda>_.
           bnd (file_of (af_task (attempt_of tf a))) (\<lambda>previous_task.
           bnd (refuse (retry_bad dx am previous_task)
             (retry_conflict ''same-task retry must preserve the exact immutable request and NeedSpec'')) (\<lambda>_.
           bnd (refuse [holds (am_ordinal am \<noteq> count_of r + 1), holds (am_attempt am \<in> set (ids_of r)),
               consent_used dx tf (am_consent am) (ids_of r)]
             (Fail ''retry-attempt-required'' ''same-task retry requires the next execution ordinal, a new attempt ID, and a new single-use consent'' False)) (\<lambda>_.
           Inr (Proceed r (Some (a, previous))))))))
       | _ \<Rightarrow> Inl (retry_conflict ''delivery task has no prior attempt''))) = Inr route"
    unfolding retry_route_def by (auto elim!: guard_InrE bnd_InrE)
  have t: "t = computed_task_id dx am" "aget s t = Some tf"
    using task_dirE [OF dir] v by auto
  from rest obtain r where r: "task_record tf = Inr r" and diff: "\<forall>c\<in>set (record_differs dx r am). c = Inr False"
    and rest: "(case dget r ''current_attempt_id'' of
         PStr a \<Rightarrow>
           bnd (load_attempt tf a) (\<lambda>previous.
           bnd (retry_allowed previous) (\<lambda>_.
           bnd (file_of (af_task (attempt_of tf a))) (\<lambda>previous_task.
           bnd (refuse (retry_bad dx am previous_task)
             (retry_conflict ''same-task retry must preserve the exact immutable request and NeedSpec'')) (\<lambda>_.
           bnd (refuse [holds (am_ordinal am \<noteq> count_of r + 1), holds (am_attempt am \<in> set (ids_of r)),
               consent_used dx tf (am_consent am) (ids_of r)]
             (Fail ''retry-attempt-required'' ''same-task retry requires the next execution ordinal, a new attempt ID, and a new single-use consent'' False)) (\<lambda>_.
           Inr (Proceed r (Some (a, previous))))))))
       | _ \<Rightarrow> Inl (retry_conflict ''delivery task has no prior attempt'')) = Inr route"
    by (elim bnd_InrE) (simp only: refuse_Inr)
  then obtain a where a: "dget r ''current_attempt_id'' = PStr a" by (auto split: pyval.splits)
  show ?thesis
    using rest a t r diff v by (auto simp: res_simps intro: that elim!: bnd_InrE)
qed

lemma first_again_fixed:
  "first_again dx tf am edited = Inr (Proceed r prior) \<Longrightarrow> aget s t = Some tf \<Longrightarrow> fixed_at t r s \<and> prior = None"
  unfolding first_again_def
  by (erule bnd_InrE) (auto intro: task_record_fixed elim!: bnd_InrE split: if_splits)

definition route_ok :: "string \<Rightarrow> route \<Rightarrow> store \<Rightarrow> bool" where
  "route_ok t route s \<longleftrightarrow> (case route of Existing d \<Rightarrow> True | Proceed r prior \<Rightarrow> fixed_at t r s)"

lemma first_new_triple:
  "triple (sound_step dx) (\<lambda>_. True) (first_new dx t am edited now) (\<lambda>route s. route_ok t route s) (\<lambda>_. True)"
proof -
  have "record_at (update_task t (\<lambda>tf. tf) s) t = record_at s t" for s
    unfolding record_update_task by (simp add: record_at_def empty_task_def split: option.split)
  then have dirs: "triple (sound_step dx) (\<lambda>_. True) (make_dirs t) (\<lambda>_ _. True) (\<lambda>_. True)"
    by (auto simp: triple_def make_dirs_def intro!: sound_update_task)
  have task: "triple (sound_step dx) (\<lambda>_. True) (write_task_json True t d) (\<lambda>_. fixed_at t d) (\<lambda>_. True)" for d
    by (rule write_task_triple) simp
  show ?thesis
    unfolding first_new_def Let_def
    by (intro sstep.cond sstep.lift TrueI sstep.bind [OF sstep.read [where Q = "\<lambda>_ _. True"]] sstep.bind [OF dirs] run_pair
        sstep.bind [OF sstep.lift [where Q = "\<lambda>_ _. True"]])
      (auto simp: route_ok_def intro!: sstep.bind [OF task] sstep.ret split: prod.split)
qed

lemma submit_route_triple:
  assumes "t = (if retry = PNone \<or> retry = PStr [] then computed_task_id dx am else text_in retry)"
  shows "triple (sound_step dx) (\<lambda>_. True)
    (if retry \<noteq> PNone then sread (\<lambda>s. retry_route dx s (if retry = PStr [] then PStr t else retry) am)
     else (\<lambda>s. case aget s t of Some tf \<Rightarrow> (s, first_again dx tf am edited) | None \<Rightarrow> first_new dx t am edited now s))
    (\<lambda>route s. route_ok t route s) (\<lambda>_. True)"
proof (rule sstep.cond)
  show "triple (sound_step dx) (\<lambda>_. True) (sread (\<lambda>s. retry_route dx s (if retry = PStr [] then PStr t else retry) am))
      (\<lambda>route s. route_ok t route s) (\<lambda>_. True)" if "retry \<noteq> PNone"
  proof (rule sstep.read)
    show "route_ok t route s" if "retry_route dx s (if retry = PStr [] then PStr t else retry) am = Inr route" for route s
      using that
    proof (rule retry_routeE)
      fix tf r a previous
      assume v: "(if retry = PStr [] then PStr t else retry) = PStr (computed_task_id dx am)"
        and tf: "aget s (computed_task_id dx am) = Some tf" "task_record tf = Inr r"
        and "route = Proceed r (Some (a, previous))"
      moreover have "t = computed_task_id dx am"
        using v assms \<open>retry \<noteq> PNone\<close> by (auto simp: text_in_def split: if_splits)
      ultimately show "route_ok t route s" by (simp add: route_ok_def task_record_fixed)
    qed
  qed simp
  show "triple (sound_step dx) (\<lambda>_. True)
      (\<lambda>s. case aget s t of Some tf \<Rightarrow> (s, first_again dx tf am edited) | None \<Rightarrow> first_new dx t am edited now s)
      (\<lambda>route s. route_ok t route s) (\<lambda>_. True)"
    using first_new_triple [of dx t am edited now]
    by (auto simp: triple_def sstep.R_refl route_ok_def first_again_fixed split: option.split sum.split route.split)
qed

lemma deliver_submit_sound:
  "sound_step dx s (fst (deliver_submit dx now submitted registry explicit retry edited s))"
proof (rule sstep.order [where P = "\<lambda>_. True"])
  have rest: "triple (sound_step dx) (\<lambda>s. route_ok t route s)
      (case route of Existing d \<Rightarrow> slift (Inr d) | Proceed r prior \<Rightarrow> admit dx now t am r prior)
      (\<lambda>_ _. True) (\<lambda>_. True)" for t route am
    by (cases route) (auto simp: route_ok_def intro: sstep.ret admit_triple)
  show "triple (sound_step dx) (\<lambda>_. True) (deliver_submit dx now submitted registry explicit retry edited)
      (\<lambda>_ _. True) (\<lambda>_. True)"
    unfolding deliver_submit_def Let_def
    by (intro sstep.cond sstep.lift TrueI sstep.bind [OF sstep.lift [where Q = "\<lambda>_ _. True"]]
        sstep.bind [OF submit_route_triple rest] refl)
qed simp

end
