(* ===== verification/DelivAdmitFacts.thy ===== *)
theory DelivAdmitFacts
  imports DelivSteps
begin

text \<open>
  What a submission that succeeds has done: which way it came in, and what it has written.
\<close>

lemma sread_Inr: "sread f s = (s', Inr x) \<longleftrightarrow> s' = s \<and> f s = Inr x"
  by (auto simp: sread_def)

lemma slift_Inr: "slift r s = (s', Inr x) \<longleftrightarrow> s' = s \<and> r = Inr x"
  by (auto simp: slift_def)

lemma sbnd_slift: "sbnd (slift (Inr x)) f s = f x s"
  by (simp add: sbnd_def slift_def)

lemma sbnd_InrE:
  assumes "sbnd m f s = (s', Inr y)"
  obtains s1 x where "m s = (s1, Inr x)" and "f x s1 = (s', Inr y)"
  using assms by (cases rule: sbnd_cases) auto

lemma write_docE:
  assumes "write_doc True old put t a d s = (s', Inr u)"
  shows "old (files_at s t a) = None \<and> s' = update_attempt t a (put d) s"
  using assms by (auto simp: write_doc_def write_check_def elim!: bnd_InrE split: sum.splits if_splits)

lemma write_taskE:
  "write_task_json exclusive t d s = (s', Inr u) \<Longrightarrow> s' = update_task t (\<lambda>tf. tf\<lparr>tf_record := Some d\<rparr>) s"
  by (auto simp: write_task_json_def split: sum.splits)

lemma queued_record_admission:
  assumes "queued_record dx t am n p at = Inr d"
  shows "dget d ''attempt_id'' = PStr (am_attempt am)" and "dget d ''attempt_number'' = PInt n"
    and "dget d ''retry_of_attempt_id'' = p" and "dget d ''task_id'' = PStr t"
    and "dget d ''immutable_task_digest_sha256'' = PStr (am_digest am)"
    and "ditem (am_consent am) ''consent_id'' = Inr (dget d ''consent_id'')"
  using assms by (auto simp: queued_record_def dget_Cons elim!: res_elims)

text \<open>The five writes of an admission.\<close>

lemma admitE:
  assumes "admit dx now t am r prior s = (s', Inr d)"
  obtains registry q s1 where "count_of r < attempt_cap" and "am_ordinal am = count_of r + 1"
    and "ordinal_text (am_attempt am) = pad4 (am_ordinal am)"
    and "need_dict (am_registry am) = Inr registry"
    and "af_task (files_at s t (am_attempt am)) = None" and "af_registry (files_at s t (am_attempt am)) = None"
    and "af_record (files_at s t (am_attempt am)) = None"
    and "queued_record dx t am (am_ordinal am) (case prior of None \<Rightarrow> PNone | Some (p, _) \<Rightarrow> PStr p) (now 2) = Inr q"
    and "transition dx (now 3) t (am_attempt am) ''attempt-admitted'' ''queued'' 5 PNone []
      (update_attempt t (am_attempt am) (\<lambda>af. af\<lparr>af_record := Some q\<rparr>)
       (update_attempt t (am_attempt am) (\<lambda>af. af\<lparr>af_registry := Some registry\<rparr>)
        (update_attempt t (am_attempt am) (\<lambda>af. af\<lparr>af_task := Some (am_task am)\<rparr>) s))) = (s1, Inr d)"
    and "s' = update_task t (\<lambda>tf. tf\<lparr>tf_record := Some (admitted_task r (am_ordinal am) (am_attempt am) (now 4))\<rparr>) s1"
proof -
  let ?a = "am_attempt am"
  have guards: "count_of r < attempt_cap" "am_ordinal am = count_of r + 1"
    "ordinal_text ?a = pad4 (am_ordinal am)"
    using assms by (auto simp: admit_def Let_def slift_def split: if_splits)
  then have "sbnd (sread (\<lambda>s. same_evidence dx s t am prior)) (\<lambda>_.
       sbnd (write_input t ?a (am_task am)) (\<lambda>_.
       sbnd (slift (need_dict (am_registry am))) (\<lambda>registry.
       sbnd (write_evidence t ?a registry) (\<lambda>_.
       sbnd (slift (queued_record dx t am (am_ordinal am) (case prior of None \<Rightarrow> PNone | Some (p, _) \<Rightarrow> PStr p) (now 2))) (\<lambda>d.
       sbnd (write_record True t ?a d) (\<lambda>_.
       sbnd (transition dx (now 3) t ?a ''attempt-admitted'' ''queued'' 5 PNone []) (\<lambda>d'.
       sbnd (write_task_json False t (admitted_task r (am_ordinal am) ?a (now 4))) (\<lambda>_. slift (Inr d')))))))))
      s = (s', Inr d)"
    using assms by (simp add: admit_def Let_def)
  then show ?thesis
    by (elim sbnd_InrE, simp only: sread_Inr slift_Inr write_input_def write_evidence_def write_record_def)
      (auto dest!: write_docE write_taskE simp: dict_simps intro!: that guards)
qed

lemma admitted_record:
  assumes "admit dx now t am r prior s = (s', Inr d)"
  shows "dget d ''attempt_id'' = PStr (am_attempt am)" and "dget d ''attempt_number'' = PInt (count_of r + 1)"
    and "dget d ''retry_of_attempt_id'' = (case prior of None \<Rightarrow> PNone | Some (p, _) \<Rightarrow> PStr p)"
    and "ditem (am_consent am) ''consent_id'' = Inr (dget d ''consent_id'')"
    and "dget d ''status'' = PStr ''queued''"
proof -
  obtain registry q s1 where n: "am_ordinal am = count_of r + 1"
    and q: "queued_record dx t am (am_ordinal am) (case prior of None \<Rightarrow> PNone | Some (p, _) \<Rightarrow> PStr p) (now 2) = Inr q"
    and tr: "transition dx (now 3) t (am_attempt am) ''attempt-admitted'' ''queued'' 5 PNone []
      (update_attempt t (am_attempt am) (\<lambda>af. af\<lparr>af_record := Some q\<rparr>)
       (update_attempt t (am_attempt am) (\<lambda>af. af\<lparr>af_registry := Some registry\<rparr>)
        (update_attempt t (am_attempt am) (\<lambda>af. af\<lparr>af_task := Some (am_task am)\<rparr>) s))) = (s1, Inr d)"
    using assms by (rule admitE)
  obtain n' st err at where "d = moved_record q n' st ''queued'' 5 err [] at"
    using tr by (cases rule: transition_outcome) (auto simp: dict_simps)
  then show "dget d ''attempt_id'' = PStr (am_attempt am)" "dget d ''attempt_number'' = PInt (count_of r + 1)"
    "dget d ''retry_of_attempt_id'' = (case prior of None \<Rightarrow> PNone | Some (p, _) \<Rightarrow> PStr p)"
    "ditem (am_consent am) ''consent_id'' = Inr (dget d ''consent_id'')" "dget d ''status'' = PStr ''queued''"
    using queued_record_admission [OF q] n by (simp_all add: dget_moved moved_fields_def dget_moved_fields)
qed

text \<open>A submission that returns a record: the attempt existed, or was admitted now.\<close>

lemma submitE:
  assumes "deliver_submit dx now submitted registry explicit retry edited s = (s', Inr d)"
  obtains (existing) am tf r where "explicit" and "retry = PNone" and "admission_of dx submitted registry = Inr am"
      and "aget s (computed_task_id dx am) = Some tf" and "task_record tf = Inr r"
      and "am_attempt am \<in> set (ids_of r)" and "load_attempt tf (am_attempt am) = Inr d" and "s' = s"
    | (again) am tf r where "explicit" and "retry = PNone" and "admission_of dx submitted registry = Inr am"
      and "aget s (computed_task_id dx am) = Some tf" and "task_record tf = Inr r" and "count_of r = 0"
      and "admit dx now (computed_task_id dx am) am r None s = (s', Inr d)"
    | (first) am r s1 where "explicit" and "retry = PNone" and "admission_of dx submitted registry = Inr am"
      and "aget s (computed_task_id dx am) = None"
      and "first_new dx (computed_task_id dx am) am edited now s = (s1, Inr (Proceed r None))"
      and "admit dx now (computed_task_id dx am) am r None s1 = (s', Inr d)"
    | (retried) am r a previous where "explicit" and "retry \<noteq> PNone" and "edited = PNone"
      and "admission_of dx submitted registry = Inr am"
      and "retry_route dx s (PStr (computed_task_id dx am)) am = Inr (Proceed r (Some (a, previous)))"
      and "admit dx now (computed_task_id dx am) am r (Some (a, previous)) s = (s', Inr d)"
proof -
  have ex: "explicit" and modes: "\<not> (retry \<noteq> PNone \<and> edited \<noteq> PNone)"
    using assms by (auto simp: deliver_submit_def slift_def split: if_splits)
  obtain am where am: "admission_of dx submitted registry = Inr am"
    using assms ex modes by (auto simp: deliver_submit_def slift_Inr elim!: sbnd_InrE)
  define t where "t = (if retry = PNone \<or> retry = PStr [] then computed_task_id dx am else text_in retry)"
  have body: "sbnd (if retry \<noteq> PNone then sread (\<lambda>s. retry_route dx s (if retry = PStr [] then PStr t else retry) am)
             else (\<lambda>s. case aget s t of
               Some tf \<Rightarrow> (s, first_again dx tf am edited)
             | None \<Rightarrow> first_new dx t am edited now s)) (\<lambda>route.
       case route of Existing d \<Rightarrow> slift (Inr d) | Proceed r prior \<Rightarrow> admit dx now t am r prior) s = (s', Inr d)"
    using assms by (simp only: deliver_submit_def am sbnd_slift t_def Let_def ex modes not_True_eq_False if_False)
  show ?thesis
  proof (cases "retry = PNone")
    case False
    then obtain route where route: "retry_route dx s (if retry = PStr [] then PStr t else retry) am = Inr route"
      and rest: "(case route of Existing d \<Rightarrow> slift (Inr d) | Proceed r prior \<Rightarrow> admit dx now t am r prior) s = (s', Inr d)"
      using body by (auto simp: sread_Inr elim!: sbnd_InrE)
    then show ?thesis
    proof (rule_tac retry_routeE [OF route])
      fix tf r a previous
      assume v: "(if retry = PStr [] then PStr t else retry) = PStr (computed_task_id dx am)"
        and "route = Proceed r (Some (a, previous))"
      moreover have "t = computed_task_id dx am"
        using v False by (auto simp: t_def text_in_def split: if_splits)
      ultimately show ?thesis
        using retried [OF ex False _ am, of r a previous] route rest modes False by simp
    qed
  next
    case True
    then have t: "t = computed_task_id dx am" by (simp add: t_def)
    show ?thesis
    proof (cases "aget s t")
      case None
      then obtain s1 route where new: "first_new dx t am edited now s = (s1, Inr route)"
        and rest: "(case route of Existing d \<Rightarrow> slift (Inr d) | Proceed r prior \<Rightarrow> admit dx now t am r prior) s1 = (s', Inr d)"
        using body True by (auto elim!: sbnd_InrE)
      obtain r where "route = Proceed r None"
        using new by (auto simp: first_new_def Let_def slift_Inr elim!: sbnd_InrE split: if_splits prod.splits)
      then show ?thesis using first [OF ex True am] None new rest t by simp
    next
      case (Some tf)
      then obtain route where found: "first_again dx tf am edited = Inr route"
        and rest: "(case route of Existing d \<Rightarrow> slift (Inr d) | Proceed r prior \<Rightarrow> admit dx now t am r prior) s = (s', Inr d)"
        using body True by (auto elim!: sbnd_InrE)
      from found obtain r where r: "task_record tf = Inr r"
        and cases: "am_attempt am \<in> set (ids_of r) \<and> (\<exists>d. load_attempt tf (am_attempt am) = Inr d \<and> route = Existing d)
          \<or> count_of r = 0 \<and> route = Proceed r None"
        by (auto simp: first_again_def elim!: bnd_InrE split: if_splits)
      from cases show ?thesis
        using existing [OF ex True am] again [OF ex True am] r rest Some t by (auto simp: slift_Inr)
    qed
  qed
qed

section \<open>What the index holds\<close>

lemma observe_sound:
  assumes "observe r atts = Inr found" and "(n, name, a) \<in> set found"
  shows "\<exists>af. (name, af) \<in> set atts \<and> af_record af = Some a \<and> validate_attempt_record a = Inr a
    \<and> bound_to_task r name a \<and> n = int_of (dget a ''attempt_number'')"
  using assms
proof (induction r atts arbitrary: found rule: observe.induct)
  case (2 r x af rest)
  show ?case
  proof (cases "af_record af")
    case None
    then show ?thesis using 2 by auto
  next
    case (Some d)
    then obtain os where d: "validate_attempt_record d = Inr d" "bound_to_task r x d" "observe r rest = Inr os"
      and found: "found = (int_of (dget d ''attempt_number''), x, d) # os"
      using 2(3) by (auto elim!: bnd_InrE guard_InrE dest: validate_attempt_same)
    show ?thesis
    proof (cases "(n, name, a) \<in> set os")
      case True
      then show ?thesis using 2(2) [OF Some d(1) _ d(3)] d(2) by auto
    next
      case False
      then show ?thesis using 2(4) found d Some by auto
    qed
  qed
qed simp

lemma observe_names: "observe r atts = Inr found \<Longrightarrow>
    map (fst \<circ> snd) found = map fst (filter (\<lambda>(_, af). af_record af \<noteq> None) atts)"
  by (induction r atts arbitrary: found rule: observe.induct)
    (auto split: option.splits elim!: bnd_InrE guard_InrE)

lemma set_observe_names:
  assumes "observe r (tf_attempts tf) = Inr found" and "dict_ok (tf_attempts tf)"
  shows "name \<in> (fst \<circ> snd) ` set found \<longleftrightarrow> af_record (attempt_of tf name) \<noteq> None"
proof -
  have "name \<in> (fst \<circ> snd) ` set found \<longleftrightarrow> (\<exists>af. (name, af) \<in> set (tf_attempts tf) \<and> af_record af \<noteq> None)"
  proof -
    have "(fst \<circ> snd) ` set found = fst ` set (filter (\<lambda>(_, af). af_record af \<noteq> None) (tf_attempts tf))"
      using arg_cong [OF observe_names [OF assms(1)], of set] by (simp only: set_map)
    then show ?thesis by (simp add: image_iff Bex_def)
  qed
  also have "\<dots> \<longleftrightarrow> (\<exists>af. aget (tf_attempts tf) name = Some af \<and> af_record af \<noteq> None)"
    using dict_ok_aget [OF assms(2)] map_of_SomeD by metis
  finally show ?thesis by (auto simp: attempt_of_def empty_attempt_def split: option.splits)
qed

lemma dget_index_record:
  assumes "task_record_ok d"
  shows "dget (index_record d names) ''attempt_ids'' = PList (map PStr names)"
    and "dget (index_record d names) ''attempt_count'' = PInt (len names)"
    and "dget (index_record d names) ''current_attempt_id'' = (if names = [] then PNone else PStr (last names))"
  using assms by (auto simp: index_record_def dict_simps task_record_ok_def attempt_ids_ok_def last_map)

lemma ids_of_index: "task_record_ok d \<Longrightarrow> ids_of (index_record d names) = names"
  by (simp add: ids_of_def dget_index_record text_in_def comp_def)

lemma dget_index_other: "k \<notin> {''attempt_ids'', ''attempt_count'', ''current_attempt_id''} \<Longrightarrow>
    dget (index_record d names) k = dget d k"
  by (simp add: index_record_def dict_simps)

section \<open>Records a transition writes\<close>

lemma fields_are_aput: "fields_are fs d \<Longrightarrow> k \<in> set fs \<Longrightarrow> fields_are fs (aput k v d)"
  unfolding fields_are_def by (subst keys_aput) (auto simp: insert_absorb)

lemma moved_fields_are: "fields_are attempt_fields d \<Longrightarrow>
    fields_are attempt_fields (moved_record d n stage status progress err outputs at)"
  unfolding moved_record_def aput_all_def
  by (simp add: fields_are_aput attempt_fields_def)

lemma moved_valid:
  assumes "validate_attempt_record d = Inr d" and "text_between 1 80 (PStr stage)" and "status \<in> set attempt_statuses"
    and "0 \<le> progress \<and> progress \<le> 100" and "err = PNone \<or> is_pdict err" and "utc_shape at" and "0 \<le> n"
  shows "validate_attempt_record (moved_record d n stage status progress err outputs at)
    = Inr (moved_record d n stage status progress err outputs at)"
proof -
  let ?d = "moved_record d n stage status progress err outputs at"
  have "dget ?d ''outputs'' = PDict (aput_all outputs (case dget d ''outputs'' of PDict x \<Rightarrow> x | _ \<Rightarrow> []))"
    by (simp add: moved_record_def aput_all_def dict_simps)
  then have outs: "is_pdict (dget ?d ''outputs'')" by simp
  show ?thesis
    using assms outs
    by (simp add: validate_attempt_record_def res_simps dget_moved dget_moved_fields moved_fields_def
        moved_fields_are member_of_def)
qed

end
