(* ===== verification/DelivDelivered.thy ===== *)
theory DelivDelivered
  imports DelivAdmitFacts
begin

text \<open>
  What a run has checked when it returns: every record it returns has ended, and a record that is
  \<open>private-appstore-ready\<close> has passed the four phases. \<open>manifest_bound\<close> takes the check of a manifest
  apart into what it says of the app.
\<close>

section \<open>Records a run returns\<close>

lemma transition_status:
  "transition dx at t a stage status n err outputs s = (s', Inr d) \<Longrightarrow>
    dget d ''status'' = PStr status \<and> af_record (files_at s' t a) = Some d"
  by (cases rule: transition_outcome) (auto simp: dget_moved_fields dict_simps)

lemma failure_status:
  "record_failure dx at t a stage e outputs s = (s', Inr d) \<Longrightarrow>
    dget d ''status'' = PStr ''failed'' \<and> af_record (files_at s' t a) = Some d"
  unfolding record_failure_def by (rule transition_status)

lemma agent_failed_status:
  "agent_failed dx rn t a e s = (s', Inr d) \<Longrightarrow>
    dget d ''status'' = PStr ''failed'' \<and> af_record (files_at s' t a) = Some d"
  by (auto simp: agent_failed_def slift_Inr elim!: sbnd_InrE split: if_splits dest!: failure_status)

lemma check_cancellation_Inr: "check_cancellation rn i s = (s', Inr u) \<longleftrightarrow> s' = s \<and> \<not> rn_cancelled rn i"
  by (auto simp: check_cancellation_def slift_def)

lemma agent_ended_status:
  assumes "agent_phase dx rn t a resume task s = (s', Inr (Ended d))"
  shows "dget d ''status'' = PStr ''failed'' \<and> af_record (files_at s' t a) = Some d"
proof -
  from assms obtain s1 r where st: "agent_status dx rn t a resume s = (s1, Inr r)"
    and rest: "(case r of
        Ended d \<Rightarrow> slift (Inr (Ended d))
      | Going st \<Rightarrow>
          sbnd (check_cancellation rn 1) (\<lambda>_.
          sbnd (slift (refuse (agent_bad dx rn st task) (agent_error ''codeagent-status-invalid''
            ''CodeAgent terminal status is not bound to the configured provider/model''))) (\<lambda>_.
          sbnd (slift (agent_handoff rn st)) (\<lambda>(path, sha).
          sbnd (moving dx rn t a 2 ''source-ready'' ''running'' 45 (handoff_outputs st path sha)) (\<lambda>_.
          slift (Inr (Going ()))))))) s1 = (s', Inr (Ended d))"
    unfolding agent_phase_def by (auto simp: check_cancellation_Inr simp del: One_nat_def elim!: sbnd_InrE)
  have "r = Ended d \<and> s1 = s'"
    using rest by (cases r) (auto simp: slift_Inr elim!: sbnd_InrE split: prod.splits)
  then show ?thesis
    using st by (auto simp: agent_status_def slift_Inr dest!: failure_status elim!: sbnd_InrE
        split: option.splits if_splits)
qed

lemma phaseE:
  assumes "phase dx rn t a i stage m k s = (s', Inr d)"
  obtains (failed) "dget d ''status'' = PStr ''failed''" and "af_record (files_at s' t a) = Some d"
    | (passed) s1 x where "m s = (s1, Inr x)" and "k x s1 = (s', Inr d)"
proof (cases "m s")
  case (Pair s1 r)
  then show ?thesis
    using assms passed failed failure_status by (cases r) (auto simp: phase_def)
qed

lemma active_runE:
  assumes "active_run dx rn t a task s = (s', Inr d)"
  obtains (failed) "dget d ''status'' = PStr ''failed''" and "af_record (files_at s' t a) = Some d"
    | (delivered) handoff s1 s2 s3 receipt quarantine candidate manifest where
        "handoff_phase dx rn task = Inr handoff"
        and "builder_phase dx rn t a task handoff s1 = (s2, Inr (receipt, quarantine))"
        and "verifier_phase dx rn t a task handoff receipt quarantine s2 = (s3, Inr (candidate, manifest))"
        and "appstore_phase dx rn t a task handoff receipt candidate manifest s3 = (s', Inr d)"
proof (cases "agent_phase dx rn t a (rn_resume rn \<noteq> None) task s")
  case (Pair s0 r)
  show ?thesis
  proof (cases r)
    case (Inl e)
    then show ?thesis using assms Pair failed agent_failed_status by (auto simp: active_run_def)
  next
    case (Inr x)
    show ?thesis
    proof (cases x)
      case (Ended d')
      then show ?thesis using assms Pair Inr failed agent_ended_status by (auto simp: active_run_def)
    next
      case (Going u)
      then have "delivery_phases dx rn t a task s0 = (s', Inr d)"
        using assms Pair Inr by (simp add: active_run_def)
      then show ?thesis
        unfolding delivery_phases_def
        by (elim phaseE) (auto simp: slift_Inr intro: failed delivered elim!: phaseE)
    qed
  qed
qed

section \<open>What the manifest check says\<close>

lemma manifest_boundE:
  assumes "validate_manifest_binding dx context manifest task handoff receipt = Inr u"
  obtains package target app rows entries expected projected where
    "dget task ''package_intent'' = PDict package" and "dget task ''target'' = PDict target"
    and "dget manifest ''app'' = PDict app" and "dget manifest ''capabilities'' = PList rows"
    and "dget manifest ''entrypoints'' = PList entries"
    and "package_entrypoint_binding (dget package ''entrypoints'') ''task.package_intent.entrypoints'' = Inr expected"
    and "manifest_entrypoint_binding (PList entries) (context @ ''.entrypoints'') = Inr projected"
    and "same dx (PList projected) (PList expected)"
    and "\<not> app_differs dx app package target" and "same dx (dget app ''publisher'') local_publisher"
    and "capabilities_bad dx rows target = Inr False" and "\<not> source_differs manifest handoff"
proof -
  obtain package target where pt: "dget task ''package_intent'' = PDict package" "dget task ''target'' = PDict target"
    using assms by (auto simp: validate_manifest_binding_def split: pyval.splits)
  then obtain expected where ex: "package_entrypoint_binding (dget package ''entrypoints'') ''task.package_intent.entrypoints'' = Inr expected"
    and body: "manifest_body dx context manifest package target expected handoff = Inr u"
    using assms by (auto simp: validate_manifest_binding_def elim!: bnd_InrE split: if_splits)
  obtain app runtime rows entries where parts: "dget manifest ''app'' = PDict app" "dget manifest ''runtime'' = PDict runtime"
    "dget manifest ''capabilities'' = PList rows" "dget manifest ''entrypoints'' = PList entries"
    using body by (auto simp: manifest_body_def split: pyval.splits)
  show ?thesis
    using body parts unfolding manifest_body_def manifest_ends_def
    by (auto elim!: bnd_InrE guard_InrE split: if_splits intro: that [OF pt parts(1,3,4) ex])
qed

lemma load_boundE:
  assumes "load_bound_manifest dx context file expected task handoff receipt = Inr manifest"
  obtains digest where "file = Inr (digest, manifest)" and "expected = PStr digest"
    and "validate_manifest_binding dx context manifest task handoff receipt = Inr ()"
  using assms by (auto simp: load_bound_manifest_def elim!: bnd_InrE split: if_splits)

lemma same_manifest_bytes: "same_manifest m x y = Inr u \<Longrightarrow> json_enc (PDict x) = json_enc (PDict y)"
  by (auto simp: same_manifest_def simp del: json_enc.simps elim!: bnd_InrE split: if_splits
      dest: bytes_differ_False)

text \<open>The phases, when they pass.\<close>

lemma builder_phaseE:
  assumes "builder_phase dx rn t a task handoff s = (s', Inr (receipt, manifest))"
  shows "\<exists>expected. validate_receipt_binding dx (snd receipt) task handoff = Inr expected"
  using assms by (auto simp: builder_phase_def check_cancellation_Inr slift_Inr elim!: sbnd_InrE split: prod.splits)

lemma verifier_phaseE:
  assumes "verifier_phase dx rn t a task handoff receipt quarantine s = (s', Inr (candidate, manifest))"
  shows "consume_candidate dx (snd candidate) (snd receipt) (fst receipt) = Inr (snd candidate)
    \<and> json_enc (PDict manifest) = json_enc (PDict quarantine)"
  using assms
  by (auto simp: verifier_phase_def check_cancellation_Inr slift_Inr consume_candidate_def simp del: json_enc.simps
      elim!: sbnd_InrE bnd_InrE split: prod.splits dest: same_manifest_bytes)

lemma appstore_phaseE:
  assumes "appstore_phase dx rn t a task handoff receipt candidate manifest s = (s', Inr d)"
  obtains readiness appstore created digests receipt_sha candidate_sha stored_manifest where
    "check_runtime_readiness rn manifest (fst candidate) = Inr readiness"
    and "rn_ingest rn = Inr (appstore, created)" and "dsub appstore ''digests'' = Inr digests"
    and "rn_receipt_now rn = Inr receipt_sha" and "rn_candidate_after rn = Inr candidate_sha"
    and "load_bound_manifest dx ''private AppStore manifest'' (rn_appstore_manifest rn)
      (dget digests ''manifest_sha256'') task handoff (snd receipt) = Inr stored_manifest"
    and "json_enc (PDict stored_manifest) = json_enc (PDict manifest)"
    and "validate_appstore_record dx appstore (snd receipt) receipt_sha (snd candidate) candidate_sha
      stored_manifest = Inr ()"
    and "dget d ''status'' = PStr ''private-appstore-ready''" and "af_record (files_at s' t a) = Some d"
proof -
  from assms obtain readiness s1 appstore created receipt_sha candidate_sha digests stored_manifest outputs s2 where
    "check_runtime_readiness rn manifest (fst candidate) = Inr readiness"
    "rn_ingest rn = Inr (appstore, created)" "dsub appstore ''digests'' = Inr digests"
    "rn_receipt_now rn = Inr receipt_sha" "rn_candidate_after rn = Inr candidate_sha"
    "load_bound_manifest dx ''private AppStore manifest'' (rn_appstore_manifest rn)
      (dget digests ''manifest_sha256'') task handoff (snd receipt) = Inr stored_manifest"
    "json_enc (PDict stored_manifest) = json_enc (PDict manifest)"
    "validate_appstore_record dx appstore (snd receipt) receipt_sha (snd candidate) candidate_sha
      stored_manifest = Inr ()"
    "moving dx rn t a 12 ''private-appstore-ready'' ''private-appstore-ready'' 100 outputs s2 = (s', Inr d)"
    by (auto simp: appstore_phase_def check_cancellation_Inr slift_Inr simp del: json_enc.simps
        elim!: sbnd_InrE bnd_InrE        split: prod.splits dest!: same_manifest_bytes)
  then show ?thesis using that transition_status unfolding moving_def by blast
qed

end
