(* ===== verification/DelivDemo.thy ===== *)
theory DelivDemo
  imports DelivDelivered
begin

text \<open>
  A concrete delivery, on which the properties of theory DelivTheorems are witnessed: a task whose
  first attempt failed on a provider timeout, its retry, and the documents of a successful run.
  The digest function is constant, so every digest is \<open>zero_sha\<close>.
\<close>

definition zero_sha :: string where "zero_sha = replicate 64 (CHR ''0'')"

definition demo_dx :: dx where
  "demo_dx = \<lparr>dx_sha = (\<lambda>_. zero_sha), dx_float = (\<lambda>_. None), dx_float_le = (\<lambda>_ _. False),
    dx_validate = (\<lambda>v. case v of PDict d \<Rightarrow> Inr d | _ \<Rightarrow> fail ''task-invalid'' ''task''),
    dx_schema = (\<lambda>_. Inr ()), dx_task_digest = (\<lambda>_. Inr zero_sha), dx_instructions = (\<lambda>_ _. Inr zero_sha),
    dx_contract = zero_sha, dx_policy = ''p1'', dx_classes = []\<rparr>"

definition demo_now :: "nat \<Rightarrow> string" where "demo_now i = ''2026-08-24T00:00:00Z''"

definition demo_time :: pyval where "demo_time = PStr ''2026-08-24T00:00:00Z''"

definition demo_id :: "nat \<Rightarrow> string" where
  "demo_id n = ''attempt-000'' @ dec_nat n @ ''-'' @ replicate 16 (CHR ''a'')"

definition demo_consent :: "nat \<Rightarrow> string" where "demo_consent n = ''consent-'' @ dec_nat n"

definition demo_need_doc :: pyval where
  "demo_need_doc = PDict [(''need_id'', PStr ''need-1''), (''owner'', PStr ''user-1''), (''revision'', PInt 1)]"

definition demo_entry :: pyval where
  "demo_entry = PDict [(''id'', PStr ''main''), (''kind'', PStr ''launcher-ui''), (''label'', PStr ''Main''),
    (''initial_route'', PStr ''home'')]"

definition demo_package :: "pyval dict" where
  "demo_package =
    [(''app_id'', PStr ''demo.app''), (''version'', PStr ''0.1.0''), (''display_name'', PStr ''Demo''),
     (''description'', PStr ''A demo''), (''entrypoints'', PList [demo_entry])]"

definition demo_target :: "pyval dict" where
  "demo_target =
    [(''app_kind'', PStr ''ui''), (''contract'', PStr ''c''), (''wasi'', PStr ''p2''), (''wit_world'', PStr ''w''),
     (''required_imports'', PList []), (''required_capabilities'', PList []), (''profiles'', PList [PStr ''desktop''])]"

definition demo_attempt :: "nat \<Rightarrow> pyval dict" where
  "demo_attempt n = [(''attempt_id'', PStr (demo_id n)), (''ordinal'', PInt (int n))]"

definition demo_identity :: "pyval dict" where
  "demo_identity = [(''identity_sha256'', PStr zero_sha), (''runtime'', PDict [(''executable_sha256'', PStr zero_sha)])]"

definition demo_consent_json :: "nat \<Rightarrow> pyval dict" where
  "demo_consent_json n =
    [(''consent_id'', PStr (demo_consent n)), (''attempt_id'', PStr (demo_id n)),
     (''provider_execution_identity_sha256'', PStr zero_sha), (''payload_digest_sha256'', PStr zero_sha),
     (''contract_digest_sha256'', PStr zero_sha), (''instructions_digest_sha256'', PStr zero_sha),
     (''policy_version'', PStr ''p1''), (''uploaded_data_classes'', PList []), (''decision'', PStr ''granted''),
     (''single_use'', PBool True), (''job_id'', PStr ''job-1''), (''provider'', PStr ''openai-codex''),
     (''model'', PStr ''m1''), (''subject'', PStr ''user-1'')]"

definition demo_task :: "nat \<Rightarrow> pyval dict" where
  "demo_task n =
    [(''job_id'', PStr ''job-1''), (''need_spec'', demo_need_doc), (''need_spec_current_revision'', PInt 1),
     (''need_spec_complete'', PBool True), (''need_spec_digest_sha256'', PStr zero_sha),
     (''immutable_task_digest_sha256'', PStr zero_sha), (''remote_processing_consent'', PBool True),
     (''provider'', PStr ''openai-codex''), (''model'', PStr ''m1''), (''execution_attempt'', PDict (demo_attempt n)),
     (''provider_execution_identity'', PDict demo_identity), (''consent'', PDict (demo_consent_json n)),
     (''package_intent'', PDict demo_package), (''target'', PDict demo_target)]"

definition demo_registry :: "pyval dict" where
  "demo_registry =
    [(''schema_version'', PStr ''vibapp.registry-route.experimental.2026-08-24.1''),
     (''status'', PStr ''experimental-product-hold''), (''route'', PStr ''refinement''),
     (''request_id'', PStr (''registry.'' @ replicate 24 (CHR ''0''))), (''need_id'', PStr ''need-1''),
     (''recommendations'', PList []),
     (''refinement'', PDict [(''reason_code'', PStr ''no-match''), (''message'', PStr ''No app fits'')]),
     (''retrieval'', PDict []), (''rejected'', PList []),
     (''codeagent_handoff'', PDict [(''created'', PBool False), (''permitted'', PBool False), (''reason'', PStr ''none'')])]"

definition demo_am :: "nat \<Rightarrow> admission" where
  "demo_am n = \<lparr>am_task = demo_task n, am_registry = PDict demo_registry, am_need = ''need-1'', am_digest = zero_sha,
    am_attempt = demo_id n, am_ordinal = int n, am_identity = zero_sha, am_consent = demo_consent_json n\<rparr>"

definition demo_task_id :: string where
  "demo_task_id = ''development-'' @ replicate 32 (CHR ''0'')"

definition demo_record :: "nat \<Rightarrow> pyval \<Rightarrow> string \<Rightarrow> pyval \<Rightarrow> pyval dict" where
  "demo_record n retry_of status error =
    [(''schema_version'', PStr attempt_version), (''document_type'', PStr ''delivery-attempt''),
     (''task_id'', PStr demo_task_id), (''attempt_id'', PStr (demo_id n)), (''attempt_number'', PInt (int n)),
     (''retry_of_attempt_id'', retry_of), (''need_id'', PStr ''need-1''), (''title'', PStr ''Demo''),
     (''need_spec_revision'', PInt 1), (''job_id'', PStr ''job-1''), (''consent_id'', PStr (demo_consent n)),
     (''provider_execution_identity_sha256'', PStr zero_sha),
     (''registry_request_id'', PStr (''registry.'' @ replicate 24 (CHR ''0''))),
     (''registry_evidence_sha256'', PStr zero_sha), (''canonical_task_sha256'', PStr zero_sha),
     (''immutable_task_digest_sha256'', PStr zero_sha), (''status'', PStr status), (''stage'', PStr ''s''),
     (''progress_percent'', PInt 0), (''error'', error), (''outputs'', PDict []), (''event_count'', PInt 0),
     (''created_at_utc'', demo_time), (''updated_at_utc'', demo_time)]"

definition demo_failure :: pyval where
  "demo_failure = failure_json ''codeagent'' (Fail ''provider-timeout'' ''timed out'' True)"

definition demo_task_record :: "string list \<Rightarrow> pyval dict" where
  "demo_task_record names =
    [(''schema_version'', PStr task_version), (''document_type'', PStr ''delivery-task''), (''task_id'', PStr demo_task_id),
     (''need_id'', PStr ''need-1''), (''need_spec_revision'', PInt 1), (''job_id'', PStr ''job-1''),
     (''immutable_task_digest_sha256'', PStr zero_sha), (''provider_execution_identity_sha256'', PStr zero_sha),
     (''supersedes_task_id'', PNone), (''attempt_count'', PInt (len names)),
     (''current_attempt_id'', if names = [] then PNone else PStr (last names)),
     (''attempt_ids'', PList (map PStr names)), (''created_at_utc'', demo_time), (''updated_at_utc'', demo_time)]"

definition demo_files :: "nat \<Rightarrow> pyval dict option \<Rightarrow> attempt_files" where
  "demo_files n r = \<lparr>af_record = r, af_task = Some (demo_task n), af_registry = Some demo_registry, af_events = []\<rparr>"

definition demo_failed :: task_files where
  "demo_failed = \<lparr>tf_record = Some (demo_task_record [demo_id 1]),
    tf_attempts = [(demo_id 1, demo_files 1 (Some (demo_record 1 PNone ''failed'' demo_failure)))]\<rparr>"

definition demo_interrupted :: task_files where
  "demo_interrupted = \<lparr>tf_record = Some (demo_task_record []), tf_attempts = [(demo_id 1, demo_files 1 None)]\<rparr>"

definition demo_queued :: task_files where
  "demo_queued = \<lparr>tf_record = Some (demo_task_record [demo_id 1]),
    tf_attempts = [(demo_id 1, demo_files 1 (Some (demo_record 1 PNone ''queued'' PNone)))]\<rparr>"

section \<open>Evaluation\<close>

lemma demo_need_bytes: "strict_bytes demo_need_doc = Inr (json_enc demo_need_doc)"
proof -
  have "doc_ok 1000 demo_need_doc" by code_simp
  then show ?thesis using doc_ok_bytes by blast
qed

lemma demo_no_match: "validate_registry_no_match demo_dx (PDict demo_registry) demo_need_doc = Inr ()"
proof -
  have "no_match_ok (''registry.'' @ take 24 zero_sha) demo_registry
      [(''need_id'', PStr ''need-1''), (''owner'', PStr ''user-1''), (''revision'', PInt 1)]"
    by code_simp
  then show ?thesis
    using demo_need_bytes by (simp add: validate_registry_no_match_def demo_need_doc_def demo_dx_def)
qed

lemma demo_admission:
  assumes "admission_parts (demo_task n) (PDict demo_registry) ''need-1'' zero_sha = Inr (demo_am n)"
  shows "admission_of demo_dx (PDict (demo_task n)) (PDict demo_registry) = Inr (demo_am n)"
proof -
  have "dx_validate demo_dx (PDict (demo_task n)) = Inr (demo_task n)" by (simp add: demo_dx_def)
  moreover have "ditem (demo_task n) ''need_spec'' = Inr demo_need_doc"
    "ditem (demo_task n) ''immutable_task_digest_sha256'' = Inr (PStr zero_sha)"
    by (simp_all add: ditem_def demo_task_def)
  moreover have "bnd (need_dict demo_need_doc) (\<lambda>n. ditem n ''need_id'') = Inr (PStr ''need-1'')"
    by (simp add: demo_need_doc_def need_dict_def ditem_def)
  moreover have "hex64 zero_sha" "identifier_shape ''need-1''" by code_simp+
  ultimately show ?thesis using demo_no_match assms by (simp add: admission_of_def checked_text_def text_in_def)
qed

lemma demo_admissions:
  "admission_of demo_dx (PDict (demo_task 1)) (PDict demo_registry) = Inr (demo_am 1)"
  "admission_of demo_dx (PDict (demo_task 2)) (PDict demo_registry) = Inr (demo_am 2)"
  by (rule demo_admission; code_simp)+

lemma sha_facts: "length zero_sha = 64" "Ball (set zero_sha) ascii_c"
  by (simp_all add: zero_sha_def ascii_c_code list_all_iff)

lemma dec_facts: "dec_nat (Suc 0) = ''1''" "dec_nat 2 = ''2''" "dec 0 = ''0''" "dec 1 = ''1''" "dec 2 = ''2''" "dec 5 = ''5''"
  by code_simp+

lemmas demo_doc = doc_ok_def demo_task_def demo_attempt_def demo_identity_def demo_consent_json_def demo_package_def
  demo_target_def demo_need_doc_def demo_entry_def demo_id_def demo_consent_def demo_registry_def demo_record_def
  demo_task_record_def demo_time_def demo_task_id_def task_version_def attempt_version_def sha_facts dec_facts
  ascii_c_code list_all_iff

lemma demo_docs: "doc_ok 20000 (PDict (demo_task 1))" "doc_ok 20000 (PDict (demo_task 2))"
  "doc_ok 20000 (PDict demo_registry)"
  by (simp_all add: demo_doc)

lemma demo_replay: "validate_replay_task demo_dx (demo_task 1) = Inr ()"
proof -
  have "\<forall>c\<in>set (consent_bad demo_dx (demo_task 1) (demo_consent_json 1)
      [(''need_id'', PStr ''need-1''), (''owner'', PStr ''user-1''), (''revision'', PInt 1)] (demo_attempt 1) demo_identity
      zero_sha zero_sha zero_sha). c = Inr False"
    by code_simp
  moreover have "dget (demo_task 1) ''consent'' = PDict (demo_consent_json 1)"
    "dget (demo_task 1) ''execution_attempt'' = PDict (demo_attempt 1)"
    "dget (demo_task 1) ''provider_execution_identity'' = PDict demo_identity"
    "dget (demo_task 1) ''need_spec''
      = PDict [(''need_id'', PStr ''need-1''), (''owner'', PStr ''user-1''), (''revision'', PInt 1)]"
    by (simp_all add: demo_task_def dget_Cons demo_need_doc_def)
  ultimately show ?thesis
    using demo_need_bytes
    by (simp add: validate_replay_task_def refuse_Inr rewrap_def demo_need_doc_def demo_dx_def)
qed

lemma refuse_ok: "\<forall>c\<in>set cs. c = Inr False \<Longrightarrow> refuse cs e = Inr ()"
  by (simp add: refuse_Inr)

text \<open>The inputs of the first attempt match every record that differs from the admitted one in status only.\<close>

lemma demo_inputs:
  assumes "\<forall>c\<in>set (inputs_bad demo_dx d (demo_task 1) demo_registry zero_sha zero_sha). c = Inr False"
  shows "validate_attempt_inputs demo_dx (Some (demo_task 1)) (Some demo_registry) d None None = Inr (demo_task 1, demo_registry)"
proof -
  have "ditem (demo_task 1) ''need_spec'' = Inr demo_need_doc" by (simp add: ditem_def demo_task_def)
  moreover have "dx_sha demo_dx b = zero_sha" for b by (simp add: demo_dx_def)
  ultimately show ?thesis
    using demo_replay demo_no_match doc_ok_bytes [OF demo_docs(1)] doc_ok_bytes [OF demo_docs(3)] refuse_ok [OF assms]
    by (simp add: validate_attempt_inputs_def file_of_def expected_bytes_def del: json_enc.simps One_nat_def)
qed

lemma demo_record_inputs:
  "\<forall>c\<in>set (inputs_bad demo_dx (demo_record 1 PNone ''failed'' demo_failure) (demo_task 1) demo_registry zero_sha zero_sha). c = Inr False"
  "\<forall>c\<in>set (inputs_bad demo_dx (demo_record 1 PNone ''queued'' PNone) (demo_task 1) demo_registry zero_sha zero_sha). c = Inr False"
  by code_simp+

lemma demo_records_valid:
  "validate_attempt_record (demo_record 1 PNone ''failed'' demo_failure) = Inr (demo_record 1 PNone ''failed'' demo_failure)"
  "validate_attempt_record (demo_record 1 PNone ''queued'' PNone) = Inr (demo_record 1 PNone ''queued'' PNone)"
  "validate_attempt_record (demo_record 2 (PStr (demo_id 1)) ''queued'' PNone) = Inr (demo_record 2 (PStr (demo_id 1)) ''queued'' PNone)"
  by code_simp+

lemma demo_index:
  "task_record demo_failed = Inr (demo_task_record [demo_id 1])"
  "task_record demo_queued = Inr (demo_task_record [demo_id 1])"
  by code_simp+

section \<open>Sizes\<close>

text \<open>Bounds of the documents an operation writes, from those of the documents it reads.\<close>

lemma has_nan_aput: "has_nan (PDict (aput k v d)) \<Longrightarrow> has_nan v \<or> has_nan (PDict d)"
  by (induction d) (auto split: if_splits)

lemma ascii_aput: "ascii_json (PDict d) \<Longrightarrow> list_all ascii_c k \<Longrightarrow> ascii_json v \<Longrightarrow> ascii_json (PDict (aput k v d))"
  by (induction d) auto

lemma cap_aput: "json_cap (PDict (aput k v d)) \<le> json_cap (PDict d) + (6 * length k + json_cap v + 4)"
  by (induction d) auto

lemma doc_ok_aput:
  "doc_ok n (PDict d) \<Longrightarrow> doc_ok m (PDict [(k, v)]) \<Longrightarrow> doc_ok (n + m) (PDict (aput k v d))"
  using cap_aput [of k v d] has_nan_aput [of k v d] ascii_aput [of d k v] by (auto simp: doc_ok_def)

lemma doc_ok_aput_all: "doc_ok n (PDict d) \<Longrightarrow> doc_ok m (PDict kvs) \<Longrightarrow> doc_ok (n + m) (PDict (aput_all kvs d))"
proof (induction kvs arbitrary: n m d)
  case Nil
  then show ?case by (simp add: aput_all_def doc_ok_def)
next
  case (Cons p kvs)
  obtain k v where p: "p = (k, v)" by force
  let ?i = "6 * length k + json_cap v + 6"
  have one: "doc_ok ?i (PDict [(k, v)])" and rest: "doc_ok (m - ?i + 2) (PDict kvs)" and m: "?i \<le> m"
    using Cons.prems(2) p by (auto simp: doc_ok_def)
  have "doc_ok (n + ?i - 2) (PDict (aput k v d))"
    using Cons.prems(1) one cap_aput [of k v d] has_nan_aput [of k v d] ascii_aput [of d k v] by (auto simp: doc_ok_def)
  then have "doc_ok (n + ?i - 2 + (m - ?i + 2)) (PDict (aput_all kvs (aput k v d)))"
    by (rule Cons.IH) (rule rest)
  moreover have "n + ?i - 2 + (m - ?i + 2) = n + m" using m by linarith
  ultimately have "doc_ok (n + m) (PDict (aput_all kvs (aput k v d)))" by (rule back_subst [of "\<lambda>x. doc_ok x _"])
  then show ?case using p by (simp add: aput_all_def)
qed

lemma doc_ok_dget: "doc_ok n (PDict d) \<Longrightarrow> doc_ok (n + 4) (dget d k)"
proof (cases "aget d k")
  case None
  then show "doc_ok n (PDict d) \<Longrightarrow> doc_ok (n + 4) (dget d k)" by (simp add: dget_def doc_ok_def)
next
  case (Some v)
  then have "(k, v) \<in> set d" by (rule map_of_SomeD)
  then have "json_cap v \<le> sum_list (map (\<lambda>(k, v). 6 * length k + json_cap v + 4) d)"
    by (induction d) (force intro: trans_le_add1 trans_le_add2)+
  then show "doc_ok n (PDict d) \<Longrightarrow> doc_ok (n + 4) (dget d k)"
    using \<open>(k, v) \<in> set d\<close> Some by (auto simp: dget_def doc_ok_def list_all_iff list_ex_iff)
qed

lemma doc_ok_moved:
  assumes "doc_ok n (PDict d)" and "doc_ok m (PDict outputs)" and "doc_ok 400 (PStr stage)" and "doc_ok 400 (PStr status)"
    and "doc_ok k err" and "doc_ok 400 (PStr at)" and "doc_ok 400 (PInt progress)" and "doc_ok 400 (PInt i)"
  shows "doc_ok (2 * n + m + k + 3000) (PDict (moved_record d i stage status progress err outputs at))"
proof -
  let ?o = "case dget d ''outputs'' of PDict x \<Rightarrow> x | _ \<Rightarrow> []"
  have "doc_ok (n + 4) (PDict ?o)"
    using doc_ok_dget [OF assms(1), of "''outputs''"] by (auto simp: doc_ok_def split: pyval.split)
  then have "doc_ok (n + 4 + m) (PDict (aput_all outputs ?o))"
    by (rule doc_ok_aput_all) (rule assms)
  then have "doc_ok (n + m + k + 3000) (PDict
      [(''stage'', PStr stage), (''status'', PStr status), (''progress_percent'', PInt progress), (''error'', err),
       (''outputs'', PDict (aput_all outputs ?o)), (''event_count'', PInt i), (''updated_at_utc'', PStr at)])"
    using assms by (simp add: doc_ok_def ascii_c_code)
  from doc_ok_aput_all [OF assms(1) this] show ?thesis
    by (simp add: moved_record_def add_ac)
qed

lemma doc_ok_event:
  assumes "doc_ok 400 (PStr stage)" and "doc_ok 400 (PStr status)"
    and "doc_ok 10000 err" and "doc_ok 400 (PStr at)" and "doc_ok 400 (PInt progress)" and "doc_ok 400 (PInt i)"
  shows "doc_ok 16000 (delivery_event i stage status progress err at)"
  using assms by (simp add: delivery_event_def doc_ok_def ascii_c_code event_version_def)

section \<open>Runs of operations\<close>

lemma write_check_ok: "doc_ok 500000 (PDict d) \<Longrightarrow> \<not> exclusive \<or> old = None \<Longrightarrow> write_check exclusive old d = Inr ()"
  using doc_ok_bytes [of 500000 "PDict d"] by (auto simp: write_check_def max_document_bytes_def simp del: json_enc.simps)

lemma doc_ok_mono: "doc_ok n v \<Longrightarrow> n \<le> m \<Longrightarrow> doc_ok m v"
  by (simp add: doc_ok_def)

lemma transition_ok:
  assumes "files_at s t a = af" and "af_record af = Some d" and "validate_attempt_record d = Inr d"
    and "sequences_ok dx (af_events af)" and "log_bytes (af_events af) \<le> 500000"
    and "ev = next_event af stage status progress err at" and "doc_ok 16000 ev"
    and "d' = moved_record d (len (af_events af) + 1) stage status progress err outputs at" and "doc_ok 500000 (PDict d')"
  shows "transition dx at t a stage status progress err outputs s =
    (update_attempt t a (\<lambda>af. af\<lparr>af_record := Some d'\<rparr>) (update_attempt t a (with_event ev) s), Inr d')"
proof -
  have "strict_bytes ev = Inr (json_enc ev)" "line_bytes ev \<le> 16001" "len (json_enc ev) + 1 \<le> 16001"
    using doc_ok_bytes [OF assms(7)] by (auto simp: line_bytes_def)
  then show ?thesis
    using assms write_check_ok [OF assms(9), of False "Some d"]
    by (simp add: transition_def sbnd_def sread_def slift_def file_of_def durable_count_def Let_def
        max_event_log_bytes_def max_event_bytes_def write_record_def write_doc_def dict_simps del: json_enc.simps)
qed

definition demo_store :: "task_files \<Rightarrow> store" where
  "demo_store tf = [(demo_task_id, tf)]"

lemma demo_task_ids: "computed_task_id demo_dx (demo_am n) = demo_task_id"
  by (simp add: computed_task_id_def demo_dx_def zero_sha_def demo_task_id_def)

lemma demo_dir: "task_dir (demo_store tf) (PStr demo_task_id) = Inr (demo_task_id, tf)"
proof -
  have "task_id_shape demo_task_id" by code_simp
  then show ?thesis by (simp add: task_dir_def demo_store_def)
qed

lemma demo_load: "load_attempt demo_failed (demo_id 1) = Inr (demo_record 1 PNone ''failed'' demo_failure)"
  using demo_records_valid(1) by (simp add: load_attempt_def attempt_of_def demo_failed_def demo_files_def file_of_def)

lemma demo_current: "dget (demo_task_record [demo_id 1]) ''current_attempt_id'' = PStr (demo_id 1)"
  by (simp add: demo_task_record_def dget_Cons)

lemma demo_am_parts: "am_task (demo_am n) = demo_task n" "am_registry (demo_am n) = PDict demo_registry"
  "am_attempt (demo_am n) = demo_id n" "am_ordinal (demo_am n) = int n" "am_consent (demo_am n) = demo_consent_json n"
  by (simp_all add: demo_am_def)

lemma demo_retry_route:
  "retry_route demo_dx (demo_store demo_failed) (PStr demo_task_id) (demo_am 2)
    = Inr (Proceed (demo_task_record [demo_id 1]) (Some (demo_id 1, demo_record 1 PNone ''failed'' demo_failure)))"
proof -
  let ?r = "demo_task_record [demo_id 1]"
  have r: "refuse (record_differs demo_dx ?r (demo_am 2)) e = Inr ()" for e
    by (rule refuse_ok) code_simp
  have allowed: "retry_allowed (demo_record 1 PNone ''failed'' demo_failure) = Inr ()" by code_simp
  have "refuse (retry_bad demo_dx (demo_am 2) (demo_task 1)) e = Inr ()" for e
  proof (rule refuse_ok)
    show "\<forall>c\<in>set (retry_bad demo_dx (demo_am 2) (demo_task 1)). c = Inr False"
      using demo_need_bytes
      by (simp add: retry_bad_def demo_am_def demo_task_def ditem_def ditems_def need_dict_def demo_identity_def Let_def)
  qed
  moreover have "am_ordinal (demo_am 2) = count_of ?r + 1" "demo_id 2 \<notin> set (ids_of ?r)" by code_simp+
  moreover have "consent_used demo_dx demo_failed (am_consent (demo_am 2)) (ids_of ?r) = Inr False"
  proof -
    have "ids_of ?r = [demo_id 1]" by code_simp
    moreover have "\<not> same demo_dx (dget (demo_record 1 PNone ''failed'' demo_failure) ''consent_id'')
        (dget (am_consent (demo_am 2)) ''consent_id'')" by code_simp
    ultimately show ?thesis using demo_load by (simp add: consent_used_def)
  qed
  moreover have "af_task (attempt_of demo_failed (demo_id 1)) = Some (demo_task 1)"
    by (simp add: attempt_of_def demo_failed_def demo_files_def)
  ultimately show ?thesis
    using r allowed demo_dir [of demo_failed] demo_index(1) demo_load demo_current
    by (simp add: retry_route_def demo_task_ids file_of_def refuse_def demo_am_parts del: One_nat_def)
qed


lemma admit_ok:
  assumes "count_of r < attempt_cap" and "am_ordinal am = count_of r + 1" and "ordinal_text (am_attempt am) = pad4 (am_ordinal am)"
    and "same_evidence dx s t am prior = Inr ()" and "am_registry am = PDict registry"
    and "files_at s t (am_attempt am) = empty_attempt"
    and "doc_ok 500000 (PDict (am_task am))" and "doc_ok 500000 (PDict registry)"
    and "queued_record dx t am (am_ordinal am) (case prior of None \<Rightarrow> PNone | Some (p, _) \<Rightarrow> PStr p) (now 2) = Inr q"
    and "doc_ok 500000 (PDict q)" and "validate_attempt_record q = Inr q"
    and "doc_ok 16000 (delivery_event 1 ''attempt-admitted'' ''queued'' 5 PNone (now 3))"
    and "d = moved_record q 1 ''attempt-admitted'' ''queued'' 5 PNone [] (now 3)" and "doc_ok 500000 (PDict d)"
    and "doc_ok 500000 (PDict (admitted_task r (am_ordinal am) (am_attempt am) (now 4)))"
  shows "\<exists>s'. admit dx now t am r prior s = (s', Inr d)"
proof -
  let ?a = "am_attempt am"
  let ?s3 = "update_attempt t ?a (\<lambda>af. af\<lparr>af_record := Some q\<rparr>)
      (update_attempt t ?a (\<lambda>af. af\<lparr>af_registry := Some registry\<rparr>)
       (update_attempt t ?a (\<lambda>af. af\<lparr>af_task := Some (am_task am)\<rparr>) s))"
  have af: "files_at ?s3 t ?a = \<lparr>af_record = Some q, af_task = Some (am_task am), af_registry = Some registry, af_events = []\<rparr>"
    using assms(6) by (simp add: dict_simps empty_attempt_def)
  obtain s4 where "transition dx (now 3) t ?a ''attempt-admitted'' ''queued'' 5 PNone [] ?s3 = (s4, Inr d)"
    using transition_ok [OF af _ assms(11) _ _ refl, of dx "''attempt-admitted''" "''queued''" 5 PNone "now 3" d "[]"] assms(12-14)
    by (simp add: sequences_ok_def log_bytes_def)
  then show ?thesis
    using assms(1-10,15) write_check_ok [OF assms(7), of True] write_check_ok [OF assms(8), of True]
      write_check_ok [OF assms(10), of True] write_check_ok [OF assms(15), of False]
    by (simp add: admit_def Let_def sbnd_def sread_def slift_def write_input_def write_evidence_def write_record_def
        write_doc_def dict_simps empty_attempt_def need_dict_def write_task_json_def)
qed


definition demo_retried :: "pyval dict" where
  "demo_retried = demo_record 2 (PStr (demo_id 1)) ''queued'' PNone"

lemma demo_retry:
  "\<exists>s' d. deliver_submit demo_dx demo_now (PDict (demo_task 2)) (PDict demo_registry) True (PStr demo_task_id) PNone
    (demo_store demo_failed) = (s', Inr d)"
proof -
  let ?s = "demo_store demo_failed" and ?r = "demo_task_record [demo_id 1]"
  let ?p = "Some (demo_id 1, demo_record 1 PNone ''failed'' demo_failure)"
  define q where "q = aput ''stage'' (PStr ''confirmed-registry-no-match'') (aput ''progress_percent'' (PInt 5) demo_retried)"
  have files: "files_at ?s demo_task_id (demo_id 1) = demo_files 1 (Some (demo_record 1 PNone ''failed'' demo_failure))"
    by (simp add: files_at_def demo_store_def attempt_of_def demo_failed_def)
  have same: "bytes_differ (PDict demo_registry) (PDict demo_registry) = Inr False"
    using doc_ok_bytes [OF demo_docs(3)] by (simp add: bytes_differ_def del: json_enc.simps)
  have queued: "queued_record demo_dx demo_task_id (demo_am 2) 2 (PStr (demo_id 1)) ''2026-08-24T00:00:00Z'' = Inr q"
  proof -
    have "ditem (demo_task 2) ''package_intent'' = Inr (PDict demo_package)" "ditem demo_package ''display_name'' = Inr (PStr ''Demo'')"
      "ditem (demo_task 2) ''need_spec_current_revision'' = Inr (PInt 1)" "ditem (demo_task 2) ''job_id'' = Inr (PStr ''job-1'')"
      "ditem (demo_consent_json 2) ''consent_id'' = Inr (PStr (demo_consent 2))"
      "ditem demo_registry ''request_id'' = Inr (PStr (''registry.'' @ replicate 24 (CHR ''0'')))"
      by (simp_all add: ditem_def demo_task_def demo_package_def demo_consent_json_def demo_registry_def)
    then show ?thesis
      using doc_ok_bytes [OF demo_docs(2)] doc_ok_bytes [OF demo_docs(3)]
      by (simp add: queued_record_def demo_am_parts ditems_def need_dict_def q_def demo_retried_def demo_record_def
          demo_am_def demo_dx_def demo_time_def del: json_enc.simps)
  qed
  have q: "doc_ok 12000 (PDict q)" by (simp add: demo_doc q_def demo_retried_def)
  have texts: "doc_ok 400 (PStr ''attempt-admitted'')" "doc_ok 400 (PStr ''queued'')" "doc_ok 400 (PStr (demo_now i))"
    "doc_ok 400 (PInt 1)" "doc_ok 400 (PInt 5)" "doc_ok 4 PNone" "doc_ok 10000 PNone" "doc_ok 2 (PDict [])" for i
    by (simp_all add: demo_doc demo_now_def)
  have "doc_ok 500000 (PDict (moved_record q 1 ''attempt-admitted'' ''queued'' 5 PNone [] (demo_now 3)))"
    by (rule doc_ok_mono [OF doc_ok_moved [OF q texts(8,1,2,6,3,5,4)]]) simp
  moreover have "doc_ok 16000 (delivery_event 1 ''attempt-admitted'' ''queued'' 5 PNone (demo_now 3))"
    by (rule doc_ok_event [OF texts(1,2,7,3,5,4)])
  moreover have "doc_ok 500000 (PDict (admitted_task ?r 2 (demo_id 2) (demo_now 4)))"
  proof -
    have ids: "ids_of ?r = [demo_id 1]" by code_simp
    have puts: "doc_ok 2000 (PDict [(''attempt_count'', PInt 2), (''current_attempt_id'', PStr (demo_id 2)),
       (''attempt_ids'', PList (map PStr (ids_of ?r @ [demo_id 2]))), (''updated_at_utc'', PStr (demo_now 4))])"
      unfolding ids by (simp add: demo_doc demo_now_def)
    have r: "doc_ok 12000 (PDict ?r)" by (simp add: demo_doc)
    show ?thesis
      unfolding admitted_task_def by (rule doc_ok_mono [OF doc_ok_aput_all [OF r puts]]) simp
  qed
  moreover have "doc_ok 500000 (PDict q)" by (rule doc_ok_mono [OF q]) simp
  ultimately have d: "doc_ok 500000 (PDict q)" "doc_ok 500000 (PDict (moved_record q 1 ''attempt-admitted'' ''queued'' 5 PNone [] (demo_now 3)))"
    "doc_ok 16000 (delivery_event 1 ''attempt-admitted'' ''queued'' 5 PNone (demo_now 3))"
    "doc_ok 500000 (PDict (admitted_task ?r 2 (demo_id 2) (demo_now 4)))" by simp_all
  have valid: "validate_attempt_record q = Inr q" unfolding q_def demo_retried_def by code_simp
  have "same_evidence demo_dx ?s demo_task_id (demo_am 2) ?p = Inr ()"
    using demo_inputs [OF demo_record_inputs(1)] files same
    by (simp add: same_evidence_def demo_files_def demo_am_parts del: One_nat_def)
  moreover have "files_at ?s demo_task_id (demo_id 2) = empty_attempt"
  proof -
    have "demo_id 2 \<noteq> demo_id 1" by code_simp
    then show ?thesis by (simp add: files_at_def demo_store_def attempt_of_def demo_failed_def)
  qed
  moreover have "count_of ?r < attempt_cap" "ordinal_text (demo_id 2) = pad4 2" "count_of ?r = 1" by code_simp+
  moreover have "doc_ok 500000 (PDict (demo_task 2))" "doc_ok 500000 (PDict demo_registry)"
    by (rule doc_ok_mono [OF demo_docs(2)], simp) (rule doc_ok_mono [OF demo_docs(3)], simp)
  ultimately obtain s' where
    "admit demo_dx demo_now demo_task_id (demo_am 2) ?r ?p ?s
      = (s', Inr (moved_record q 1 ''attempt-admitted'' ''queued'' 5 PNone [] (demo_now 3)))"
    using admit_ok [of ?r "demo_am 2" demo_dx ?s demo_task_id ?p demo_registry demo_now q] d valid queued
    by (auto simp: demo_am_parts demo_now_def)
  moreover have "demo_task_id \<noteq> []" by (simp add: demo_task_id_def)
  ultimately show ?thesis
    using demo_admissions(2) demo_retry_route
    by (simp add: deliver_submit_def sbnd_slift Let_def text_in_def) (simp add: sbnd_def sread_def)
qed

lemma demo_failed_run:
  "run_attempt demo_dx revalidate (rn\<lparr>rn_locked := False, rn_resume := None\<rparr>) (PStr demo_task_id) PNone (demo_store demo_failed)
    = (demo_store demo_failed, Inr (demo_record 1 PNone ''failed'' demo_failure))"
proof -
  have files: "files_at (demo_store demo_failed) demo_task_id (demo_id 1)
      = demo_files 1 (Some (demo_record 1 PNone ''failed'' demo_failure))"
    by (simp add: files_at_def demo_store_def attempt_of_def demo_failed_def)
  have "demo_id 1 \<in> set (ids_of (demo_task_record [demo_id 1]))" by code_simp
  moreover have "dget (demo_record 1 PNone ''failed'' demo_failure) ''status'' = PStr ''failed''"
    by (simp add: demo_record_def dget_Cons)
  ultimately show ?thesis
    using demo_dir [of demo_failed] demo_index(1) demo_current files demo_records_valid(1) demo_inputs [OF demo_record_inputs(1)]
    by (simp add: run_attempt_def run_current_def attempt_inputs_def sbnd_def sread_def slift_def attempt_to_run_def
        demo_files_def file_of_def del: One_nat_def)
qed

lemma demo_transition:
  "\<exists>s' d'. transition demo_dx (demo_now 0) demo_task_id (demo_id 1) ''source-ready'' ''running'' 45 PNone [] (demo_store demo_queued)
    = (s', Inr d')"
proof -
  have files: "files_at (demo_store demo_queued) demo_task_id (demo_id 1)
      = demo_files 1 (Some (demo_record 1 PNone ''queued'' PNone))"
    by (simp add: files_at_def demo_store_def attempt_of_def demo_queued_def)
  have "doc_ok 12000 (PDict (demo_record 1 PNone ''queued'' PNone))" by (simp add: demo_doc)
  moreover have "dec 45 = ''45''" by code_simp
  then have "doc_ok 400 (PStr ''source-ready'')" "doc_ok 400 (PStr ''running'')" "doc_ok 400 (PStr (demo_now 0))"
    "doc_ok 400 (PInt 1)" "doc_ok 400 (PInt 45)" "doc_ok 4 PNone" "doc_ok 10000 PNone" "doc_ok 2 (PDict [])"
    by (simp_all add: demo_doc demo_now_def)
  ultimately have "doc_ok 500000 (PDict (moved_record (demo_record 1 PNone ''queued'' PNone) 1 ''source-ready'' ''running'' 45 PNone [] (demo_now 0)))"
    and "doc_ok 16000 (delivery_event 1 ''source-ready'' ''running'' 45 PNone (demo_now 0))"
    by (auto intro: doc_ok_mono [OF doc_ok_moved] doc_ok_event)
  then show ?thesis
    using transition_ok [OF files _ demo_records_valid(2) _ _ refl _ refl, of demo_dx "''source-ready''" "''running''" 45 PNone
        "demo_now 0" "[]"]
    by (simp add: demo_files_def sequences_ok_def log_bytes_def)
qed

end
