(* ===== verification/DelivDemoRun.thy ===== *)
theory DelivDemoRun
  imports DelivDemo
begin

text \<open>
  A run that delivers the app of theory DelivDemo: the documents the CodeAgent, the Builder, the
  Verifier and the AppStore leave, and the four phases on them.
\<close>

section \<open>The documents\<close>

definition demo_status :: "pyval dict" where
  "demo_status =
    [(''status'', PStr ''source-ready''), (''job_id'', PStr ''job-1''), (''need_id'', PStr ''need-1''),
     (''need_spec_revision'', PInt 1), (''immutable_task_digest_sha256'', PStr zero_sha),
     (''consent_id'', PStr (demo_consent 1)), (''provider_execution_identity_sha256'', PStr zero_sha),
     (''identity_observed'', PBool True), (''execution_available'', PBool True), (''provider_id'', PStr ''codex''),
     (''model'', PStr ''m1''), (''external_request_attempted'', PBool True), (''external_request_observed'', PBool False),
     (''handoff_relative_path'', PStr ''handoff.json''), (''handoff_sha256'', PStr zero_sha)]"

definition demo_handoff :: "pyval dict" where
  "demo_handoff =
    [(''job_id'', PStr ''job-1''), (''need_spec_digest_sha256'', PStr zero_sha), (''package_intent'', PDict demo_package),
     (''target'', PDict demo_target), (''source_tree_sha256'', PStr zero_sha)]"

definition demo_bound_entry :: pyval where
  "demo_bound_entry = entry_json (PStr ''main'') (PStr ''launcher-ui'') (PStr ''Main'') (PStr ''home'') []"

definition demo_receipt :: "pyval dict" where
  "demo_receipt =
    map (\<lambda>(k, s). (k, PStr s)) receipt_texts @
    [(''job_id'', PStr ''job-1''), (''need_spec_digest_sha256'', PStr zero_sha), (''source_tree_sha256'', PStr zero_sha),
     (''required_capabilities'', PList []), (''package_entrypoints'', PList [demo_bound_entry]),
     (''source_directory'', PStr ''source''), (''package_directory'', PStr ''package''),
     (''package_digest_sha256'', PStr zero_sha), (''package_files'', PList []), (''component_sha256'', PStr zero_sha),
     (''manifest_sha256'', PStr zero_sha), (''build_log_sha256'', PStr zero_sha), (''builder'', PDict []), (''limits'', PDict []),
     (''terminal_outcome'', PStr ''build-output-untrusted''), (''authority'', builder_authority), (''created_at_utc'', demo_time)]"

definition demo_built_app :: pyval where
  "demo_built_app = PDict
    [(''id'', PStr ''demo.app''), (''version'', PStr ''0.1.0''), (''kind'', PStr ''ui''), (''display_name'', PStr ''Demo''),
     (''description'', PStr ''A demo''), (''publisher'', local_publisher)]"

definition demo_runtime :: "pyval dict" where
  "demo_runtime =
    [(''contract'', PStr ''c''), (''wasi'', PStr ''p2''), (''world'', PStr ''w''), (''required_imports'', PList []),
     (''profiles'', PList [PDict [(''profile'', PStr ''desktop'')]])]"

definition demo_manifest :: "pyval dict" where
  "demo_manifest =
    [(''schema_version'', PStr ''vibapp.manifest.experimental-v0.0.1''),
     (''package_format'', PStr ''vibapp.package.experimental-v0''), (''app'', demo_built_app), (''runtime'', PDict demo_runtime),
     (''capabilities'', PList []),
     (''entrypoints'', PList [PDict [(''id'', PStr ''main''), (''kind'', PStr ''launcher-ui''), (''label'', PStr ''Main''),
       (''profiles'', PList [PStr ''desktop'']), (''routes'', route_json (PStr ''home'')), (''restoration'', PStr ''route-only'')]]),
     (''source'', PDict [(''revision'', PStr (''codeagent-'' @ replicate 24 (CHR ''0'')))])]"

definition demo_promoted :: "pyval dict" where
  "demo_promoted =
    map (\<lambda>(k, s). (k, PStr s)) candidate_texts @
    [(''job_id'', PStr ''job-1''), (''source_tree_sha256'', PStr zero_sha), (''package_digest_sha256'', PStr zero_sha),
     (''component'', PDict [(''path'', PStr ''component.wasm''), (''sha256'', PStr zero_sha)]),
     (''manifest'', PDict [(''path'', PStr ''manifest.json''), (''sha256'', PStr zero_sha)]),
     (''quarantine_receipt_sha256'', PStr zero_sha),
     (''verification'', PDict [(''authority'', PStr ''independent-verifier'')]), (''authority'', no_publish)]"

definition demo_appstore :: "pyval dict" where
  "demo_appstore =
    [(''schema_version'', PStr ''vibapp.local-appstore-record.experimental-v1''), (''state'', PStr ''private''),
     (''visibility'', PStr ''private''), (''publication'', unpublished), (''authority'', no_publish),
     (''digests'', PDict
        [(''package_sha256'', PStr zero_sha), (''component_sha256'', PStr zero_sha), (''manifest_sha256'', PStr zero_sha),
         (''source_tree_sha256'', PStr zero_sha), (''quarantine_receipt_sha256'', PStr zero_sha),
         (''candidate_record_sha256'', PStr zero_sha)]),
     (''app'', demo_built_app), (''runtime'', runtime_projection demo_manifest demo_runtime),
     (''paths'', PDict [(''candidate'', PStr ''candidate.json'')])]"

definition demo_readiness :: "pyval dict" where
  "demo_readiness =
    [(''status'', PStr ''PASS''), (''business_function_acceptance'', PBool False), (''cleanup_confirmed'', PBool True)]"

definition demo_rn :: run_env where
  "demo_rn = \<lparr>rn_at = demo_now, rn_cancelled = (\<lambda>_. False), rn_locked = False, rn_provider = PStr ''codex'',
    rn_model = PStr ''m1'', rn_status = Some demo_status, rn_recover = Inr (), rn_preflight = None,
    rn_agent = Inr demo_status, rn_status_left = True, rn_handoff_at = (\<lambda>_. Inr (True, ''handoff.json'', zero_sha)),
    rn_handoff = Inr demo_handoff, rn_receipt = Some (zero_sha, demo_receipt), rn_build = Inr (zero_sha, demo_receipt),
    rn_receipt_path = ''receipt.json'', rn_quarantine_manifest = Inr (zero_sha, demo_manifest),
    rn_candidate = Some (zero_sha, demo_promoted), rn_promote = Inr (zero_sha, demo_promoted),
    rn_candidate_path = ''candidate.json'', rn_candidate_manifest = Inr (zero_sha, demo_manifest),
    rn_readiness = Inr demo_readiness, rn_candidate_now = Inr zero_sha, rn_ingest = Inr (demo_appstore, PBool True),
    rn_receipt_now = Inr zero_sha, rn_candidate_after = Inr zero_sha, rn_appstore_manifest = Inr (zero_sha, demo_manifest), rn_resume = None\<rparr>"

section \<open>The checks\<close>

lemma demo_agent_ok: "refuse (agent_bad demo_dx demo_rn demo_status (demo_task 1)) e = Inr ()"
  by (rule refuse_ok) code_simp

lemma demo_receipt_ok: "validate_receipt_binding demo_dx demo_receipt (demo_task 1) demo_handoff = Inr [demo_bound_entry]"
  by code_simp

lemma demo_manifest_ok:
  "validate_manifest_binding demo_dx c demo_manifest (demo_task 1) demo_handoff demo_receipt = Inr ()"
  by code_simp

lemma demo_candidate_ok: "consume_candidate demo_dx demo_promoted demo_receipt zero_sha = Inr demo_promoted"
  by code_simp

lemma demo_appstore_ok:
  "validate_appstore_record demo_dx demo_appstore demo_receipt zero_sha demo_promoted zero_sha demo_manifest = Inr ()"
  by code_simp

lemma demo_load_manifest:
  "load_bound_manifest demo_dx c (Inr (zero_sha, demo_manifest)) (PStr zero_sha) (demo_task 1) demo_handoff demo_receipt
    = Inr demo_manifest"
proof -
  have "hex64 zero_sha" by code_simp
  then show ?thesis by (simp add: load_bound_manifest_def demo_manifest_ok del: One_nat_def)
qed

lemma demo_same_manifest: "same_manifest m demo_manifest demo_manifest = Inr ()"
proof -
  have "doc_ok 20000 (PDict demo_manifest)" by code_simp
  then show ?thesis
    using doc_ok_bytes [of 20000 "PDict demo_manifest"] by (simp add: same_manifest_def bytes_differ_def del: json_enc.simps)
qed

section \<open>The run\<close>

text \<open>An attempt in the middle of the run: a valid record of at most \<open>n\<close> bytes and \<open>k\<close> events.\<close>

definition midway :: "nat \<Rightarrow> nat \<Rightarrow> store \<Rightarrow> bool" where
  "midway n k s \<longleftrightarrow> (\<exists>d es. files_at s demo_task_id (demo_id 1)
      = \<lparr>af_record = Some d, af_task = Some (demo_task 1), af_registry = Some demo_registry, af_events = es\<rparr>
    \<and> validate_attempt_record d = Inr d \<and> sequences_ok demo_dx es \<and> log_bytes es \<le> 16001 * int k \<and> length es = k
    \<and> doc_ok n (PDict d))"

lemma midway_moving:
  assumes "midway n k s" and "k < 9" and "doc_ok m (PDict outputs)" and "2 * n + m + 3004 \<le> 500000"
    and "doc_ok 400 (PStr stage)" and "text_between 1 80 (PStr stage)" and "doc_ok 400 (PStr status)"
    and "status \<in> set attempt_statuses" and "doc_ok 400 (PInt progress)" and "0 \<le> progress \<and> progress \<le> 100"
  shows "\<exists>s' d. moving demo_dx demo_rn demo_task_id (demo_id 1) i stage status progress outputs s = (s', Inr d)
    \<and> midway (2 * n + m + 3004) (k + 1) s' \<and> dget d ''status'' = PStr status"
proof -
  from assms(1) obtain d es where af: "files_at s demo_task_id (demo_id 1)
      = \<lparr>af_record = Some d, af_task = Some (demo_task 1), af_registry = Some demo_registry, af_events = es\<rparr>" (is "_ = ?af")
    and d: "validate_attempt_record d = Inr d" and es: "sequences_ok demo_dx es" "log_bytes es \<le> 16001 * int k" "length es = k"
    and n: "doc_ok n (PDict d)"
    unfolding midway_def by blast
  let ?ev = "delivery_event (int k + 1) stage status progress PNone (demo_now i)"
  let ?d = "moved_record d (int k + 1) stage status progress PNone outputs (demo_now i)"
  have now: "doc_ok 400 (PStr (demo_now i))" "utc_shape (demo_now i)" unfolding demo_now_def by code_simp+
  have "int k + 1 < 10" using assms(2) by simp
  then have count: "doc_ok 400 (PInt (int k + 1))" by (simp add: doc_ok_def dec_def dec_nat.simps)
  have none: "doc_ok 4 PNone" "doc_ok 10000 PNone" by (simp_all add: doc_ok_def)
  have ev: "doc_ok 16000 ?ev" by (rule doc_ok_event [OF assms(5,7) none(2) now(1) assms(9) count])
  have size: "doc_ok (2 * n + m + 3004) (PDict ?d)"
    using doc_ok_moved [OF n assms(3,5,7) none(1) now(1) assms(9) count] by (simp add: add_ac)
  have valid: "validate_attempt_record ?d = Inr ?d"
    by (rule moved_valid [OF d assms(6,8,10) _ now(2)]) simp_all
  have tr: "moving demo_dx demo_rn demo_task_id (demo_id 1) i stage status progress outputs s =
    (update_attempt demo_task_id (demo_id 1) (\<lambda>af. af\<lparr>af_record := Some ?d\<rparr>)
      (update_attempt demo_task_id (demo_id 1) (with_event ?ev) s), Inr ?d)"
    unfolding moving_def using assms(2) es
    by (intro transition_ok [OF af _ d]) (simp_all add: demo_rn_def ev doc_ok_mono [OF size] assms(4) del: One_nat_def)
  have "log_bytes (es @ [?ev]) \<le> 16001 * int (k + 1)"
    using es(2) doc_ok_bytes [OF ev] by (simp add: line_bytes_def algebra_simps)
  moreover have "sequences_ok demo_dx (es @ [?ev])" using sequences_ok_snoc [OF es(1)] es(3) by simp
  ultimately show ?thesis
    using tr valid size es(3) by (auto simp: midway_def dict_simps af dget_moved_fields simp del: One_nat_def)
qed

lemma midway_step:
  assumes "midway n k s" and "doc_ok 3000 (PDict outputs)" and "doc_ok 400 (PStr stage)" and "text_between 1 80 (PStr stage)"
    and "doc_ok 400 (PStr status)" and "status \<in> set attempt_statuses" and "doc_ok 400 (PInt progress)"
    and "0 \<le> progress \<and> progress \<le> 100" and "k < 9" and "k' = k + 1" and "n' = 2 * n + 6004" and "n' \<le> 500000"
  shows "\<exists>s' d. moving demo_dx demo_rn demo_task_id (demo_id 1) i stage status progress outputs s = (s', Inr d)
    \<and> midway n' k' s' \<and> dget d ''status'' = PStr status"
  using midway_moving [OF assms(1,9,2) _ assms(3-8), of i] assms(10-12) by (simp add: add_ac)

lemma demo_check: "check_cancellation demo_rn i s = (s, Inr ())"
  by (simp add: check_cancellation_Inr demo_rn_def)

lemma demo_agent_phase:
  assumes "midway 9000 0 s"
  shows "\<exists>s'. agent_phase demo_dx demo_rn demo_task_id (demo_id 1) False (demo_task 1) s = (s', Inr (Going ()))
    \<and> midway 24004 1 s'"
proof -
  have out: "doc_ok 3000 (PDict (handoff_outputs demo_status ''handoff.json'' zero_sha))" by code_simp
  have texts: "doc_ok 400 (PStr ''source-ready'')" "text_between 1 80 (PStr ''source-ready'')" "doc_ok 400 (PStr ''running'')"
    "''running'' \<in> set attempt_statuses" "doc_ok 400 (PInt 45)" by code_simp+
  have "\<exists>s' d. moving demo_dx demo_rn demo_task_id (demo_id 1) 2 ''source-ready'' ''running'' 45
      (handoff_outputs demo_status ''handoff.json'' zero_sha) s = (s', Inr d)
    \<and> midway 24004 1 s' \<and> dget d ''status'' = PStr ''running''"
    by (rule midway_step [OF assms out texts]) simp_all
  then obtain s' d where mv: "moving demo_dx demo_rn demo_task_id (demo_id 1) 2 ''source-ready'' ''running'' 45
      (handoff_outputs demo_status ''handoff.json'' zero_sha) s = (s', Inr d)" and mid: "midway 24004 1 s'"
    by blast
  have "agent_status demo_dx demo_rn demo_task_id (demo_id 1) False s = (s, Inr (Going demo_status))"
    by (simp add: agent_status_def demo_rn_def demo_status_def dget_Cons slift_def)
  moreover have "agent_handoff demo_rn demo_status = Inr (''handoff.json'', zero_sha)"
    by (simp add: agent_handoff_def demo_status_def dget_Cons demo_rn_def)
  ultimately show ?thesis
    using mv mid demo_agent_ok by (simp add: agent_phase_def sbnd_def slift_def demo_check del: One_nat_def)
qed

lemma demo_builder_phase:
  assumes "midway 24004 1 s"
  shows "\<exists>s'. builder_phase demo_dx demo_rn demo_task_id (demo_id 1) (demo_task 1) demo_handoff s
      = (s', Inr ((zero_sha, demo_receipt), demo_manifest)) \<and> midway 54012 2 s'"
proof -
  have out: "doc_ok 3000 (PDict (quarantine_outputs demo_rn demo_receipt zero_sha))"
    by (simp add: quarantine_outputs_def demo_rn_def demo_receipt_def receipt_texts_def dget_Cons demo_doc)
  have texts: "doc_ok 400 (PStr ''quarantined-awaiting-verifier'')" "text_between 1 80 (PStr ''quarantined-awaiting-verifier'')"
    "doc_ok 400 (PStr ''running'')" "''running'' \<in> set attempt_statuses" "doc_ok 400 (PInt 68)" by code_simp+
  have "\<exists>s' d. moving demo_dx demo_rn demo_task_id (demo_id 1) 6 ''quarantined-awaiting-verifier'' ''running'' 68
      (quarantine_outputs demo_rn demo_receipt zero_sha) s = (s', Inr d)
    \<and> midway 54012 2 s' \<and> dget d ''status'' = PStr ''running''"
    by (rule midway_step [OF assms out texts]) simp_all
  then obtain s' d where mv: "moving demo_dx demo_rn demo_task_id (demo_id 1) 6 ''quarantined-awaiting-verifier'' ''running'' 68
      (quarantine_outputs demo_rn demo_receipt zero_sha) s = (s', Inr d)" and mid: "midway 54012 2 s'"
    by blast
  have "dget demo_receipt ''manifest_sha256'' = PStr zero_sha" by code_simp
  moreover have "rn_quarantine_manifest demo_rn = Inr (zero_sha, demo_manifest)"
    "built_receipt demo_dx demo_rn demo_task_id (demo_id 1) (demo_task 1) demo_handoff s = (s, Inr (zero_sha, demo_receipt))"
    by (simp_all add: demo_rn_def built_receipt_def preserved_job_def slift_def)
  ultimately show ?thesis
    using mv mid demo_receipt_ok demo_load_manifest
    by (simp add: builder_phase_def sbnd_def slift_def demo_check del: One_nat_def)
qed

lemma demo_verifier_phase:
  assumes "midway 54012 2 s"
  shows "\<exists>s'. verifier_phase demo_dx demo_rn demo_task_id (demo_id 1) (demo_task 1) demo_handoff (zero_sha, demo_receipt) demo_manifest s
      = (s', Inr ((zero_sha, demo_promoted), demo_manifest)) \<and> midway 114028 3 s'"
proof -
  have out: "doc_ok 3000 (PDict [(''candidate_path'', PStr (rn_candidate_path demo_rn)), (''candidate_record_sha256'', PStr zero_sha)])"
    by code_simp
  have texts: "doc_ok 400 (PStr ''candidate-ready'')" "text_between 1 80 (PStr ''candidate-ready'')"
    "doc_ok 400 (PStr ''running'')" "''running'' \<in> set attempt_statuses" "doc_ok 400 (PInt 88)" by code_simp+
  have "\<exists>s' d. moving demo_dx demo_rn demo_task_id (demo_id 1) 9 ''candidate-ready'' ''running'' 88
      [(''candidate_path'', PStr (rn_candidate_path demo_rn)), (''candidate_record_sha256'', PStr zero_sha)] s = (s', Inr d)
    \<and> midway 114028 3 s' \<and> dget d ''status'' = PStr ''running''"
    by (rule midway_step [OF assms out texts]) simp_all
  then obtain s' d where mv: "moving demo_dx demo_rn demo_task_id (demo_id 1) 9 ''candidate-ready'' ''running'' 88
      [(''candidate_path'', PStr (rn_candidate_path demo_rn)), (''candidate_record_sha256'', PStr zero_sha)] s = (s', Inr d)" and mid: "midway 114028 3 s'"
    by blast
  have "bnd (dsub demo_promoted ''manifest'') (\<lambda>m. Inr (dget m ''sha256'')) = Inr (PStr zero_sha)" by code_simp
  then obtain m where "dsub demo_promoted ''manifest'' = Inr m" "dget m ''sha256'' = PStr zero_sha" by (auto elim!: bnd_InrE)
  moreover have "rn_candidate_manifest demo_rn = Inr (zero_sha, demo_manifest)"
    "promoted_candidate demo_dx demo_rn demo_task_id (demo_id 1) s = (s, Inr (zero_sha, demo_promoted))"
    by (simp_all add: demo_rn_def promoted_candidate_def slift_def)
  ultimately show ?thesis
    using mv mid demo_candidate_ok demo_load_manifest demo_same_manifest
    by (simp add: verifier_phase_def sbnd_def slift_def demo_check del: One_nat_def)
qed

lemma demo_appstore_phase:
  assumes "midway 114028 3 s"
  shows "\<exists>s' d. appstore_phase demo_dx demo_rn demo_task_id (demo_id 1) (demo_task 1) demo_handoff (zero_sha, demo_receipt)
      (zero_sha, demo_promoted) demo_manifest s = (s', Inr d) \<and> dget d ''status'' = PStr ''private-appstore-ready''"
proof -
  obtain outputs where outputs: "ready_outputs (PBool True) demo_readiness demo_appstore = Inr outputs" and out: "doc_ok 3000 (PDict outputs)"
  proof -
    have "bnd (ready_outputs (PBool True) demo_readiness demo_appstore) (\<lambda>o1. Inr (doc_ok 3000 (PDict o1))) = Inr True" by code_simp
    then show ?thesis using that by (auto elim!: bnd_InrE)
  qed
  have texts: "doc_ok 400 (PStr ''appstore-ingesting'')" "text_between 1 80 (PStr ''appstore-ingesting'')"
    "doc_ok 400 (PStr ''running'')" "''running'' \<in> set attempt_statuses" "doc_ok 400 (PInt 94)" by code_simp+
  have last: "doc_ok 400 (PStr ''private-appstore-ready'')" "text_between 1 80 (PStr ''private-appstore-ready'')"
    "doc_ok 400 (PStr ''private-appstore-ready'')" "''private-appstore-ready'' \<in> set attempt_statuses" "doc_ok 400 (PInt 100)"
    by code_simp+
  have none: "doc_ok 3000 (PDict [])" by code_simp
  have "\<exists>s' d. moving demo_dx demo_rn demo_task_id (demo_id 1) 11 ''appstore-ingesting'' ''running'' 94 [] s = (s', Inr d)
    \<and> midway 234060 4 s' \<and> dget d ''status'' = PStr ''running''"
    by (rule midway_step [OF assms none texts]) simp_all
  then obtain s1 d1 where mv1: "moving demo_dx demo_rn demo_task_id (demo_id 1) 11 ''appstore-ingesting'' ''running'' 94 [] s = (s1, Inr d1)" and mid: "midway 234060 4 s1"
    by blast
  have "\<exists>s' d. moving demo_dx demo_rn demo_task_id (demo_id 1) 12 ''private-appstore-ready'' ''private-appstore-ready'' 100
      outputs s1 = (s', Inr d) \<and> midway 474124 5 s' \<and> dget d ''status'' = PStr ''private-appstore-ready''"
    by (rule midway_step [OF mid out last]) simp_all
  then obtain s' d where mv2: "moving demo_dx demo_rn demo_task_id (demo_id 1) 12 ''private-appstore-ready'' ''private-appstore-ready'' 100
      outputs s1 = (s', Inr d)" and d: "dget d ''status'' = PStr ''private-appstore-ready''"
    by blast
  have ready: "check_runtime_readiness demo_rn demo_manifest zero_sha = Inr demo_readiness" by code_simp
  have "bnd (dsub demo_appstore ''digests'') (\<lambda>m. Inr (dget m ''manifest_sha256'')) = Inr (PStr zero_sha)" by code_simp
  then obtain m where "dsub demo_appstore ''digests'' = Inr m" "dget m ''manifest_sha256'' = PStr zero_sha" by (auto elim!: bnd_InrE)
  moreover have "rn_ingest demo_rn = Inr (demo_appstore, PBool True)" "rn_receipt_now demo_rn = Inr zero_sha"
    "rn_candidate_after demo_rn = Inr zero_sha" "rn_appstore_manifest demo_rn = Inr (zero_sha, demo_manifest)"
    by (simp_all add: demo_rn_def)
  ultimately show ?thesis
    using mv1 mv2 d outputs ready demo_appstore_ok demo_load_manifest demo_same_manifest
    by (simp add: appstore_phase_def sbnd_def slift_def demo_check del: One_nat_def)
qed

lemma demo_not_resumed: "rn_resume demo_rn = None"
  by (simp add: demo_rn_def)

lemma demo_delivery:
  "\<exists>s' d. run_attempt demo_dx revalidate demo_rn (PStr demo_task_id) (PStr (demo_id 1)) (demo_store demo_queued) = (s', Inr d)
    \<and> dget d ''status'' = PStr ''private-appstore-ready''"
proof -
  have files: "files_at (demo_store demo_queued) demo_task_id (demo_id 1)
      = demo_files 1 (Some (demo_record 1 PNone ''queued'' PNone))"
    by (simp add: files_at_def demo_store_def attempt_of_def demo_queued_def)
  have "doc_ok 9000 (PDict (demo_record 1 PNone ''queued'' PNone))" by (simp add: demo_doc)
  then have "midway 9000 0 (demo_store demo_queued)"
    using files demo_records_valid(2) by (simp add: midway_def demo_files_def sequences_ok_def log_bytes_def del: One_nat_def)
  then obtain s1 s2 s3 s' d where
    a: "agent_phase demo_dx demo_rn demo_task_id (demo_id 1) False (demo_task 1) (demo_store demo_queued) = (s1, Inr (Going ()))"
    and b: "builder_phase demo_dx demo_rn demo_task_id (demo_id 1) (demo_task 1) demo_handoff s1
      = (s2, Inr ((zero_sha, demo_receipt), demo_manifest))"
    and c: "verifier_phase demo_dx demo_rn demo_task_id (demo_id 1) (demo_task 1) demo_handoff (zero_sha, demo_receipt) demo_manifest s2
      = (s3, Inr ((zero_sha, demo_promoted), demo_manifest))"
    and e: "appstore_phase demo_dx demo_rn demo_task_id (demo_id 1) (demo_task 1) demo_handoff (zero_sha, demo_receipt)
      (zero_sha, demo_promoted) demo_manifest s3 = (s', Inr d)" and d: "dget d ''status'' = PStr ''private-appstore-ready''"
    using demo_agent_phase demo_builder_phase demo_verifier_phase demo_appstore_phase by meson
  have handoff: "handoff_phase demo_dx demo_rn (demo_task 1) = Inr demo_handoff" by code_simp
  have "active_run demo_dx demo_rn demo_task_id (demo_id 1) (demo_task 1) (demo_store demo_queued) = (s', Inr d)"
    using a b c e handoff
    by (simp add: active_run_def delivery_phases_def phase_def slift_def demo_not_resumed del: One_nat_def)
  moreover have "demo_id 1 \<in> set (ids_of (demo_task_record [demo_id 1]))" "demo_id 1 \<noteq> []" by code_simp+
  moreover have "dget (demo_record 1 PNone ''queued'' PNone) ''status'' = PStr ''queued''"
    by (simp add: demo_record_def dget_Cons)
  moreover have "\<not> rn_locked demo_rn" by (simp add: demo_rn_def)
  ultimately have "run_attempt demo_dx revalidate demo_rn (PStr demo_task_id) (PStr (demo_id 1)) (demo_store demo_queued) = (s', Inr d)"
    using demo_dir [of demo_queued] demo_index(2) files demo_records_valid(2) demo_inputs [OF demo_record_inputs(2)]
    by (simp add: run_attempt_def run_current_def attempt_inputs_def sbnd_def sread_def slift_def attempt_to_run_def demo_files_def file_of_def
        demo_not_resumed del: One_nat_def)
  then show ?thesis using d by blast
qed

end
