(* ===== verification/DelivTheorems.thy ===== *)
theory DelivTheorems
  imports DelivDemoRun
begin

text \<open>
  The properties of the delivery controller.

  An operation is a submission or a run; \<open>delivery_step\<close> is the store it leaves, also when it raises.
\<close>

section \<open>Histories\<close>

datatype delivery_op =
    SubmitOp "nat \<Rightarrow> string" pyval pyval bool pyval pyval
  | RunOp "string \<Rightarrow> string \<Rightarrow> pyval dict \<Rightarrow> store \<Rightarrow> pyval dict res" run_env pyval pyval

fun delivery_step :: "dx \<Rightarrow> store \<Rightarrow> delivery_op \<Rightarrow> store" where
  "delivery_step dx s (SubmitOp now submitted registry explicit retry edited) =
    fst (deliver_submit dx now submitted registry explicit retry edited s)"
| "delivery_step dx s (RunOp revalidate rn task_id chosen) =
    fst (run_attempt dx revalidate rn task_id chosen s)"

fun resumes :: "delivery_op \<Rightarrow> bool" where
  "resumes (SubmitOp now submitted registry explicit retry edited) = False"
| "resumes (RunOp revalidate rn task_id chosen) = (rn_resume rn \<noteq> None)"

lemma delivery_step_history: "history_step dx s (delivery_step dx s x)"
  by (cases x) (simp_all add: sound_history [OF deliver_submit_sound] run_attempt_history)

lemma delivery_step_sound: "\<not> resumes x \<Longrightarrow> sound_step dx s (delivery_step dx s x)"
  by (cases x) (simp_all add: deliver_submit_sound run_attempt_sound)

interpretation delivery: progress_machine "delivery_step dx" "\<lambda>_. True" "\<lambda>_. True" history_le for dx
  using delivery_step_history hstep.R_refl
  by unfold_locales (auto simp: history_step_def intro: history_le_trans)

interpretation delivery_onward: progress_machine "delivery_step dx" "\<lambda>x. \<not> resumes x" "\<lambda>_. True" delivery_le for dx
  using delivery_step_sound by unfold_locales (auto simp: sound_step_def intro: delivery_le_trans)

interpretation delivery_log: machine "delivery_step dx" "\<lambda>_. True" "logs_ok dx" for dx
  using delivery_step_history by unfold_locales (simp add: history_step_def)

lemma logs_ok_start: "logs_ok dx []"
  by (simp add: logs_ok_def files_at_def empty_attempt_def event_log_ok_def sequences_ok_def log_bytes_def
      max_event_log_bytes_def)

text \<open>
  C25. Nothing that was admitted is ever rewritten: whatever submissions, runs and resumptions follow, in
  whatever order and whatever they raise, an attempt keeps its two input documents and the fields it
  was admitted with, its event log only grows, a record that is \<open>private-appstore-ready\<close> never changes
  again (and its log is closed), and a task keeps its identity, need, job, digest and provider
  identity. Unless a run resumes it, a \<open>failed\<close> record never changes either.
\<close>

theorem admitted_work_is_never_rewritten:
  "attempt_kept (files_at s t a) (files_at (foldl (delivery_step dx) s ops) t a)
    \<and> kept (agree fixed_fields) (record_at s t) (record_at (foldl (delivery_step dx) s ops) t)
    \<and> (list_all (\<lambda>x. \<not> resumes x) ops \<longrightarrow>
        attempt_le (files_at s t a) (files_at (foldl (delivery_step dx) s ops) t a))"
  using delivery.run_below [where xs = ops and dx = dx and s = s]
    delivery_onward.run_below [where xs = ops and dx = dx and s = s]
  by (simp add: list_all_iff delivery_le_def history_le_def)

theorem admitted_work_is_never_rewritten_witness:
  "\<forall>au rn. af_record (files_at (foldl (delivery_step demo_dx) (demo_store demo_failed)
      [SubmitOp demo_now (PDict (demo_task 2)) (PDict demo_registry) True (PStr demo_task_id) PNone,
       RunOp au (rn\<lparr>rn_resume := None\<rparr>) (PStr demo_task_id) PNone]) demo_task_id (demo_id 1))
    = Some (demo_record 1 PNone ''failed'' demo_failure)"
proof (intro allI)
  fix au rn
  let ?ops = "[SubmitOp demo_now (PDict (demo_task 2)) (PDict demo_registry) True (PStr demo_task_id) PNone,
    RunOp au (rn\<lparr>rn_resume := None\<rparr>) (PStr demo_task_id) PNone]"
  have "attempt_le (files_at (demo_store demo_failed) demo_task_id (demo_id 1))
      (files_at (foldl (delivery_step demo_dx) (demo_store demo_failed) ?ops) demo_task_id (demo_id 1))"
    using admitted_work_is_never_rewritten [where ops = ?ops and s = "demo_store demo_failed"] by simp
  moreover have "af_record (files_at (demo_store demo_failed) demo_task_id (demo_id 1))
      = Some (demo_record 1 PNone ''failed'' demo_failure)"
    by (simp add: files_at_def demo_store_def attempt_of_def demo_failed_def demo_files_def)
  moreover have "ended (demo_record 1 PNone ''failed'' demo_failure)"
    by (simp add: demo_record_def dget_Cons ended_def in_texts_def terminal_statuses_def)
  ultimately show "af_record (files_at (foldl (delivery_step demo_dx) (demo_store demo_failed) ?ops) demo_task_id (demo_id 1))
      = Some (demo_record 1 PNone ''failed'' demo_failure)"
    by (auto simp: attempt_le_def kept_def split: option.splits)
qed

text \<open>
  C26. Starting from nothing, every event log is always the events 1, 2, 3, ... without a gap and at
  most 1 MiB long, and the event count of an attempt's record never exceeds its log.
\<close>

theorem event_logs_stay_contiguous:
  "event_log_ok dx (files_at (foldl (delivery_step dx) [] ops) t a)"
  using delivery_log.run_inv [OF logs_ok_start, where xs = ops and dx = dx] by (simp add: list_all_iff logs_ok_def)

section \<open>Failures and records\<close>

lemma markers_not_transient:
  "list_all (\<lambda>code. \<not> list_ex (\<lambda>marker. infixb marker code) non_retryable_markers) transient_codes"
  by code_simp

text \<open>
  A failure may be retried with the same task exactly when its code, in lower case, is one of the
  listed transient codes: no marker of a trust failure can occur in one, and a code that has none of
  the markers is still not retryable unless it is listed.
\<close>

lemma retry_policy_is_the_transient_list:
  "fst (failure_retry_policy code) \<longleftrightarrow> map lower_char code \<in> set transient_codes"
  using markers_not_transient
  by (auto simp: failure_retry_policy_def Let_def list_all_iff split: if_splits)

text \<open>
  C33. A transition that succeeds appends exactly one event, numbered one past the log, and replaces
  the record by one that counts that event and that the next reading of the record accepts.
\<close>

theorem transition_writes_a_valid_record:
  assumes "transition dx at t a stage status progress err outputs s = (s', Inr d')"
    and "text_between 1 80 (PStr stage)" and "status \<in> set attempt_statuses"
    and "0 \<le> progress \<and> progress \<le> 100" and "err = PNone \<or> is_pdict err" and "utc_shape at"
  shows "af_events (files_at s' t a) = af_events (files_at s t a)
      @ [delivery_event (len (af_events (files_at s t a)) + 1) stage status progress err at]
    \<and> dget d' ''event_count'' = PInt (len (af_events (files_at s' t a)))
    \<and> dget d' ''stage'' = PStr stage \<and> dget d' ''status'' = PStr status
    \<and> bnd (file_of (af_record (files_at s' t a))) validate_attempt_record = Inr d'"
  using assms(1)
proof (cases rule: transition_outcome)
  case (moved d d0 af event)
  have valid: "validate_attempt_record d0 = Inr d0"
    unfolding moved(7) by (rule moved_valid [OF moved(4) assms(2-6)]) simp
  have d': "d' = d0" using moved(9) by simp
  have "files_at s' t a = (with_event event (files_at s t a))\<lparr>af_record := Some d0\<rparr>"
    unfolding moved(8) by (simp add: dict_simps)
  then show ?thesis
    unfolding d' by (simp add: valid file_of_def) (simp add: moved(1,2,7) dget_moved_fields)
qed simp_all

theorem transition_writes_a_valid_record_witness:
  "\<exists>s' d'. transition demo_dx (demo_now 0) demo_task_id (demo_id 1) ''source-ready'' ''running'' 45 PNone [] (demo_store demo_queued)
      = (s', Inr d')
    \<and> af_events (files_at s' demo_task_id (demo_id 1)) = [delivery_event 1 ''source-ready'' ''running'' 45 PNone (demo_now 0)]
    \<and> bnd (file_of (af_record (files_at s' demo_task_id (demo_id 1)))) validate_attempt_record = Inr d'"
proof -
  have files: "files_at (demo_store demo_queued) demo_task_id (demo_id 1)
      = demo_files 1 (Some (demo_record 1 PNone ''queued'' PNone))"
    by (simp add: files_at_def demo_store_def attempt_of_def demo_queued_def)
  obtain s' d' where tr: "transition demo_dx (demo_now 0) demo_task_id (demo_id 1) ''source-ready'' ''running'' 45 PNone []
      (demo_store demo_queued) = (s', Inr d')"
    using demo_transition by blast
  have "text_between 1 80 (PStr ''source-ready'')" "''running'' \<in> set attempt_statuses" "utc_shape (demo_now 0)"
    by code_simp+
  then show ?thesis
    using transition_writes_a_valid_record [OF tr] files tr by (auto simp: demo_files_def)
qed

section \<open>The index\<close>

text \<open>
  C29. The index of a task is read from its attempts: what \<open>task.json\<close> is reconciled to lists exactly
  the attempts that have a record, the i-th of them numbered i, retrying the one before it, bound to
  the task's identity, need, job, digest and provider, and no two of them used the same consent.
\<close>

theorem index_is_the_attempt_chain:
  assumes "task_record tf = Inr r" and "dict_ok (tf_attempts tf)"
  shows "dget r ''attempt_ids'' = PList (map PStr (ids_of r)) \<and> dget r ''attempt_count'' = PInt (len (ids_of r))
    \<and> dget r ''current_attempt_id'' = (if ids_of r = [] then PNone else PStr (last (ids_of r)))
    \<and> (\<forall>a. a \<in> set (ids_of r) \<longleftrightarrow> af_record (attempt_of tf a) \<noteq> None)
    \<and> (\<exists>ds. list_all2 (\<lambda>a d. load_attempt tf a = Inr d \<and> bound_to_task r a d) (ids_of r) ds
        \<and> distinct (map (\<lambda>d. dget d ''consent_id'') ds)
        \<and> map (\<lambda>d. dget d ''attempt_number'') ds = map PInt [1..len ds]
        \<and> map (\<lambda>d. dget d ''retry_of_attempt_id'') ds = take (length ds) (PNone # map PStr (ids_of r)))"
proof (rule task_recordE [OF assms(1)])
  fix d found os
  assume d: "task_record_ok d" and found: "observe d (tf_attempts tf) = Inr found"
    and os: "os = sort_key fst found" and nums: "map fst os = [1..len os]"
    and consents: "distinct (map (\<lambda>(_, _, a). dget a ''consent_id'') os)" and lineage: "lineage_ok os"
    and r: "r = index_record d (map (fst \<circ> snd) os)"
  let ?ds = "map (snd \<circ> snd) os"
  have ids: "ids_of r = map (fst \<circ> snd) os" by (simp add: r ids_of_index d)
  have names: "a \<in> set (ids_of r) \<longleftrightarrow> af_record (attempt_of tf a) \<noteq> None" for a
    using set_observe_names [OF found assms(2)] by (simp add: ids os)
  have each: "load_attempt tf a = Inr b \<and> bound_to_task r a b \<and> dget b ''attempt_number'' = PInt n"
    if mem: "(n, a, b) \<in> set os" for n a b
  proof -
    obtain af where af: "(a, af) \<in> set (tf_attempts tf)" "af_record af = Some b" "validate_attempt_record b = Inr b"
      "bound_to_task d a b" "n = int_of (dget b ''attempt_number'')"
      using observe_sound [OF found, of n a b] mem by (auto simp: os)
    have "attempt_of tf a = af" using dict_ok_aget [OF assms(2) af(1)] by (simp add: attempt_of_def)
    moreover have "bound_to_task r a b" using af(4) by (simp add: bound_to_task_def r dget_index_other shared_fields_def)
    moreover have "dget b ''attempt_number'' = PInt n"
      using af(3,5) by (auto simp: validate_attempt_record_def res_simps pint_within_iff int_of_def)
    ultimately show ?thesis using af by (simp add: load_attempt_def file_of_def)
  qed
  have "list_all2 (\<lambda>a d. load_attempt tf a = Inr d \<and> bound_to_task r a d) (ids_of r) ?ds"
    using each by (auto simp: ids list_all2_conv_all_nth) (metis nth_mem prod.collapse)+
  moreover have "distinct (map (\<lambda>d. dget d ''consent_id'') ?ds)"
    using consents by (simp add: comp_def split_beta')
  moreover have "map (\<lambda>d. dget d ''attempt_number'') ?ds = map PInt [1..len ?ds]"
  proof -
    have "map (\<lambda>d. dget d ''attempt_number'') ?ds = map PInt (map fst os)"
      using each by (auto simp: comp_def)
    then show ?thesis by (simp add: nums)
  qed
  moreover have "map (\<lambda>d. dget d ''retry_of_attempt_id'') ?ds = take (length ?ds) (PNone # map PStr (ids_of r))"
  proof (rule nth_equalityI)
    fix i assume "i < length (map (\<lambda>d. dget d ''retry_of_attempt_id'') ?ds)"
    then have i: "i < length os" by simp
    then have "dget (snd (snd (os ! i))) ''retry_of_attempt_id'' = (if i = 0 then PNone else PStr (fst (snd (os ! (i - 1)))))"
      using lineage by (auto simp: lineage_ok_def list_all_iff split_beta')
    then show "map (\<lambda>d. dget d ''retry_of_attempt_id'') ?ds ! i = take (length ?ds) (PNone # map PStr (ids_of r)) ! i"
      using i by (cases i) (simp_all add: ids)
  qed (simp add: ids)
  ultimately show ?thesis
    using names dget_index_record [OF d] by (auto simp: r ids [unfolded r])
qed

theorem index_is_the_attempt_chain_witness:
  "dget (demo_task_record [demo_id 1]) ''attempt_ids'' = PList (map PStr (ids_of (demo_task_record [demo_id 1])))
    \<and> (\<forall>a. a \<in> set (ids_of (demo_task_record [demo_id 1])) \<longleftrightarrow> af_record (attempt_of demo_failed a) \<noteq> None)"
proof -
  have "dict_ok (tf_attempts demo_failed)" by (simp add: demo_failed_def dict_ok_def)
  then show ?thesis using index_is_the_attempt_chain [OF demo_index(1)] by blast
qed

section \<open>Submissions\<close>

lemma consent_unused:
  assumes "consent_used dx tf c names = Inr False" and "x \<in> set names" and "load_attempt tf x = Inr d"
    and "ditem c k = Inr v" and "k = ''consent_id''"
  shows "\<not> same dx (dget d ''consent_id'') v"
proof -
  have "dget c ''consent_id'' = v"
    using assms(4,5) by (auto simp: ditem_def dget_def split: option.splits)
  then show ?thesis
    using assms(1-3) by (force simp: consent_used_def any_res_False res_simps)
qed

text \<open>
  C28. A retry is admitted only after a failure that was classified as retryable: it names the task
  its own need and digest determine, the task's latest attempt has failed with the retry flag set,
  and the record written is the next ordinal, linked to that attempt, with an identifier and a
  consent that no earlier attempt of the task has.
\<close>

theorem retry_needs_a_transient_failure:
  assumes "deliver_submit dx now submitted registry explicit retry edited s = (s', Inr d)" and "retry \<noteq> PNone"
  shows "\<exists>am tf r a previous e.
    admission_of dx submitted registry = Inr am \<and> aget s (computed_task_id dx am) = Some tf
    \<and> task_record tf = Inr r \<and> dget r ''current_attempt_id'' = PStr a \<and> load_attempt tf a = Inr previous
    \<and> dget previous ''status'' = PStr ''failed''
    \<and> dsub previous ''error'' = Inr e \<and> dget e ''same_task_retry_allowed'' = PBool True
    \<and> dget d ''attempt_number'' = PInt (count_of r + 1) \<and> dget d ''retry_of_attempt_id'' = PStr a
    \<and> dget d ''attempt_id'' = PStr (am_attempt am) \<and> am_attempt am \<notin> set (ids_of r)
    \<and> list_all (\<lambda>x. case load_attempt tf x of Inl _ \<Rightarrow> False
        | Inr d0 \<Rightarrow> \<not> same dx (dget d0 ''consent_id'') (dget d ''consent_id'')) (ids_of r)"
  using assms(1)
proof (cases rule: submitE)
  case (retried am r a previous)
  from retried(5) obtain tf where tf: "aget s (computed_task_id dx am) = Some tf" "task_record tf = Inr r"
    "dget r ''current_attempt_id'' = PStr a" "load_attempt tf a = Inr previous" "retry_allowed previous = Inr ()"
    "am_attempt am \<notin> set (ids_of r)" "consent_used dx tf (am_consent am) (ids_of r) = Inr False"
    by (rule retry_routeE) auto
  obtain e where e: "dget previous ''status'' = PStr ''failed''" "dsub previous ''error'' = Inr e"
    "dget e ''same_task_retry_allowed'' = PBool True"
    using tf(5) by (auto simp: retry_allowed_def elim!: bnd_InrE split: if_splits)
  have "\<exists>d0. load_attempt tf x = Inr d0" if "x \<in> set (ids_of r)" for x
    using tf(7) that by (force simp: consent_used_def any_res_False res_simps)
  then have "list_all (\<lambda>x. case load_attempt tf x of Inl _ \<Rightarrow> False
      | Inr d0 \<Rightarrow> \<not> same dx (dget d0 ''consent_id'') (dget d ''consent_id'')) (ids_of r)"
    using consent_unused [OF tf(7) _ _ admitted_record(4) [OF retried(6)]] by (fastforce simp: list_all_iff)
  then show ?thesis
    using retried(4) tf e admitted_record [OF retried(6)] by auto
qed (use assms(2) in simp_all)

theorem retry_needs_a_transient_failure_witness:
  "\<exists>s' d. deliver_submit demo_dx demo_now (PDict (demo_task 2)) (PDict demo_registry) True (PStr demo_task_id) PNone
      (demo_store demo_failed) = (s', Inr d)
    \<and> dget d ''attempt_number'' = PInt 2 \<and> dget d ''retry_of_attempt_id'' = PStr (demo_id 1)"
proof -
  obtain s' d where run: "deliver_submit demo_dx demo_now (PDict (demo_task 2)) (PDict demo_registry) True (PStr demo_task_id) PNone
      (demo_store demo_failed) = (s', Inr d)"
    using demo_retry by blast
  obtain am tf r a where "admission_of demo_dx (PDict (demo_task 2)) (PDict demo_registry) = Inr am"
    and "aget (demo_store demo_failed) (computed_task_id demo_dx am) = Some tf" and "task_record tf = Inr r"
    and "dget r ''current_attempt_id'' = PStr a" and "dget d ''attempt_number'' = PInt (count_of r + 1)"
    and "dget d ''retry_of_attempt_id'' = PStr a"
    using retry_needs_a_transient_failure [OF run] by blast
  moreover have "count_of (demo_task_record [demo_id 1]) = 1" by code_simp
  ultimately show ?thesis
    using run demo_admissions(2) demo_index(1) demo_current
    by (auto simp: demo_store_def demo_task_ids split: if_splits)
qed



text \<open>
  C32. An admission that was interrupted after the task document of its attempt was written and before
  the attempt's record was can never be completed: every later submission of that attempt fails and
  leaves the store as it is.
\<close>

theorem interrupted_admission_is_stuck:
  assumes "admission_of dx submitted registry = Inr am"
    and "af_task (files_at s (computed_task_id dx am) (am_attempt am)) = Some doc"
    and "af_record (files_at s (computed_task_id dx am) (am_attempt am)) = None"
  shows "\<exists>e. deliver_submit dx now submitted registry explicit retry edited s = (s, Inl e)"
proof -
  let ?t = "computed_task_id dx am"
  obtain tf where tf: "aget s ?t = Some tf"
    using assms(2) by (auto simp: files_at_def empty_attempt_def split: option.splits)
  then have none: "load_attempt tf (am_attempt am) \<noteq> Inr d" for d
    using assms(3) by (simp add: load_attempt_def files_at_def file_of_def)
  have stuck: "\<exists>e. admit dx now ?t am r prior s = (s, Inl e)" for r prior
  proof -
    have "\<exists>e. write_input ?t (am_attempt am) (am_task am) s = (s, Inl e)"
      using assms(2) by (auto simp: write_input_def write_doc_def write_check_def bnd_def split: sum.split)
    then show ?thesis
      by (auto simp: admit_def Let_def sbnd_def slift_def sread_def split: sum.split)
  qed
  show ?thesis
  proof (cases "explicit \<and> \<not> (retry \<noteq> PNone \<and> edited \<noteq> PNone)")
    case False
    then show ?thesis by (auto simp: deliver_submit_def slift_def)
  next
    case True
    have retry: "\<exists>e. deliver_submit dx now submitted registry explicit retry edited s = (s, Inl e)" if "retry \<noteq> PNone"
    proof (cases "retry_route dx s (if retry = PStr [] then PStr (computed_task_id dx am) else retry) am")
      case (Inl e)
      then show ?thesis using True that assms(1)
        by (auto simp: deliver_submit_def Let_def slift_def sbnd_def sread_def)
    next
      case (Inr route)
      then show ?thesis
      proof (rule retry_routeE)
        fix tf' r a previous
        assume v: "(if retry = PStr [] then PStr ?t else retry) = PStr ?t" and "route = Proceed r (Some (a, previous))"
        moreover have "(if retry = PNone \<or> retry = PStr [] then ?t else text_in retry) = ?t"
          using v by (auto simp: text_in_def split: if_splits)
        ultimately show ?thesis
          using True that assms(1) Inr stuck [of r "Some (a, previous)"]
          by (auto simp: deliver_submit_def Let_def slift_def sbnd_def sread_def split: if_splits)
      qed
    qed
    have "\<exists>e. deliver_submit dx now submitted registry explicit retry edited s = (s, Inl e)" if "retry = PNone"
    proof (cases "first_again dx tf am edited")
      case (Inl e)
      then show ?thesis using True that assms(1) tf by (simp add: deliver_submit_def Let_def slift_def sbnd_def)
    next
      case (Inr route)
      then obtain r where "route = Proceed r None"
        by (auto simp: first_again_def none elim!: bnd_InrE split: if_splits)
      then show ?thesis
        using True that assms(1) tf Inr stuck [of r None] by (simp add: deliver_submit_def Let_def slift_def sbnd_def)
    qed
    then show ?thesis using retry by blast
  qed
qed

theorem interrupted_admission_is_stuck_witness:
  "\<exists>e. deliver_submit demo_dx demo_now (PDict (demo_task 1)) (PDict demo_registry) True PNone PNone (demo_store demo_interrupted)
    = (demo_store demo_interrupted, Inl e)"
  by (rule interrupted_admission_is_stuck [OF demo_admissions(1), where doc = "demo_task 1"])
    (simp_all add: demo_task_ids demo_am_parts files_at_def demo_store_def attempt_of_def demo_interrupted_def demo_files_def)

section \<open>Runs\<close>

text \<open>The record a run works on, and the store it goes on from when it may go on.\<close>

definition goes_on :: "dx \<Rightarrow> run_env \<Rightarrow> string \<Rightarrow> string \<Rightarrow> pyval dict \<Rightarrow> pyval dict \<Rightarrow> store \<Rightarrow> store \<Rightarrow> bool" where
  "goes_on dx rn t a index current s s1 \<longleftrightarrow>
    (case rn_resume rn of
       None \<Rightarrow> \<not> ended current \<and> s1 = s
     | Some re \<Rightarrow> \<exists>d. reopen dx rn re t a index current s = (s1, Inr d))"


lemma validate_inputs_task:
  "validate_attempt_inputs dx task_file registry_file d None None = Inr (task, registry) \<Longrightarrow> task_file = Some task"
  by (auto simp: validate_attempt_inputs_def file_of_Inr elim!: bnd_InrE)



lemma attempt_inputsE:
  assumes "attempt_inputs dx t a current s = (s', Inr task)"
  shows "s' = s \<and> af_task (files_at s t a) = Some task"
  using assms by (auto simp: attempt_inputs_def sread_Inr dest: validate_inputs_task elim!: bnd_InrE)

lemma run_currentE:
  assumes "run_current dx (revalidate_private_ready dx au) rn t a index current s = (s', Inr d)"
  obtains "ended d" and "d = current" and "s' = s"
  | s1 task where "goes_on dx rn t a index current s s1" and "af_task (files_at s1 t a) = Some task"
    and "active_run dx rn t a task s1 = (s', Inr d)"
proof (cases "rn_resume rn")
  case None
  show ?thesis
  proof (cases "ended current")
    case True
    then have "s' = s \<and> d = current"
      using assms by (auto simp: run_current_def None ended_def in_texts_def pstr_such_iff terminal_statuses_def sread_Inr
          slift_Inr revalidate_private_ready_def elim!: sbnd_InrE bnd_InrE dest!: attempt_inputsE)
    then show ?thesis using that(1) True by simp
  next
    case False
    then have "dget current ''status'' \<noteq> PStr ''private-appstore-ready''" "dget current ''status'' \<noteq> PStr ''failed''"
      by (auto simp: ended_def in_texts_def terminal_statuses_def)
    then show ?thesis
      using assms False that(2) [of s] by (auto simp: run_current_def None goes_on_def elim!: sbnd_InrE dest!: attempt_inputsE)
  qed
next
  case (Some re)
  then show ?thesis
    using assms that(2) by (auto simp: run_current_def goes_on_def elim!: sbnd_InrE dest!: attempt_inputsE)
qed

lemma run_attemptE:
  assumes "run_attempt dx (revalidate_private_ready dx au) rn task_id chosen s = (s', Inr d)"
  obtains t tf r a where "task_id = PStr t" and "aget s t = Some tf" and "task_record tf = Inr r"
    and "attempt_to_run r chosen = Inr a" and "ended d" and "af_record (files_at s t a) = Some d" and "s' = s"
  | t tf r a current s1 task where "task_id = PStr t" and "aget s t = Some tf" and "task_record tf = Inr r"
    and "attempt_to_run r chosen = Inr a" and "af_record (files_at s t a) = Some current"
    and "goes_on dx rn t a r current s s1" and "af_task (files_at s1 t a) = Some task"
    and "active_run dx rn t a task s1 = (s', Inr d)"
proof -
  from assms obtain t a r where ta: "bnd (task_dir s task_id) (\<lambda>(t, tf). bnd (task_record tf) (\<lambda>r.
      bnd (attempt_to_run r chosen) (\<lambda>a. Inr (t, a, r)))) = Inr (t, a, r)"
    and rest: "(if rn_locked rn then slift (fail ''attempt-active'' ''another worker is running this attempt'')
    else sbnd (sread (\<lambda>s. bnd (file_of (af_record (files_at s t a))) validate_attempt_record))
      (run_current dx (revalidate_private_ready dx au) rn t a r)) s = (s', Inr d)"
    unfolding run_attempt_def by (elim sbnd_InrE) (auto simp: sread_Inr)
  from ta obtain tf where here: "task_id = PStr t" "aget s t = Some tf" "task_record tf = Inr r"
    "attempt_to_run r chosen = Inr a"
    by (auto elim!: bnd_InrE dest!: task_dirE)
  have first: "\<exists>current. af_record (files_at s t a) = Some current \<and> f current s = (s', Inr d)"
    if "(if rn_locked rn then slift (fail ''attempt-active'' ''another worker is running this attempt'')
      else sbnd (sread (\<lambda>s. bnd (file_of (af_record (files_at s t a))) validate_attempt_record)) f) s = (s', Inr d)" for f
    using that by (auto simp: sread_Inr slift_Inr file_of_Inr split: if_splits elim!: sbnd_InrE bnd_InrE
        dest!: validate_attempt_same)
  obtain current where current: "af_record (files_at s t a) = Some current"
    and rest: "run_current dx (revalidate_private_ready dx au) rn t a r current s = (s', Inr d)"
    using first [OF rest] by blast
  from rest show ?thesis
  proof (cases rule: run_currentE)
    case 1
    then show ?thesis using that(1) [OF here] current by simp
  next
    case 2
    then show ?thesis using that(2) [OF here current] by blast
  qed
qed

text \<open>
  C30. A run that returns a record has ended its attempt: the record is the stored one and is \<open>failed\<close>
  or \<open>private-appstore-ready\<close>. (A run that raises, because the host has no capacity or a record
  cannot be written, leaves the attempt open.)
\<close>

theorem returning_run_ends_the_attempt:
  assumes "run_attempt dx (revalidate_private_ready dx au) rn task_id chosen s = (s', Inr d)"
  shows "ended d \<and> (\<exists>t a. task_id = PStr t \<and> af_record (files_at s' t a) = Some d)"
  using assms
proof (rule run_attemptE)
  fix t tf r a current s1 task
  assume t: "task_id = PStr t" and run: "active_run dx rn t a task s1 = (s', Inr d)"
  have "ended d \<and> af_record (files_at s' t a) = Some d"
    using run
  proof (cases rule: active_runE)
    case failed
    then show ?thesis by (simp add: ended_def in_texts_def terminal_statuses_def)
  next
    case delivered
    show ?thesis
      using delivered(4)
      by (rule appstore_phaseE) (simp add: ended_def in_texts_def terminal_statuses_def)
  qed
  then show ?thesis using t by blast
qed auto

theorem returning_run_ends_the_attempt_witness:
  "\<forall>au rn. \<exists>d. run_attempt demo_dx (revalidate_private_ready demo_dx au) (rn\<lparr>rn_locked := False, rn_resume := None\<rparr>) (PStr demo_task_id) PNone
      (demo_store demo_failed) = (demo_store demo_failed, Inr d) \<and> ended d"
proof (intro allI)
  fix au rn
  have "run_attempt demo_dx (revalidate_private_ready demo_dx au) (rn\<lparr>rn_locked := False, rn_resume := None\<rparr>) (PStr demo_task_id) PNone
      (demo_store demo_failed) = (demo_store demo_failed, Inr (demo_record 1 PNone ''failed'' demo_failure))"
    by (rule demo_failed_run)
  then show "\<exists>d. run_attempt demo_dx (revalidate_private_ready demo_dx au) (rn\<lparr>rn_locked := False, rn_resume := None\<rparr>) (PStr demo_task_id) PNone
      (demo_store demo_failed) = (demo_store demo_failed, Inr d) \<and> ended d"
    using returning_run_ends_the_attempt by blast
qed




end
