(* ===== verification/DelivResumed.thy ===== *)
theory DelivResumed
  imports DelivTheorems
begin

text \<open>
  The properties of a resumed run: it asks no provider, and it changes the store only when the failed
  attempt is bound to everything that was retained of it.
\<close>

section \<open>The provider\<close>

text \<open>A run whose CodeAgent would answer otherwise: its answer, the preflight and the recovery.\<close>

definition with_provider :: "pyval dict res \<Rightarrow> (string \<times> exn) option \<Rightarrow> unit res \<Rightarrow> run_env \<Rightarrow> run_env" where
  "with_provider agent preflight recover rn =
    rn\<lparr>rn_agent := agent, rn_preflight := preflight, rn_recover := recover\<rparr>"

text \<open>The simplifier goes into the branches of a \<open>case\<close> with these.\<close>

lemmas case_congs = option.case_cong sum.case_cong prod.case_cong pyval.case_cong run_step.case_cong if_cong

lemma provider_free_fields:
  "rn_resume (with_provider x y z rn) = rn_resume rn" "rn_receipt (with_provider x y z rn) = rn_receipt rn"
  "rn_build (with_provider x y z rn) = rn_build rn" "rn_candidate (with_provider x y z rn) = rn_candidate rn"
  "rn_promote (with_provider x y z rn) = rn_promote rn" "rn_locked (with_provider x y z rn) = rn_locked rn"
  "rn_quarantine_manifest (with_provider x y z rn) = rn_quarantine_manifest rn"
  "rn_candidate_manifest (with_provider x y z rn) = rn_candidate_manifest rn"
  "rn_candidate_path (with_provider x y z rn) = rn_candidate_path rn" "rn_ingest (with_provider x y z rn) = rn_ingest rn"
  "rn_receipt_now (with_provider x y z rn) = rn_receipt_now rn"
  "rn_candidate_after (with_provider x y z rn) = rn_candidate_after rn"
  "rn_appstore_manifest (with_provider x y z rn) = rn_appstore_manifest rn"
  "rn_status (with_provider x y z rn) = rn_status rn" "rn_status_left (with_provider x y z rn) = rn_status_left rn"
  "rn_at (with_provider x y z rn) = rn_at rn" "rn_provider (with_provider x y z rn) = rn_provider rn"
  "rn_model (with_provider x y z rn) = rn_model rn"
  by (simp_all add: with_provider_def)

lemma provider_free_steps:
  "check_cancellation (with_provider x y z rn) = check_cancellation rn"
  "moving dx (with_provider x y z rn) = moving dx rn"
  "phase dx (with_provider x y z rn) = phase dx rn"
  "agent_bad dx (with_provider x y z rn) = agent_bad dx rn"
  "agent_handoff (with_provider x y z rn) = agent_handoff rn"
  "handoff_phase dx (with_provider x y z rn) = handoff_phase dx rn"
  "preserved_job dx (with_provider x y z rn) = preserved_job dx rn"
  "quarantine_outputs (with_provider x y z rn) = quarantine_outputs rn"
  "check_runtime_readiness (with_provider x y z rn) = check_runtime_readiness rn"
  by (intro ext, simp add: with_provider_def check_cancellation_def moving_def phase_def agent_bad_def agent_handoff_def
      handoff_phase_def preserved_job_def quarantine_outputs_def check_runtime_readiness_def
      cong: case_congs)+

lemmas provider_free = provider_free_steps provider_free_fields

lemma provider_free_agent:
  "agent_phase dx (with_provider x y z rn) t a True task = agent_phase dx rn t a True task"
  "agent_failed dx (with_provider x y z rn) = agent_failed dx rn"
proof -
  have "agent_status dx (with_provider x y z rn) t a True = agent_status dx rn t a True"
    by (intro ext) (simp add: agent_status_def provider_free cong: case_congs)
  then show "agent_phase dx (with_provider x y z rn) t a True task = agent_phase dx rn t a True task"
    by (simp add: agent_phase_def provider_free cong: case_congs del: One_nat_def)
  show "agent_failed dx (with_provider x y z rn) = agent_failed dx rn"
    by (intro ext) (simp add: agent_failed_def provider_free cong: case_congs)
qed

lemma provider_free_phases: "delivery_phases dx (with_provider x y z rn) t a task = delivery_phases dx rn t a task"
proof -
  have "built_receipt dx (with_provider x y z rn) = built_receipt dx rn"
    "promoted_candidate dx (with_provider x y z rn) = promoted_candidate dx rn"
    by (intro ext, simp add: built_receipt_def promoted_candidate_def provider_free cong: case_congs)+
  then show ?thesis
    by (simp add: delivery_phases_def builder_phase_def verifier_phase_def appstore_phase_def provider_free
        cong: case_congs)
qed

text \<open>
  C35. Recovery never asks a provider: the outcome of a resumed run, in the store and as a result, does
  not depend on what the CodeAgent would answer, on the preflight or on a recovery call, whatever
  the state of the attempt.
\<close>

theorem resume_never_asks_a_provider:
  assumes "rn_resume rn = Some re"
  shows "run_attempt dx revalidate (with_provider agent preflight recover rn) task_id chosen
    = run_attempt dx revalidate rn task_id chosen"
proof -
  let ?rn = "with_provider agent preflight recover rn"
  have "active_run dx ?rn t a = active_run dx rn t a" for t a
    by (intro ext) (simp add: active_run_def assms provider_free provider_free_agent provider_free_phases
        cong: case_congs)
  then have "run_current dx revalidate ?rn t a r = run_current dx revalidate rn t a r" for t a r
    by (intro ext) (simp add: run_current_def reopen_def assms provider_free cong: case_congs)
  then show ?thesis by (simp add: run_attempt_def provider_free cong: case_congs)
qed

section \<open>A resumable attempt\<close>

definition demo_retained_status :: "pyval dict" where
  "demo_retained_status =
    [(''schema_version'', PStr ''vibapp.codeagent-adapter-status.experimental-v2''), (''adapter'', PStr ''local-codeagent-adapter''),
     (''status'', PStr ''source-ready''), (''current_stage'', PStr ''awaiting-separate-builder''), (''error'', PNone),
     (''job_id'', PStr ''job-1''), (''need_id'', PStr ''need-1''), (''need_spec_revision'', PInt 1),
     (''immutable_task_digest_sha256'', PStr zero_sha), (''consent_id'', PStr (demo_consent 1)),
     (''consent_consumed'', PBool True), (''provider_execution_identity_sha256'', PStr zero_sha),
     (''provider_id'', PStr ''codex''), (''task_provider'', PStr ''openai-codex''), (''model'', PStr ''m1''),
     (''identity_observed'', PBool True), (''execution_available'', PBool True), (''builder_invoked'', PBool False),
     (''verifier_invoked'', PBool False), (''installation_performed'', PBool False), (''publication_performed'', PBool False),
     (''provider_process_started'', PBool True), (''external_request_attempted'', PBool True),
     (''external_request_observed'', PBool False), (''gateway_request_id'', PNone),
     (''handoff_relative_path'', PStr ''runs/job-1/handoff.json''), (''handoff_sha256'', PStr zero_sha)]"

definition demo_outputs :: "pyval dict" where
  "demo_outputs =
    [(''source_handoff_path'', PStr ''runs/job-1/handoff.json''), (''source_handoff_sha256'', PStr zero_sha),
     (''codeagent_provider_id'', PStr ''codex''), (''codeagent_model'', PStr ''m1''),
     (''external_request_attempted'', PBool True), (''external_request_observed'', PBool False), (''gateway_request_id'', PNone)]"

definition demo_execution :: "pyval dict" where
  "demo_execution =
    [(''mode'', PStr ''direct-local-explicit-opt-in''), (''provider_id'', PStr ''codex''), (''executable_sha256'', PStr zero_sha),
     (''external_request_attempted'', PBool True), (''external_request_observed'', PBool False), (''gateway_request_id'', PNone)]"

definition demo_resume :: resume_env where
  "demo_resume = \<lparr>re_text = (\<lambda>_. []), re_worker = None, re_status = Some demo_retained_status, re_handoff_path = (\<lambda>p. p),
    re_direct = True, re_handoff_sha = Inr zero_sha, re_handoff = Inr (demo_handoff @ [(''provider_execution'', PDict demo_execution)]),
    re_busy = False, re_job = None, re_history = ''failed-jobs'', re_taken = (\<lambda>_. False)\<rparr>"

definition demo_resumable_record :: "pyval dict" where
  "demo_resumable_record = aput ''outputs'' (PDict demo_outputs) (demo_record 1 PNone ''failed'' demo_failure)"

definition demo_resumable :: task_files where
  "demo_resumable = \<lparr>tf_record = Some (demo_task_record [demo_id 1]),
    tf_attempts = [(demo_id 1, demo_files 1 (Some demo_resumable_record))]\<rparr>"

definition demo_resuming :: run_env where
  "demo_resuming = demo_rn\<lparr>rn_resume := Some demo_resume\<rparr>"






theorem resume_never_asks_a_provider_witness:
  "\<forall>r. run_attempt demo_dx r (with_provider (fail ''provider'' ''none'') None (Inr ()) demo_resuming) (PStr demo_task_id) PNone
      (demo_store demo_resumable)
    = run_attempt demo_dx r demo_resuming (PStr demo_task_id) PNone (demo_store demo_resumable)"
proof -
  have "rn_resume demo_resuming = Some demo_resume" by (simp add: demo_resuming_def)
  then show ?thesis using resume_never_asks_a_provider by metis
qed

section \<open>What has to hold\<close>



lemma fst_reads [simp]: "fst (sread f s) = s" "fst (slift r s) = s"
  by (simp_all add: sread_def slift_def)











end
