(* ===== verification/HostBudget.thy ===== *)
theory HostBudget
  imports PyVal Complex_Main
begin

text \<open>
  The host budget (\<open>codeagent-launcher/host_budget.py\<close>): how many pipelines, authors and compilers of
  one user may run on a host, as advisory locks on a fixed set of files. \<open>lease\<close> takes the first free
  slot, or waits a bounded time for one.

  The operating system is a parameter: what \<open>stat\<close> and \<open>open\<close> return, which slots other processes hold
  when a round of the loop tries them, the cancellation flag and the monotonic clock at each reading.
  Times are reals: the rounding of floats is not modelled. Errors of the operating system in the loop
  are not modelled.
\<close>

section \<open>Limits and arguments\<close>

definition author_limit :: nat where "author_limit = 2"
definition max_wait_seconds :: real where "max_wait_seconds = 1800"

definition budget_limits :: "(string \<times> nat) list" where
  "budget_limits =
    [(''pipeline'', author_limit), (''codeagent'', author_limit), (''compiler'', 1), (''docker-admission'', 1),
     (''pipeline-legacy'', 1), (''codeagent-legacy'', 1)]"

definition budget_error :: "string \<Rightarrow> exn" where
  "budget_error m = Fail ''execution-lock-invalid'' m False"

definition cancelled_error :: exn where
  "cancelled_error = Fail ''provider-cancelled'' ''provider-cancelled'' False"

definition busy_error :: exn where
  "busy_error = Fail ''local-capacity-busy'' ''host execution capacity is occupied'' False"

text \<open>The limit of a kind, and the seconds to wait; \<open>fv\<close> is the value of a float, none for NaN.\<close>

definition kind_limit :: "pyval \<Rightarrow> nat option" where
  "kind_limit v = (case v of PStr k \<Rightarrow> aget budget_limits k | _ \<Rightarrow> None)"

definition wait_bound :: "(string \<Rightarrow> real option) \<Rightarrow> pyval \<Rightarrow> real option" where
  "wait_bound fv v =
    (case (case v of PInt i \<Rightarrow> Some (of_int i) | PFloat s \<Rightarrow> fv s | _ \<Rightarrow> None) of
       None \<Rightarrow> None
     | Some w \<Rightarrow> if 0 \<le> w \<and> w \<le> max_wait_seconds then Some w else None)"

section \<open>Files\<close>

record file_meta =
  fm_directory :: bool
  fm_regular :: bool
  fm_links :: nat
  fm_uid :: nat
  fm_mode :: nat
  fm_inode :: "nat \<times> nat"

text \<open>\<open>st_mode & 0o077\<close> is the last six bits.\<close>

definition private_meta :: "nat \<Rightarrow> bool \<Rightarrow> file_meta \<Rightarrow> bool" where
  "private_meta uid directory m \<longleftrightarrow>
    (if directory then fm_directory m else fm_regular m \<and> fm_links m = 1) \<and> fm_uid m = uid \<and> fm_mode m mod 64 = 0"

text \<open>What an open file and the name it was opened by are, when they are looked at.\<close>

definition check_slot :: "nat \<Rightarrow> file_meta \<times> file_meta \<Rightarrow> unit res" where
  "check_slot uid mc =
    (if \<not> private_meta uid False (fst mc) \<or> fm_inode (fst mc) \<noteq> fm_inode (snd mc)
     then Inl (budget_error ''host budget lock is unsafe'') else Inr ())"

definition check_directory :: "nat \<Rightarrow> file_meta \<times> file_meta \<Rightarrow> unit res" where
  "check_directory uid mc =
    (if \<not> private_meta uid True (fst mc) \<or> fm_inode (fst mc) \<noteq> fm_inode (snd mc)
     then Inl (budget_error ''host budget directory is unsafe'') else Inr ())"

text \<open>
  \<open>_open_slot\<close>: opening, else creating exclusively, and again when another process created the file in
  between; \<open>tries\<close> says of each round whether the open and the creation succeed.
\<close>

fun open_rounds :: "nat \<Rightarrow> (nat \<Rightarrow> bool \<times> bool) \<Rightarrow> nat \<Rightarrow> unit res" where
  "open_rounds 0 tries i = Inl (budget_error ''host budget lock changed during open'')"
| "open_rounds (Suc n) tries i =
    (case tries i of
       (True, _) \<Rightarrow> Inr ()
     | (False, True) \<Rightarrow> Inr ()
     | (False, False) \<Rightarrow> open_rounds n tries (i + 1))"

definition open_slot :: "(nat \<Rightarrow> bool \<times> bool) \<Rightarrow> unit res" where
  "open_slot tries = open_rounds 3 tries 0"

section \<open>Taking a slot\<close>

text \<open>
  The readings of one call: the slots held by others, the flag (before and after a slot is taken), the
  slot's file after it is taken, and the clock after the slots were tried.
\<close>

record lease_env =
  le_uid :: nat
  le_directory :: "file_meta \<times> file_meta"
  le_open :: "nat \<Rightarrow> nat \<Rightarrow> bool \<times> bool"
  le_slot :: "nat \<Rightarrow> file_meta \<times> file_meta"
  le_start :: real
  le_flag :: "nat \<Rightarrow> bool"
  le_flag_after :: "nat \<Rightarrow> bool"
  le_busy :: "nat \<Rightarrow> nat \<Rightarrow> bool"
  le_taken :: "nat \<Rightarrow> nat \<Rightarrow> file_meta \<times> file_meta"
  le_clock :: "nat \<Rightarrow> real"

definition first_free :: "(nat \<Rightarrow> bool) \<Rightarrow> nat \<Rightarrow> nat option" where
  "first_free busy limit = find (\<lambda>i. \<not> busy i) [0..<limit]"

text \<open>What a round decides: \<open>None\<close> is to sleep and go on.\<close>

definition lease_round :: "lease_env \<Rightarrow> nat \<Rightarrow> real \<Rightarrow> nat \<Rightarrow> nat res option" where
  "lease_round e limit deadline i =
    (if le_flag e i then Some (Inl cancelled_error)
     else case first_free (le_busy e i) limit of
       Some slot \<Rightarrow> Some (bnd (check_slot (le_uid e) (le_taken e i slot)) (\<lambda>_.
         if le_flag_after e i then Inl cancelled_error else Inr slot))
     | None \<Rightarrow> if deadline - le_clock e i \<le> 0 then Some (Inl busy_error) else None)"

partial_function (option) lease_loop :: "lease_env \<Rightarrow> nat \<Rightarrow> real \<Rightarrow> nat \<Rightarrow> nat res option" where
  "lease_loop e limit deadline i =
    (case lease_round e limit deadline i of
       Some r \<Rightarrow> Some r
     | None \<Rightarrow> lease_loop e limit deadline (i + 1))"

definition lease :: "(string \<Rightarrow> real option) \<Rightarrow> lease_env \<Rightarrow> pyval \<Rightarrow> pyval \<Rightarrow> nat res option" where
  "lease fv e kind wait =
    (case (kind_limit kind, wait_bound fv wait) of
       (Some limit, Some w) \<Rightarrow>
         (case bnd (check_directory (le_uid e) (le_directory e)) (\<lambda>_.
             each (\<lambda>slot. bnd (open_slot (le_open e slot)) (\<lambda>_. check_slot (le_uid e) (le_slot e slot))) [0..<limit]) of
            Inl err \<Rightarrow> Some (Inl err)
          | Inr _ \<Rightarrow> lease_loop e limit (le_start e + w) 0)
     | _ \<Rightarrow> Some (Inl (budget_error ''invalid host budget or wait bound'')))"


lemma first_stop:
  assumes "\<exists>k\<le>(n :: nat). P k"
  shows "\<exists>k\<le>n. P k \<and> (\<forall>j<k. \<not> P j)"
proof -
  from assms obtain m where m: "m \<le> n" "P m" by blast
  then have "(LEAST k. P k) \<le> n" by (meson Least_le order.trans)
  then show ?thesis using LeastI [of P m] m not_less_Least by blast
qed

lemma lease_loop_stops:
  assumes "lease_round e limit deadline k = Some r" and "i \<le> k" and "\<forall>j. i \<le> j \<and> j < k \<longrightarrow> lease_round e limit deadline j = None"
  shows "lease_loop e limit deadline i = Some r"
  using assms(2,3)
proof (induction "k - i" arbitrary: i)
  case 0
  then show ?case using assms(1) by (simp add: lease_loop.simps)
next
  case (Suc d)
  then have "lease_round e limit deadline i = None" by auto
  moreover have "lease_loop e limit deadline (i + 1) = Some r" using Suc by (intro Suc.hyps(1)) auto
  ultimately show ?case by (simp add: lease_loop.simps)
qed

text \<open>
  The clock after \<open>k\<close> rounds that went on: a sleep of \<open>min(.05, remaining)\<close> is never shorter, so the
  rounds cannot outlast the deadline.
\<close>

definition clock_advances :: "lease_env \<Rightarrow> real \<Rightarrow> bool" where
  "clock_advances e deadline \<longleftrightarrow> le_start e \<le> le_clock e 0 \<and>
    (\<forall>i. le_flag e (i + 1) \<or> le_clock e i + min (1 / 20) (deadline - le_clock e i) \<le> le_clock e (i + 1))"

lemma clock_after:
  assumes "clock_advances e deadline" and "\<forall>j\<le>k. \<not> le_flag e j"
  shows "min deadline (le_start e + real k / 20) \<le> le_clock e k"
  using assms(2)
proof (induction k)
  case 0
  then show ?case using assms(1) by (auto simp: clock_advances_def min_def)
next
  case (Suc k)
  then have "\<not> le_flag e (k + 1)" by auto
  then have "le_clock e k + min (1 / 20) (deadline - le_clock e k) \<le> le_clock e (Suc k)"
    using assms(1) unfolding clock_advances_def by (metis Suc_eq_plus1)
  moreover have "min deadline (le_start e + real k / 20) \<le> le_clock e k" using Suc by auto
  ultimately show ?case by (auto simp: min_def field_simps split: if_splits)
qed

lemma some_round_stops:
  assumes "clock_advances e (le_start e + w)" and "20 * w \<le> real n"
  shows "\<exists>k\<le>n. lease_round e limit (le_start e + w) k \<noteq> None"
proof (rule ccontr)
  assume "\<not> (\<exists>k\<le>n. lease_round e limit (le_start e + w) k \<noteq> None)"
  then have none: "\<forall>k\<le>n. lease_round e limit (le_start e + w) k = None" by auto
  then have "\<forall>k\<le>n. \<not> le_flag e k" by (auto simp: lease_round_def)
  from clock_after [OF assms(1) this] have "le_start e + w \<le> le_clock e n"
    using assms(2) by (auto simp: min_def field_simps split: if_splits)
  moreover have "le_clock e n < le_start e + w"
    using none by (auto simp: lease_round_def split: option.splits if_splits)
  ultimately show False by simp
qed

section \<open>Holding slots\<close>







section \<open>Properties\<close>

text \<open>
  C38. A lease always returns: within \<open>20 * w + 1\<close> rounds of the loop (36,001 for the longest wait of 30
  minutes) it has a slot, was cancelled, failed a check or gave up as busy, if a sleep is not shorter
  than asked for and the clock does not go back.
\<close>

theorem lease_returns_in_time:
  assumes "kind_limit kind = Some limit" and "wait_bound fv wait = Some w" and "clock_advances e (le_start e + w)"
  shows "\<exists>r. lease fv e kind wait = Some r
    \<and> (is_ok r \<longrightarrow> (\<exists>k\<le>nat \<lceil>20 * w\<rceil>. lease_round e limit (le_start e + w) k = Some r))
    \<and> (\<exists>k\<le>nat \<lceil>20 * w\<rceil>. lease_round e limit (le_start e + w) k \<noteq> None) \<and> nat \<lceil>20 * w\<rceil> \<le> 36000"
proof -
  have w: "0 \<le> w \<and> w \<le> 1800"
    using assms(2) by (auto simp: wait_bound_def max_wait_seconds_def split: option.splits if_splits)
  then have n: "20 * w \<le> real (nat \<lceil>20 * w\<rceil>)" "nat \<lceil>20 * w\<rceil> \<le> 36000" by linarith+
  let ?stops = "\<lambda>k. lease_round e limit (le_start e + w) k \<noteq> None"
  have some: "\<exists>k\<le>nat \<lceil>20 * w\<rceil>. ?stops k" by (rule some_round_stops [OF assms(3) n(1)])
  obtain k where k: "?stops k" "\<forall>j<k. \<not> ?stops j" and le: "k \<le> nat \<lceil>20 * w\<rceil>"
    using first_stop [OF some] by blast
  obtain r where r: "lease_round e limit (le_start e + w) k = Some r" using k(1) by auto
  then have loop: "lease_loop e limit (le_start e + w) 0 = Some r"
    using k by (intro lease_loop_stops) auto
  show ?thesis
    using assms(1,2) loop r le some n by (auto simp: lease_def split: sum.split)
qed

definition demo_lease :: "bool \<Rightarrow> lease_env" where
  "demo_lease busy =
    (let file = \<lparr>fm_directory = False, fm_regular = True, fm_links = 1, fm_uid = 501, fm_mode = 384, fm_inode = (1, 7)\<rparr>;
         folder = file\<lparr>fm_directory := True, fm_mode := 448\<rparr> in
     \<lparr>le_uid = 501, le_directory = (folder, folder), le_open = (\<lambda>_ _. (True, True)), le_slot = (\<lambda>_. (file, file)),
      le_start = 0, le_flag = (\<lambda>_. False), le_flag_after = (\<lambda>_. False), le_busy = (\<lambda>_ _. busy),
      le_taken = (\<lambda>_ _. (file, file)), le_clock = real\<rparr>)"

theorem lease_returns_in_time_witness:
  "\<exists>r. lease (\<lambda>_. None) (demo_lease True) (PStr ''compiler'') (PInt 1) = Some r"
proof -
  have "kind_limit (PStr ''compiler'') = Some 1" by (simp add: kind_limit_def budget_limits_def)
  moreover have "wait_bound (\<lambda>_. None) (PInt 1) = Some 1" by (simp add: wait_bound_def max_wait_seconds_def)
  moreover have "clock_advances (demo_lease True) (le_start (demo_lease True) + 1)"
    by (auto simp: clock_advances_def demo_lease_def Let_def min_def)
  ultimately show ?thesis using lease_returns_in_time by blast
qed



end
