(* ===== verification/DelivLegacy.thy ===== *)
theory DelivLegacy
  imports DelivAudit HostBudget PyJsonRound
begin

text \<open>
  The history of a task (\<open>DeliveryController.history\<close>) when its records are of the first format, which
  is read and never written (\<open>orchestrator/delivery_history.py\<close>).

  \<open>legacy_env\<close> is the file system under the controller's root: what \<open>lstat\<close> says of a directory, the
  metadata, size and bytes of a file, the entries of a directory with whether each is one, and the
  reading of \<open>task.json\<close> by the controller itself. A path is the list of its components.
  \<open>lg_text\<close> is the decoding \<open>json.loads\<close> does of bytes, \<open>lg_pads\<close> whether \<open>strftime\<close> pads a year below
  1000 to four digits (it depends on the platform).
\<close>

record legacy_env =
  lg_uid :: nat
  lg_root :: "bool res"
  lg_lstat :: "string list \<Rightarrow> file_meta res"
  lg_file :: "string list \<Rightarrow> (file_meta \<times> int \<times> string) res"
  lg_entries :: "string list \<Rightarrow> (string \<times> bool) list res"
  lg_text :: "string \<Rightarrow> string res"
  lg_interp :: interp
  lg_pads :: bool
  lg_probe :: "string \<Rightarrow> pyval dict res"

definition legacy_task_version :: string where "legacy_task_version = ''vibapp.delivery-task.experimental-v1''"
definition legacy_attempt_version :: string where "legacy_attempt_version = ''vibapp.delivery-attempt.experimental-v1''"
definition history_version :: string where "history_version = ''vibapp.delivery-controller.experimental-v2''"
definition max_history_bytes :: int where "max_history_bytes = 512 * 1024"

definition legacy_task_fields :: "string list" where
  "legacy_task_fields =
    [''schema_version'', ''document_type'', ''task_id'', ''need_id'', ''attempt_count'', ''current_attempt_id'',
     ''attempt_ids'', ''created_at_utc'', ''updated_at_utc'']"

definition legacy_attempt_fields :: "string list" where
  "legacy_attempt_fields =
    [''schema_version'', ''document_type'', ''task_id'', ''attempt_id'', ''attempt_number'', ''retry_of_attempt_id'',
     ''need_id'', ''title'', ''need_spec_revision'', ''job_id'', ''registry_request_id'', ''registry_evidence_sha256'',
     ''canonical_task_sha256'', ''immutable_task_digest_sha256'', ''status'', ''stage'', ''progress_percent'', ''error'',
     ''outputs'', ''event_count'', ''created_at_utc'', ''updated_at_utc'']"

definition history_error :: "string \<Rightarrow> exn" where
  "history_error c = Fail c c False"

section \<open>Records\<close>

text \<open>\<open>strptime\<close> and back: the canonical texts of instants.\<close>

definition legacy_utc :: "bool \<Rightarrow> pyval \<Rightarrow> bool" where
  "legacy_utc pads v = pstr_such (\<lambda>s. parse_utc_text s \<noteq> None \<and> (pads \<or> 1000 \<le> num4 s 0)) v"

definition legacy_ids_ok :: "pyval dict \<Rightarrow> bool" where
  "legacy_ids_ok d =
    (case dget d ''attempt_ids'' of
       PList xs \<Rightarrow>
         1 \<le> len xs \<and> len xs \<le> attempt_cap \<and> list_all (pstr_such attempt_id_shape) xs \<and> distinct xs
         \<and> dget d ''attempt_count'' = PInt (len xs) \<and> dget d ''current_attempt_id'' = last xs
     | _ \<Rightarrow> False)"

definition legacy_task_ok :: "bool \<Rightarrow> pyval dict \<Rightarrow> bool" where
  "legacy_task_ok pads d \<longleftrightarrow>
    fields_are legacy_task_fields d \<and> dget d ''schema_version'' = PStr legacy_task_version
    \<and> dget d ''document_type'' = PStr ''delivery-task'' \<and> pstr_such task_id_shape (dget d ''task_id'')
    \<and> pstr_such identifier_shape (dget d ''need_id'') \<and> legacy_ids_ok d
    \<and> legacy_utc pads (dget d ''created_at_utc'') \<and> legacy_utc pads (dget d ''updated_at_utc'')"

definition validate_legacy_task :: "bool \<Rightarrow> pyval dict \<Rightarrow> pyval dict res" where
  "validate_legacy_task pads d =
    (if legacy_task_ok pads d then Inr d else Inl (history_error ''legacy-task-binding-invalid''))"

definition validate_legacy_attempt :: "bool \<Rightarrow> pyval dict \<Rightarrow> pyval dict res" where
  "validate_legacy_attempt pads d = bnd (refuse
     [holds (\<not> fields_are legacy_attempt_fields d),
      holds (dget d ''schema_version'' \<noteq> PStr legacy_attempt_version),
      holds (dget d ''document_type'' \<noteq> PStr ''delivery-attempt''),
      holds (\<not> pstr_such task_id_shape (dget d ''task_id'')),
      holds (\<not> pstr_such attempt_id_shape (dget d ''attempt_id'')),
      holds (\<not> pint_within 1 attempt_cap (dget d ''attempt_number'')),
      holds (dget d ''retry_of_attempt_id'' \<noteq> PNone \<and> \<not> pstr_such attempt_id_shape (dget d ''retry_of_attempt_id'')),
      holds (\<not> pstr_such identifier_shape (dget d ''need_id'')),
      holds (\<not> pstr_such identifier_shape (dget d ''job_id'')),
      holds (\<not> text_between 1 80 (dget d ''title'')),
      holds (\<not> pint_from 1 (dget d ''need_spec_revision'')),
      holds (\<not> text_between 1 128 (dget d ''registry_request_id'')),
      holds (\<not> list_all (\<lambda>k. pstr_such hex64 (dget d k))
        [''registry_evidence_sha256'', ''canonical_task_sha256'', ''immutable_task_digest_sha256'']),
      bnd (member_of attempt_statuses (dget d ''status'')) (\<lambda>b. Inr (\<not> b)),
      holds (\<not> text_between 1 80 (dget d ''stage'')),
      holds (\<not> pint_within 0 100 (dget d ''progress_percent'')),
      holds (dget d ''error'' \<noteq> PNone \<and> \<not> is_pdict (dget d ''error'')),
      holds (\<not> is_pdict (dget d ''outputs'')),
      holds (\<not> pint_from 0 (dget d ''event_count'')),
      holds (\<not> legacy_utc pads (dget d ''created_at_utc'')),
      holds (\<not> legacy_utc pads (dget d ''updated_at_utc''))]
     (history_error ''legacy-attempt-binding-invalid'')) (\<lambda>_. Inr d)"

section \<open>Files\<close>

text \<open>\<open>st_mode & 0o022\<close>: bits one and four.\<close>

definition others_write :: "file_meta \<Rightarrow> bool" where
  "others_write m \<longleftrightarrow> odd (fm_mode m div 2) \<or> odd (fm_mode m div 16)"

definition legacy_directory :: "legacy_env \<Rightarrow> string list \<Rightarrow> unit res" where
  "legacy_directory lg path =
    bnd (lg_lstat lg path) (\<lambda>m.
    if \<not> fm_directory m \<or> fm_uid m \<noteq> lg_uid lg \<or> others_write m
    then Inl (history_error ''legacy-history-unsafe-directory'') else Inr ())"

fun legacy_pairs :: "pyval dict \<Rightarrow> (string \<times> pyval) list \<Rightarrow> pyval res" where
  "legacy_pairs d [] = Inr (PDict d)"
| "legacy_pairs d ((k, v) # kvs) =
    (if has k d then Inl (history_error ''legacy-history-duplicate-json-key'') else legacy_pairs (aput k v d) kvs)"

definition legacy_constant :: "string \<Rightarrow> pyval res" where
  "legacy_constant s = Inl (history_error ''legacy-history-invalid-json-number'')"

definition legacy_read :: "legacy_env \<Rightarrow> string list \<Rightarrow> (pyval dict \<times> int) res" where
  "legacy_read lg path =
    bnd (lg_file lg path) (\<lambda>(m, size, content).
    if \<not> fm_regular m \<or> fm_uid m \<noteq> lg_uid lg \<or> fm_links m \<noteq> 1 \<or> others_write m \<or> size < 1 \<or> max_document_bytes < size
    then Inl (history_error ''legacy-history-unsafe-document'')
    else (let raw = take (nat (max_document_bytes + 1)) content in
      if max_document_bytes < len raw then Inl (history_error ''legacy-history-document-limit'')
      else bnd (lg_text lg raw) (\<lambda>s.
        bnd (json_loads ((lg_interp lg)\<lparr>py_constant := legacy_constant\<rparr>) (legacy_pairs []) s) (\<lambda>v.
        case v of PDict d \<Rightarrow> Inr (d, len raw) | _ \<Rightarrow> Inl (history_error ''legacy-history-invalid-document'')))))"

section \<open>The history\<close>

definition legacy_inventory :: "legacy_env \<Rightarrow> string list \<Rightarrow> string list res" where
  "legacy_inventory lg path =
    bnd (lg_entries lg path) (\<lambda>entries.
    if attempt_cap < len entries \<or> \<not> list_all (\<lambda>(name, dir). attempt_id_shape name \<and> dir) entries
    then Inl (history_error ''legacy-attempt-inventory-invalid'') else Inr (map fst entries))"

definition legacy_bound :: "pyval dict \<Rightarrow> string \<Rightarrow> int \<Rightarrow> pyval \<Rightarrow> pyval dict \<Rightarrow> bool" where
  "legacy_bound task a number previous d \<longleftrightarrow>
    dget d ''task_id'' = dget task ''task_id'' \<and> dget d ''need_id'' = dget task ''need_id''
    \<and> dget d ''attempt_id'' = PStr a \<and> dget d ''attempt_number'' = PInt number
    \<and> dget d ''retry_of_attempt_id'' = previous"

text \<open>The attempts in the order of the index, with the number and the identifier of the one before.\<close>

fun legacy_attempts :: "legacy_env \<Rightarrow> string list \<Rightarrow> pyval dict \<Rightarrow> int \<Rightarrow> pyval \<Rightarrow> int \<Rightarrow> string list \<Rightarrow> pyval dict list res" where
  "legacy_attempts lg folder task number previous bytes [] = Inr []"
| "legacy_attempts lg folder task number previous bytes (a # rest) =
    bnd (legacy_directory lg (folder @ [a])) (\<lambda>_.
    bnd (legacy_read lg (folder @ [a, ''attempt.json''])) (\<lambda>(d, size).
    if max_history_bytes < bytes + size then Inl (history_error ''legacy-history-size-limit'')
    else bnd (validate_legacy_attempt (lg_pads lg) d) (\<lambda>d.
      if \<not> legacy_bound task a (number + 1) previous d then Inl (history_error ''legacy-attempt-binding-invalid'')
      else bnd (legacy_attempts lg folder task (number + 1) (PStr a) (bytes + size) rest) (\<lambda>ds. Inr (d # ds)))))"

definition legacy_result :: "pyval dict \<Rightarrow> pyval dict list \<Rightarrow> pyval dict" where
  "legacy_result task ds =
    [(''schema_version'', PStr history_version), (''task'', PDict task), (''attempts'', PList (map PDict ds)),
     (''legacy_read_only'', PBool True)]"

definition legacy_sized :: "pyval dict \<Rightarrow> pyval dict res" where
  "legacy_sized d =
    (let b = json_enc (PDict d) in
     if has_surrogate b then Inl (Crash ''UnicodeEncodeError'')
     else if max_history_bytes < len b + 128 then Inl (history_error ''legacy-history-size-limit'')
     else Inr d)"

definition read_legacy_history :: "legacy_env \<Rightarrow> pyval \<Rightarrow> pyval dict option res" where
  "read_legacy_history lg task_id =
    (if \<not> pstr_such task_id_shape task_id then Inl (history_error ''invalid-task-id'')
     else (let t = text_in task_id; home = [''tasks'', t]; attempts = home @ [''attempts''] in
       bnd (lg_root lg) (\<lambda>ok.
       if \<not> ok then Inl (history_error ''legacy-history-unsafe-directory'')
       else bnd (each (legacy_directory lg) [[], [''tasks''], home]) (\<lambda>_.
         bnd (legacy_read lg (home @ [''task.json''])) (\<lambda>(task, size).
         if dget task ''schema_version'' \<noteq> PStr legacy_task_version then Inr None
         else bnd (validate_legacy_task (lg_pads lg) task) (\<lambda>task.
           if dget task ''task_id'' \<noteq> PStr t then Inl (history_error ''legacy-task-binding-invalid'')
           else bnd (legacy_directory lg attempts) (\<lambda>_.
             bnd (legacy_inventory lg attempts) (\<lambda>observed.
             if set observed \<noteq> set (ids_of task) then Inl (history_error ''legacy-attempt-index-stale'')
             else bnd (legacy_attempts lg attempts task 0 PNone size (ids_of task)) (\<lambda>ds.
               bnd (legacy_sized (legacy_result task ds)) (\<lambda>d. Inr (Some d)))))))))))"

text \<open>
  \<open>history\<close>: a task whose \<open>task.json\<close> can be probed and is of the first format. Errors of the probe are
  swallowed if they are the controller's own or the operating system's.
\<close>

definition os_errors :: "string list" where
  "os_errors = [''OSError'', ''FileNotFoundError'', ''PermissionError'', ''NotADirectoryError'', ''IsADirectoryError'',
    ''FileExistsError'', ''BlockingIOError'', ''InterruptedError'', ''TimeoutError'']"

definition swallowed :: "bool res \<Rightarrow> bool res" where
  "swallowed r = (case r of Inl (Fail c m t) \<Rightarrow> Inr False | Inl (Crash k) \<Rightarrow> if k \<in> set os_errors then Inr False else r | _ \<Rightarrow> r)"

definition legacy_schema :: "legacy_env \<Rightarrow> pyval \<Rightarrow> bool res" where
  "legacy_schema lg task_id =
    (if \<not> pstr_such task_id_shape task_id then Inr False
     else (let t = text_in task_id in
       swallowed (bnd (rmap (lg_lstat lg) [[], [''tasks''], [''tasks'', t]]) (\<lambda>ms.
         if list_all (\<lambda>m. fm_directory m \<and> fm_uid m = lg_uid lg) ms
         then bnd (lg_probe lg t) (\<lambda>d. Inr (dget d ''schema_version'' = PStr legacy_task_version))
         else Inr False))))"

definition task_history :: "legacy_env \<Rightarrow> (string \<Rightarrow> diag_env) \<Rightarrow> pyval \<Rightarrow> store \<Rightarrow> pyval dict res" where
  "task_history lg dg task_id s =
    bnd (legacy_schema lg task_id) (\<lambda>legacy.
    if legacy then bnd (read_legacy_history lg task_id) (\<lambda>r.
      case r of None \<Rightarrow> Inl (integrity_error ''legacy task changed while history was read'') | Some d \<Rightarrow> Inr d)
    else delivery_history dg task_id s)"

section \<open>Properties\<close>

lemma validate_legacy_same: "validate_legacy_attempt pads d = Inr d' \<Longrightarrow> d' = d"
  unfolding validate_legacy_attempt_def by (elim bnd_InrE) simp

lemma legacy_attempts_chain:
  assumes "legacy_attempts lg folder task n previous bytes as = Inr ds"
  shows "list_all2 (\<lambda>a d. validate_legacy_attempt (lg_pads lg) d = Inr d \<and> dget d ''attempt_id'' = PStr a
      \<and> dget d ''task_id'' = dget task ''task_id'' \<and> dget d ''need_id'' = dget task ''need_id'') as ds
    \<and> map (\<lambda>d. dget d ''attempt_number'') ds = map PInt [n + 1..n + len ds]
    \<and> map (\<lambda>d. dget d ''retry_of_attempt_id'') ds = take (length ds) (previous # map PStr as)"
  using assms
proof (induction as arbitrary: n previous bytes ds)
  case (Cons a rest)
  from Cons.prems obtain d0 d size ds' where "validate_legacy_attempt (lg_pads lg) d0 = Inr d"
    and d: "legacy_bound task a (n + 1) previous d" and ds: "ds = d # ds'"
    and rest: "legacy_attempts lg folder task (n + 1) (PStr a) (bytes + size) rest = Inr ds'"
    by (auto elim!: bnd_InrE split: if_splits)
  then have valid: "validate_legacy_attempt (lg_pads lg) d = Inr d" using validate_legacy_same by metis
  have "[n + 1..n + (1 + len ds')] = (n + 1) # [n + 1 + 1..n + 1 + len ds']"
    by (subst upto_rec1) (simp_all add: add_ac)
  then show ?case using d valid Cons.IH [OF rest] by (simp add: ds legacy_bound_def add_ac)
qed simp

text \<open>
  C36. A history of the first format is the whole chain of the task's attempts: the task's record is
  well formed and its own, the attempts are those of the index and the directories there are, in
  the order of the index, numbered 1, 2, 3, ..., each the retry of the one before, well formed and of
  the same task and need, and the document is within its bound.
\<close>

theorem legacy_history_is_the_chain:
  assumes "read_legacy_history lg task_id = Inr (Some h)"
  shows "\<exists>t task ds entries. task_id = PStr t \<and> h = legacy_result task ds \<and> legacy_task_ok (lg_pads lg) task
    \<and> dget task ''task_id'' = PStr t
    \<and> list_all2 (\<lambda>a d. validate_legacy_attempt (lg_pads lg) d = Inr d \<and> dget d ''attempt_id'' = PStr a
        \<and> dget d ''task_id'' = PStr t \<and> dget d ''need_id'' = dget task ''need_id'') (ids_of task) ds
    \<and> map (\<lambda>d. dget d ''attempt_number'') ds = map PInt [1..len ds]
    \<and> map (\<lambda>d. dget d ''retry_of_attempt_id'') ds = take (length ds) (PNone # map PStr (ids_of task))
    \<and> lg_entries lg [''tasks'', t, ''attempts''] = Inr entries \<and> set (map fst entries) = set (ids_of task)
    \<and> len (json_enc (PDict h)) + 128 \<le> max_history_bytes"
proof -
  obtain t where t: "task_id = PStr t"
    using assms by (auto simp: read_legacy_history_def pstr_such_iff split: if_splits)
  obtain task size observed ds where ok: "legacy_task_ok (lg_pads lg) task" "dget task ''task_id'' = PStr t"
    and inv: "legacy_inventory lg [''tasks'', t, ''attempts''] = Inr observed" "set observed = set (ids_of task)"
    and chain: "legacy_attempts lg [''tasks'', t, ''attempts''] task 0 PNone size (ids_of task) = Inr ds"
    and sized: "legacy_sized (legacy_result task ds) = Inr h"
    using assms unfolding read_legacy_history_def t
    by (auto simp: Let_def text_in_def validate_legacy_task_def elim!: bnd_InrE split: if_splits)
  have h: "h = legacy_result task ds" "len (json_enc (PDict h)) + 128 \<le> max_history_bytes"
    using sized by (auto simp: legacy_sized_def Let_def simp del: json_enc.simps split: if_splits)
  obtain entries where "lg_entries lg [''tasks'', t, ''attempts''] = Inr entries" "observed = map fst entries"
    using inv(1) by (auto simp: legacy_inventory_def elim!: bnd_InrE split: if_splits)
  then show ?thesis
    using legacy_attempts_chain [OF chain] t ok inv(2) h by auto
qed

definition demo_legacy_id :: string where "demo_legacy_id = ''development-'' @ replicate 32 (CHR ''0'')"
definition demo_legacy_attempt_id :: string where "demo_legacy_attempt_id = ''attempt-0001-'' @ replicate 16 (CHR ''0'')"
definition demo_legacy_time :: pyval where "demo_legacy_time = PStr ''2026-01-02T03:04:05Z''"

definition demo_legacy_task :: "pyval dict" where
  "demo_legacy_task =
    [(''attempt_count'', PInt 1), (''attempt_ids'', PList [PStr demo_legacy_attempt_id]), (''created_at_utc'', demo_legacy_time),
     (''current_attempt_id'', PStr demo_legacy_attempt_id), (''document_type'', PStr ''delivery-task''), (''need_id'', PStr ''need-1''),
     (''schema_version'', PStr legacy_task_version), (''task_id'', PStr demo_legacy_id), (''updated_at_utc'', demo_legacy_time)]"

definition demo_legacy_attempt :: "pyval dict" where
  "demo_legacy_attempt =
    [(''attempt_id'', PStr demo_legacy_attempt_id), (''attempt_number'', PInt 1),
     (''canonical_task_sha256'', PStr (replicate 64 (CHR ''0''))), (''created_at_utc'', demo_legacy_time),
     (''document_type'', PStr ''delivery-attempt''), (''error'', PNone), (''event_count'', PInt 0),
     (''immutable_task_digest_sha256'', PStr (replicate 64 (CHR ''0''))), (''job_id'', PStr ''job-1''), (''need_id'', PStr ''need-1''),
     (''need_spec_revision'', PInt 1), (''outputs'', PDict []), (''progress_percent'', PInt 100),
     (''registry_evidence_sha256'', PStr (replicate 64 (CHR ''0''))), (''registry_request_id'', PStr ''r''),
     (''retry_of_attempt_id'', PNone), (''schema_version'', PStr legacy_attempt_version), (''stage'', PStr ''done''),
     (''status'', PStr ''private-appstore-ready''), (''task_id'', PStr demo_legacy_id), (''title'', PStr ''Demo''),
     (''updated_at_utc'', demo_legacy_time)]"

definition demo_legacy_file :: file_meta where
  "demo_legacy_file =
    \<lparr>fm_directory = False, fm_regular = True, fm_links = 1, fm_uid = 501, fm_mode = 384, fm_inode = (1, 8)\<rparr>"

definition demo_legacy :: legacy_env where
  "demo_legacy =
    (let folder = \<lparr>fm_directory = True, fm_regular = False, fm_links = 2, fm_uid = 501, fm_mode = 448, fm_inode = (1, 7)\<rparr>;
         bytes = (\<lambda>d. Inr (demo_legacy_file, len (json_enc (PDict d)), json_enc (PDict d))) in
     \<lparr>lg_uid = 501, lg_root = Inr True, lg_lstat = (\<lambda>_. Inr folder),
      lg_file = (\<lambda>path. if last path = ''task.json'' then bytes demo_legacy_task else bytes demo_legacy_attempt),
      lg_entries = (\<lambda>_. Inr [(demo_legacy_attempt_id, True)]), lg_text = Inr,
      lg_interp = \<lparr>py_depth = 100, py_float = (\<lambda>s. s), py_constant = std_constant\<rparr>, lg_pads = True,
      lg_probe = (\<lambda>_. Inr demo_legacy_task)\<rparr>)"

lemma legacy_pairs_distinct:
  "distinct (keys d @ keys kvs) \<Longrightarrow> legacy_pairs d kvs = Inr (PDict (d @ kvs))"
proof (induction d kvs rule: legacy_pairs.induct)
  case (2 d k v kvs)
  then have "k \<notin> set (keys d)" by auto
  then show ?case using 2 by (simp add: has_iff aput_new)
qed simp

lemma doc_ok_weaken: "doc_ok 5000 v \<Longrightarrow> doc_ok 500000 v"
  by (simp add: doc_ok_def)

lemma demo_legacy_read:
  assumes "json_canon 100 (PDict d)" and "doc_ok 500000 (PDict d)" and "json_enc (PDict d) \<noteq> []"
    and "lg_file demo_legacy path = Inr (m, len (json_enc (PDict d)), json_enc (PDict d))"
    and "fm_regular m \<and> fm_uid m = 501 \<and> fm_links m = 1 \<and> \<not> others_write m"
  shows "legacy_read demo_legacy path = Inr (d, len (json_enc (PDict d)))"
proof -
  have "len (json_enc (PDict d)) \<le> 500000" using doc_ok_bytes [OF assms(2)] by linarith
  moreover from this have "take (nat (max_document_bytes + 1)) (json_enc (PDict d)) = json_enc (PDict d)"
    by (simp add: max_document_bytes_def del: json_enc.simps)
  moreover have "json_loads ((lg_interp demo_legacy)\<lparr>py_constant := legacy_constant\<rparr>) (legacy_pairs []) (json_enc (PDict d)) = Inr (PDict d)"
  proof (rule json_loads_enc)
    show "json_canon (py_depth ((lg_interp demo_legacy)\<lparr>py_constant := legacy_constant\<rparr>)) (PDict d)"
      using assms(1) by (simp add: demo_legacy_def Let_def del: json_canon.simps)
  qed (simp add: legacy_pairs_distinct)
  moreover have "lg_uid demo_legacy = 501" "lg_text demo_legacy = Inr" by (simp_all add: demo_legacy_def Let_def)
  ultimately show ?thesis
    using assms(3-5)
    by (cases "json_enc (PDict d)") (simp_all add: legacy_read_def max_document_bytes_def Let_def del: json_enc.simps)
qed

lemma demo_legacy_docs:
  "json_canon 100 (PDict demo_legacy_task)" "json_canon 100 (PDict demo_legacy_attempt)"
  "doc_ok 5000 (PDict demo_legacy_task)" "doc_ok 5000 (PDict demo_legacy_attempt)"
  "json_enc (PDict demo_legacy_task) \<noteq> []" "json_enc (PDict demo_legacy_attempt) \<noteq> []"
  "doc_ok 20000 (PDict (legacy_result demo_legacy_task [demo_legacy_attempt]))"
  by code_simp+

lemma demo_legacy_valid:
  "legacy_task_ok True demo_legacy_task" "validate_legacy_attempt True demo_legacy_attempt = Inr demo_legacy_attempt"
  "ids_of demo_legacy_task = [demo_legacy_attempt_id]" "task_id_shape demo_legacy_id" "attempt_id_shape demo_legacy_attempt_id"
  "legacy_bound demo_legacy_task demo_legacy_attempt_id 1 PNone demo_legacy_attempt"
  "dget demo_legacy_task ''schema_version'' = PStr legacy_task_version" "dget demo_legacy_task ''task_id'' = PStr demo_legacy_id"
  by code_simp+

lemma demo_legacy_history:
  "read_legacy_history demo_legacy (PStr demo_legacy_id) = Inr (Some (legacy_result demo_legacy_task [demo_legacy_attempt]))"
proof -
  let ?h = "legacy_result demo_legacy_task [demo_legacy_attempt]"
  have task: "legacy_read demo_legacy [''tasks'', demo_legacy_id, ''task.json'']
      = Inr (demo_legacy_task, len (json_enc (PDict demo_legacy_task)))"
    by (rule demo_legacy_read [where m = demo_legacy_file, OF demo_legacy_docs(1) doc_ok_weaken [OF demo_legacy_docs(3)] demo_legacy_docs(5)])
      (simp_all add: demo_legacy_def demo_legacy_file_def Let_def others_write_def del: json_enc.simps)
  have attempt: "legacy_read demo_legacy [''tasks'', demo_legacy_id, ''attempts'', demo_legacy_attempt_id, ''attempt.json'']
      = Inr (demo_legacy_attempt, len (json_enc (PDict demo_legacy_attempt)))"
    by (rule demo_legacy_read [where m = demo_legacy_file, OF demo_legacy_docs(2) doc_ok_weaken [OF demo_legacy_docs(4)] demo_legacy_docs(6)])
      (simp_all add: demo_legacy_def demo_legacy_file_def Let_def others_write_def del: json_enc.simps)
  have dirs: "legacy_directory demo_legacy path = Inr ()" for path
    by (simp add: legacy_directory_def demo_legacy_def Let_def others_write_def)
  have inventory: "legacy_inventory demo_legacy path = Inr [demo_legacy_attempt_id]" for path
    using demo_legacy_valid(5) by (simp add: legacy_inventory_def demo_legacy_def Let_def attempt_cap_def)
  have small: "len (json_enc (PDict demo_legacy_task)) + len (json_enc (PDict demo_legacy_attempt)) \<le> max_history_bytes"
    using doc_ok_bytes [OF demo_legacy_docs(3)] doc_ok_bytes [OF demo_legacy_docs(4)]
    by (simp add: max_history_bytes_def del: json_enc.simps)
  have sized: "legacy_sized ?h = Inr ?h"
    using doc_ok_bytes [OF demo_legacy_docs(7)]
    by (auto simp: legacy_sized_def strict_bytes_def Let_def max_history_bytes_def simp del: json_enc.simps split: if_splits)
  have pads: "lg_pads demo_legacy" "lg_root demo_legacy = Inr True" by (simp_all add: demo_legacy_def Let_def)
  show ?thesis
    using task attempt dirs inventory small sized pads demo_legacy_valid
    by (simp add: read_legacy_history_def text_in_def validate_legacy_task_def del: json_enc.simps)
qed

theorem legacy_history_is_the_chain_witness:
  "\<exists>ds. legacy_result demo_legacy_task [demo_legacy_attempt] = legacy_result demo_legacy_task ds
    \<and> map (\<lambda>d. dget d ''attempt_number'') ds = [PInt 1] \<and> map (\<lambda>d. dget d ''retry_of_attempt_id'') ds = [PNone]"
proof -
  obtain t task ds where "legacy_result demo_legacy_task [demo_legacy_attempt] = legacy_result task ds"
    and "map (\<lambda>d. dget d ''attempt_number'') ds = map PInt [1..len ds]"
    and "map (\<lambda>d. dget d ''retry_of_attempt_id'') ds = take (length ds) (PNone # map PStr (ids_of task))"
    using legacy_history_is_the_chain [OF demo_legacy_history] by blast
  then show ?thesis by (auto simp: legacy_result_def)
qed

end
