(* ===== verification/Analyzer.thy ===== *)
theory Analyzer
  imports PyJson Complex_Main
begin

text \<open>
  The need analyzer (\<open>need-analyzer/need_analyzer.py\<close>), which asks a configured language model to turn
  a request into a draft of a need: its request and configuration, the JSON object it finds in the text
  of a model, and the normalisation of that object.

  Texts are the bytes of their UTF-8 encoding. The environment record holds what the analyzer takes from
  outside: the decoding of bytes that \<open>json.loads\<close> does, \<open>os.environ\<close>, \<open>urlsplit\<close>, \<open>int\<close> and \<open>float\<close> of a
  text, the value of a finite float, and the classes of exceptions that are \<open>OSError\<close>s.
\<close>

abbreviation analyzer_error :: "string \<Rightarrow> 'a res" where
  "analyzer_error m \<equiv> fail ''AnalyzerError'' m"

section \<open>Constants\<close>

text \<open>Text outside ASCII, by its code points (below \<open>0x10000\<close>).\<close>

definition code_point :: "int \<Rightarrow> string" where
  "code_point n = map char_of
    (if n < 0x80 then [n]
     else if n < 0x800 then [0xC0 + n div 64, 0x80 + n mod 64]
     else [0xE0 + n div 4096, 0x80 + n div 64 mod 64, 0x80 + n mod 64])"

definition code_points :: "int list \<Rightarrow> string" where
  "code_points ns = concat (map code_point ns)"

definition default_base_url :: string where "default_base_url = ''http://192.168.199.170:8081''"
definition default_model :: string where "default_model = ''qwen3.8-27b-uncensored-mtp-q4''"
definition max_input_bytes :: int where "max_input_bytes = 16384"
definition max_response_bytes :: int where "max_response_bytes = 262144"
definition max_stream_bytes :: int where "max_stream_bytes = 4194304"
definition max_stream_events :: int where "max_stream_events = 4096"

definition supported_capabilities :: "string list" where
  "supported_capabilities =
    [''clock'', ''scheduler'', ''notification'', ''kv'', ''log'', ''host-info'', ''settings'', ''system-metrics'',
     ''http'']"

definition missing_names :: "string list" where
  "missing_names =
    [''app-kind'', ''capabilities'', ''acceptance-criteria'', ''negative-constraints'', ''network-mode'',
     ''package-intent'']"

definition analysis_keys :: "string list" where
  "analysis_keys =
    [''g'', ''k'', ''c'', ''e'', ''d'', ''n'', ''m'', ''s'', ''z'', ''q'', ''goal_summary'', ''app_kind'',
     ''capabilities'', ''acceptance_example'', ''negative_constraints'', ''network_mode'', ''package_name'',
     ''assumptions'', ''missing_fields'', ''questions'']"

definition field_aliases :: "(string \<times> string) list" where
  "field_aliases =
    [(''g'', ''goal_summary''), (''k'', ''app_kind''), (''c'', ''capabilities''), (''e'', ''acceptance_example''),
     (''d'', ''negative_constraints''), (''n'', ''network_mode''), (''m'', ''package_name''), (''s'', ''assumptions''),
     (''z'', ''missing_fields''), (''q'', ''questions'')]"

definition model_fields :: "string list" where
  "model_fields = keys field_aliases @ vals field_aliases"

section \<open>The environment\<close>

record url_parts =
  ul_scheme :: string
  ul_host :: "string option"
  ul_user :: "string option"
  ul_password :: "string option"
  ul_port :: "int option res"
  ul_path :: string
  ul_query :: string
  ul_fragment :: string

record analyzer_env =
  az_interp :: interp
  az_decode :: "string \<Rightarrow> string res"
  az_environ :: "string dict"
  az_url :: "string \<Rightarrow> url_parts res"
  az_int :: "string \<Rightarrow> int option"
  az_float :: "string \<Rightarrow> string option"
  az_real :: "string \<Rightarrow> real option"
  az_os_error :: "string \<Rightarrow> bool"

text \<open>\<open>json.loads\<close> of a text and of bytes, where the last of equal keys wins.\<close>

fun last_wins :: "pyval dict \<Rightarrow> (string \<times> pyval) list \<Rightarrow> pyval res" where
  "last_wins d [] = Inr (PDict d)"
| "last_wins d ((k, v) # kvs) = last_wins (aput k v d) kvs"

definition az_std :: "analyzer_env \<Rightarrow> interp" where
  "az_std e = (az_interp e)\<lparr>py_constant := std_constant\<rparr>"

definition loads_text :: "analyzer_env \<Rightarrow> string \<Rightarrow> pyval res" where
  "loads_text e s = json_loads (az_std e) (last_wins []) s"

definition loads_bytes :: "analyzer_env \<Rightarrow> string \<Rightarrow> pyval res" where
  "loads_bytes e b = bnd (az_decode e b) (loads_text e)"

text \<open>\<open>JSONDecoder().raw_decode\<close> at a position: the value of the longest JSON text there.\<close>

definition raw_decode :: "analyzer_env \<Rightarrow> string \<Rightarrow> pyval res" where
  "raw_decode e s = bnd (scan_value (az_std e) (last_wins []) (py_depth (az_interp e)) s) (\<lambda>(v, _). Inr v)"

text \<open>\<open>except ks as error: raise AnalyzerError(m)\<close>\<close>

definition excepting :: "(string \<Rightarrow> bool) \<Rightarrow> string \<Rightarrow> 'a res \<Rightarrow> 'a res" where
  "excepting ks m r =
    (case r of Inl (Crash k) \<Rightarrow> if ks k then analyzer_error m else r | _ \<Rightarrow> r)"

definition json_errors :: "string \<Rightarrow> bool" where
  "json_errors k \<longleftrightarrow> k = ''UnicodeDecodeError'' \<or> k = ''JSONDecodeError''"

section \<open>Configuration\<close>

record model_config =
  mc_base_url :: string
  mc_model :: string
  mc_protocol :: string
  mc_timeout :: int
  mc_tokens :: int
  mc_temperature :: string
  mc_key :: "string option"
  mc_provider :: string

definition environ_get :: "analyzer_env \<Rightarrow> string \<Rightarrow> string \<Rightarrow> string" where
  "environ_get e name dflt = (case aget (az_environ e) name of Some v \<Rightarrow> v | None \<Rightarrow> dflt)"

definition bounded_env_int :: "analyzer_env \<Rightarrow> string \<Rightarrow> int \<Rightarrow> int \<Rightarrow> int \<Rightarrow> int res" where
  "bounded_env_int e name dflt minimum maximum =
    (case az_int e (environ_get e name (dec dflt)) of
       None \<Rightarrow> analyzer_error (name @ '' must be an integer'')
     | Some v \<Rightarrow>
         if minimum \<le> v \<and> v \<le> maximum then Inr v
         else analyzer_error (name @ '' must be between '' @ dec minimum @ '' and '' @ dec maximum))"

text \<open>
  A bound is a real with its text. \<open>0.3\<close> is the double next to it.
\<close>

definition bounded_env_float :: "analyzer_env \<Rightarrow> string \<Rightarrow> string \<Rightarrow> real \<times> string \<Rightarrow> real \<times> string \<Rightarrow> string res" where
  "bounded_env_float e name dflt minimum maximum =
    (case az_float e (environ_get e name dflt) of
       None \<Rightarrow> analyzer_error (name @ '' must be numeric'')
     | Some s \<Rightarrow>
         (case az_real e s of
            Some x \<Rightarrow>
              if fst minimum \<le> x \<and> x \<le> fst maximum then Inr s
              else analyzer_error (name @ '' must be between '' @ snd minimum @ '' and '' @ snd maximum)
          | None \<Rightarrow> analyzer_error (name @ '' must be between '' @ snd minimum @ '' and '' @ snd maximum)))"

definition private_http_host :: "analyzer_env \<Rightarrow> string option \<Rightarrow> bool" where
  "private_http_host e host =
    (case host of
       None \<Rightarrow> False
     | Some h \<Rightarrow>
         if h \<in> {''localhost'', ''127.0.0.1'', ''::1'', ''192.168.199.170''} then True
         else if h = [] then False
         else if starts_with h ''10.'' \<or> starts_with h ''192.168.'' then True
         else if starts_with h ''172.'' then
           (case az_int e (takeWhile (\<lambda>c. c \<noteq> CHR ''.'') (drop 4 h)) of
              Some n \<Rightarrow> 16 \<le> n \<and> n \<le> 31
            | None \<Rightarrow> False)
         else False)"

definition rstrip_slash :: "string \<Rightarrow> string" where
  "rstrip_slash s = rev (dropWhile (\<lambda>c. c = CHR ''/'') (rev s))"

text \<open>A text that is \<open>None\<close> or empty counts as absent.\<close>

definition given :: "string option \<Rightarrow> bool" where
  "given s \<longleftrightarrow> s \<noteq> None \<and> s \<noteq> Some []"

text \<open>The two endpoints the older environment configuration may name; \<open>parsed.port\<close> may raise.\<close>

definition legacy_endpoint :: "analyzer_env \<Rightarrow> url_parts \<Rightarrow> bool res" where
  "legacy_endpoint e u =
    bnd (if ul_host u = Some ''192.168.199.170''
         then bnd (ul_port u) (\<lambda>p. Inr (p = Some 8081 \<and> ul_path u = [])) else Inr False) (\<lambda>approved.
    bnd (if aget (az_environ e) ''VIBAPP_LLM_ALLOW_TEST_LOOPBACK'' = Some ''1''
           \<and> (ul_host u = Some ''127.0.0.1'' \<or> ul_host u = Some ''localhost'')
         then bnd (ul_port u) (\<lambda>p. Inr (p \<noteq> None \<and> ul_path u = [])) else Inr False) (\<lambda>loopback.
    Inr (approved \<or> loopback)))"

definition validate_base_url :: "analyzer_env \<Rightarrow> bool \<Rightarrow> pyval \<Rightarrow> string res" where
  "validate_base_url e legacy v =
    (case v of
       PStr s \<Rightarrow>
         if s = [] \<or> 512 < int (py_len s) \<or> has_space s then analyzer_error ''model base_url is invalid''
         else bnd (az_url e (rstrip_slash s)) (\<lambda>u.
           if (ul_scheme u \<noteq> ''http'' \<and> ul_scheme u \<noteq> ''https'') \<or> \<not> given (ul_host u)
             \<or> given (ul_user u) \<or> given (ul_password u)
           then analyzer_error ''model base_url must use http or https without embedded credentials''
           else if ul_query u \<noteq> [] \<or> ul_fragment u \<noteq> []
           then analyzer_error ''model base_url cannot contain a query or fragment''
           else if ul_scheme u = ''http'' \<and> \<not> private_http_host e (ul_host u)
           then analyzer_error ''remote model endpoints must use HTTPS; HTTP is limited to private LAN or loopback''
           else if \<not> legacy then Inr (rstrip_slash s)
           else bnd (legacy_endpoint e u) (\<lambda>ok.
             if ok then Inr (rstrip_slash s)
             else analyzer_error ''VIBAPP_LLM_BASE_URL is not an approved LocalAI endpoint''))
     | _ \<Rightarrow> analyzer_error ''model base_url is invalid'')"

definition config_fields :: "string list" where
  "config_fields =
    [''enabled'', ''base_url'', ''model'', ''protocol'', ''timeout_seconds'', ''max_output_tokens'',
     ''temperature'', ''api_key'']"

text \<open>The temperature as a float, where it is a number between 0 and 2.\<close>

definition temperature_of :: "analyzer_env \<Rightarrow> pyval \<Rightarrow> string option" where
  "temperature_of e v =
    (case v of
       PInt i \<Rightarrow> if 0 \<le> i \<and> i \<le> 2 then Some (py_float (az_interp e) (dec i)) else None
     | PFloat s \<Rightarrow> (case az_real e s of Some x \<Rightarrow> if 0 \<le> x \<and> x \<le> 2 then Some s else None | None \<Rightarrow> None)
     | _ \<Rightarrow> None)"

definition key_ok :: "pyval \<Rightarrow> bool" where
  "key_ok v =
    (case v of PNone \<Rightarrow> True | PStr s \<Rightarrow> s \<noteq> [] \<and> int (py_len s) \<le> 8192 \<and> \<not> has_space s | _ \<Rightarrow> False)"

definition text_member :: "pyval dict \<Rightarrow> string \<Rightarrow> string" where
  "text_member d k = (case aget d k of Some (PStr s) \<Rightarrow> s | _ \<Rightarrow> [])"

definition int_member :: "pyval dict \<Rightarrow> string \<Rightarrow> int" where
  "int_member d k = (case aget d k of Some (PInt i) \<Rightarrow> i | _ \<Rightarrow> 0)"

definition model_name_ok :: "int \<Rightarrow> string \<Rightarrow> bool" where
  "model_name_ok n s \<longleftrightarrow> s \<noteq> [] \<and> int (py_len s) \<le> n \<and> \<not> list_ex ctrl_char s"

definition override_config :: "analyzer_env \<Rightarrow> pyval dict \<Rightarrow> model_config res" where
  "override_config e d =
    (if \<not> fields_are config_fields d then analyzer_error ''model_config fields are invalid''
     else if dget d ''enabled'' \<noteq> PBool True then analyzer_error ''configured generation model is disabled''
     else bnd (validate_base_url e False (dget d ''base_url'')) (\<lambda>base.
       if \<not> (case dget d ''model'' of PStr s \<Rightarrow> model_name_ok 256 s | _ \<Rightarrow> False)
       then analyzer_error ''configured model name is invalid''
       else bnd (member_of [''chat-completions'', ''responses''] (dget d ''protocol'')) (\<lambda>known.
       if \<not> known then analyzer_error ''configured model protocol is invalid''
       else if \<not> pint_within 5 120 (dget d ''timeout_seconds'') then analyzer_error ''configured timeout is invalid''
       else if \<not> pint_within 128 4096 (dget d ''max_output_tokens'')
       then analyzer_error ''configured max_output_tokens is invalid''
       else (case temperature_of e (dget d ''temperature'') of
         None \<Rightarrow> analyzer_error ''configured temperature is invalid''
       | Some temperature \<Rightarrow>
           if \<not> key_ok (dget d ''api_key'') then analyzer_error ''configured API key is invalid''
           else Inr \<lparr>mc_base_url = base, mc_model = text_member d ''model'',
             mc_protocol = text_member d ''protocol'', mc_timeout = int_member d ''timeout_seconds'',
             mc_tokens = int_member d ''max_output_tokens'', mc_temperature = temperature,
             mc_key = (case dget d ''api_key'' of PStr s \<Rightarrow> Some s | _ \<Rightarrow> None),
             mc_provider =
               (if base = default_base_url \<and> text_member d ''model'' = default_model
                then ''localai-lan'' else ''openai-compatible-byom'')\<rparr>))))"

text \<open>Lower case where it is compared with ASCII words free of \<open>i\<close> and \<open>k\<close>, which no other letter has.\<close>

definition ascii_lower :: "string \<Rightarrow> string" where
  "ascii_lower s = map (\<lambda>c. if upper_c c then char_of (byte_of c + 32) else c) s"

definition environment_config :: "analyzer_env \<Rightarrow> model_config res" where
  "environment_config e =
    (if ascii_lower (py_strip (environ_get e ''VIBAPP_LLM_ENABLED'' ''1'')) \<notin> {''1'', ''true'', ''yes'', ''on''}
     then analyzer_error ''VIBAPP_LLM_ENABLED is disabled''
     else bnd (validate_base_url e True (PStr (environ_get e ''VIBAPP_LLM_BASE_URL'' default_base_url))) (\<lambda>base.
       let model = py_strip (environ_get e ''VIBAPP_LLM_MODEL'' default_model) in
       if \<not> model_name_ok 128 model then analyzer_error ''VIBAPP_LLM_MODEL is invalid''
       else bnd (bounded_env_int e ''VIBAPP_LLM_TIMEOUT_SECONDS'' 45 5 60) (\<lambda>timeout.
       bnd (bounded_env_int e ''VIBAPP_LLM_MAX_TOKENS'' 512 256 1024) (\<lambda>tokens.
       bnd (bounded_env_float e ''VIBAPP_LLM_TEMPERATURE'' ''0.0'' (0, ''0.0'')
         (5404319552844595 / 18014398509481984, ''0.3'')) (\<lambda>temperature.
       Inr \<lparr>mc_base_url = base, mc_model = model, mc_protocol = ''chat-completions'', mc_timeout = timeout,
         mc_tokens = tokens, mc_temperature = temperature, mc_key = None, mc_provider = ''localai-lan''\<rparr>)))))"

definition configuration :: "analyzer_env \<Rightarrow> pyval \<Rightarrow> model_config res" where
  "configuration e override =
    (case override of
       PNone \<Rightarrow> environment_config e
     | PDict d \<Rightarrow> override_config e d
     | _ \<Rightarrow> analyzer_error ''model_config must be an object'')"

section \<open>The request\<close>

record need_request =
  nq_title :: string
  nq_description :: string
  nq_config :: pyval

definition text_sized :: "int \<Rightarrow> int \<Rightarrow> pyval \<Rightarrow> bool" where
  "text_sized lo hi v = (case v of PStr s \<Rightarrow> lo \<le> int (py_len s) \<and> int (py_len s) \<le> hi | _ \<Rightarrow> False)"

text \<open>
  \<open>input\<close> is standard input. The code reads one byte more than the limit, so it refuses exactly a longer
  input and else has all of it.
\<close>

definition read_request :: "analyzer_env \<Rightarrow> string \<Rightarrow> need_request res" where
  "read_request e input =
    (if max_input_bytes < len input then analyzer_error ''request exceeds 16 KiB''
     else bnd (excepting json_errors ''request is not valid JSON'' (loads_bytes e input)) (\<lambda>v.
       case v of
         PDict d \<Rightarrow>
           if \<not> text_sized 1 80 (dget d ''title'') then analyzer_error ''title must contain 1-80 characters''
           else if \<not> text_sized 10 2000 (dget d ''description'')
           then analyzer_error ''description must contain 10-2000 characters''
           else if \<not> set (keys d) \<subseteq> {''title'', ''description'', ''model_config''}
           then analyzer_error ''request contains unknown fields''
           else Inr \<lparr>nq_title = text_member d ''title'', nq_description = text_member d ''description'',
             nq_config = dget d ''model_config''\<rparr>
       | _ \<Rightarrow> analyzer_error ''request must be an object''))"

section \<open>The object in a model's text\<close>

definition fence :: string where "fence = ''```''"

text \<open>\<open>s.rfind(p)\<close>\<close>

definition rfind :: "string \<Rightarrow> string \<Rightarrow> nat option" where
  "rfind p s = find (\<lambda>i. starts_with (drop i s) p) (rev [0..<length s])"

definition unfence :: "string \<Rightarrow> string res" where
  "unfence candidate =
    (if \<not> starts_with candidate fence then Inr candidate
     else (let newline = length (takeWhile (\<lambda>c. c \<noteq> CHR 0x0A) candidate) in
       case rfind fence candidate of
         Some i \<Rightarrow>
           if length candidate \<le> newline \<or> i \<le> newline
           then analyzer_error ''model output has an invalid code fence''
           else Inr (py_strip (drop (newline + 1) (take i candidate)))
       | None \<Rightarrow> analyzer_error ''model output has an invalid code fence''))"

definition dict_list :: "pyval \<Rightarrow> pyval dict list" where
  "dict_list v = (case v of PDict d \<Rightarrow> [d] | _ \<Rightarrow> [])"

text \<open>The objects that start at some brace of the text, in order.\<close>

fun objects_in :: "analyzer_env \<Rightarrow> string \<Rightarrow> pyval dict list res" where
  "objects_in e [] = Inr []"
| "objects_in e (c # s) =
    (if c \<noteq> CHR ''{'' then objects_in e s
     else (case raw_decode e (c # s) of
         Inl x \<Rightarrow> if x = Crash ''JSONDecodeError'' then objects_in e s else Inl x
       | Inr v \<Rightarrow> bnd (objects_in e s) (\<lambda>ds. Inr (dict_list v @ ds))))"

definition known_keys :: "pyval dict \<Rightarrow> nat" where
  "known_keys d = length (filter (\<lambda>k. k \<in> set (keys d)) analysis_keys)"

text \<open>The last object with the most known keys.\<close>

definition best_object :: "pyval dict \<Rightarrow> pyval dict list \<Rightarrow> pyval dict" where
  "best_object d ds = foldl (\<lambda>b x. if known_keys b \<le> known_keys x then x else b) d ds"

definition search_object :: "analyzer_env \<Rightarrow> string \<Rightarrow> pyval dict res" where
  "search_object e candidate = bnd (objects_in e candidate) (\<lambda>ds.
    case ds of
      [] \<Rightarrow> analyzer_error ''model output contains no JSON object''
    | d # rest \<Rightarrow> Inr (best_object d rest))"

definition extract_object :: "analyzer_env \<Rightarrow> string \<Rightarrow> pyval dict res" where
  "extract_object e t = bnd (unfence (py_strip t)) (\<lambda>candidate.
    case loads_text e candidate of
      Inr (PDict d) \<Rightarrow> Inr d
    | Inr _ \<Rightarrow> search_object e candidate
    | Inl x \<Rightarrow> if x = Crash ''JSONDecodeError'' then search_object e candidate else Inl x)"

definition analysis_score :: "analyzer_env \<Rightarrow> string \<Rightarrow> int res" where
  "analysis_score e t =
    (case extract_object e t of
       Inr d \<Rightarrow> Inr (int (known_keys d))
     | Inl (Fail _ _ _) \<Rightarrow> Inr (- 1)
     | Inl (Crash k) \<Rightarrow> Inl (Crash k))"

text \<open>\<open>max(candidates, key=_analysis_score) if candidates else ""\<close>: the first of the best.\<close>

definition best_text :: "analyzer_env \<Rightarrow> string list \<Rightarrow> string res" where
  "best_text e ts =
    (case ts of
       [] \<Rightarrow> Inr []
     | t # us \<Rightarrow> bnd (analysis_score e t) (\<lambda>x.
         bnd (rfold (\<lambda>b u. bnd (analysis_score e u) (\<lambda>y. Inr (if fst b < y then (y, u) else b))) (x, t) us)
           (\<lambda>b. Inr (snd b))))"

section \<open>Normalisation\<close>

fun expand_fields :: "pyval dict \<Rightarrow> pyval dict \<Rightarrow> pyval dict res" where
  "expand_fields d [] = Inr d"
| "expand_fields d ((k, v) # kvs) =
    (let n = (case aget field_aliases k of Some m \<Rightarrow> m | None \<Rightarrow> k) in
     if has n d then analyzer_error (''model output aliases the field twice: '' @ n)
     else expand_fields (aput n v d) kvs)"

definition expand_short_fields :: "pyval dict \<Rightarrow> pyval dict res" where
  "expand_short_fields raw =
    (let extra = sort (filter (\<lambda>k. k \<notin> set model_fields) (keys raw)) in
     if extra \<noteq> [] then analyzer_error (''model output contains unknown fields: '' @ joinc extra)
     else expand_fields [] raw)"

definition clean_text :: "pyval \<Rightarrow> int \<Rightarrow> string \<Rightarrow> string" where
  "clean_text v maximum fallback =
    (case v of
       PStr s \<Rightarrow>
         (let cleaned = py_strip s in
          if cleaned = [] \<or> maximum < int (py_len cleaned)
            \<or> list_ex (\<lambda>c. ctrl_char c \<and> c \<noteq> CHR 0x0A \<and> c \<noteq> CHR 0x09) cleaned
          then fallback else cleaned)
     | _ \<Rightarrow> fallback)"

definition string_list :: "pyval \<Rightarrow> nat \<Rightarrow> int \<Rightarrow> string list" where
  "string_list v items chars =
    (case v of
       PList xs \<Rightarrow>
         foldl (\<lambda>r x. let c = clean_text x chars [] in if c \<noteq> [] \<and> c \<notin> set r then r @ [c] else r) []
           (take items xs)
     | _ \<Rightarrow> [])"

record need_analysis =
  na_provider :: string
  na_model :: string
  na_endpoint :: string
  na_goal :: string
  na_kind :: "string option"
  na_capabilities :: "string list"
  na_acceptance :: string
  na_negative :: "string list"
  na_network :: "string option"
  na_package :: string
  na_assumptions :: "string list"
  na_missing :: "string list"
  na_questions :: "string list"

text \<open>\<open>v if v in ss else None\<close>\<close>

definition one_of :: "string list \<Rightarrow> pyval \<Rightarrow> string option res" where
  "one_of ss v = bnd (member_of ss v) (\<lambda>b. Inr (case v of PStr s \<Rightarrow> if b then Some s else None | _ \<Rightarrow> None))"

definition draft_kinds :: "string list" where "draft_kinds = [''ui'', ''service'', ''hybrid'']"
definition network_modes :: "string list" where "network_modes = [''offline'', ''scoped-network'']"

definition kept_capabilities :: "pyval dict \<Rightarrow> string option \<Rightarrow> string list" where
  "kept_capabilities raw network =
    (let cs = filter (\<lambda>c. c \<in> set supported_capabilities) (string_list (dget raw ''capabilities'') 9 32) in
     if network = Some ''offline'' then filter (\<lambda>c. c \<noteq> ''http'') cs else cs)"

definition inferred_missing :: "pyval dict \<Rightarrow> string option \<Rightarrow> string list \<Rightarrow> string option \<Rightarrow> bool dict" where
  "inferred_missing raw kind capabilities network =
    [(''app-kind'', kind = None), (''capabilities'', capabilities = []),
     (''acceptance-criteria'', clean_text (dget raw ''acceptance_example'') 1000 [] = []),
     (''negative-constraints'', \<not> is_plist (dget raw ''negative_constraints'')),
     (''network-mode'', network = None), (''package-intent'', clean_text (dget raw ''package_name'') 80 [] = [])]"

text \<open>The fields the model names, where they are missing; then the missing ones it does not name.\<close>

definition missing_of :: "string list \<Rightarrow> bool dict \<Rightarrow> string list" where
  "missing_of requested inferred =
    foldl (\<lambda>ms f. if aget inferred f = Some True \<and> f \<notin> set ms then ms @ [f] else ms)
      (filter (\<lambda>f. case aget inferred f of Some b \<Rightarrow> b | None \<Rightarrow> True) requested) missing_names"

fun pause_join :: "string list \<Rightarrow> string" where
  "pause_join [] = []"
| "pause_join [x] = x"
| "pause_join (x # y # xs) = x @ code_points [12289] @ pause_join (y # xs)"

definition ask_for :: "string list \<Rightarrow> string" where
  "ask_for missing =
    code_points
    [35831, 34917, 20805, 36825, 20123, 20250, 25913, 21464, 23454, 29616, 26041, 24335, 30340,
     20869, 23481, 65306]
    @ pause_join missing"

definition normalize :: "pyval dict \<Rightarrow> need_request \<Rightarrow> model_config \<Rightarrow> need_analysis res" where
  "normalize raw request config =
    bnd (one_of draft_kinds (dget raw ''app_kind'')) (\<lambda>kind.
    bnd (one_of network_modes (dget raw ''network_mode'')) (\<lambda>network.
    let capabilities = kept_capabilities raw network;
        requested = filter (\<lambda>f. f \<in> set missing_names) (string_list (dget raw ''missing_fields'') 7 40);
        missing = missing_of requested (inferred_missing raw kind capabilities network);
        questions = string_list (dget raw ''questions'') 7 240
    in Inr
      \<lparr>na_provider = mc_provider config, na_model = mc_model config, na_endpoint = mc_base_url config,
       na_goal = clean_text (dget raw ''goal_summary'') 2000 (nq_description request),
       na_kind = kind, na_capabilities = capabilities,
       na_acceptance = clean_text (dget raw ''acceptance_example'') 1000 [],
       na_negative = string_list (dget raw ''negative_constraints'') 12 500, na_network = network,
       na_package = clean_text (dget raw ''package_name'') 80 (nq_title request),
       na_assumptions = string_list (dget raw ''assumptions'') 10 300, na_missing = missing,
       na_questions = (if missing \<noteq> [] \<and> questions = [] then [ask_for missing] else questions)\<rparr>))"

definition strings :: "string list \<Rightarrow> pyval" where
  "strings ss = PList (map PStr ss)"

definition analysis_json :: "need_analysis \<Rightarrow> pyval" where
  "analysis_json a = PDict
    [(''schema_version'', PStr ''vibapp.need-analysis.experimental-v1''), (''status'', PStr ''analyzed''),
     (''provider'', PStr (na_provider a)), (''model'', PStr (na_model a)), (''endpoint'', PStr (na_endpoint a)),
     (''goal_summary'', PStr (na_goal a)), (''app_kind'', opt_str (na_kind a)),
     (''target_runtime'', PStr ''vibapp-client''), (''profile'', PNone), (''platform_os'', PNone),
     (''platform_arch'', PNone), (''capabilities'', strings (na_capabilities a)),
     (''acceptance_example'', PStr (na_acceptance a)), (''negative_constraints'', strings (na_negative a)),
     (''network_mode'', opt_str (na_network a)), (''package_name'', PStr (na_package a)),
     (''assumptions'', strings (na_assumptions a)), (''missing_fields'', strings (na_missing a)),
     (''questions'', strings (na_questions a))]"

end
