(* ===== verification/AnalyzerCalls.thy ===== *)
theory AnalyzerCalls
  imports Analyzer
begin

text \<open>
  How the need analyzer asks the model: the prompt, the call, the answer as a stream of events or as a
  document, and \<open>analyze\<close> and \<open>main\<close>. The transport (\<open>http.client\<close>) is a function from the call to the
  reply; of a streamed reply, the lines that \<open>readline\<close> returns and whether the deadline has passed at
  each turn of the loop are functions of the turn, so nothing bounds how much a provider sends. Of a body
  the code reads one byte more than its limit and refuses it then: it refuses exactly the longer bodies.
\<close>

section \<open>The prompt\<close>

definition system_prompt :: string where
  "system_prompt = code_points
    [20320, 26159, 32, 86, 105, 98, 65, 112, 112, 32, 38656, 27714, 39044, 22788, 29702, 22120,
     65292, 21482, 36755, 20986, 21333, 34892, 32, 74, 83, 79, 78, 65292, 19981, 35201, 32, 77, 97,
     114, 107, 100, 111, 119, 110, 32, 25110, 35299, 37322, 65292, 19981, 20316, 25480, 26435,
     20915, 23450, 12290, 10, 25152, 26377, 29983, 25104, 29289, 37117, 26159, 30001, 32, 86, 105,
     98, 65, 112, 112, 32, 67, 108, 105, 101, 110, 116, 32, 25289, 36215, 30340, 32, 86, 105, 98,
     65, 112, 112, 32, 24212, 29992, 65307, 19981, 35201, 35810, 38382, 12289, 25512, 26029, 25110,
     36755, 20986, 32, 109, 97, 99, 79, 83, 12289, 87, 105, 110, 100, 111, 119, 115, 12289, 76,
     105, 110, 117, 120, 12289, 27983, 35272, 22120, 12289, 67, 80, 85, 32, 26550, 26500, 25110,
     32, 112, 114, 111, 102, 105, 108, 101, 65292, 23487, 20027, 20860, 23481, 30001, 32, 67, 108,
     105, 101, 110, 116, 32, 33258, 21160, 22788, 29702, 12290, 10, 20351, 29992, 30701, 23383,
     27573, 65306, 103, 30446, 26631, 25688, 35201, 65307, 107, 61, 117, 105, 124, 115, 101, 114,
     118, 105, 99, 101, 124, 104, 121, 98, 114, 105, 100, 124, 117, 110, 107, 110, 111, 119, 110,
     65307, 10, 99, 33021, 21147, 25968, 32452, 65292, 20165, 38480, 99, 108, 111, 99, 107, 44,
     115, 99, 104, 101, 100, 117, 108, 101, 114, 44, 110, 111, 116, 105, 102, 105, 99, 97, 116,
     105, 111, 110, 44, 107, 118, 44, 108, 111, 103, 44, 104, 111, 115, 116, 45, 105, 110, 102,
     111, 44, 115, 101, 116, 116, 105, 110, 103, 115, 44, 115, 121, 115, 116, 101, 109, 45, 109,
     101, 116, 114, 105, 99, 115, 44, 104, 116, 116, 112, 65307, 10, 101, 38750, 25216, 26415,
     29992, 25143, 21487, 39564, 35777, 30340, 19968, 21477, 39564, 25910, 26631, 20934, 65307,
     100, 31105, 27490, 20107, 39033, 25968, 32452, 65307, 110, 61, 111, 102, 102, 108, 105, 110,
     101, 124, 115, 99, 111, 112, 101, 100, 45, 110, 101, 116, 119, 111, 114, 107, 124, 117, 110,
     107, 110, 111, 119, 110, 65307, 109, 24212, 29992, 21517, 65307, 115, 20551, 35774, 25968,
     32452, 65307, 10, 122, 32570, 22833, 23383, 27573, 25968, 32452, 65292, 20165, 38480, 97, 112,
     112, 45, 107, 105, 110, 100, 44, 99, 97, 112, 97, 98, 105, 108, 105, 116, 105, 101, 115, 44,
     97, 99, 99, 101, 112, 116, 97, 110, 99, 101, 45, 99, 114, 105, 116, 101, 114, 105, 97, 44,
     110, 101, 103, 97, 116, 105, 118, 101, 45, 99, 111, 110, 115, 116, 114, 97, 105, 110, 116,
     115, 44, 110, 101, 116, 119, 111, 114, 107, 45, 109, 111, 100, 101, 44, 112, 97, 99, 107, 97,
     103, 101, 45, 105, 110, 116, 101, 110, 116, 65307, 113, 21482, 38382, 30495, 27491, 32570,
     22833, 25110, 20250, 25913, 21464, 23454, 29616, 30340, 38382, 39064, 25968, 32452, 12290, 10,
     21512, 29702, 25512, 26029, 24182, 39044, 22635, 65292, 19981, 20026, 24418, 24335, 25552,
     38382, 12290, 26126, 30830, 31163, 32447, 26102, 32, 110, 61, 111, 102, 102, 108, 105, 110,
     101, 12289, 99, 19981, 33021, 21547, 104, 116, 116, 112, 12289, 100, 21253, 21547, 31105,
     27490, 32852, 32593, 12290, 19981, 35201, 21152, 20837, 20973, 25454, 12289, 20010, 20154,
     25968, 25454, 25110, 25480, 26435, 32467, 35770, 12290]"

definition user_prompt :: "need_request \<Rightarrow> string" where
  "user_prompt r =
    code_points [24212, 29992, 21517, 24314, 35758, 65306] @ nq_title r
    @ code_points [10, 21407, 22987, 38656, 27714, 65306] @ nq_description r"

definition prompt_message :: "string \<Rightarrow> string \<Rightarrow> pyval" where
  "prompt_message role content = PDict [(''role'', PStr role), (''content'', PStr content)]"

section \<open>The call\<close>

fun join_with :: "string \<Rightarrow> string list \<Rightarrow> string" where
  "join_with sep [] = []"
| "join_with sep [x] = x"
| "join_with sep (x # y # xs) = x @ sep @ join_with sep (y # xs)"

text \<open>\<open>json.dumps(v, ensure_ascii=False, separators=(sep, colon))\<close>, in insertion order.\<close>

fun json_dump :: "string \<Rightarrow> string \<Rightarrow> pyval \<Rightarrow> string" where
  "json_dump sep colon PNone = ''null''"
| "json_dump sep colon (PBool b) = (if b then ''true'' else ''false'')"
| "json_dump sep colon (PInt i) = dec i"
| "json_dump sep colon (PFloat s) = s"
| "json_dump sep colon (PStr s) = json_str s"
| "json_dump sep colon (PList xs) = CHR ''['' # join_with sep (map (json_dump sep colon) xs) @ '']''"
| "json_dump sep colon (PDict d) =
     CHR ''{'' # join_with sep (map (\<lambda>(k, v). json_str k @ colon @ json_dump sep colon v) d) @ ''}''"

text \<open>Encoding a text as UTF-8 fails where it has a surrogate.\<close>

definition encode_utf8 :: "string \<Rightarrow> string res" where
  "encode_utf8 s = (if has_surrogate s then Inl (Crash ''UnicodeEncodeError'') else Inr s)"

definition endpoint_path :: "url_parts \<Rightarrow> string \<Rightarrow> string" where
  "endpoint_path u suffix =
    (let prefix = rstrip_slash (ul_path u);
         tail = (if ends_with prefix ''/v1'' \<and> starts_with suffix ''/v1/'' then drop 3 suffix else suffix)
     in if prefix @ tail = [] then ''/'' else prefix @ tail)"

definition responses :: "model_config \<Rightarrow> bool" where
  "responses c \<longleftrightarrow> mc_protocol c = ''responses''"

definition request_body :: "model_config \<Rightarrow> need_request \<Rightarrow> pyval" where
  "request_body c r =
    (if responses c then PDict
       [(''model'', PStr (mc_model c)), (''instructions'', PStr system_prompt), (''input'', PStr (user_prompt r)),
        (''temperature'', PFloat (mc_temperature c)), (''max_output_tokens'', PInt (mc_tokens c)),
        (''stream'', PBool True)]
     else PDict
       [(''model'', PStr (mc_model c)),
        (''messages'', PList [prompt_message ''system'' system_prompt, prompt_message ''user'' (user_prompt r)]),
        (''temperature'', PFloat (mc_temperature c)), (''max_tokens'', PInt (mc_tokens c)),
        (''stream'', PBool True), (''response_format'', PDict [(''type'', PStr ''json_object'')])])"

record model_call =
  cl_https :: bool
  cl_host :: "string option"
  cl_port :: "int option"
  cl_timeout :: int
  cl_path :: string
  cl_body :: string
  cl_headers :: "(string \<times> string) list"

record reply =
  rp_status :: int
  rp_type :: string
  rp_body :: "string res"
  rp_late :: "nat \<Rightarrow> bool"
  rp_line :: "nat \<Rightarrow> string res"

type_synonym transport = "model_call \<Rightarrow> reply res"

definition call_headers :: "model_config \<Rightarrow> (string \<times> string) list" where
  "call_headers c =
    [(''Content-Type'', ''application/json''), (''Accept'', ''application/json, text/event-stream'')]
    @ (case mc_key c of
         Some k \<Rightarrow> if k = [] then [] else [(''Authorization'', ''Bearer '' @ k)]
       | None \<Rightarrow> [])"

definition model_call_of :: "analyzer_env \<Rightarrow> model_config \<Rightarrow> need_request \<Rightarrow> model_call res" where
  "model_call_of e c r =
    bnd (az_url e (mc_base_url c)) (\<lambda>u.
    bnd (encode_utf8 (json_dump '', '' '': '' (request_body c r))) (\<lambda>body.
    bnd (ul_port u) (\<lambda>port.
    Inr \<lparr>cl_https = (ul_scheme u = ''https''), cl_host = ul_host u, cl_port = port, cl_timeout = mc_timeout c,
      cl_path = endpoint_path u (if responses c then ''/v1/responses'' else ''/v1/chat/completions''),
      cl_body = body, cl_headers = call_headers c\<rparr>)))"

section \<open>The text of an answer\<close>

definition texts_of :: "pyval \<Rightarrow> string list" where
  "texts_of v = (case v of PStr s \<Rightarrow> [s] | _ \<Rightarrow> [])"

text \<open>
  The dictionaries met when iterating over \<open>d.get(k, [])\<close>: the loops skip anything else, so characters
  of a string and keys of a dictionary.
\<close>

definition dicts_under :: "pyval dict \<Rightarrow> string \<Rightarrow> pyval dict list res" where
  "dicts_under d k =
    (case aget d k of
       None \<Rightarrow> Inr []
     | Some (PList xs) \<Rightarrow> Inr (concat (map dict_list xs))
     | Some (PStr _) \<Rightarrow> Inr []
     | Some (PDict _) \<Rightarrow> Inr []
     | Some _ \<Rightarrow> Inl (Crash ''TypeError''))"

definition response_output_text :: "pyval \<Rightarrow> string res" where
  "response_output_text v =
    (case v of
       PDict d \<Rightarrow>
         if texts_of (dget d ''output_text'') \<noteq> [] \<and> py_strip (text_member d ''output_text'') \<noteq> []
         then Inr (py_strip (text_member d ''output_text''))
         else bnd (dicts_under d ''output'') (\<lambda>outputs.
           bnd (rmap (\<lambda>out. bnd (dicts_under out ''content'') (\<lambda>contents.
             Inr (concat (map (\<lambda>c. concat (texts_of (dget c ''text''))) contents)))) outputs) (\<lambda>parts.
           Inr (py_strip (concat parts))))
     | _ \<Rightarrow> Inr [])"

fun truthy :: "analyzer_env \<Rightarrow> pyval \<Rightarrow> bool" where
  "truthy e PNone = False"
| "truthy e (PBool b) = b"
| "truthy e (PInt i) = (i \<noteq> 0)"
| "truthy e (PFloat s) = (az_real e s \<noteq> Some 0)"
| "truthy e (PStr s) = (s \<noteq> [])"
| "truthy e (PList xs) = (xs \<noteq> [])"
| "truthy e (PDict d) = (d \<noteq> [])"

text \<open>What an event of the chat protocol adds to the content and the reasoning.\<close>

definition chat_delta :: "analyzer_env \<Rightarrow> pyval \<Rightarrow> (string list \<times> string list) res" where
  "chat_delta e event =
    (case event of
       PDict d \<Rightarrow>
         (case aget d ''choices'' of
            Some (PList (PDict c # _)) \<Rightarrow>
              (case if truthy e (dget c ''delta'') then dget c ''delta''
                 else if truthy e (dget c ''message'') then dget c ''message'' else PDict [] of
                 PDict x \<Rightarrow> Inr (texts_of (dget x ''content''), texts_of (dget x ''reasoning''))
               | _ \<Rightarrow> analyzer_error ''model returned an invalid stream event'')
          | _ \<Rightarrow> analyzer_error ''model returned an invalid stream event'')
     | _ \<Rightarrow> analyzer_error ''model returned an invalid stream event'')"

definition stream_event :: "analyzer_env \<Rightarrow> string \<Rightarrow> (string list \<times> string list) res" where
  "stream_event e payload =
    bnd (excepting json_errors ''LocalAI returned an invalid stream event'' (loads_bytes e payload)) (\<lambda>event.
    case event of
      PDict d \<Rightarrow>
        if dget d ''type'' = PStr ''response.output_text.delta'' then Inr (texts_of (dget d ''delta''), [])
        else bnd (member_of [''response.completed'', ''response.done''] (dget d ''type'')) (\<lambda>complete.
          if complete
          then bnd (response_output_text (dget d ''response'')) (\<lambda>t. Inr (if t = [] then [] else [t], []))
          else chat_delta e event)
    | _ \<Rightarrow> chat_delta e event)"

text \<open>\<open>bytes.strip()\<close>, and what a line of the stream is.\<close>

definition byte_space :: "char \<Rightarrow> bool" where
  "byte_space c \<longleftrightarrow> byte_of c \<in> {9, 10, 11, 12, 13, 32}"

definition bytes_strip :: "string \<Rightarrow> string" where
  "bytes_strip s = rev (dropWhile byte_space (rev (dropWhile byte_space s)))"

datatype stream_line = Skipped | Done | Payload string

definition line_of :: "string \<Rightarrow> stream_line" where
  "line_of s =
    (let stripped = bytes_strip s; payload = bytes_strip (drop 5 stripped) in
     if stripped = [] \<or> starts_with stripped '':'' then Skipped
     else if \<not> starts_with stripped ''data:'' then Skipped
     else if payload = ''[DONE]'' then Done
     else Payload payload)"

text \<open>
  The loop of \<open>_stream_text\<close> from turn \<open>i\<close> on, with the bytes and events so far. It ends because every
  turn consumes a byte of the budget.
\<close>

function stream_loop :: "analyzer_env \<Rightarrow> reply \<Rightarrow> nat \<Rightarrow> int \<Rightarrow> int \<Rightarrow> string list \<Rightarrow> string list
    \<Rightarrow> (string list \<times> string list) res" where
  "stream_loop e r i bytes events content reasoning =
    (if rp_late r i then analyzer_error ''LocalAI stream exceeded its total time budget''
     else bnd (rp_line r i) (\<lambda>line.
       if line = [] then Inr (content, reasoning)
       else if max_stream_bytes < bytes + len line \<or> max_response_bytes < len line
       then analyzer_error ''LocalAI stream exceeds its bounded wire budget''
       else (case line_of line of
         Skipped \<Rightarrow> stream_loop e r (i + 1) (bytes + len line) events content reasoning
       | Done \<Rightarrow> Inr (content, reasoning)
       | Payload p \<Rightarrow>
           if max_stream_events < events + 1 then analyzer_error ''LocalAI stream exceeds its event budget''
           else bnd (stream_event e p) (\<lambda>(c, g).
             stream_loop e r (i + 1) (bytes + len line) (events + 1) (content @ c) (reasoning @ g)))))"
  by pat_completeness auto

termination
  by (relation "measure (\<lambda>(e, r, i, bytes, events, content, reasoning). nat (max_stream_bytes + 1 - bytes))") (auto simp: neq_Nil_conv)

declare stream_loop.simps [simp del]

definition stream_text :: "analyzer_env \<Rightarrow> reply \<Rightarrow> string res" where
  "stream_text e r =
    bnd (stream_loop e r 0 0 0 [] []) (\<lambda>(content, reasoning).
    best_text e (filter (\<lambda>t. t \<noteq> []) [py_strip (concat reasoning), py_strip (concat content)]))"

definition item_of :: "pyval \<Rightarrow> string \<Rightarrow> pyval res" where
  "item_of v k =
    (case v of
       PDict d \<Rightarrow> (case aget d k of Some x \<Rightarrow> Inr x | None \<Rightarrow> Inl (Crash ''KeyError''))
     | _ \<Rightarrow> Inl (Crash ''TypeError''))"

text \<open>\<open>v[0]["message"]\<close>; the first character of a text has no such item.\<close>

definition first_message :: "pyval \<Rightarrow> pyval res" where
  "first_message v =
    (case v of
       PList (x # _) \<Rightarrow> item_of x ''message''
     | PList [] \<Rightarrow> Inl (Crash ''IndexError'')
     | PStr s \<Rightarrow> Inl (Crash (if s = [] then ''IndexError'' else ''TypeError''))
     | PDict _ \<Rightarrow> Inl (Crash ''KeyError'')
     | _ \<Rightarrow> Inl (Crash ''TypeError''))"

definition document_text :: "analyzer_env \<Rightarrow> model_config \<Rightarrow> pyval \<Rightarrow> string res" where
  "document_text e c v =
    (if responses c then response_output_text v
     else bnd (item_of v ''choices'') (\<lambda>choices.
       bnd (first_message choices) (\<lambda>message.
       case message of
         PDict d \<Rightarrow>
           best_text e (filter (\<lambda>t. py_strip t \<noteq> [])
             (texts_of (dget d ''reasoning'') @ texts_of (dget d ''content'')))
       | _ \<Rightarrow> Inl (Crash ''AttributeError''))))"

definition schema_errors :: "string \<Rightarrow> bool" where
  "schema_errors k \<longleftrightarrow> json_errors k \<or> k = ''KeyError'' \<or> k = ''IndexError'' \<or> k = ''TypeError''"

definition read_document :: "analyzer_env \<Rightarrow> model_config \<Rightarrow> string \<Rightarrow> string res" where
  "read_document e c raw =
    (if max_response_bytes < len raw then analyzer_error ''LocalAI response exceeds 256 KiB''
     else bnd (excepting schema_errors ''model response has an invalid schema''
         (bnd (loads_bytes e raw) (document_text e c))) (\<lambda>t.
       if py_strip t = [] then analyzer_error ''LocalAI returned no analyzable text'' else Inr (py_strip t)))"

text \<open>\<open>except OSError\<close>\<close>

definition os_failed :: "analyzer_env \<Rightarrow> 'a res \<Rightarrow> 'a res" where
  "os_failed e r =
    (case r of
       Inl (Crash k) \<Rightarrow> if az_os_error e k then analyzer_error (''LocalAI request failed: '' @ k) else r
     | _ \<Rightarrow> r)"

text \<open>What the body of the \<open>try\<close> yields: the text of a stream, or a document still to be read.\<close>

datatype answer = Streamed string | Document string

definition read_reply :: "analyzer_env \<Rightarrow> reply \<Rightarrow> answer res" where
  "read_reply e r =
    (if rp_status r \<noteq> 200 then
       bnd (rp_body r) (\<lambda>raw.
       if max_response_bytes < len raw then analyzer_error ''LocalAI error response exceeds 256 KiB''
       else analyzer_error (''LocalAI returned HTTP '' @ dec (rp_status r)))
     else if infixb ''text/event-stream'' (ascii_lower (rp_type r)) then
       bnd (stream_text e r) (\<lambda>t.
       if t = [] then analyzer_error ''LocalAI stream returned no analyzable text'' else Inr (Streamed t))
     else bnd (rp_body r) (\<lambda>raw. Inr (Document raw)))"

definition post_chat :: "analyzer_env \<Rightarrow> transport \<Rightarrow> model_config \<Rightarrow> need_request \<Rightarrow> string res" where
  "post_chat e send c r =
    bnd (model_call_of e c r) (\<lambda>call.
    bnd (os_failed e (bnd (send call) (read_reply e))) (\<lambda>a.
    case a of
      Streamed t \<Rightarrow> Inr t
    | Document raw \<Rightarrow> read_document e c raw))"

section \<open>The program\<close>

definition analyze :: "analyzer_env \<Rightarrow> transport \<Rightarrow> string \<Rightarrow> need_analysis res" where
  "analyze e send input =
    bnd (read_request e input) (\<lambda>request.
    bnd (configuration e (nq_config request)) (\<lambda>config.
    bnd (post_chat e send config request) (\<lambda>t.
    bnd (extract_object e t) (\<lambda>found.
    bnd (expand_short_fields found) (\<lambda>raw.
    normalize raw request config)))))"

text \<open>Exit code, standard output, standard error.\<close>

definition analyzer_main :: "analyzer_env \<Rightarrow> transport \<Rightarrow> string list \<Rightarrow> string \<Rightarrow> (int \<times> string \<times> string) res" where
  "analyzer_main e send argv input =
    (if argv \<noteq> [''analyze''] then Inr (64, [], ''usage: need_analyzer.py analyze'' @ [CHR 0x0A])
     else (case analyze e send input of
         Inl (Fail _ m _) \<Rightarrow> Inr (2, [], m @ [CHR 0x0A])
       | Inl (Crash k) \<Rightarrow> Inl (Crash k)
       | Inr a \<Rightarrow>
           bnd (encode_utf8 (json_dump '','' '':'' (analysis_json a))) (\<lambda>encoded.
           if 64 * 1024 < len encoded
           then Inr (2, [], ''normalized analysis exceeds 64 KiB'' @ [CHR 0x0A])
           else Inr (0, encoded @ [CHR 0x0A], []))))"

end
