(* ===== verification/AnalyzerTheorems.thy ===== *)
theory AnalyzerTheorems
  imports AnalyzerCalls
begin

text \<open>
  What the need analyzer guarantees whatever the model answers: the object it takes from the text, the
  reads of a stream, and the analysis it prints.
\<close>

section \<open>The parts of an analysis\<close>











section \<open>The analysis\<close>






section \<open>The object in a text\<close>


lemma in_dict_list [simp]: "d \<in> set (dict_list v) \<longleftrightarrow> v = PDict d"
  by (cases v) (auto simp: dict_list_def)








section \<open>The reads of a stream\<close>

text \<open>Two replies that agree as far as the loop can read.\<close>

lemma stream_loop_agree:
  assumes "\<And>j. int j \<le> max_stream_bytes \<Longrightarrow> rp_line r j = rp_line r' j \<and> rp_late r j = rp_late r' j"
    and "int i \<le> bytes" and "bytes \<le> max_stream_bytes"
  shows "stream_loop e r i bytes events content reasoning = stream_loop e r' i bytes events content reasoning"
  using assms
proof (induction e r i bytes events content reasoning rule: stream_loop.induct)
  case (1 e r i bytes events content reasoning)
  have now: "rp_line r' i = rp_line r i" "rp_late r' i = rp_late r i" using 1(3-5) by auto
  have onward: "int (i + 1) \<le> bytes + len line" "bytes + len line \<le> max_stream_bytes"
    if "line \<noteq> []" "\<not> (max_stream_bytes < bytes + len line \<or> max_response_bytes < len line)" for line :: string
    using that 1(4) by (cases line; simp)+
  have skip: "stream_loop e r (i + 1) (bytes + len line) events content reasoning
      = stream_loop e r' (i + 1) (bytes + len line) events content reasoning"
    if "\<not> rp_late r i" "rp_line r i = Inr line" "line \<noteq> []"
      "\<not> (max_stream_bytes < bytes + len line \<or> max_response_bytes < len line)" "line_of line = Skipped" for line
    by (rule 1(1) [OF that 1(3) onward [OF that(3,4)]])
  have event: "stream_loop e r (i + 1) (bytes + len line) (events + 1) (content @ c) (reasoning @ g)
      = stream_loop e r' (i + 1) (bytes + len line) (events + 1) (content @ c) (reasoning @ g)"
    if "\<not> rp_late r i" "rp_line r i = Inr line" "line \<noteq> []"
      "\<not> (max_stream_bytes < bytes + len line \<or> max_response_bytes < len line)" "line_of line = Payload p"
      "\<not> max_stream_events < events + 1" "stream_event e p = Inr (c, g)" for line p c g
    by (rule 1(2) [OF that refl 1(3) onward [OF that(3,4)]])
  show ?case
    unfolding stream_loop.simps [of e r i] stream_loop.simps [of e r' i] now
    using skip event by (auto intro!: bnd_cong split: stream_line.split)
qed

text \<open>
  What a provider sends after the first 4,194,305 lines has no effect: the analyzer has returned by then,
  so a stream that never ends does not keep it.
\<close>

lemma stream_reads_are_bounded:
  assumes "\<And>j. int j \<le> max_stream_bytes \<Longrightarrow> rp_line r j = rp_line r' j \<and> rp_late r j = rp_late r' j"
  shows "stream_text e r = stream_text e r'"
proof -
  have "stream_loop e r 0 0 0 [] [] = stream_loop e r' 0 0 0 [] []"
    by (rule stream_loop_agree [OF assms]) (simp_all add: max_stream_bytes_def)
  then show ?thesis by (simp only: stream_text_def)
qed

section \<open>What the program prints\<close>



section \<open>A concrete request\<close>

























end
