(* ===== verification/Spec2Isabelle.thy ===== *)
theory Spec2Isabelle
  imports SchedTheorems LaunchProtocol LaunchEvents LaunchRequests RegTheorems DelivResumed DelivLegacy HostBudget
    AnalyzerTheorems
begin

text \<open>
  A verification development of the Python control plane of VibApp (\<open>src/artifacts\<close>).

  \<^bold>\<open>The program.\<close> A user states a need; the need analyzer (\<open>need-analyzer/need_analyzer.py\<close>)
  has a language model draft it. The Registry (\<open>registry/registry_service.py\<close>) looks for a published
  app that meets it, and says so or asks for a refinement. When there is none, the delivery controller
  (\<open>orchestrator/delivery_controller.py\<close>) admits the need as an immutable task with a consent, and takes
  an attempt through four phases: a CodeAgent writes the source, the Builder compiles it, the Verifier
  produces a candidate, the private AppStore ingests it. A CodeAgent runs as a job of the launcher
  (\<open>codeagent-launcher/codeagent_launcher.py\<close>), within the host's budget of processes
  (\<open>codeagent-launcher/host_budget.py\<close>). An installed app may set alarms, which the runtime daemon's
  scheduler (\<open>runtime-daemon/vibapp_daemon/scheduler_backend.py\<close>) persists and fires. The components meet
  only in documents: canonical JSON, SHA-256 digests, UTC timestamps and identifiers, which is why the
  base theories treat those, and why many properties are about what a document vouches for.

  \<^bold>\<open>Base theories.\<close>
  \<^item> Prelude: exceptions as values (\<open>res\<close>, \<open>bnd\<close>), dictionaries as association lists in insertion
    order, decimal texts, and the locales \<open>machine\<close> (a step function with an invariant) and
    \<open>progress_machine\<close> (a step function that moves up an order). Each component's operations are one
    step function, and interpret them.
  \<^item> PyVal, PyText, PyEq: JSON values and their canonical encoding, checks of texts, equality and
    truth of dynamic values. PyJson is \<open>json.loads\<close>; PyJsonRound shows that it inverts the encoding.
  \<^item> CivilTime, Timestamps: the calendar, and timestamps \<open>YYYY-MM-DDTHH:MM:SSZ\<close>.

  \<^bold>\<open>The scheduler\<close> (\<open>SchedulerBackend\<close>). SchedData holds the validators, civil time in a zone and the
  ledger's records; SchedJson their JSON form, the layout check and \<open>_edit\<close>, the transaction every call
  runs in; SchedOps the operations on the row of an app; SchedCalls the public methods and the pump
  \<open>advance_due\<close>; SchedEffects the claim and finish protocol of notifications and guest deliveries.
  SchedInvariant states the invariant \<open>ledger_ok\<close> and the audit order \<open>ledger_grows\<close>; SchedPreserve,
  SchedSteps and SchedFire show that every operation keeps the one and moves up the other; SchedCivil
  treats time; SchedMachine assembles all calls that change the ledger. SchedTheorems has C1 to C10:
  the invariant, the audit order, the pump's bound and completeness, idempotence of a retried command,
  exactly one finish per claim, limits, civil time.

  \<^bold>\<open>The launcher\<close> (\<open>LauncherService\<close>). LaunchData holds the enumerations, requests, profiles, jobs and
  receipts; LaunchParse the strict reader and validators; LaunchService the operations \<open>submit\<close>,
  \<open>job_status\<close>, \<open>cancel\<close>, \<open>list_events\<close> and \<open>result\<close> with the job transitions. LaunchInvariant and
  LaunchMachine carry the invariant and the order over all calls; LaunchTheorems, LaunchProtocol,
  LaunchEvents and LaunchRequests have C11 to C20: what a released result is bound to, when a job
  succeeds, idempotency keys, paging of the event log, the job that can never end, and the exact
  language of accepted requests.

  \<^bold>\<open>The Registry.\<close> RegNeed has the validators of the need and the constraints, RegFilter the corpus and
  the hard filter, RegSearch ranking, \<open>parse_query\<close> and \<open>search\<close>, RegEmbed the client of the embedding
  provider with its cache. RegNeedTheorems and RegTheorems have C21 to C24: recommendations are sound,
  the filter is exact, without consent the provider is not called, a need keeps its meaning.

  \<^bold>\<open>The delivery controller\<close> (\<open>DeliveryController\<close>). DelivData holds constants, retry policy and record
  checks; DelivDiag the diagnostics; DelivBind and DelivChain the checks that bind task, source,
  package, manifest, candidate and AppStore record to each other; DelivStore the durable store, the
  reconciled index and \<open>transition\<close>; DelivAdmit \<open>submit\<close> with each of its writes; DelivResume the
  checks before a failed attempt resumes at its retained source; DelivRun the phases of
  \<open>run_attempt\<close>; DelivAudit the audit of a delivered attempt, status and history; DelivLegacy the read
  only projection of records that predate the controller (\<open>delivery_history.py\<close>). An operation is a
  function from the store to the store it leaves, also when it raises, so a crash or failure between two
  writes is visible. DelivFrame has the rules for composed operations (\<open>triple\<close>, the locale
  \<open>store_order\<close>, the order \<open>delivery_le\<close>, and the weaker \<open>history_le\<close> for resumed runs); DelivSteps shows that
  every operation that does not resume is a \<open>sound_step\<close>, and every operation a \<open>history_step\<close>;
  DelivAdmitFacts and DelivDelivered say what a successful submission and a delivering run have done;
  DelivDemo and DelivDemoRun hold a concrete delivery, on which properties are witnessed. DelivTheorems
  has C25 to C33; DelivResumed has C34 and C35, on resumed runs; DelivLegacy has C36, on older records.

  \<^bold>\<open>The host budget\<close> (\<open>lease\<close>): HostBudget, with C37 and C38.

  \<^bold>\<open>The need analyzer\<close> (\<open>need-analyzer/need_analyzer.py\<close>): Analyzer has the request, the configuration, the
  object in a model's text and its normalisation; AnalyzerCalls the prompt, the call, both kinds of
  answer, \<open>analyze\<close> and \<open>main\<close>. AnalyzerTheorems has C39 and C40: what is printed is within its schema
  whatever the model sends, and where the object comes from; \<open>stream_reads_are_bounded\<close> bounds the reads.

  \<^bold>\<open>Parameters.\<close> SHA-256 in hexadecimal, the zone database, the executors of the launcher, \<open>str.casefold\<close>
  and float rounding of the Registry, the embedding provider, the transport to the language
  model with \<open>urlsplit\<close>, \<open>int\<close> and \<open>float\<close> of a text, the answers of CodeAgent, Builder,
  Verifier and AppStore, the files they leave, the functions the controller takes from the adapter and
  the cloud agent, the clock and the operating system are arguments of the definitions. Unless a
  statement says so nothing is assumed of them: SHA-256 need not be injective.

  \<^bold>\<open>Bounds and fuel.\<close> The pump takes at most \<open>limit\<close> steps, by its code (\<open>advance_loop\<close>). The container loops
  of the JSON scanner have the length of the text as fuel, which \<open>container_fuel\<close> (PyJson) shows to be
  enough; its nesting bound is the interpreter's. \<open>lease_loop\<close> is a partial function, since the loop has
  no bound of its own; C38 bounds it by the deadline (36,001 rounds for 30 minutes). \<open>stream_loop\<close> ends by its
  byte budget. All other recursion is structural or has a termination proof. Python's integers are unbounded, as \<open>int\<close>.

  \<^bold>\<open>What the code does not do.\<close> C20 and C32 are properties one would not want: a launcher job whose events
  are used up cannot end, and a submission interrupted between its first write and its record can not
  be repeated under the same attempt.

  \<^bold>\<open>Not modelled.\<close> Within the modelled files: locks inside a process (each call is atomic, as under the
  lock it takes), owner, mode and links of the files of the delivery store, \<open>fsync\<close> and torn lines, the
  HTTP server and command line of the Registry and its request to the provider, signals of a delivery
  run (a cancellation it observes is modelled), the runtime directory of the budget. Other files of \<open>src/artifacts\<close>
  drive subprocesses, containers, SQLite, sockets and file trees (\<open>runtime-daemon/core.py\<close>,
  \<open>provider-runner\<close>, \<open>codeagent-adapter\<close>, \<open>docker_executor.py\<close>, \<open>app-builder\<close>, \<open>registry-store\<close>,
  \<open>cloud-agent\<close>, \<open>source-archive\<close>): where a modelled component uses them they are parameters.
\<close>

end
